(* ===== verification/Prelude.thy ===== *)
theory Prelude
  imports Main "HOL-Library.Word"
begin

text \<open>
  Shared vocabulary of the development: what the Rust sources use of the language and of its
  standard library. A call that can return \<open>Ok\<close>, return \<open>Err\<close> or panic has a value of type
  \<open>outcome\<close>; the combinators below are the \<open>?\<close> operator, \<open>map_err\<close>, \<open>ok_or\<close>,
  \<open>expect\<close>, checked indexing, slicing and \<open>collect\<close> of an iterator of fallible conversions.
  Machine integers are words; vectors are lists; a byte buffer holding an integer is read and
  written in little-endian order by \<open>le_value\<close> and \<open>le_bytes\<close>.
\<close>

section \<open>Machine types\<close>

type_synonym u8 = "8 word"
type_synonym u32 = "32 word"
type_synonym i32 = "32 word"
type_synonym u64 = "64 word"
type_synonym isize = "64 word"
type_synonym bytes = "8 word list"

text \<open>
  \<open>std::cmp::Ordering\<close>.
\<close>

datatype ordering = Less | Equal | Greater

definition cmp_nat :: "nat \<Rightarrow> nat \<Rightarrow> ordering" where
  "cmp_nat a b = (if a < b then Less else if a = b then Equal else Greater)"

section \<open>Results and panics\<close>

datatype ('a, 'e) outcome = Ok 'a | Err 'e | Panic string

fun and_then :: "('a, 'e) outcome \<Rightarrow> ('a \<Rightarrow> ('b, 'e) outcome) \<Rightarrow> ('b, 'e) outcome" where
  "and_then (Ok x) f = f x"
| "and_then (Err e) f = Err e"
| "and_then (Panic m) f = Panic m"

fun map_ok :: "('a \<Rightarrow> 'b) \<Rightarrow> ('a, 'e) outcome \<Rightarrow> ('b, 'e) outcome" where
  "map_ok f (Ok x) = Ok (f x)"
| "map_ok f (Err e) = Err e"
| "map_ok f (Panic m) = Panic m"

fun ok_or :: "'a option \<Rightarrow> 'e \<Rightarrow> ('a, 'e) outcome" where
  "ok_or (Some x) e = Ok x"
| "ok_or None e = Err e"

fun expect :: "'a option \<Rightarrow> string \<Rightarrow> ('a, 'e) outcome" where
  "expect (Some x) m = Ok x"
| "expect None m = Panic m"

definition rust_assert :: "bool \<Rightarrow> string \<Rightarrow> (unit, 'e) outcome" where
  "rust_assert b m = (if b then Ok () else Panic m)"

text \<open>
  \<open>v[i]\<close> and \<open>&v[a..b]\<close> panic out of range; \<open>v.get(i)\<close> is an option.
\<close>

definition vec_get :: "'a list \<Rightarrow> nat \<Rightarrow> 'a option" where
  "vec_get xs i = (if i < length xs then Some (xs ! i) else None)"

definition vec_index :: "'a list \<Rightarrow> nat \<Rightarrow> ('a, 'e) outcome" where
  "vec_index xs i = (if i < length xs then Ok (xs ! i) else Panic ''index out of bounds'')"

definition vec_slice :: "'a list \<Rightarrow> nat \<Rightarrow> nat \<Rightarrow> ('a list, 'e) outcome" where
  "vec_slice xs a b =
     (if b < a then Panic ''slice index starts after its end''
      else if length xs < b then Panic ''range end index out of range''
      else Ok (take (b - a) (drop a xs)))"

text \<open>
  \<open>xs.try_into::<[_; N]>()\<close>: the vector itself when it has exactly \<open>N\<close> elements.
\<close>

definition try_into_array :: "nat \<Rightarrow> 'a list \<Rightarrow> 'a list option" where
  "try_into_array n xs = (if length xs = n then Some xs else None)"

text \<open>
  \<open>xs.into_iter().map(f).collect()\<close> for a conversion that may fail: the first failure ends it.
\<close>

fun collect :: "('a \<Rightarrow> ('b, 'e) outcome) \<Rightarrow> 'a list \<Rightarrow> ('b list, 'e) outcome" where
  "collect f [] = Ok []"
| "collect f (x # xs) = and_then (f x) (\<lambda>y. and_then (collect f xs) (\<lambda>ys. Ok (y # ys)))"

fun collect_option :: "('a \<Rightarrow> ('b, 'e) outcome) \<Rightarrow> 'a option \<Rightarrow> ('b option, 'e) outcome" where
  "collect_option f None = Ok None"
| "collect_option f (Some x) = map_ok Some (f x)"

text \<open>
  \<open>chunks(n)\<close> of a slice or of an indexed iterator: pieces of \<open>n\<close> elements, the last one
  possibly shorter. Rust panics for \<open>n = 0\<close>; callers check that first.
\<close>

function (sequential) chunks :: "nat \<Rightarrow> 'a list \<Rightarrow> 'a list list" where
  "chunks n [] = []"
| "chunks n (x # xs) = (if n = 0 then [] else take n (x # xs) # chunks n (drop n (x # xs)))"
  by pat_completeness auto
termination
  by (relation "measure (\<lambda>(n, xs). length xs)") auto

text \<open>
  \<open>1 << k\<close> on a machine word of \<open>w\<close> bits: with overflow checks a shift amount out of
  range panics, without them its low bits are used.
\<close>

definition shl_one :: "bool \<Rightarrow> nat \<Rightarrow> int \<Rightarrow> (nat, 'e) outcome" where
  "shl_one overflow_checks w k =
     (if 0 \<le> k \<and> k < int w then Ok (2 ^ nat k)
      else if overflow_checks then Panic ''attempt to shift left with overflow''
      else Ok (2 ^ nat (k mod int w)))"

text \<open>
  \<open>.map_err(|_| e)\<close>.
\<close>

fun map_err :: "'e2 \<Rightarrow> ('a, 'e) outcome \<Rightarrow> ('a, 'e2) outcome" where
  "map_err e (Ok x) = Ok x"
| "map_err e (Err _) = Err e"
| "map_err e (Panic m) = Panic m"

text \<open>
  \<open>.map_err(|e| f(e))\<close> for an error that keeps the message of the failing call.
\<close>

fun map_err_with :: "('e \<Rightarrow> 'e2) \<Rightarrow> ('a, 'e) outcome \<Rightarrow> ('a, 'e2) outcome" where
  "map_err_with f (Ok x) = Ok x"
| "map_err_with f (Err e) = Err (f e)"
| "map_err_with f (Panic m) = Panic m"

section \<open>Little-endian buffers\<close>

fun le_value :: "bytes \<Rightarrow> nat" where
  "le_value [] = 0"
| "le_value (b # bs) = unat b + 256 * le_value bs"

fun le_bytes :: "nat \<Rightarrow> nat \<Rightarrow> bytes" where
  "le_bytes 0 x = []"
| "le_bytes (Suc n) x = word_of_nat (x mod 256) # le_bytes n (x div 256)"

section \<open>Collections of facts\<close>

named_theorems rust_simps \<open>unfolding of the std helpers\<close>
named_theorems cast_simps \<open>widths, casts and buffers\<close>

declare rust_assert_def [rust_simps] vec_get_def [rust_simps] vec_index_def [rust_simps]
  vec_slice_def [rust_simps] try_into_array_def [rust_simps] cmp_nat_def [rust_simps]

section \<open>Facts about results\<close>

lemma and_then_Ok_iff [simp]:
  "and_then r f = Ok y \<longleftrightarrow> (\<exists>x. r = Ok x \<and> f x = Ok y)"
  by (cases r) auto

lemma and_then_Panic_iff:
  "and_then r f = Panic m \<longleftrightarrow> r = Panic m \<or> (\<exists>x. r = Ok x \<and> f x = Panic m)"
  by (cases r) auto

lemma and_then_Err_iff:
  "and_then r f = Err e \<longleftrightarrow> r = Err e \<or> (\<exists>x. r = Ok x \<and> f x = Err e)"
  by (cases r) auto

lemma and_then_Ok_id [simp]: "and_then r Ok = r"
  by (cases r) auto

lemma and_then_assoc: "and_then (and_then r f) g = and_then r (\<lambda>x. and_then (f x) g)"
  by (cases r) auto

lemma map_ok_Ok_iff [simp]: "map_ok f r = Ok y \<longleftrightarrow> (\<exists>x. r = Ok x \<and> y = f x)"
  by (cases r) auto

lemma map_ok_Panic_iff [simp]: "map_ok f r = Panic m \<longleftrightarrow> r = Panic m"
  by (cases r) auto

lemma ok_or_Ok_iff [simp]: "ok_or x e = Ok y \<longleftrightarrow> x = Some y"
  by (cases x) auto

lemma ok_or_no_panic [simp]: "ok_or x e \<noteq> Panic m"
  by (cases x) auto

lemma expect_Ok_iff [simp]: "expect x m = Ok y \<longleftrightarrow> x = Some y"
  by (cases x) auto

lemma map_err_with_Ok_iff [simp]: "map_err_with f r = Ok y \<longleftrightarrow> r = Ok y"
  by (cases r) auto

lemma rust_assert_Ok_iff [simp]: "rust_assert b m = Ok u \<longleftrightarrow> b"
  by (simp add: rust_assert_def)

lemma vec_index_Ok_iff [simp]: "vec_index xs i = Ok x \<longleftrightarrow> i < length xs \<and> x = xs ! i"
  by (auto simp: vec_index_def)

lemma vec_get_Some_iff [simp]: "vec_get xs i = Some x \<longleftrightarrow> i < length xs \<and> x = xs ! i"
  by (auto simp: vec_get_def)

lemma vec_slice_full [simp]: "vec_slice xs 0 (length xs) = Ok xs"
  by (simp add: vec_slice_def)

lemma try_into_array_Some_iff [simp]: "try_into_array n xs = Some ys \<longleftrightarrow> length xs = n \<and> ys = xs"
  by (auto simp: try_into_array_def)

section \<open>Facts about \<open>collect\<close>\<close>

lemma collect_total [simp]: "collect (\<lambda>x. Ok (f x)) xs = Ok (map f xs)"
  by (induction xs) auto

lemma collect_option_total [simp]: "collect_option (\<lambda>x. Ok (f x)) x = Ok (map_option f x)"
  by (cases x) auto

lemma collect_Ok_iff: "collect f xs = Ok ys \<longleftrightarrow> list_all2 (\<lambda>x y. f x = Ok y) xs ys"
  by (induction xs arbitrary: ys) (auto simp: list_all2_Cons1)

lemma collect_length: "collect f xs = Ok ys \<Longrightarrow> length ys = length xs"
  by (simp add: collect_Ok_iff list_all2_lengthD)

lemma list_all2_choice: "\<forall>x \<in> set xs. \<exists>y. R x y \<Longrightarrow> \<exists>ys. list_all2 R xs ys"
  by (induction xs) (auto simp: list_all2_Cons1)

lemma collect_ok_iff: "(\<exists>ys. collect f xs = Ok ys) \<longleftrightarrow> (\<forall>x \<in> set xs. \<exists>y. f x = Ok y)"
  by (induction xs) auto

text \<open>
  Whether a computation of several steps succeeds, step by step.
\<close>

fun is_ok :: "('a, 'e) outcome \<Rightarrow> bool" where
  "is_ok (Ok x) = True"
| "is_ok r = False"

lemma is_ok_iff: "is_ok r \<longleftrightarrow> (\<exists>x. r = Ok x)"
  by (cases r) auto

lemma is_ok_and_then: "is_ok (and_then r f) \<longleftrightarrow> (\<exists>x. r = Ok x \<and> is_ok (f x))"
  by (cases r) auto

lemma is_ok_collect: "is_ok (collect f xs) \<longleftrightarrow> (\<forall>x \<in> set xs. is_ok (f x))"
  by (simp add: is_ok_iff collect_ok_iff)

lemma is_ok_collect_option: "is_ok (collect_option f x) \<longleftrightarrow> (\<forall>a \<in> set_option x. is_ok (f a))"
  by (cases x) (auto simp: is_ok_iff)

lemma not_ok_panics: "\<not> is_ok r \<Longrightarrow> (\<And>e. r \<noteq> Err e) \<Longrightarrow> \<exists>m. r = Panic m"
  by (cases r) auto

text \<open>
  A failing \<open>collect\<close> reports the failure of the first element that fails.
\<close>

definition first_with :: "('a \<Rightarrow> bool) \<Rightarrow> ('a \<Rightarrow> bool) \<Rightarrow> 'a list \<Rightarrow> bool" where
  "first_with P Q xs \<longleftrightarrow> (\<exists>i < length xs. (\<forall>j < i. P (xs ! j)) \<and> Q (xs ! i))"

lemma first_with_Nil [simp]: "\<not> first_with P Q []"
  by (simp add: first_with_def)

lemma first_with_Cons [simp]: "first_with P Q (x # xs) \<longleftrightarrow> Q x \<or> P x \<and> first_with P Q xs"
  unfolding first_with_def list.size(4) add_Suc_right add_0_right Ex_less_Suc2 All_less_Suc2 by auto

lemma collect_Panic_first: "collect f xs = Panic m \<longleftrightarrow> first_with (\<lambda>x. is_ok (f x)) (\<lambda>x. f x = Panic m) xs"
  by (induction xs) (auto simp: and_then_Panic_iff is_ok_iff)

lemma collect_Err_first: "collect f xs = Err e \<longleftrightarrow> first_with (\<lambda>x. is_ok (f x)) (\<lambda>x. f x = Err e) xs"
  by (induction xs) (auto simp: and_then_Err_iff is_ok_iff)

lemma expect_no_err: "expect r m \<noteq> Err e"
  by (cases r) simp_all

lemma collect_no_err: "(\<And>x e. f x \<noteq> Err e) \<Longrightarrow> collect f xs \<noteq> Err e"
  by (induction xs) (auto simp: and_then_Err_iff)

lemma collect_option_no_err: "(\<And>x e. f x \<noteq> Err e) \<Longrightarrow> collect_option f x \<noteq> Err e"
proof (cases x)
  case (Some a)
  assume "\<And>x e. f x \<noteq> Err e"
  with Some show ?thesis by (cases "f a") auto
qed simp

lemma collect_no_panic: "(\<And>x. x \<in> set xs \<Longrightarrow> f x \<noteq> Panic m) \<Longrightarrow> collect f xs \<noteq> Panic m"
  by (induction xs) (auto simp: and_then_Panic_iff)

lemma collect_map: "collect f (map g xs) = collect (\<lambda>x. f (g x)) xs"
  by (induction xs) auto

lemma collect_inverse:
  assumes "\<And>x. x \<in> set xs \<Longrightarrow> f (g x) = Ok x"
  shows "collect f (map g xs) = Ok xs"
  using assms by (induction xs) auto

lemma collect_option_inverse:
  assumes "\<And>y. x = Some y \<Longrightarrow> f (g y) = Ok y"
  shows "collect_option f (map_option g x) = Ok x"
  using assms by (cases x) auto

section \<open>Facts about \<open>chunks\<close>\<close>

declare chunks.simps(2) [simp del]

lemma chunks_step:
  "n \<noteq> 0 \<Longrightarrow> xs \<noteq> [] \<Longrightarrow> chunks n xs = take n xs # chunks n (drop n xs)"
  by (cases xs) (auto simp: chunks.simps(2))

lemma concat_chunks: "n \<noteq> 0 \<Longrightarrow> concat (chunks n xs) = xs"
proof (induction n xs rule: chunks.induct)
  case (2 n x xs)
  then show ?case by (simp add: chunks_step del: take_Cons' drop_Cons')
qed simp

lemma chunks_append:
  assumes "n \<noteq> 0" and "length xs = n"
  shows "chunks n (xs @ ys) = xs # chunks n ys"
proof -
  have "xs @ ys \<noteq> []" using assms by auto
  with assms show ?thesis by (simp add: chunks_step)
qed

lemma chunks_concat:
  assumes "n \<noteq> 0" and "\<forall>xs \<in> set xss. length xs = n"
  shows "chunks n (concat xss) = xss"
  using assms by (induction xss) (auto simp: chunks_append)

lemma length_chunks_mult:
  "n \<noteq> 0 \<Longrightarrow> length xs = k * n \<Longrightarrow> length (chunks n xs) = k \<and> (\<forall>c \<in> set (chunks n xs). length c = n)"
proof (induction k arbitrary: xs)
  case (Suc k)
  then have ne: "xs \<noteq> []" and len: "length (drop n xs) = k * n" by auto
  have "length (take n xs) = n" using Suc.prems by simp
  with Suc.IH [OF Suc.prems(1) len] show ?case
    unfolding chunks_step [OF Suc.prems(1) ne] by simp
qed simp

lemma chunks_map: "chunks n (map f xs) = map (map f) (chunks n xs)"
proof (induction n xs rule: chunks.induct)
  case (2 n x xs)
  show ?case
  proof (cases "n = 0")
    case False
    have "chunks n (map f (x # xs)) = take n (map f (x # xs)) # chunks n (drop n (map f (x # xs)))"
      using False by (intro chunks_step) auto
    also have "\<dots> = map f (take n (x # xs)) # map (map f) (chunks n (drop n (x # xs)))"
      using 2 [OF False] by (simp only: take_map drop_map)
    also have "\<dots> = map (map f) (chunks n (x # xs))"
      by (subst chunks_step [OF False, of "x # xs"]) (simp_all only: list.map list.distinct not_False_eq_True)
    finally show ?thesis .
  qed (simp add: chunks.simps)
qed simp

lemma chunks_zip_fst: "length xs = length ys \<Longrightarrow> map (map fst) (chunks n (zip xs ys)) = chunks n xs"
  by (simp add: chunks_map [symmetric])

section \<open>Facts about little-endian buffers\<close>

lemma length_le_bytes [simp, cast_simps]: "length (le_bytes n x) = n"
  by (induction n arbitrary: x) auto

lemma le_value_bound: "le_value bs < 256 ^ length bs"
proof (induction bs)
  case (Cons b bs)
  have "unat b < 256" using unsigned_less [of b] by simp
  with Cons have "unat b + 256 * le_value bs < 256 + 256 * (256 ^ length bs - 1)" by linarith
  also have "\<dots> = 256 * 256 ^ length bs"
  proof -
    have "(1::nat) \<le> 256 ^ length bs" by simp
    then show ?thesis by (simp add: diff_mult_distrib2)
  qed
  finally show ?case by simp
qed simp

lemma unat_word_of_nat_byte [simp]: "unat (word_of_nat (x mod 256) :: u8) = x mod 256"
  by (simp add: unat_of_nat)

lemma le_value_le_bytes [cast_simps]: "le_value (le_bytes n x) = x mod 256 ^ n"
  by (induction n arbitrary: x) (auto simp: mod_mult2_eq)

lemma le_bytes_le_value [simp, cast_simps]: "le_bytes (length bs) (le_value bs) = bs"
proof (induction bs)
  case (Cons b bs)
  have b: "unat b < 256" using unsigned_less [of b] by simp
  then have "(unat b + 256 * le_value bs) mod 256 = unat b"
    and "(unat b + 256 * le_value bs) div 256 = le_value bs" by auto
  with Cons show ?case by simp
qed simp

lemma le_bytes_mod: "le_bytes n (x mod 256 ^ n) = le_bytes n x"
proof -
  have "le_bytes (length (le_bytes n x)) (le_value (le_bytes n x)) = le_bytes n x"
    by (rule le_bytes_le_value)
  then show ?thesis by (simp add: le_value_le_bytes)
qed

lemma le_value_append: "le_value (xs @ ys) = le_value xs + 256 ^ length xs * le_value ys"
  by (induction xs) (auto simp: algebra_simps)

lemma le_value_inj: "length xs = length ys \<Longrightarrow> le_value xs = le_value ys \<longleftrightarrow> xs = ys"
  by (metis le_bytes_le_value)

lemma le_value_zeros [simp]: "le_value (replicate n 0) = 0"
  by (induction n) auto

section \<open>Facts about comparisons\<close>

lemma cmp_nat_simps [simp]:
  "cmp_nat a b = Less \<longleftrightarrow> a < b" "cmp_nat a b = Equal \<longleftrightarrow> a = b" "cmp_nat a b = Greater \<longleftrightarrow> b < a"
  by (auto simp: cmp_nat_def)

section \<open>Facts about buffers that are cut or padded\<close>

lemma le_value_take: "le_value (take n bs) = le_value bs mod 256 ^ n"
proof (cases "n \<le> length bs")
  case True
  have "le_value bs = le_value (take n bs) + 256 ^ n * le_value (drop n bs)"
    using le_value_append [of "take n bs" "drop n bs"] True by simp
  moreover have "le_value (take n bs) < 256 ^ n"
    using le_value_bound [of "take n bs"] True by simp
  ultimately show ?thesis by simp
next
  case False
  then have "le_value bs < 256 ^ n"
    using le_value_bound [of bs] by (meson less_le_trans nat_le_linear one_le_numeral power_increasing)
  with False show ?thesis by simp
qed

lemma le_value_pad [simp]: "le_value (bs @ replicate n 0) = le_value bs"
  by (simp add: le_value_append)

section \<open>Signed machine integers\<close>

lemma shift_mod:
  fixes u k :: int
  assumes "0 \<le> u" and "u < 2 * k"
  shows "(u + k) mod (2 * k) - k = (if u < k then u else u - 2 * k)"
proof (cases "u < k")
  case False
  with assms have "(u - k) mod (2 * k) = u - k" by (intro mod_pos_pos_trivial) auto
  moreover have "(u + k) mod (2 * k) = (u - k) mod (2 * k)"
    using mod_add_self2 [of "u - k" "2 * k"] by (simp add: algebra_simps)
  ultimately show ?thesis using False by simp
qed (use assms in simp)

lemma sint_isize: "sint (w :: isize) = (if uint w < 2 ^ 63 then uint w else uint w - 2 ^ 64)"
  using uint_range_size [of w] shift_mod [of "uint w" "2 ^ 63"]
  by (simp add: sint_uint signed_take_bit_eq_take_bit_shift take_bit_eq_mod word_size)

lemma sint_i32: "sint (w :: i32) = (if uint w < 2 ^ 31 then uint w else uint w - 2 ^ 32)"
  using uint_range_size [of w] shift_mod [of "uint w" "2 ^ 31"]
  by (simp add: sint_uint signed_take_bit_eq_take_bit_shift take_bit_eq_mod word_size)

lemma sint_isize_of_nat: "n < 2 ^ 63 \<Longrightarrow> sint (word_of_nat n :: isize) = int n"
  by (simp add: signed_of_nat signed_take_bit_int_eq_self)

lemma nat_sint_isize: "0 \<le> sint (w :: isize) \<Longrightarrow> nat (sint w) = unat w"
  using uint_range_size [of w] by (simp add: sint_isize word_size split: if_splits)

lemma nat_sint_i32: "0 \<le> sint (w :: i32) \<Longrightarrow> nat (sint w) = unat w"
  using uint_range_size [of w] by (simp add: sint_i32 word_size split: if_splits)

lemma negative_isize: "sint (w :: isize) < 0 \<Longrightarrow> 2 ^ 63 \<le> unat w"
proof -
  assume "sint w < 0"
  then have "int (2 ^ 63) \<le> int (unat w)" by (simp add: sint_isize split: if_splits)
  then show ?thesis by (simp only: of_nat_le_iff)
qed

lemma negative_i32: "sint (w :: i32) < 0 \<Longrightarrow> 2 ^ 31 \<le> unat w"
proof -
  assume "sint w < 0"
  then have "int (2 ^ 31) \<le> int (unat w)" by (simp add: sint_i32 split: if_splits)
  then show ?thesis by (simp only: of_nat_le_iff)
qed

lemma sint_small_i32:
  assumes "unat (w :: i32) < 2 ^ 31"
  shows "sint w = int (unat w)"
proof -
  have "0 \<le> sint w" using negative_i32 [of w] assms by (cases "sint w < 0") auto
  then show ?thesis using nat_sint_i32 [of w] by (metis int_nat_eq)
qed

lemma scast_ucast_small:
  assumes "unat (z :: u64) < 2 ^ 31"
  shows "scast (ucast z :: i32) = z"
proof -
  have u: "unat (ucast z :: i32) = unat z"
    using assms by (simp add: unsigned_ucast_eq take_bit_nat_eq_self)
  then have "sint (ucast z :: i32) = int (unat (ucast z :: i32))"
    using assms by (intro sint_small_i32) simp
  then have "(scast (ucast z :: i32) :: u64) = word_of_int (int (unat z))"
    by (simp only: u scast_eq)
  then show ?thesis by simp
qed

section \<open>Conversions in both directions\<close>

text \<open>
  The contract of a pair of conversions: what one direction produces, the other one reads back.
  Vectors and options of such values inherit it.
\<close>

locale codec =
  fixes encode :: "'a \<Rightarrow> 'b" and decode :: "'b \<Rightarrow> ('a, 'e) outcome"
  assumes decode_encode: "decode (encode x) = Ok x"
begin

lemma encode_inj: "encode x = encode y \<longleftrightarrow> x = y"
  by (metis decode_encode outcome.inject(1))

lemma decode_list: "collect decode (map encode xs) = Ok xs"
  by (rule collect_inverse) (rule decode_encode)

lemma decode_option: "collect_option decode (map_option encode x) = Ok x"
  by (rule collect_option_inverse) (rule decode_encode)

end

end
