(* ===== verification/Crates.thy ===== *)
theory Crates
  imports Prelude
begin

text \<open>
  The crates the bindings only call (\<^verbatim>\<open>num_bigint\<close>, \<^verbatim>\<open>ark_ff\<close>,
  \<^verbatim>\<open>ark_poly\<close>): their operations are fields of parameter records, which the
  definitions that call them take as an argument, and what the bindings rely on is stated as the
  locales \<open>num_bigint_contract\<close>, \<open>ark_bigint_contract\<close> and \<open>ark_field_contract\<close>.
  The data the sources build by literal, such as \<open>BigInteger256([u64; 4])\<close>, is declared here
  with the reading of its memory in little-endian order.
\<close>

section \<open>Errors handed to the host language\<close>

datatype ocaml_error =
    Message string
  | Failwith string
  | InvalidArgument string
  | ErrorBox string

datatype js_error = JsValue string | JsError string

section \<open>\<open>BigInteger256\<close>\<close>

datatype bigint256 = BigInteger256 u64 u64 u64 u64

fun limbs :: "bigint256 \<Rightarrow> u64 list" where
  "limbs (BigInteger256 a b c d) = [a, b, c, d]"

text \<open>
  The 32 bytes of the limbs in memory on a little-endian machine, and the cast of such a buffer
  back to limbs.
\<close>

definition limbs_memory :: "bigint256 \<Rightarrow> bytes" where
  "limbs_memory x = concat (map (\<lambda>l. le_bytes 8 (unat l)) (limbs x))"

definition limb_at :: "bytes \<Rightarrow> nat \<Rightarrow> u64" where
  "limb_at bs i = word_of_nat (le_value (take 8 (drop (8 * i) bs)))"

definition limbs_cast :: "bytes \<Rightarrow> bigint256" where
  "limbs_cast bs = BigInteger256 (limb_at bs 0) (limb_at bs 1) (limb_at bs 2) (limb_at bs 3)"

definition bigint_value :: "bigint256 \<Rightarrow> nat" where
  "bigint_value x = le_value (limbs_memory x)"

definition bigint_of_nat :: "nat \<Rightarrow> bigint256" where
  "bigint_of_nat n = limbs_cast (le_bytes 32 n)"

text \<open>
  The custom blocks of the OCaml heap that hold elements, by address.
\<close>

type_synonym 'f store = "nat \<Rightarrow> 'f"

section \<open>Operations of the crates\<close>

text \<open>
  \<open>num_bigint::BigUint\<close>, whose values are the natural numbers. \<open>parse_bytes\<close> panics
  (\<open>None\<close>) on a radix it does not support and \<open>/\<close> on a zero divisor.
\<close>

record num_bigint =
  bu_parse_bytes :: "string \<Rightarrow> nat \<Rightarrow> nat option option"
  bu_to_string :: "nat \<Rightarrow> string"
  bu_from_bytes_le :: "bytes \<Rightarrow> nat"
  bu_to_bytes_le :: "nat \<Rightarrow> bytes"
  bu_div :: "nat \<Rightarrow> nat \<Rightarrow> nat option"

text \<open>
  \<open>ark_ff::BigInteger256\<close>.
\<close>

record ark_bigint =
  bi_cmp :: "bigint256 \<Rightarrow> bigint256 \<Rightarrow> ordering"
  bi_get_bit :: "bigint256 \<Rightarrow> nat \<Rightarrow> bool"
  bi_serialize :: "bigint256 \<Rightarrow> bytes"
  bi_deserialize :: "bytes \<Rightarrow> bigint256 option"
  bi_write :: "bigint256 \<Rightarrow> bytes"
  bi_read_limbs :: "bytes \<Rightarrow> (u64 \<times> u64 \<times> u64 \<times> u64) option"
  bi_into_biguint :: "bigint256 \<Rightarrow> nat"
  bi_try_from_biguint :: "nat \<Rightarrow> bigint256 option"
  bi_display :: "bigint256 \<Rightarrow> string"

text \<open>
  A prime field of \<open>mina_curves\<close> with the traits of \<open>ark_ff\<close>. \<open>ff_div\<close> and the
  readers return \<open>None\<close> where the crate panics or reports an error; \<open>ff_memory\<close> is the
  in-memory representation of an element and \<open>ff_cast\<close> the element a buffer is when it is
  reinterpreted; \<open>ff_group_gen\<close> is \<open>Domain::new(n)\<close> followed by the field access
  \<open>group_gen\<close>; \<open>ff_rand_seeded\<close> is \<open>UniformRand::rand\<close> of a \<open>StdRng\<close>
  with that seed.
\<close>

record 'f ark_field =
  ff_modulus :: bigint256
  ff_modulus_bits :: nat
  ff_modulus_minus_one_div_two :: bigint256
  ff_zero :: 'f
  ff_one :: 'f
  ff_add :: "'f \<Rightarrow> 'f \<Rightarrow> 'f"
  ff_sub :: "'f \<Rightarrow> 'f \<Rightarrow> 'f"
  ff_neg :: "'f \<Rightarrow> 'f"
  ff_mul :: "'f \<Rightarrow> 'f \<Rightarrow> 'f"
  ff_div :: "'f \<Rightarrow> 'f \<Rightarrow> 'f option"
  ff_inverse :: "'f \<Rightarrow> 'f option"
  ff_square :: "'f \<Rightarrow> 'f"
  ff_pow :: "'f \<Rightarrow> bigint256 \<Rightarrow> 'f"
  ff_sqrt :: "'f \<Rightarrow> 'f option"
  ff_from_u64 :: "u64 \<Rightarrow> 'f"
  ff_cmp :: "'f \<Rightarrow> 'f \<Rightarrow> ordering"
  ff_into_repr :: "'f \<Rightarrow> bigint256"
  ff_from_repr :: "bigint256 \<Rightarrow> 'f option"
  ff_write :: "'f \<Rightarrow> bytes"
  ff_read :: "bytes \<Rightarrow> 'f option"
  ff_memory :: "'f \<Rightarrow> bytes"
  ff_cast :: "bytes \<Rightarrow> 'f"
  ff_display :: "'f \<Rightarrow> string"
  ff_two_adic_root_of_unity :: 'f
  ff_group_gen :: "nat \<Rightarrow> 'f option"
  ff_rand_seeded :: "u64 \<Rightarrow> 'f"

section \<open>Facts about limbs\<close>

lemma length_limbs_memory [simp, cast_simps]: "length (limbs_memory x) = 32"
  by (cases x) (simp add: limbs_memory_def)

lemma bigint_value_bound: "bigint_value x < 2 ^ 256"
  using le_value_bound [of "limbs_memory x"] by (simp add: bigint_value_def)

lemma word_of_le_bytes [simp]: "word_of_nat (le_value (le_bytes 8 (unat (l :: u64)))) = l"
proof -
  have "unat l < 256 ^ 8" using unsigned_less [of l] by simp
  then show ?thesis by (simp add: le_value_le_bytes)
qed

lemma limbs_cast_memory [simp, cast_simps]: "limbs_cast (limbs_memory x) = x"
  by (cases x) (simp add: limbs_cast_def limb_at_def limbs_memory_def)

lemma le_bytes_limb [simp]:
  assumes "length bs = 8"
  shows "le_bytes 8 (unat (word_of_nat (le_value bs) :: u64)) = bs"
proof -
  have "le_value bs < 2 ^ 64" using le_value_bound [of bs] assms by simp
  then have "unat (word_of_nat (le_value bs) :: u64) = le_value bs" by (simp add: unat_of_nat)
  with le_bytes_le_value [of bs] assms show ?thesis by simp
qed

lemma limbs_memory_cast [simp, cast_simps]:
  assumes "length bs = 32"
  shows "limbs_memory (limbs_cast bs) = bs"
proof -
  have "take 8 bs @ take 8 (drop 8 bs) @ take 8 (drop 16 bs) @ take 8 (drop 24 bs) = bs"
    by (rule nth_equalityI) (auto simp: assms nth_append)
  with assms show ?thesis by (simp add: limbs_memory_def limbs_cast_def limb_at_def)
qed

lemma bigint_value_cast: "length bs = 32 \<Longrightarrow> bigint_value (limbs_cast bs) = le_value bs"
  by (simp add: bigint_value_def)

lemma bigint_value_inj [simp]: "bigint_value x = bigint_value y \<longleftrightarrow> x = y"
  by (metis bigint_value_def le_value_inj length_limbs_memory limbs_cast_memory)

lemma bigint_value_le_bytes: "limbs_memory x = le_bytes 32 (bigint_value x)"
  by (metis bigint_value_def le_bytes_le_value length_limbs_memory)

lemma bigint_value_of_nat: "bigint_value (bigint_of_nat n) = n mod 2 ^ 256"
  by (simp add: bigint_of_nat_def bigint_value_cast le_value_le_bytes)

lemma bigint_of_nat_value [simp]: "bigint_of_nat (bigint_value x) = x"
  by (simp add: bigint_of_nat_def bigint_value_le_bytes [symmetric])

lemma bigint_value_small: "n < 2 ^ 256 \<Longrightarrow> bigint_value (bigint_of_nat n) = n"
  by (simp add: bigint_value_of_nat)

section \<open>What the bindings rely on\<close>

locale num_bigint_contract =
  fixes N :: num_bigint
  assumes parse_to_string: "bu_parse_bytes N (bu_to_string N x) 10 = Some (Some x)"
    and parse_radix: "bu_parse_bytes N s r = None \<longleftrightarrow> r < 2 \<or> 36 < r"
    and from_bytes_le: "bu_from_bytes_le N bs = le_value bs"
    and to_bytes_le: "le_value (bu_to_bytes_le N x) = x"
    and biguint_div: "bu_div N x y = (if y = 0 then None else Some (x div y))"

locale ark_bigint_contract =
  fixes A :: ark_bigint
  assumes cmp: "bi_cmp A x y = cmp_nat (bigint_value x) (bigint_value y)"
    and get_bit: "bi_get_bit A x i = odd (bigint_value x div 2 ^ i)"
    and serialize: "bi_serialize A x = limbs_memory x"
    and deserialize: "bi_deserialize A bs = (if length bs < 32 then None else Some (limbs_cast (take 32 bs)))"
    and write_limbs: "bi_write A x = limbs_memory x"
    and read_limbs: "length bs < 32 \<Longrightarrow> bi_read_limbs A bs = None"
      "32 \<le> length bs \<Longrightarrow> bi_read_limbs A bs = Some (limb_at bs 0, limb_at bs 1, limb_at bs 2, limb_at bs 3)"
    and into_biguint: "bi_into_biguint A x = bigint_value x"
    and try_from_biguint: "n < 2 ^ 256 \<Longrightarrow> \<exists>x. bi_try_from_biguint A n = Some x \<and> bigint_value x = n"
      "2 ^ 256 \<le> n \<Longrightarrow> bi_try_from_biguint A n = None"
begin

lemma try_from_Some_iff: "bi_try_from_biguint A n = Some x \<longleftrightarrow> n = bigint_value x"
proof
  assume *: "bi_try_from_biguint A n = Some x"
  then have "n < 2 ^ 256" using try_from_biguint(2) [of n] by (cases "2 ^ 256 \<le> n") auto
  with try_from_biguint(1) * show "n = bigint_value x" by fastforce
next
  assume "n = bigint_value x"
  with try_from_biguint(1) [OF bigint_value_bound, of x]
  show "bi_try_from_biguint A n = Some x" by auto
qed

lemma try_from_None_iff: "bi_try_from_biguint A n = None \<longleftrightarrow> 2 ^ 256 \<le> n"
  using try_from_biguint by (metis not_less option.distinct(1))

end

text \<open>
  The field elements are identified by their canonical integer \<open>ff_value\<close>. The memory of an
  element holds its Montgomery form with radix \<open>2 ^ 256\<close>.
\<close>

definition ff_value :: "'f ark_field \<Rightarrow> 'f \<Rightarrow> nat" where
  "ff_value F x = bigint_value (ff_into_repr F x)"

definition ff_order :: "'f ark_field \<Rightarrow> nat" where
  "ff_order F = bigint_value (ff_modulus F)"

locale ark_field_contract =
  fixes F :: "'f ark_field"
  assumes order_odd: "odd (ff_order F)" and order_bound: "2 < ff_order F"
    and modulus_bits: "2 ^ (ff_modulus_bits F - 1) \<le> ff_order F" "ff_order F < 2 ^ ff_modulus_bits F"
    and minus_one_div_two: "bigint_value (ff_modulus_minus_one_div_two F) = (ff_order F - 1) div 2"
    and from_into_repr: "ff_from_repr F (ff_into_repr F x) = Some x"
    and into_from_repr: "ff_from_repr F b = Some x \<Longrightarrow> ff_into_repr F x = b"
    and from_repr_None_iff: "ff_from_repr F b = None \<longleftrightarrow> ff_order F \<le> bigint_value b"
    and value_zero: "ff_value F (ff_zero F) = 0"
    and value_one: "ff_value F (ff_one F) = 1"
    and value_add: "ff_value F (ff_add F x y) = (ff_value F x + ff_value F y) mod ff_order F"
    and value_sub: "ff_value F (ff_sub F x y) = (ff_value F x + (ff_order F - ff_value F y)) mod ff_order F"
    and value_neg: "ff_value F (ff_neg F x) = (ff_order F - ff_value F x) mod ff_order F"
    and value_mul: "ff_value F (ff_mul F x y) = (ff_value F x * ff_value F y) mod ff_order F"
    and square: "ff_square F x = ff_mul F x x"
    and value_pow: "ff_value F (ff_pow F x e) = ff_value F x ^ bigint_value e mod ff_order F"
    and inverse_zero: "ff_inverse F (ff_zero F) = None"
    and inverse: "ff_inverse F x = Some y \<Longrightarrow> ff_mul F x y = ff_one F"
    and div: "ff_div F x y = map_option (ff_mul F x) (ff_inverse F y)"
    and sqrt: "ff_sqrt F x = Some y \<Longrightarrow> ff_square F y = x"
    and value_from_u64: "ff_value F (ff_from_u64 F n) = unat n mod ff_order F"
    and cmp: "ff_cmp F x y = cmp_nat (ff_value F x) (ff_value F y)"
    and write_repr: "ff_write F x = limbs_memory (ff_into_repr F x)"
    and read_repr: "ff_read F bs = (if length bs < 32 then None else ff_from_repr F (limbs_cast (take 32 bs)))"
    and memory_length: "length (ff_memory F x) = 32"
    and memory_montgomery: "le_value (ff_memory F x) = ff_value F x * 2 ^ 256 mod ff_order F"
    and cast_memory: "ff_cast F (ff_memory F x) = x"
begin

lemma value_bound: "ff_value F x < ff_order F"
  using from_repr_None_iff [of "ff_into_repr F x"] from_into_repr [of x]
  by (simp add: ff_value_def)

lemma value_inj: "ff_value F x = ff_value F y \<longleftrightarrow> x = y"
  by (metis bigint_value_inj ff_value_def from_into_repr option.inject)

lemma from_repr_Some_iff: "ff_from_repr F b = Some x \<longleftrightarrow> ff_into_repr F x = b"
  using from_into_repr into_from_repr by blast

lemma length_write: "length (ff_write F x) = 32"
  by (simp add: write_repr)

lemma read_write: "ff_read F (ff_write F x @ bs) = Some x"
  by (simp add: write_repr read_repr from_into_repr)

lemma element_of_value:
  assumes "n < ff_order F"
  shows "\<exists>x. ff_value F x = n"
proof -
  have n: "bigint_value (bigint_of_nat n) = n"
    using assms bigint_value_bound [of "ff_modulus F"] by (intro bigint_value_small) (simp add: ff_order_def)
  then obtain x where "ff_from_repr F (bigint_of_nat n) = Some x"
    using from_repr_None_iff [of "bigint_of_nat n"] assms by (cases "ff_from_repr F (bigint_of_nat n)") auto
  then have "ff_into_repr F x = bigint_of_nat n" by (rule into_from_repr)
  with n show ?thesis by (intro exI [of _ x]) (simp add: ff_value_def)
qed

lemma memory_surj:
  assumes "length bs = 32" and "le_value bs < ff_order F"
  shows "\<exists>y. ff_memory F y = bs"
proof -
  obtain r k where "2 ^ 256 * r = ff_order F * k + gcd (2 ^ 256) (ff_order F)"
    using bezout_nat [of "2 ^ 256" "ff_order F"] by auto
  moreover have "coprime (2 ^ 256) (ff_order F)" using order_odd
    by (simp only: coprime_power_left_iff coprime_left_2_iff_odd) simp
  ultimately have "2 ^ 256 * r = 1 + ff_order F * k" by simp
  then have "2 ^ 256 * r mod ff_order F = (1 + ff_order F * k) mod ff_order F" by simp
  then have r: "2 ^ 256 * r mod ff_order F = 1" using order_bound by (simp only: mod_mult_self2) simp
  obtain y where y: "ff_value F y = le_value bs * r mod ff_order F"
    using element_of_value [of "le_value bs * r mod ff_order F"] order_bound by auto
  have "le_value (ff_memory F y) = le_value bs * (2 ^ 256 * r mod ff_order F) mod ff_order F"
    unfolding memory_montgomery y by (simp add: mod_simps ac_simps)
  with r assms(2) have "le_value (ff_memory F y) = le_value bs" by simp
  with assms(1) show ?thesis using le_value_inj memory_length by auto
qed

lemma mul_commute: "ff_mul F x y = ff_mul F y x"
  by (simp add: value_inj [symmetric] value_mul mult.commute)

lemma mul_assoc: "ff_mul F (ff_mul F x y) z = ff_mul F x (ff_mul F y z)"
  by (simp add: value_inj [symmetric] value_mul mod_simps mult.assoc)

lemma mul_one: "ff_mul F x (ff_one F) = x"
  using value_bound [of x] by (simp add: value_inj [symmetric] value_mul value_one)

lemma sub_self: "ff_sub F x x = ff_zero F"
  using value_bound [of x] by (simp add: value_inj [symmetric] value_sub value_zero)

lemma add_zero: "ff_add F x (ff_zero F) = x"
  using value_bound [of x] by (simp add: value_inj [symmetric] value_add value_zero)

lemma add_commute: "ff_add F x y = ff_add F y x"
  by (simp add: value_inj [symmetric] value_add add.commute)

lemma add_sub_cancel: "ff_sub F (ff_add F x y) y = x"
proof -
  have "((ff_value F x + ff_value F y) mod ff_order F + (ff_order F - ff_value F y)) mod ff_order F =
    (ff_value F x + ff_order F) mod ff_order F"
    using value_bound [of y] by (simp only: mod_add_left_eq) simp
  then show ?thesis
    using value_bound [of x] by (simp add: value_inj [symmetric] value_sub value_add)
qed

end

end
