(* ===== verification/Reference_Crates.thy ===== *)
theory Reference_Crates
  imports Crates
begin

text \<open>
  Instances of the contracts of \<open>Crates\<close>: natural numbers written in positional notation for
  \<^verbatim>\<open>num_bigint\<close>, limbs for \<^verbatim>\<open>BigInteger256\<close>, and the integers modulo the two
  Pasta primes (the moduli given in \<^verbatim>\<open>docs/specs/signatures/description.md\<close>) for the
  fields. The contracts are discharged here by interpretation, which shows that what the
  bindings rely on can hold.
\<close>

section \<open>Natural numbers in positional notation\<close>

definition digit_char :: "nat \<Rightarrow> char" where
  "digit_char d = (if d < 10 then char_of (48 + d) else char_of (87 + d))"

definition char_digit :: "char \<Rightarrow> nat option" where
  "char_digit c =
     (let n = of_char c :: nat in
      if 48 \<le> n \<and> n < 58 then Some (n - 48)
      else if 97 \<le> n \<and> n < 123 then Some (n - 87)
      else if 65 \<le> n \<and> n < 91 then Some (n - 55)
      else None)"

fun ref_to_string :: "nat \<Rightarrow> string" where
  "ref_to_string x =
     (if x < 10 then [digit_char x] else ref_to_string (x div 10) @ [digit_char (x mod 10)])"

declare ref_to_string.simps [simp del]

fun parse_step :: "nat \<Rightarrow> nat option \<Rightarrow> char \<Rightarrow> nat option" where
  "parse_step r None c = None"
| "parse_step r (Some n) c =
     (case char_digit c of
        None \<Rightarrow> None
      | Some d \<Rightarrow> if d < r then Some (r * n + d) else None)"

definition ref_parse_bytes :: "string \<Rightarrow> nat \<Rightarrow> nat option option" where
  "ref_parse_bytes s r =
     (if r < 2 \<or> 36 < r then None
      else Some (if s = [] then None else foldl (parse_step r) (Some 0) s))"

function ref_to_bytes_le :: "nat \<Rightarrow> bytes" where
  "ref_to_bytes_le x =
     (if x < 256 then [word_of_nat x] else word_of_nat (x mod 256) # ref_to_bytes_le (x div 256))"
  by auto
termination
  by (relation "measure id") auto

declare ref_to_bytes_le.simps [simp del]

definition ref_num_bigint :: num_bigint where
  "ref_num_bigint = \<lparr>
     bu_parse_bytes = ref_parse_bytes,
     bu_to_string = ref_to_string,
     bu_from_bytes_le = le_value,
     bu_to_bytes_le = ref_to_bytes_le,
     bu_div = (\<lambda>x y. if y = 0 then None else Some (x div y)) \<rparr>"

lemma char_digit_digit_char: "d < 10 \<Longrightarrow> char_digit (digit_char d) = Some d"
  by (simp add: char_digit_def digit_char_def Let_def of_char_of)

lemma foldl_parse_to_string: "foldl (parse_step 10) (Some 0) (ref_to_string x) = Some x"
proof (induction x rule: ref_to_string.induct)
  case (1 x)
  then show ?case
    by (cases "x < 10") (auto simp: ref_to_string.simps [of x] char_digit_digit_char)
qed

lemma ref_to_string_nonempty: "ref_to_string x \<noteq> []"
  by (simp add: ref_to_string.simps)

lemma le_value_ref_to_bytes_le: "le_value (ref_to_bytes_le x) = x"
proof (induction x rule: ref_to_bytes_le.induct)
  case (1 x)
  then show ?case
    by (cases "x < 256") (auto simp: ref_to_bytes_le.simps [of x] unat_of_nat)
qed

interpretation ref_biguint: num_bigint_contract ref_num_bigint
  by unfold_locales
    (auto simp: ref_num_bigint_def ref_parse_bytes_def foldl_parse_to_string ref_to_string_nonempty
      le_value_ref_to_bytes_le)

section \<open>Limbs\<close>

definition ref_ark_bigint :: ark_bigint where
  "ref_ark_bigint = \<lparr>
     bi_cmp = (\<lambda>x y. cmp_nat (bigint_value x) (bigint_value y)),
     bi_get_bit = (\<lambda>x i. odd (bigint_value x div 2 ^ i)),
     bi_serialize = limbs_memory,
     bi_deserialize = (\<lambda>bs. if length bs < 32 then None else Some (limbs_cast (take 32 bs))),
     bi_write = limbs_memory,
     bi_read_limbs = (\<lambda>bs. if length bs < 32 then None
        else Some (limb_at bs 0, limb_at bs 1, limb_at bs 2, limb_at bs 3)),
     bi_into_biguint = bigint_value,
     bi_try_from_biguint = (\<lambda>n. if n < 2 ^ 256 then Some (bigint_of_nat n) else None),
     bi_display = (\<lambda>x. ref_to_string (bigint_value x)) \<rparr>"

interpretation ref_limbs: ark_bigint_contract ref_ark_bigint
  by unfold_locales (auto simp: ref_ark_bigint_def bigint_value_of_nat)

section \<open>Integers modulo an odd number\<close>

text \<open>
  The field on the representatives below \<open>m\<close>; \<open>mk\<close> and \<open>rep\<close> wrap them in a type,
  \<open>ri\<close> is the inverse of the Montgomery radix. The inverse is computed as a power and checked.
\<close>

fun pow_mod :: "nat \<Rightarrow> nat \<Rightarrow> nat \<Rightarrow> nat" where
  "pow_mod m x e =
     (if e = 0 then 1 mod m
      else let h = pow_mod m (x * x mod m) (e div 2) in if odd e then x * h mod m else h)"

declare pow_mod.simps [simp del]

lemma pow_mod_eq: "pow_mod m x e = x ^ e mod m"
proof (induction m x e rule: pow_mod.induct)
  case (1 m x e)
  show ?case
  proof (cases "e = 0")
    case False
    have "(x * x mod m) ^ (e div 2) mod m = x ^ (2 * (e div 2)) mod m"
      by (simp add: power_mod power_mult power2_eq_square)
    with False 1 have h: "pow_mod m (x * x mod m) (e div 2) = x ^ (2 * (e div 2)) mod m" by simp
    have "odd e \<Longrightarrow> x ^ e = x * x ^ (2 * (e div 2))"
      by (metis Suc_eq_plus1 odd_two_times_div_two_succ power_Suc)
    moreover have "even e \<Longrightarrow> x ^ (2 * (e div 2)) = x ^ e" by simp
    ultimately show ?thesis
      using False h by (simp add: pow_mod.simps [of m x e] Let_def mod_mult_right_eq)
  qed (simp add: pow_mod.simps)
qed

definition ref_field :: "nat \<Rightarrow> nat \<Rightarrow> (nat \<Rightarrow> 'f) \<Rightarrow> ('f \<Rightarrow> nat) \<Rightarrow> 'f ark_field" where
  "ref_field m ri mk rep = \<lparr>
     ff_modulus = bigint_of_nat m,
     ff_modulus_bits = 255,
     ff_modulus_minus_one_div_two = bigint_of_nat ((m - 1) div 2),
     ff_zero = mk 0,
     ff_one = mk 1,
     ff_add = (\<lambda>x y. mk ((rep x + rep y) mod m)),
     ff_sub = (\<lambda>x y. mk ((rep x + (m - rep y)) mod m)),
     ff_neg = (\<lambda>x. mk ((m - rep x) mod m)),
     ff_mul = (\<lambda>x y. mk (rep x * rep y mod m)),
     ff_div = (\<lambda>x y. let z = pow_mod m (rep y) (m - 2) in
        if rep y * z mod m = 1 then Some (mk (rep x * z mod m)) else None),
     ff_inverse = (\<lambda>y. let z = pow_mod m (rep y) (m - 2) in
        if rep y * z mod m = 1 then Some (mk z) else None),
     ff_square = (\<lambda>x. mk (rep x * rep x mod m)),
     ff_pow = (\<lambda>x e. mk (pow_mod m (rep x) (bigint_value e))),
     ff_sqrt = (\<lambda>x. if rep x = 0 \<or> rep x = 1 then Some x else None),
     ff_from_u64 = (\<lambda>n. mk (unat n mod m)),
     ff_cmp = (\<lambda>x y. cmp_nat (rep x) (rep y)),
     ff_into_repr = (\<lambda>x. bigint_of_nat (rep x)),
     ff_from_repr = (\<lambda>b. if bigint_value b < m then Some (mk (bigint_value b)) else None),
     ff_write = (\<lambda>x. limbs_memory (bigint_of_nat (rep x))),
     ff_read = (\<lambda>bs. if length bs < 32 then None
        else let n = le_value (take 32 bs) in if n < m then Some (mk n) else None),
     ff_memory = (\<lambda>x. le_bytes 32 (rep x * 2 ^ 256 mod m)),
     ff_cast = (\<lambda>bs. mk (le_value bs * ri mod m)),
     ff_display = (\<lambda>x. ref_to_string (rep x)),
     ff_two_adic_root_of_unity = mk (m - 1),
     ff_group_gen = (\<lambda>n. if n \<le> 1 then Some (mk 1) else if n = 2 then Some (mk (m - 1)) else None),
     ff_rand_seeded = (\<lambda>s. mk (unat s mod m)) \<rparr>"

lemma montgomery_inverse:
  fixes x m ri :: nat
  assumes "x < m" and "2 ^ 256 * ri mod m = 1"
  shows "(x * 2 ^ 256 mod m) * ri mod m = x"
proof -
  have "(x * 2 ^ 256 mod m) * ri mod m = x * (2 ^ 256 * ri mod m) mod m"
    by (simp add: mod_simps mult.assoc)
  with assms show ?thesis by simp
qed

lemma ref_field_contract:
  assumes type: "\<And>x. rep x < m" "\<And>x. mk (rep x) = x" "\<And>n. n < m \<Longrightarrow> rep (mk n) = n"
    and m: "odd m" "2 ^ 254 \<le> m" "m < 2 ^ 255" and ri: "2 ^ 256 * ri mod m = 1"
  shows "ark_field_contract (ref_field m ri mk rep)"
proof -
  let ?F = "ref_field m ri mk rep"
  have big: "\<And>n. n < m \<Longrightarrow> bigint_value (bigint_of_nat n) = n"
    using m by (intro bigint_value_small) simp
  have order: "ff_order ?F = m"
    using m by (simp add: ff_order_def ref_field_def bigint_value_small)
  have val: "\<And>x. ff_value ?F x = rep x"
    using type by (simp add: ff_value_def ref_field_def big)
  have m2: "2 < m" "0 < m" using m by auto
  have half: "bigint_value (bigint_of_nat ((m - 1) div 2)) = (m - 1) div 2"
    using m2 by (intro big) linarith
  have inj: "\<And>x y. rep x = rep y \<Longrightarrow> x = y" using type(2) by metis
  note facts = order val m2 half big type pow_mod_eq
  show ?thesis
  proof
    fix x y z bs
    show "le_value (ff_memory ?F x) = ff_value ?F x * 2 ^ 256 mod ff_order ?F"
      using mod_less_divisor [OF m2(2), of "rep x * 2 ^ 256"] m
      unfolding order val by (simp add: ref_field_def le_value_le_bytes del: mod_less_divisor)
    show "ff_cast ?F (ff_memory ?F x) = x"
      using mod_less_divisor [OF m2(2), of "rep x * 2 ^ 256"] m type(2)
        montgomery_inverse [OF type(1) [of x] ri]
      by (simp add: ref_field_def le_value_le_bytes del: mod_less_divisor)
  next
    fix x y assume "ff_sqrt ?F x = Some y"
    then show "ff_square ?F y = x"
      using m2 type by (auto simp: ref_field_def split: if_splits intro!: inj)
  next
    fix x y assume "ff_inverse ?F x = Some y"
    then show "ff_mul ?F x y = ff_one ?F"
      using m2 type by (auto simp: ref_field_def Let_def pow_mod_eq mod_mult_right_eq split: if_splits)
  next
    show "ff_inverse ?F (ff_zero ?F) = None"
      using m2 by (simp add: ref_field_def Let_def type)
  next
    fix x y show "ff_div ?F x y = map_option (ff_mul ?F x) (ff_inverse ?F y)"
      using m2 by (simp add: ref_field_def Let_def type pow_mod_eq)
  next
    fix bs show "ff_read ?F bs = (if length bs < 32 then None else ff_from_repr ?F (limbs_cast (take 32 bs)))"
      by (simp add: ref_field_def Let_def bigint_value_cast)
  qed (use m in \<open>auto simp: order val\<close>, auto simp: ref_field_def facts split: if_splits)
qed

section \<open>The Pasta field \<open>Fp\<close>\<close>

definition fp_modulus :: nat where
  "fp_modulus = 28948022309329048855892746252171976963363056481941560715954676764349967630337"

definition fp_radix_inverse :: nat where
  "fp_radix_inverse = 15353493766103302224812374511606760489073247795810767472367693728416386214313"

typedef pasta_fp = "{n :: nat. n < fp_modulus}"
  morphisms fp_rep fp_mk
  by (rule exI [of _ 0]) (simp add: fp_modulus_def)

definition ref_fp :: "pasta_fp ark_field" where
  "ref_fp = ref_field fp_modulus fp_radix_inverse fp_mk fp_rep"

lemma ref_fp_contract: "ark_field_contract ref_fp"
  unfolding ref_fp_def
proof (rule ref_field_contract)
  show "\<And>x. fp_rep x < fp_modulus" using fp_rep by simp
  show "2 ^ 256 * fp_radix_inverse mod fp_modulus = 1"
    by (simp add: fp_modulus_def fp_radix_inverse_def)
qed (simp_all add: fp_rep_inverse fp_mk_inverse fp_modulus_def)

interpretation fp: ark_field_contract ref_fp
  by (rule ref_fp_contract)

instantiation pasta_fp :: equal
begin

definition equal_pasta_fp :: "pasta_fp \<Rightarrow> pasta_fp \<Rightarrow> bool" where
  "equal_pasta_fp x y \<longleftrightarrow> fp_rep x = fp_rep y"

instance
  by standard (simp add: equal_pasta_fp_def fp_rep_inject)

end

section \<open>The Pasta field \<open>Fq\<close>\<close>

definition fq_modulus :: nat where
  "fq_modulus = 28948022309329048855892746252171976963363056481941647379679742748393362948097"

definition fq_radix_inverse :: nat where
  "fq_radix_inverse = 14238205147845459960272226733876560297615832660064601289232577236146637664127"

typedef pasta_fq = "{n :: nat. n < fq_modulus}"
  morphisms fq_rep fq_mk
  by (rule exI [of _ 0]) (simp add: fq_modulus_def)

definition ref_fq :: "pasta_fq ark_field" where
  "ref_fq = ref_field fq_modulus fq_radix_inverse fq_mk fq_rep"

lemma ref_fq_contract: "ark_field_contract ref_fq"
  unfolding ref_fq_def
proof (rule ref_field_contract)
  show "\<And>x. fq_rep x < fq_modulus" using fq_rep by simp
  show "2 ^ 256 * fq_radix_inverse mod fq_modulus = 1"
    by (simp add: fq_modulus_def fq_radix_inverse_def)
qed (simp_all add: fq_rep_inverse fq_mk_inverse fq_modulus_def)

interpretation fq: ark_field_contract ref_fq
  by (rule ref_fq_contract)

instantiation pasta_fq :: equal
begin

definition equal_pasta_fq :: "pasta_fq \<Rightarrow> pasta_fq \<Rightarrow> bool" where
  "equal_pasta_fq x y \<longleftrightarrow> fq_rep x = fq_rep y"

instance
  by standard (simp add: equal_pasta_fq_def fq_rep_inject)

end

end
