(* ===== verification/Bigint256.thy ===== *)
theory Bigint256
  imports Reference_Crates
begin

text \<open>
  The 256-bit integers: \<^verbatim>\<open>stubs/src/arkworks/bigint_256.rs\<close> (the bindings for OCaml)
  and \<^verbatim>\<open>wasm/src/arkworks/bigint_256.rs\<close> (the bindings for JavaScript, whose names
  carry the suffix \<open>_wasm\<close> here). An \<open>ocaml::Pointer\<close> to an immutable integer is
  the integer. A value printed on standard output is returned as the line that is printed.
\<close>

section \<open>Constants\<close>

definition BIGINT256_NUM_BITS :: int where "BIGINT256_NUM_BITS = 256"
definition BIGINT256_LIMB_BITS :: int where "BIGINT256_LIMB_BITS = 64"
definition BIGINT256_LIMB_BYTES :: int where "BIGINT256_LIMB_BYTES = BIGINT256_LIMB_BITS div 8"

definition BIGINT256_NUM_LIMBS :: int where
  "BIGINT256_NUM_LIMBS = (BIGINT256_NUM_BITS + BIGINT256_LIMB_BITS - 1) div BIGINT256_LIMB_BITS"

definition BIGINT256_NUM_BYTES :: nat where
  "BIGINT256_NUM_BYTES = nat BIGINT256_NUM_LIMBS * 8"

text \<open>
  \<open>std::mem::size_of::<BigInteger256>()\<close>: four limbs of eight bytes.
\<close>

definition size_of_bigint256 :: nat where "size_of_bigint256 = 32"

section \<open>The bindings for OCaml\<close>

definition ordering_code :: "ordering \<Rightarrow> isize" where
  "ordering_code r = (case r of Less \<Rightarrow> -1 | Equal \<Rightarrow> 0 | Greater \<Rightarrow> 1)"

definition ocaml_compare_bigint :: "ark_bigint \<Rightarrow> bigint256 \<Rightarrow> bigint256 \<Rightarrow> i32" where
  "ocaml_compare_bigint A x y = (case bi_cmp A x y of Less \<Rightarrow> -1 | Equal \<Rightarrow> 0 | Greater \<Rightarrow> 1)"

definition biguint_from_caml :: "ark_bigint \<Rightarrow> bigint256 \<Rightarrow> nat" where
  "biguint_from_caml A x = bi_into_biguint A x"

definition bigint_try_from :: "ark_bigint \<Rightarrow> nat \<Rightarrow> (bigint256, string) outcome" where
  "bigint_try_from A x = ok_or (bi_try_from_biguint A x) ''BigInt: number too large''"

definition bigint_to_string :: "num_bigint \<Rightarrow> ark_bigint \<Rightarrow> bigint256 \<Rightarrow> string" where
  "bigint_to_string N A x = bu_to_string N (biguint_from_caml A x)"

text \<open>
  \<open>isize::try_into::<u32>()\<close> and \<open>::<usize>()\<close>.
\<close>

definition isize_try_into_u32 :: "isize \<Rightarrow> nat option" where
  "isize_try_into_u32 i = (if 0 \<le> sint i \<and> sint i < 2 ^ 32 then Some (nat (sint i)) else None)"

definition isize_try_into_usize :: "isize \<Rightarrow> nat option" where
  "isize_try_into_usize i = (if 0 \<le> sint i then Some (nat (sint i)) else None)"

definition caml_bigint_256_of_numeral ::
  "num_bigint \<Rightarrow> ark_bigint \<Rightarrow> string \<Rightarrow> isize \<Rightarrow> isize \<Rightarrow> (bigint256, ocaml_error) outcome" where
  "caml_bigint_256_of_numeral N A s len base =
     and_then (ok_or (isize_try_into_u32 base) (Message ''caml_bigint_256_of_numeral'')) (\<lambda>radix.
     and_then (expect (bu_parse_bytes N s radix) ''The radix must be within 2...36'') (\<lambda>parsed.
       case parsed of
         Some d \<Rightarrow> map_err (Message ''caml_bigint_256_of_numeral'') (bigint_try_from A d)
       | None \<Rightarrow> Err (Message ''caml_bigint_256_of_numeral'')))"

definition caml_bigint_256_of_decimal_string ::
  "num_bigint \<Rightarrow> ark_bigint \<Rightarrow> string \<Rightarrow> (bigint256, ocaml_error) outcome" where
  "caml_bigint_256_of_decimal_string N A s =
     and_then (expect (bu_parse_bytes N s 10) ''The radix must be within 2...36'') (\<lambda>parsed.
       case parsed of
         Some d \<Rightarrow> map_err (Message ''caml_bigint_256_of_decimal_string'') (bigint_try_from A d)
       | None \<Rightarrow> Err (Message ''caml_bigint_256_of_decimal_string''))"

definition caml_bigint_256_num_limbs :: isize where
  "caml_bigint_256_num_limbs = word_of_int BIGINT256_NUM_LIMBS"

definition caml_bigint_256_bytes_per_limb :: isize where
  "caml_bigint_256_bytes_per_limb = word_of_int BIGINT256_LIMB_BYTES"

definition caml_bigint_256_div ::
  "num_bigint \<Rightarrow> ark_bigint \<Rightarrow> bigint256 \<Rightarrow> bigint256 \<Rightarrow> (bigint256, ocaml_error) outcome" where
  "caml_bigint_256_div N A x y =
     and_then (expect (bu_div N (biguint_from_caml A x) (biguint_from_caml A y))
                 ''attempt to divide by zero'') (\<lambda>res.
       expect (bi_try_from_biguint A res) ''BigUint division has a bug'')"

definition caml_bigint_256_compare :: "ark_bigint \<Rightarrow> bigint256 \<Rightarrow> bigint256 \<Rightarrow> isize" where
  "caml_bigint_256_compare A x y = ordering_code (bi_cmp A x y)"

definition caml_bigint_256_print :: "num_bigint \<Rightarrow> ark_bigint \<Rightarrow> bigint256 \<Rightarrow> string" where
  "caml_bigint_256_print N A x = bigint_to_string N A x @ [CHR 0x0A]"

definition caml_bigint_256_to_string :: "num_bigint \<Rightarrow> ark_bigint \<Rightarrow> bigint256 \<Rightarrow> string" where
  "caml_bigint_256_to_string N A x = bigint_to_string N A x"

definition caml_bigint_256_test_bit ::
  "ark_bigint \<Rightarrow> bigint256 \<Rightarrow> isize \<Rightarrow> (bool, ocaml_error) outcome" where
  "caml_bigint_256_test_bit A x i =
     (case isize_try_into_usize i of
        Some i \<Rightarrow> Ok (bi_get_bit A x i)
      | None \<Rightarrow> Err (InvalidArgument ''caml_bigint_256_test_bit''))"

text \<open>
  Writing into \<open>&mut res[..]\<close> of a zeroed array of \<open>n\<close> bytes, followed by \<open>unwrap\<close>.
\<close>

definition write_to_array :: "nat \<Rightarrow> bytes \<Rightarrow> (bytes, 'e) outcome" where
  "write_to_array n bs =
     (if length bs \<le> n then Ok (bs @ replicate (n - length bs) 0)
      else Panic ''failed to write whole buffer'')"

definition caml_bigint_256_to_bytes :: "ark_bigint \<Rightarrow> bigint256 \<Rightarrow> (bytes, ocaml_error) outcome" where
  "caml_bigint_256_to_bytes A x = write_to_array size_of_bigint256 (bi_serialize A x)"

definition caml_bigint_256_of_bytes :: "ark_bigint \<Rightarrow> bytes \<Rightarrow> (bigint256, ocaml_error) outcome" where
  "caml_bigint_256_of_bytes A x =
     (if length x \<noteq> size_of_bigint256 then Err (Failwith ''caml_bigint_256_of_bytes'')
      else ok_or (bi_deserialize A x) (Message ''deserialization error''))"

definition caml_bigint_256_deep_copy :: "bigint256 \<Rightarrow> bigint256" where
  "caml_bigint_256_deep_copy x = x"

section \<open>The bindings for JavaScript\<close>

text \<open>
  \<open>bytes.resize(n, v)\<close>: truncates a longer vector.
\<close>

definition vec_resize :: "nat \<Rightarrow> 'a \<Rightarrow> 'a list \<Rightarrow> 'a list" where
  "vec_resize n v xs = take n xs @ replicate (n - length xs) v"

definition bigint_from_abi :: "ark_bigint \<Rightarrow> bytes \<Rightarrow> (bigint256, js_error) outcome" where
  "bigint_from_abi A js =
     map_ok (\<lambda>(a, b, c, d). BigInteger256 a b c d)
       (expect (bi_read_limbs A js) ''called Result::unwrap() on an Err value'')"

definition bigint_into_abi :: "ark_bigint \<Rightarrow> bigint256 \<Rightarrow> bytes" where
  "bigint_into_abi A x = [] @ bi_write A x"

definition to_biguint :: "num_bigint \<Rightarrow> bigint256 \<Rightarrow> nat" where
  "to_biguint N x = bu_from_bytes_le N (take BIGINT256_NUM_BYTES (limbs_memory x))"

definition of_biguint :: "num_bigint \<Rightarrow> nat \<Rightarrow> bigint256" where
  "of_biguint N x = limbs_cast (vec_resize BIGINT256_NUM_BYTES 0 (bu_to_bytes_le N x))"

definition caml_bigint_256_of_numeral_wasm ::
  "num_bigint \<Rightarrow> string \<Rightarrow> u32 \<Rightarrow> u32 \<Rightarrow> (bigint256, js_error) outcome" where
  "caml_bigint_256_of_numeral_wasm N s len base =
     and_then (expect (bu_parse_bytes N s (unat base)) ''The radix must be within 2...36'') (\<lambda>parsed.
       case parsed of
         Some d \<Rightarrow> Ok (of_biguint N d)
       | None \<Rightarrow> Panic ''caml_bigint_256_of_numeral'')"

definition caml_bigint_256_of_decimal_string_wasm ::
  "num_bigint \<Rightarrow> string \<Rightarrow> (bigint256, js_error) outcome" where
  "caml_bigint_256_of_decimal_string_wasm N s =
     and_then (expect (bu_parse_bytes N s 10) ''The radix must be within 2...36'') (\<lambda>parsed.
       case parsed of
         Some d \<Rightarrow> Ok (of_biguint N d)
       | None \<Rightarrow> Panic ''caml_bigint_256_of_decimal_string'')"

definition caml_bigint_256_num_limbs_wasm :: i32 where
  "caml_bigint_256_num_limbs_wasm = word_of_int BIGINT256_NUM_LIMBS"

definition caml_bigint_256_bytes_per_limb_wasm :: i32 where
  "caml_bigint_256_bytes_per_limb_wasm = word_of_int BIGINT256_LIMB_BYTES"

definition caml_bigint_256_div_wasm ::
  "num_bigint \<Rightarrow> bigint256 \<Rightarrow> bigint256 \<Rightarrow> (bigint256, js_error) outcome" where
  "caml_bigint_256_div_wasm N x y =
     map_ok (of_biguint N)
       (expect (bu_div N (to_biguint N x) (to_biguint N y)) ''attempt to divide by zero'')"

definition caml_bigint_256_compare_wasm :: "ark_bigint \<Rightarrow> bigint256 \<Rightarrow> bigint256 \<Rightarrow> u8" where
  "caml_bigint_256_compare_wasm A x y = (case bi_cmp A x y of Less \<Rightarrow> -1 | Equal \<Rightarrow> 0 | Greater \<Rightarrow> 1)"

definition caml_bigint_256_print_wasm :: "num_bigint \<Rightarrow> bigint256 \<Rightarrow> string" where
  "caml_bigint_256_print_wasm N x = bu_to_string N (to_biguint N x) @ [CHR 0x0A]"

definition caml_bigint_256_to_string_wasm :: "num_bigint \<Rightarrow> bigint256 \<Rightarrow> string" where
  "caml_bigint_256_to_string_wasm N x = bu_to_string N (to_biguint N x)"

text \<open>
  \<open>i32::try_into::<usize>()\<close>.
\<close>

definition i32_try_into_usize :: "i32 \<Rightarrow> nat option" where
  "i32_try_into_usize i = (if 0 \<le> sint i then Some (nat (sint i)) else None)"

definition caml_bigint_256_test_bit_wasm :: "ark_bigint \<Rightarrow> bigint256 \<Rightarrow> i32 \<Rightarrow> (bool, js_error) outcome" where
  "caml_bigint_256_test_bit_wasm A x i =
     (case i32_try_into_usize i of
        Some i \<Rightarrow> Ok (bi_get_bit A x i)
      | None \<Rightarrow> Panic ''caml_bigint_256_test_bit'')"

definition caml_bigint_256_to_bytes_wasm :: "ark_bigint \<Rightarrow> bigint256 \<Rightarrow> bytes" where
  "caml_bigint_256_to_bytes_wasm A x = [] @ bi_serialize A x"

definition caml_bigint_256_of_bytes_wasm :: "ark_bigint \<Rightarrow> bytes \<Rightarrow> (bigint256, js_error) outcome" where
  "caml_bigint_256_of_bytes_wasm A x =
     (if length x \<noteq> size_of_bigint256 then Panic ''caml_bigint_256_of_bytes''
      else expect (bi_deserialize A x) ''deserialization error'')"

definition caml_bigint_256_deep_copy_wasm :: "bigint256 \<Rightarrow> bigint256" where
  "caml_bigint_256_deep_copy_wasm x = x"

section \<open>Integers and limbs\<close>

lemmas bigint_sizes = BIGINT256_NUM_BYTES_def BIGINT256_NUM_LIMBS_def BIGINT256_NUM_BITS_def
  BIGINT256_LIMB_BITS_def BIGINT256_LIMB_BYTES_def size_of_bigint256_def

lemma NUM_BYTES [simp]: "BIGINT256_NUM_BYTES = 32"
  by (simp add: bigint_sizes)

lemma size_of_32 [simp]: "size_of_bigint256 = 32"
  by (simp add: bigint_sizes)

lemma length_vec_resize [simp]: "length (vec_resize n v xs) = n"
  by (simp add: vec_resize_def)

lemma le_value_resize: "le_value (vec_resize n 0 bs) = le_value bs mod 256 ^ n"
  by (simp add: vec_resize_def le_value_take)

context num_bigint_contract
begin

lemma to_biguint_value [simp]: "to_biguint N x = bigint_value x"
  by (simp add: to_biguint_def from_bytes_le bigint_value_def)

lemma of_biguint_value: "bigint_value (of_biguint N n) = n mod 2 ^ 256"
  by (simp add: of_biguint_def bigint_value_cast le_value_resize to_bytes_le)

lemma of_biguint_bigint_value [simp]: "of_biguint N (bigint_value x) = x"
  by (metis bigint_value_bound bigint_value_inj mod_less of_biguint_value)

lemma parse_decimal: "\<exists>d. bu_parse_bytes N s 10 = Some d"
  using parse_radix [of s 10] by simp

end

lemma bit_sum:
  fixes n :: nat
  assumes "n < 2 ^ k"
  shows "(\<Sum>i<k. if odd (n div 2 ^ i) then 2 ^ i else 0) = n"
  using assms
proof (induction k arbitrary: n)
  case (Suc k)
  let ?bit = "\<lambda>n i. (if odd (n div 2 ^ i) then 2 ^ i else 0 :: nat)"
  have "(\<Sum>i<Suc k. ?bit n i) = n mod 2 + (\<Sum>i<k. ?bit n (Suc i))"
    unfolding sum.lessThan_Suc_shift by (simp add: odd_iff_mod_2_eq_one)
  also have "(\<Sum>i<k. ?bit n (Suc i)) = 2 * (\<Sum>i<k. ?bit (n div 2) i)"
    by (simp add: sum_distrib_left div_mult2_eq if_distrib cong: if_cong sum.cong)
  also have "\<dots> = 2 * (n div 2)" using Suc by simp
  finally show ?case by simp
qed simp

lemma bigint_neq_iff: "\<not> bigint_value x < bigint_value y \<Longrightarrow> x \<noteq> y \<Longrightarrow> bigint_value y < bigint_value x"
  by (metis bigint_value_inj linorder_less_linear)

lemma bit_above: "n < 2 ^ k \<Longrightarrow> k \<le> i \<Longrightarrow> even (n div 2 ^ i :: nat)"
  by (simp add: less_le_trans [OF _ power_increasing])

lemma isize_try_into_usize_nonneg: "0 \<le> sint i \<Longrightarrow> isize_try_into_usize i = Some (nat (sint i))"
  by (simp add: isize_try_into_usize_def)

context ark_bigint_contract
begin

lemma bigint_try_from_value [simp]: "bigint_try_from A (bigint_value x) = Ok x"
  by (simp add: bigint_try_from_def try_from_Some_iff)

lemma biguint_from_caml_value [simp]: "biguint_from_caml A x = bigint_value x"
  by (simp add: biguint_from_caml_def into_biguint)

lemma try_from_quotient: "\<exists>z. bi_try_from_biguint A (bigint_value x div k) = Some z \<and> bigint_value z = bigint_value x div k"
proof -
  have "bigint_value x div k < 2 ^ 256"
    using bigint_value_bound [of x] by (meson div_le_dividend le_less_trans)
  then show ?thesis by (rule try_from_biguint(1))
qed

lemma abi_codec: "codec (bigint_into_abi A) (bigint_from_abi A)"
proof
  fix x :: bigint256
  show "bigint_from_abi A (bigint_into_abi A x) = Ok x"
    using limbs_cast_memory [of x]
    by (cases x) (simp add: bigint_from_abi_def bigint_into_abi_def write_limbs read_limbs limbs_cast_def)
qed

end

sublocale ark_bigint_contract \<subseteq> abi: codec "bigint_into_abi A" "bigint_from_abi A"
  by (rule abi_codec)

lemmas num_bigint_facts = num_bigint_contract.to_biguint_value num_bigint_contract.of_biguint_value
  num_bigint_contract.of_biguint_bigint_value num_bigint_contract.parse_to_string
  num_bigint_contract.biguint_div

lemmas ark_bigint_facts = ark_bigint_contract.bigint_try_from_value
  ark_bigint_contract.biguint_from_caml_value ark_bigint_contract.cmp ark_bigint_contract.get_bit
  ark_bigint_contract.serialize ark_bigint_contract.deserialize

lemma native_conversion_is_partial_wasm_conversion:
  assumes "num_bigint_contract N" and "ark_bigint_contract A"
  shows "bigint_try_from A n =
    (if n < 2 ^ 256 then Ok (of_biguint N n) else Err ''BigInt: number too large'')"
proof (cases "n < 2 ^ 256")
  case True
  then have "bigint_value (of_biguint N n) = n" by (simp add: num_bigint_facts [OF assms(1)])
  with True ark_bigint_facts(1) [OF assms(2)] show ?thesis by metis
next
  case False
  then have "bi_try_from_biguint A n = None"
    by (simp add: ark_bigint_contract.try_from_None_iff [OF assms(2)])
  with False show ?thesis by (simp add: bigint_try_from_def)
qed

lemmas decimal_string_defs = caml_bigint_256_of_decimal_string_def caml_bigint_256_to_string_def
  caml_bigint_256_of_decimal_string_wasm_def caml_bigint_256_to_string_wasm_def bigint_to_string_def

section \<open>Properties\<close>

text \<open>
  C14. Reading decimal strings. A printed integer is read back by both bindings. A string whose
  value does not fit 256 bits is an error in the bindings for OCaml and is silently reduced modulo
  \<open>2 ^ 256\<close> in the bindings for JavaScript; a string that is not a numeral is an error in the
  former and a panic in the latter.
\<close>

theorem bigint_of_decimal_string:
  assumes "num_bigint_contract N" and "ark_bigint_contract A"
    and "bu_parse_bytes N s 10 = Some d"
  shows "caml_bigint_256_of_decimal_string N A (caml_bigint_256_to_string N A x) = Ok x \<and>
    caml_bigint_256_of_decimal_string_wasm N (caml_bigint_256_to_string_wasm N x) = Ok x \<and>
    (case d of
       None \<Rightarrow> caml_bigint_256_of_decimal_string N A s = Err (Message ''caml_bigint_256_of_decimal_string'') \<and>
         caml_bigint_256_of_decimal_string_wasm N s = Panic ''caml_bigint_256_of_decimal_string''
     | Some n \<Rightarrow>
         (\<exists>y. caml_bigint_256_of_decimal_string_wasm N s = Ok y \<and> bigint_value y = n mod 2 ^ 256 \<and>
           caml_bigint_256_of_decimal_string N A s =
             (if n < 2 ^ 256 then Ok y else Err (Message ''caml_bigint_256_of_decimal_string''))))"
  using assms(3) bigint_value_bound [of x]
  by (cases d) (simp_all add: decimal_string_defs num_bigint_facts [OF assms(1)]
      ark_bigint_facts [OF assms(2)] native_conversion_is_partial_wasm_conversion [OF assms(1,2)])

theorem bigint_of_decimal_string_witness:
  "bu_parse_bytes ref_num_bigint ''1x'' 10 = Some None \<and>
   caml_bigint_256_of_decimal_string ref_num_bigint ref_ark_bigint ''1x'' =
     Err (Message ''caml_bigint_256_of_decimal_string'')"
proof -
  have parsed: "bu_parse_bytes ref_num_bigint ''1x'' 10 = Some None"
    by (simp add: ref_num_bigint_def ref_parse_bytes_def char_digit_def)
  show ?thesis
    using bigint_of_decimal_string [OF ref_biguint.num_bigint_contract_axioms
        ref_limbs.ark_bigint_contract_axioms parsed] parsed
    by simp
qed

text \<open>
  Division. Both bindings return the floor of the exact quotient, which always fits, for a
  non-zero divisor, and panic for a zero divisor.
\<close>

theorem bigint_div_quotient:
  assumes "num_bigint_contract N" and "ark_bigint_contract A"
  shows "if bigint_value y = 0
    then caml_bigint_256_div N A x y = Panic ''attempt to divide by zero'' \<and>
      caml_bigint_256_div_wasm N x y = Panic ''attempt to divide by zero''
    else \<exists>z. bigint_value z = bigint_value x div bigint_value y \<and>
      caml_bigint_256_div N A x y = Ok z \<and> caml_bigint_256_div_wasm N x y = Ok z"
proof -
  obtain z where z: "bi_try_from_biguint A (bigint_value x div bigint_value y) = Some z"
      "bigint_value z = bigint_value x div bigint_value y"
    using ark_bigint_contract.try_from_quotient [OF assms(2)] by blast
  have "of_biguint N (bigint_value x div bigint_value y) = z"
    by (simp add: z(2) [symmetric] num_bigint_facts(3) [OF assms(1)])
  with z show ?thesis
    by (auto simp: caml_bigint_256_div_def caml_bigint_256_div_wasm_def
        num_bigint_facts [OF assms(1)] ark_bigint_facts(2) [OF assms(2)])
qed

theorem bigint_div_quotient_witness:
  "\<exists>z. bigint_value z = 3 \<and>
     caml_bigint_256_div ref_num_bigint ref_ark_bigint (bigint_of_nat 7) (bigint_of_nat 2) = Ok z"
  using bigint_div_quotient [OF ref_biguint.num_bigint_contract_axioms
      ref_limbs.ark_bigint_contract_axioms, of "bigint_of_nat 2" "bigint_of_nat 7"]
  by (auto simp: bigint_value_of_nat)

text \<open>
  Byte strings. The bytes of an integer are the same 32 little-endian bytes in both bindings,
  reading them back gives the integer, every buffer of 32 bytes is the image of what is read from
  it, and a buffer of any other length is an error (OCaml) or a panic (JavaScript).
\<close>

theorem bigint_bytes_roundtrip:
  assumes "ark_bigint_contract A"
  shows "caml_bigint_256_to_bytes A x = Ok (caml_bigint_256_to_bytes_wasm A x) \<and>
    length (caml_bigint_256_to_bytes_wasm A x) = 32 \<and>
    caml_bigint_256_of_bytes A (caml_bigint_256_to_bytes_wasm A x) = Ok x \<and>
    caml_bigint_256_of_bytes_wasm A (caml_bigint_256_to_bytes_wasm A x) = Ok x \<and>
    (if length bs = 32
     then \<exists>y. caml_bigint_256_of_bytes A bs = Ok y \<and> caml_bigint_256_of_bytes_wasm A bs = Ok y \<and>
       caml_bigint_256_to_bytes A y = Ok bs
     else caml_bigint_256_of_bytes A bs = Err (Failwith ''caml_bigint_256_of_bytes'') \<and>
       caml_bigint_256_of_bytes_wasm A bs = Panic ''caml_bigint_256_of_bytes'')"
  by (auto simp: caml_bigint_256_to_bytes_def caml_bigint_256_to_bytes_wasm_def
      caml_bigint_256_of_bytes_def caml_bigint_256_of_bytes_wasm_def write_to_array_def
      ark_bigint_facts [OF assms])

theorem bigint_bytes_roundtrip_witness:
  "caml_bigint_256_of_bytes ref_ark_bigint [] = Err (Failwith ''caml_bigint_256_of_bytes'') \<and>
   caml_bigint_256_of_bytes ref_ark_bigint (caml_bigint_256_to_bytes_wasm ref_ark_bigint (bigint_of_nat 5)) =
     Ok (bigint_of_nat 5)"
  using bigint_bytes_roundtrip [OF ref_limbs.ark_bigint_contract_axioms, of "bigint_of_nat 5" "[]"]
  by simp

text \<open>
  Bits and order. \<open>test_bit\<close> at the indices 0 to 255 gives the binary digits of the
  integer, every larger index gives false and a negative index is an error (OCaml) or a panic
  (JavaScript); \<open>compare\<close> is the order of the values and agrees with the comparison
  registered with the OCaml runtime.
\<close>

theorem bigint_bits_and_order:
  assumes "ark_bigint_contract A"
  shows "bigint_value x = (\<Sum>i<256. if caml_bigint_256_test_bit A x (word_of_nat i) = Ok True then 2 ^ i else 0) \<and>
    (if sint i < 0 then caml_bigint_256_test_bit A x i = Err (InvalidArgument ''caml_bigint_256_test_bit'')
     else \<exists>b. caml_bigint_256_test_bit A x i = Ok b \<and> (256 \<le> sint i \<longrightarrow> \<not> b)) \<and>
    (sint j < 0 \<longrightarrow> caml_bigint_256_test_bit_wasm A x j = Panic ''caml_bigint_256_test_bit'') \<and>
    (caml_bigint_256_compare A x y = 0 \<longleftrightarrow> x = y) \<and>
    (caml_bigint_256_compare A x y = -1 \<longleftrightarrow> bigint_value x < bigint_value y) \<and>
    (caml_bigint_256_compare A x y = 1 \<longleftrightarrow> bigint_value y < bigint_value x) \<and>
    sint (ocaml_compare_bigint A x y) = sint (caml_bigint_256_compare A x y)"
proof (intro conjI)
  have idx: "isize_try_into_usize (word_of_nat i) = Some i" if "i < 256" for i
    using that by (simp add: isize_try_into_usize_def sint_isize_of_nat)
  have "(\<Sum>i<256. if caml_bigint_256_test_bit A x (word_of_nat i) = Ok True then 2 ^ i else 0) =
    (\<Sum>i<256. if odd (bigint_value x div 2 ^ i) then 2 ^ i else 0)"
    by (intro sum.cong refl) (simp add: caml_bigint_256_test_bit_def idx ark_bigint_facts [OF assms])
  also have "\<dots> = bigint_value x" by (rule bit_sum) (rule bigint_value_bound)
  finally show "bigint_value x =
    (\<Sum>i<256. if caml_bigint_256_test_bit A x (word_of_nat i) = Ok True then 2 ^ i else 0)" by simp
qed (auto simp: caml_bigint_256_test_bit_def caml_bigint_256_test_bit_wasm_def isize_try_into_usize_def
    i32_try_into_usize_def ark_bigint_facts [OF assms] caml_bigint_256_compare_def ordering_code_def
    ocaml_compare_bigint_def cmp_nat_def bit_above [OF bigint_value_bound] bigint_neq_iff)

theorem bigint_bits_and_order_witness:
  "caml_bigint_256_test_bit ref_ark_bigint (bigint_of_nat 5) (- 1) =
     Err (InvalidArgument ''caml_bigint_256_test_bit'')"
  using bigint_bits_and_order [OF ref_limbs.ark_bigint_contract_axioms, of "bigint_of_nat 5" "- 1" "- 1"]
  by simp

end
