(* ===== verification/Pasta_Fp.thy ===== *)
theory Pasta_Fp
  imports Bigint256
begin

text \<open>
  The field \<open>Fp\<close>: \<^verbatim>\<open>stubs/src/arkworks/pasta_fp.rs\<close> and
  \<^verbatim>\<open>wasm/src/arkworks/pasta_fp.rs\<close> (suffix \<open>_wasm\<close>). The field of
  \<^verbatim>\<open>mina_curves\<close> is the parameter \<open>F\<close>. An \<open>ocaml::Pointer<CamlFp>\<close> that is
  only read is its element; the operations that write through a pointer act on a store, a function
  from addresses to elements, so that two pointers may be the same.
\<close>

section \<open>The bindings for OCaml\<close>

definition size_of_fp :: nat where "size_of_fp = 32"

definition ocaml_compare_fp :: "ark_bigint \<Rightarrow> 'f ark_field \<Rightarrow> 'f \<Rightarrow> 'f \<Rightarrow> i32" where
  "ocaml_compare_fp A F x y =
     (case bi_cmp A (ff_into_repr F x) (ff_into_repr F y) of Less \<Rightarrow> -1 | Equal \<Rightarrow> 0 | Greater \<Rightarrow> 1)"

definition camlfp_try_from :: "'f ark_field \<Rightarrow> bigint256 \<Rightarrow> ('f, ocaml_error) outcome" where
  "camlfp_try_from F x =
     ok_or (ff_from_repr F x) (Message ''TryFrom<CamlBigInteger256>: integer is larger than order'')"

definition caml_pasta_fp_size_in_bits :: "'f ark_field \<Rightarrow> isize" where
  "caml_pasta_fp_size_in_bits F = word_of_nat (ff_modulus_bits F)"

definition caml_pasta_fp_size :: "'f ark_field \<Rightarrow> bigint256" where
  "caml_pasta_fp_size F = ff_modulus F"

definition caml_pasta_fp_add :: "'f ark_field \<Rightarrow> 'f \<Rightarrow> 'f \<Rightarrow> 'f" where
  "caml_pasta_fp_add F x y = ff_add F x y"

definition caml_pasta_fp_sub :: "'f ark_field \<Rightarrow> 'f \<Rightarrow> 'f \<Rightarrow> 'f" where
  "caml_pasta_fp_sub F x y = ff_sub F x y"

definition caml_pasta_fp_negate :: "'f ark_field \<Rightarrow> 'f \<Rightarrow> 'f" where
  "caml_pasta_fp_negate F x = ff_neg F x"

definition caml_pasta_fp_mul :: "'f ark_field \<Rightarrow> 'f \<Rightarrow> 'f \<Rightarrow> 'f" where
  "caml_pasta_fp_mul F x y = ff_mul F x y"

definition caml_pasta_fp_div :: "'f ark_field \<Rightarrow> 'f \<Rightarrow> 'f \<Rightarrow> ('f, ocaml_error) outcome" where
  "caml_pasta_fp_div F x y = expect (ff_div F x y) ''called Option::unwrap() on a None value''"

definition caml_pasta_fp_inv :: "'f ark_field \<Rightarrow> 'f \<Rightarrow> 'f option" where
  "caml_pasta_fp_inv F x = ff_inverse F x"

definition caml_pasta_fp_square :: "'f ark_field \<Rightarrow> 'f \<Rightarrow> 'f" where
  "caml_pasta_fp_square F x = ff_square F x"

definition caml_pasta_fp_is_square :: "'f ark_field \<Rightarrow> 'f \<Rightarrow> bool" where
  "caml_pasta_fp_is_square F x =
     (let s = ff_pow F x (ff_modulus_minus_one_div_two F) in s = ff_zero F \<or> s = ff_one F)"

definition caml_pasta_fp_sqrt :: "'f ark_field \<Rightarrow> 'f \<Rightarrow> 'f option" where
  "caml_pasta_fp_sqrt F x = ff_sqrt F x"

definition caml_pasta_fp_of_int :: "'f ark_field \<Rightarrow> isize \<Rightarrow> 'f" where
  "caml_pasta_fp_of_int F i = ff_from_u64 F i"

definition caml_pasta_fp_to_string :: "num_bigint \<Rightarrow> ark_bigint \<Rightarrow> 'f ark_field \<Rightarrow> 'f \<Rightarrow> string" where
  "caml_pasta_fp_to_string N A F x = bigint_to_string N A (ff_into_repr F x)"

definition caml_pasta_fp_of_string ::
  "num_bigint \<Rightarrow> ark_bigint \<Rightarrow> 'f ark_field \<Rightarrow> string \<Rightarrow> ('f, ocaml_error) outcome" where
  "caml_pasta_fp_of_string N A F s =
     and_then (expect (bu_parse_bytes N s 10) ''The radix must be within 2...36'') (\<lambda>parsed.
     and_then (ok_or parsed (Message ''caml_pasta_fp_of_string: couldn't parse input'')) (\<lambda>biguint.
     and_then (map_err (Message ''caml_pasta_fp_of_string: Biguint is too large'')
                 (bigint_try_from A biguint)) (\<lambda>camlbigint.
       map_err (Message ''caml_pasta_fp_of_string'') (camlfp_try_from F camlbigint))))"

definition caml_pasta_fp_print :: "num_bigint \<Rightarrow> ark_bigint \<Rightarrow> 'f ark_field \<Rightarrow> 'f \<Rightarrow> string" where
  "caml_pasta_fp_print N A F x = bigint_to_string N A (ff_into_repr F x) @ [CHR 0x0A]"

definition caml_pasta_fp_print_rust :: "'f ark_field \<Rightarrow> 'f \<Rightarrow> string" where
  "caml_pasta_fp_print_rust F x = ff_display F x @ [CHR 0x0A]"

definition caml_pasta_fp_copy :: "nat \<Rightarrow> nat \<Rightarrow> 'f store \<Rightarrow> 'f store" where
  "caml_pasta_fp_copy x y s = s(x := s y)"

definition caml_pasta_fp_mut_add :: "'f ark_field \<Rightarrow> nat \<Rightarrow> nat \<Rightarrow> 'f store \<Rightarrow> 'f store" where
  "caml_pasta_fp_mut_add F x y s = s(x := ff_add F (s x) (s y))"

definition caml_pasta_fp_mut_sub :: "'f ark_field \<Rightarrow> nat \<Rightarrow> nat \<Rightarrow> 'f store \<Rightarrow> 'f store" where
  "caml_pasta_fp_mut_sub F x y s = s(x := ff_sub F (s x) (s y))"

definition caml_pasta_fp_mut_mul :: "'f ark_field \<Rightarrow> nat \<Rightarrow> nat \<Rightarrow> 'f store \<Rightarrow> 'f store" where
  "caml_pasta_fp_mut_mul F x y s = s(x := ff_mul F (s x) (s y))"

definition caml_pasta_fp_mut_square :: "'f ark_field \<Rightarrow> nat \<Rightarrow> 'f store \<Rightarrow> 'f store" where
  "caml_pasta_fp_mut_square F x s = s(x := ff_square F (s x))"

definition caml_pasta_fp_compare :: "ark_bigint \<Rightarrow> 'f ark_field \<Rightarrow> 'f \<Rightarrow> 'f \<Rightarrow> isize" where
  "caml_pasta_fp_compare A F x y = ordering_code (bi_cmp A (ff_into_repr F x) (ff_into_repr F y))"

definition caml_pasta_fp_equal :: "'f \<Rightarrow> 'f \<Rightarrow> bool" where
  "caml_pasta_fp_equal x y = (x = y)"

text \<open>
  The element drawn from the thread's generator is the argument.
\<close>

definition caml_pasta_fp_random :: "'f \<Rightarrow> 'f" where
  "caml_pasta_fp_random fp = fp"

definition caml_pasta_fp_rng :: "'f ark_field \<Rightarrow> isize \<Rightarrow> 'f" where
  "caml_pasta_fp_rng F i = (let i = (ucast (ucast i :: u32) :: u64) in ff_rand_seeded F i)"

definition caml_pasta_fp_to_bigint :: "'f ark_field \<Rightarrow> 'f \<Rightarrow> bigint256" where
  "caml_pasta_fp_to_bigint F x = ff_into_repr F x"

definition caml_pasta_fp_of_bigint ::
  "ark_bigint \<Rightarrow> 'f ark_field \<Rightarrow> bigint256 \<Rightarrow> ('f, ocaml_error) outcome" where
  "caml_pasta_fp_of_bigint A F x =
     ok_or (ff_from_repr F x)
       (ErrorBox (''caml_pasta_fp_of_bigint was given an invalid CamlBigInteger256: '' @ bi_display A x))"

definition caml_pasta_fp_two_adic_root_of_unity :: "'f ark_field \<Rightarrow> 'f" where
  "caml_pasta_fp_two_adic_root_of_unity F = ff_two_adic_root_of_unity F"

definition caml_pasta_fp_domain_generator ::
  "bool \<Rightarrow> 'f ark_field \<Rightarrow> isize \<Rightarrow> ('f, ocaml_error) outcome" where
  "caml_pasta_fp_domain_generator overflow_checks F log2_size =
     and_then (shl_one overflow_checks 64 (sint log2_size)) (\<lambda>n.
       ok_or (ff_group_gen F n) (Message ''caml_pasta_fp_domain_generator''))"

definition caml_pasta_fp_to_bytes :: "'f ark_field \<Rightarrow> 'f \<Rightarrow> (bytes, ocaml_error) outcome" where
  "caml_pasta_fp_to_bytes F x = write_to_array size_of_fp (ff_write F x)"

definition caml_pasta_fp_of_bytes :: "'f ark_field \<Rightarrow> bytes \<Rightarrow> ('f, ocaml_error) outcome" where
  "caml_pasta_fp_of_bytes F x =
     (if length x \<noteq> size_of_fp then Err (Failwith ''caml_pasta_fp_of_bytes'')
      else Ok (ff_cast F x))"

definition caml_pasta_fp_deep_copy :: "'f \<Rightarrow> 'f" where
  "caml_pasta_fp_deep_copy x = x"

section \<open>The bindings for JavaScript\<close>

definition fp_flatten :: "'f ark_field \<Rightarrow> 'f \<Rightarrow> bytes" where
  "fp_flatten F x = [] @ ff_write F x"

definition fp_unflatten :: "'f ark_field \<Rightarrow> bytes \<Rightarrow> ('f, js_error) outcome" where
  "fp_unflatten F flat = expect (ff_read F flat) ''called Result::unwrap() on an Err value''"

definition fp_from_abi :: "'f ark_field \<Rightarrow> bytes \<Rightarrow> ('f, js_error) outcome" where
  "fp_from_abi F js = expect (ff_read F js) ''called Result::unwrap() on an Err value''"

definition fp_into_abi :: "'f ark_field \<Rightarrow> 'f \<Rightarrow> bytes" where
  "fp_into_abi F x = [] @ ff_write F x"

definition caml_pasta_fp_size_in_bits_wasm :: "'f ark_field \<Rightarrow> i32" where
  "caml_pasta_fp_size_in_bits_wasm F = word_of_nat (ff_modulus_bits F)"

definition caml_pasta_fp_size_wasm :: "'f ark_field \<Rightarrow> bigint256" where
  "caml_pasta_fp_size_wasm F = ff_modulus F"

definition caml_pasta_fp_add_wasm :: "'f ark_field \<Rightarrow> 'f \<Rightarrow> 'f \<Rightarrow> 'f" where
  "caml_pasta_fp_add_wasm F x y = ff_add F x y"

definition caml_pasta_fp_sub_wasm :: "'f ark_field \<Rightarrow> 'f \<Rightarrow> 'f \<Rightarrow> 'f" where
  "caml_pasta_fp_sub_wasm F x y = ff_sub F x y"

definition caml_pasta_fp_negate_wasm :: "'f ark_field \<Rightarrow> 'f \<Rightarrow> 'f" where
  "caml_pasta_fp_negate_wasm F x = ff_neg F x"

definition caml_pasta_fp_mul_wasm :: "'f ark_field \<Rightarrow> 'f \<Rightarrow> 'f \<Rightarrow> 'f" where
  "caml_pasta_fp_mul_wasm F x y = ff_mul F x y"

definition caml_pasta_fp_div_wasm :: "'f ark_field \<Rightarrow> 'f \<Rightarrow> 'f \<Rightarrow> ('f, js_error) outcome" where
  "caml_pasta_fp_div_wasm F x y = expect (ff_div F x y) ''called Option::unwrap() on a None value''"

definition caml_pasta_fp_inv_wasm :: "'f ark_field \<Rightarrow> 'f \<Rightarrow> 'f option" where
  "caml_pasta_fp_inv_wasm F x = ff_inverse F x"

definition caml_pasta_fp_square_wasm :: "'f ark_field \<Rightarrow> 'f \<Rightarrow> 'f" where
  "caml_pasta_fp_square_wasm F x = ff_square F x"

definition caml_pasta_fp_is_square_wasm :: "'f ark_field \<Rightarrow> 'f \<Rightarrow> bool" where
  "caml_pasta_fp_is_square_wasm F x =
     (let s = ff_pow F x (ff_modulus_minus_one_div_two F) in s = ff_zero F \<or> s = ff_one F)"

definition caml_pasta_fp_sqrt_wasm :: "'f ark_field \<Rightarrow> 'f \<Rightarrow> 'f option" where
  "caml_pasta_fp_sqrt_wasm F x = ff_sqrt F x"

text \<open>
  \<open>i as u64\<close> extends the sign.
\<close>

definition caml_pasta_fp_of_int_wasm :: "'f ark_field \<Rightarrow> i32 \<Rightarrow> 'f" where
  "caml_pasta_fp_of_int_wasm F i = ff_from_u64 F (scast i)"

definition caml_pasta_fp_to_string_wasm :: "num_bigint \<Rightarrow> 'f ark_field \<Rightarrow> 'f \<Rightarrow> string" where
  "caml_pasta_fp_to_string_wasm N F x = bu_to_string N (to_biguint N (ff_into_repr F x))"

definition caml_pasta_fp_of_string_wasm ::
  "num_bigint \<Rightarrow> 'f ark_field \<Rightarrow> string \<Rightarrow> ('f, js_error) outcome" where
  "caml_pasta_fp_of_string_wasm N F s =
     and_then (expect (bu_parse_bytes N s 10) ''The radix must be within 2...36'') (\<lambda>parsed.
     and_then (ok_or parsed (JsValue ''caml_pasta_fp_of_string'')) (\<lambda>biguint.
       case ff_from_repr F (of_biguint N biguint) of
         Some x \<Rightarrow> Ok x
       | None \<Rightarrow> Err (JsValue ''caml_pasta_fp_of_string'')))"

definition caml_pasta_fp_print_wasm :: "num_bigint \<Rightarrow> 'f ark_field \<Rightarrow> 'f \<Rightarrow> string" where
  "caml_pasta_fp_print_wasm N F x = bu_to_string N (to_biguint N (ff_into_repr F x)) @ [CHR 0x0A]"

definition caml_pasta_fp_compare_wasm :: "'f ark_field \<Rightarrow> 'f \<Rightarrow> 'f \<Rightarrow> i32" where
  "caml_pasta_fp_compare_wasm F x y = (case ff_cmp F x y of Less \<Rightarrow> -1 | Equal \<Rightarrow> 0 | Greater \<Rightarrow> 1)"

definition caml_pasta_fp_equal_wasm :: "'f \<Rightarrow> 'f \<Rightarrow> bool" where
  "caml_pasta_fp_equal_wasm x y = (x = y)"

definition caml_pasta_fp_random_wasm :: "'f \<Rightarrow> 'f" where
  "caml_pasta_fp_random_wasm fp = fp"

definition caml_pasta_fp_rng_wasm :: "'f ark_field \<Rightarrow> i32 \<Rightarrow> 'f" where
  "caml_pasta_fp_rng_wasm F i = (let i = (ucast (i :: u32) :: u64) in ff_rand_seeded F i)"

definition caml_pasta_fp_to_bigint_wasm :: "'f ark_field \<Rightarrow> 'f \<Rightarrow> bigint256" where
  "caml_pasta_fp_to_bigint_wasm F x = ff_into_repr F x"

definition caml_pasta_fp_of_bigint_wasm :: "'f ark_field \<Rightarrow> bigint256 \<Rightarrow> ('f, js_error) outcome" where
  "caml_pasta_fp_of_bigint_wasm F x =
     (case ff_from_repr F x of
        Some x \<Rightarrow> Ok x
      | None \<Rightarrow> Err (JsValue ''caml_pasta_fp_of_bigint''))"

definition caml_pasta_fp_two_adic_root_of_unity_wasm :: "'f ark_field \<Rightarrow> 'f" where
  "caml_pasta_fp_two_adic_root_of_unity_wasm F = ff_two_adic_root_of_unity F"

definition caml_pasta_fp_domain_generator_wasm ::
  "bool \<Rightarrow> 'f ark_field \<Rightarrow> i32 \<Rightarrow> ('f, js_error) outcome" where
  "caml_pasta_fp_domain_generator_wasm overflow_checks F log2_size =
     and_then (shl_one overflow_checks 32 (sint log2_size)) (\<lambda>n.
       case ff_group_gen F n of
         Some x \<Rightarrow> Ok x
       | None \<Rightarrow> Panic ''caml_pasta_fp_domain_generator'')"

text \<open>
  A zeroed buffer whose first bytes are overwritten by the memory of the element.
\<close>

definition caml_pasta_fp_to_bytes_wasm :: "'f ark_field \<Rightarrow> 'f \<Rightarrow> bytes" where
  "caml_pasta_fp_to_bytes_wasm F x =
     (let str = vec_resize size_of_fp 0 [] in ff_memory F x @ drop (length (ff_memory F x)) str)"

definition caml_pasta_fp_of_bytes_wasm :: "'f ark_field \<Rightarrow> bytes \<Rightarrow> ('f, js_error) outcome" where
  "caml_pasta_fp_of_bytes_wasm F x =
     (if length x \<noteq> size_of_fp then Panic ''caml_pasta_fp_of_bytes'' else Ok (ff_cast F x))"

definition caml_pasta_fp_deep_copy_wasm :: "'f \<Rightarrow> 'f" where
  "caml_pasta_fp_deep_copy_wasm x = x"

section \<open>Lemmas on the bindings\<close>

lemma size_of_fp_32 [simp]: "size_of_fp = 32"
  by (simp add: size_of_fp_def)

lemmas fp_byte_defs = caml_pasta_fp_to_bytes_def caml_pasta_fp_of_bytes_def write_to_array_def
  caml_pasta_fp_to_bytes_wasm_def caml_pasta_fp_of_bytes_wasm_def vec_resize_def

lemmas fp_string_defs = caml_pasta_fp_to_string_def caml_pasta_fp_of_string_def bigint_to_string_def
  caml_pasta_fp_to_string_wasm_def caml_pasta_fp_of_string_wasm_def camlfp_try_from_def

lemmas fp_store_defs = caml_pasta_fp_copy_def caml_pasta_fp_mut_add_def caml_pasta_fp_mut_sub_def
  caml_pasta_fp_mut_mul_def caml_pasta_fp_mut_square_def

sublocale ark_field_contract \<subseteq> fp_flat: codec "fp_flatten F" "fp_unflatten F"
  by unfold_locales (use read_write [of _ "[]"] in \<open>simp add: fp_flatten_def fp_unflatten_def\<close>)

sublocale ark_field_contract \<subseteq> fp_abi: codec "fp_into_abi F" "fp_from_abi F"
  by unfold_locales (use read_write [of _ "[]"] in \<open>simp add: fp_into_abi_def fp_from_abi_def\<close>)

lemma fp_of_written_bytes:
  assumes "ark_field_contract F"
  shows "\<exists>y. caml_pasta_fp_of_bytes F (ff_write F x) = Ok y \<and> ff_memory F y = ff_write F x"
proof -
  have "le_value (ff_write F x) < ff_order F"
    using ark_field_contract.value_bound [OF assms, of x]
    by (simp add: ark_field_contract.write_repr [OF assms] ff_value_def bigint_value_def)
  then obtain y where y: "ff_memory F y = ff_write F x"
    using ark_field_contract.memory_surj [OF assms ark_field_contract.length_write [OF assms]] by blast
  then have "ff_cast F (ff_write F x) = y"
    using ark_field_contract.cast_memory [OF assms, of y] by simp
  with y show ?thesis
    by (simp add: caml_pasta_fp_of_bytes_def ark_field_contract.length_write [OF assms])
qed

section \<open>Properties\<close>

text \<open>
  Decimal strings. A printed element is read back by both bindings. For a string that denotes
  \<open>n\<close> the bindings for OCaml give the element \<open>n\<close> if \<open>n\<close> is below the order and an
  error otherwise; the bindings for JavaScript first reduce \<open>n\<close> modulo \<open>2 ^ 256\<close>, so that
  they accept some strings that denote integers above the order.
\<close>

theorem fp_of_string_value:
  assumes "num_bigint_contract N" and "ark_bigint_contract A" and "ark_field_contract F"
    and "bu_parse_bytes N s 10 = Some (Some n)"
  shows "caml_pasta_fp_of_string N A F (caml_pasta_fp_to_string N A F x) = Ok x \<and>
    caml_pasta_fp_of_string_wasm N F (caml_pasta_fp_to_string_wasm N F x) = Ok x \<and>
    (caml_pasta_fp_of_string N A F s = Ok y \<longleftrightarrow> ff_value F y = n) \<and>
    (caml_pasta_fp_of_string_wasm N F s = Ok y \<longleftrightarrow> ff_value F y = n mod 2 ^ 256) \<and>
    (2 ^ 256 \<le> n \<longrightarrow>
      caml_pasta_fp_of_string N A F s = Err (Message ''caml_pasta_fp_of_string: Biguint is too large'')) \<and>
    (ff_order F \<le> n \<and> n < 2 ^ 256 \<longrightarrow>
      caml_pasta_fp_of_string N A F s = Err (Message ''caml_pasta_fp_of_string''))"
proof -
  note facts = num_bigint_facts [OF assms(1)] ark_bigint_facts [OF assms(2)]
    native_conversion_is_partial_wasm_conversion [OF assms(1,2)]
  have printed: "caml_pasta_fp_of_string N A F (caml_pasta_fp_to_string N A F x) = Ok x"
    "caml_pasta_fp_of_string_wasm N F (caml_pasta_fp_to_string_wasm N F x) = Ok x"
    using bigint_value_bound [of "ff_into_repr F x"]
    by (simp_all add: fp_string_defs facts ark_field_contract.from_into_repr [OF assms(3)])
  have wasm: "caml_pasta_fp_of_string_wasm N F s =
      ok_or (ff_from_repr F (of_biguint N n)) (JsValue ''caml_pasta_fp_of_string'')"
    using assms(4) by (simp add: fp_string_defs split: option.split)
  have native: "caml_pasta_fp_of_string N A F s =
      (if n < 2 ^ 256 then ok_or (ff_from_repr F (of_biguint N n)) (Message ''caml_pasta_fp_of_string'')
       else Err (Message ''caml_pasta_fp_of_string: Biguint is too large''))"
    using assms(4) by (cases "ff_from_repr F (of_biguint N n)") (simp_all add: fp_string_defs facts)
  have repr: "ff_from_repr F (of_biguint N n) = Some y \<longleftrightarrow> ff_value F y = n mod 2 ^ 256"
    unfolding ark_field_contract.from_repr_Some_iff [OF assms(3)] ff_value_def facts(2) [symmetric]
    by simp
  have above: "ff_from_repr F (of_biguint N n) = None \<longleftrightarrow> ff_order F \<le> n mod 2 ^ 256"
    by (simp only: ark_field_contract.from_repr_None_iff [OF assms(3)] facts(2))
  have "ff_value F y < 2 ^ 256" by (simp only: ff_value_def bigint_value_bound)
  with printed repr above show ?thesis
    by (auto simp: wasm native)
qed

text \<open>
  A string that denotes \<open>2 ^ 256\<close> is refused by one binding and read as zero by the other.
\<close>

theorem fp_of_string_value_witness:
  "caml_pasta_fp_of_string ref_num_bigint ref_ark_bigint ref_fp (ref_to_string (2 ^ 256)) =
     Err (Message ''caml_pasta_fp_of_string: Biguint is too large'') \<and>
   caml_pasta_fp_of_string_wasm ref_num_bigint ref_fp (ref_to_string (2 ^ 256)) = Ok (ff_zero ref_fp)"
proof -
  have "bu_parse_bytes ref_num_bigint (ref_to_string (2 ^ 256)) 10 = Some (Some (2 ^ 256))"
    using ref_biguint.parse_to_string [of "2 ^ 256"] by (simp add: ref_num_bigint_def)
  from fp_of_string_value [OF ref_biguint.num_bigint_contract_axioms
      ref_limbs.ark_bigint_contract_axioms ref_fp_contract this, of "ff_zero ref_fp" "ff_zero ref_fp"]
  show ?thesis using fp.value_zero by simp
qed

text \<open>
  C22. Byte strings. The bindings for JavaScript copy the memory of an element in both directions,
  so reading what was written gives the element back. The bindings for OCaml write the canonical
  integer but read the bytes as the memory of an element, which holds the Montgomery form: they
  return the element \<open>y\<close> with \<open>y * 2 ^ 256 = x\<close> in the field.
\<close>

theorem fp_bytes_forms:
  assumes "ark_field_contract F"
  shows "caml_pasta_fp_of_bytes_wasm F (caml_pasta_fp_to_bytes_wasm F x) = Ok x \<and>
    (\<exists>bs y. caml_pasta_fp_to_bytes F x = Ok bs \<and> le_value bs = ff_value F x \<and>
      caml_pasta_fp_of_bytes F bs = Ok y \<and> ff_value F y * 2 ^ 256 mod ff_order F = ff_value F x)"
proof -
  obtain y where y: "caml_pasta_fp_of_bytes F (ff_write F x) = Ok y" "ff_memory F y = ff_write F x"
    using fp_of_written_bytes [OF assms] by blast
  have "le_value (ff_write F x) = ff_value F x"
    by (simp add: ark_field_contract.write_repr [OF assms] ff_value_def bigint_value_def)
  with y ark_field_contract.memory_montgomery [OF assms, of y]
    ark_field_contract.cast_memory [OF assms, of x] show ?thesis
    by (simp add: fp_byte_defs ark_field_contract.memory_length [OF assms]
        ark_field_contract.length_write [OF assms])
qed

text \<open>
  The element one does not survive the trip through the bytes of the bindings for OCaml.
\<close>

theorem fp_bytes_forms_witness:
  "\<exists>bs. caml_pasta_fp_to_bytes ref_fp (ff_one ref_fp) = Ok bs \<and>
     caml_pasta_fp_of_bytes ref_fp bs \<noteq> Ok (ff_one ref_fp)"
proof -
  have order: "ff_order ref_fp = fp_modulus"
    by (simp add: ff_order_def ref_fp_def ref_field_def bigint_value_of_nat fp_modulus_def)
  obtain bs y where bs: "caml_pasta_fp_to_bytes ref_fp (ff_one ref_fp) = Ok bs"
      "caml_pasta_fp_of_bytes ref_fp bs = Ok y"
      "ff_value ref_fp y * 2 ^ 256 mod ff_order ref_fp = ff_value ref_fp (ff_one ref_fp)"
    using fp_bytes_forms [OF ref_fp_contract, of "ff_one ref_fp"] by blast
  have "y \<noteq> ff_one ref_fp"
    using bs(3) by (auto simp: order fp.value_one fp_modulus_def)
  with bs show ?thesis by auto
qed

text \<open>
  The operations that write through a pointer. Each changes the element at its first address
  only, reads both operands before it writes, and so is right when the two addresses are the same:
  subtracting an element from itself leaves zero, adding it doubles it, and squaring in place is
  multiplication by itself. Adding and then subtracting another element restores the store.
\<close>

theorem fp_store_operations:
  assumes "ark_field_contract F"
  shows "(z \<noteq> x \<longrightarrow> caml_pasta_fp_mut_add F x y s z = s z \<and> caml_pasta_fp_mut_sub F x y s z = s z \<and>
      caml_pasta_fp_mut_mul F x y s z = s z \<and> caml_pasta_fp_mut_square F x s z = s z \<and>
      caml_pasta_fp_copy x y s z = s z) \<and>
    ff_value F (caml_pasta_fp_mut_add F x y s x) = (ff_value F (s x) + ff_value F (s y)) mod ff_order F \<and>
    caml_pasta_fp_mut_sub F x x s x = ff_zero F \<and>
    caml_pasta_fp_mut_square F x s = caml_pasta_fp_mut_mul F x x s \<and>
    (x \<noteq> y \<longrightarrow> caml_pasta_fp_mut_sub F x y (caml_pasta_fp_mut_add F x y s) = s) \<and>
    caml_pasta_fp_copy x x s = s"
  by (auto simp: fp_store_defs ark_field_contract.value_add [OF assms]
      ark_field_contract.sub_self [OF assms] ark_field_contract.square [OF assms]
      ark_field_contract.add_sub_cancel [OF assms])

theorem fp_store_operations_witness:
  "caml_pasta_fp_mut_sub ref_fp 3 3 (\<lambda>_. ff_one ref_fp) 3 = ff_zero ref_fp"
  using fp_store_operations [OF ref_fp_contract, of 0 3 4 "\<lambda>_. ff_one ref_fp"] by simp

text \<open>
  Division and inversion. The inverse multiplied by the element is one, zero has none; a
  quotient multiplied by the divisor is the dividend, and division by zero panics in both bindings.
\<close>

theorem fp_division:
  assumes "ark_field_contract F"
  shows "caml_pasta_fp_inv F (ff_zero F) = None \<and>
    (caml_pasta_fp_inv F y = Some z \<longrightarrow> caml_pasta_fp_mul F y z = ff_one F) \<and>
    (caml_pasta_fp_div F x y = Ok q \<longrightarrow> caml_pasta_fp_mul F q y = x) \<and>
    ((\<exists>q. caml_pasta_fp_div F x y = Ok q) \<longleftrightarrow> caml_pasta_fp_inv F y \<noteq> None) \<and>
    (\<exists>m. caml_pasta_fp_div F x (ff_zero F) = Panic m) \<and>
    (caml_pasta_fp_div_wasm F x y = Ok q \<longleftrightarrow> caml_pasta_fp_div F x y = Ok q)"
proof -
  have quotient: "ff_mul F (ff_mul F x w) y = x" if "ff_inverse F y = Some w" for w
  proof -
    have "ff_mul F (ff_mul F x w) y = ff_mul F x (ff_mul F y w)"
      by (metis ark_field_contract.mul_assoc ark_field_contract.mul_commute assms)
    with ark_field_contract.inverse [OF assms that] show ?thesis
      by (simp add: ark_field_contract.mul_one [OF assms])
  qed
  then show ?thesis
    using ark_field_contract.inverse [OF assms, of y]
    by (cases "ff_inverse F y")
      (auto simp: caml_pasta_fp_inv_def caml_pasta_fp_mul_def caml_pasta_fp_div_def
        caml_pasta_fp_div_wasm_def ark_field_contract.div [OF assms]
        ark_field_contract.inverse_zero [OF assms])
qed

theorem fp_division_witness:
  "\<exists>m. caml_pasta_fp_div ref_fp (ff_one ref_fp) (ff_zero ref_fp) = Panic m"
  using fp_division [OF ref_fp_contract, of "ff_zero ref_fp" "ff_one ref_fp" "ff_one ref_fp" "ff_one ref_fp"]
  by blast

end
