(* ===== verification/Kimchi_Data.thy ===== *)
theory Kimchi_Data
  imports Crates
begin

text \<open>
  Data of \<^verbatim>\<open>poly_commitment\<close> and \<^verbatim>\<open>kimchi\<close> that the bindings take apart
  or build field by field, and the operations of those crates that the bindings call, as a
  parameter record.
\<close>

record 'g poly_comm =
  pc_elems :: "'g list"

text \<open>
  \<open>SRS\<close>: the generators, the blinding generator and the cache of Lagrange bases by domain size.
\<close>

record 'g srs =
  srs_g :: "'g list"
  srs_h :: 'g
  srs_lagrange_bases :: "nat \<rightharpoonup> 'g poly_comm list"

text \<open>
  Curve and commitment operations: \<open>VariableBaseMSM::multi_scalar_mul\<close>,
  \<open>G::Projective::zero()\<close>, \<open>into_affine\<close>, \<open>b_poly_coefficients\<close> and
  \<open>batch_inversion\<close>.
\<close>

record ('f, 'g, 'p) commitment_ops =
  cc_msm :: "'g list \<Rightarrow> bigint256 list \<Rightarrow> 'p"
  cc_zero :: 'p
  cc_into_affine :: "'p \<Rightarrow> 'g"
  cc_b_poly_coefficients :: "'f list \<Rightarrow> 'f list"
  cc_batch_inversion :: "'f list \<Rightarrow> 'f list"

section \<open>Groups whose elements are multiplied by integers\<close>

primrec times_nat :: "nat \<Rightarrow> 'p :: ab_group_add \<Rightarrow> 'p" where
  "times_nat 0 P = 0"
| "times_nat (Suc n) P = P + times_nat n P"

lemma times_nat_add: "times_nat (m + n) P = times_nat m P + times_nat n P"
  by (induction m) (auto simp: add.assoc)

lemma times_nat_zero [simp]: "times_nat n 0 = 0"
  by (induction n) auto

lemma times_nat_plus: "times_nat n (P + Q) = times_nat n P + times_nat n Q"
  by (induction n) (auto simp: algebra_simps)

lemma times_nat_mult: "times_nat (m * n) P = times_nat m (times_nat n P)"
  by (induction m) (auto simp: times_nat_add)

lemma times_nat_mod:
  assumes "times_nat q P = 0"
  shows "times_nat (n mod q) P = times_nat n P"
proof -
  have "times_nat n P = times_nat (q * (n div q) + n mod q) P" by simp
  also have "\<dots> = times_nat (n div q) (times_nat q P) + times_nat (n mod q) P"
    unfolding times_nat_add times_nat_mult [symmetric] by (simp add: mult.commute)
  finally show ?thesis using assms by simp
qed

text \<open>
  The multiple of a point by a scalar and the commitment to a vector of scalars.
\<close>

definition smul :: "'f ark_field \<Rightarrow> 'f \<Rightarrow> 'p :: ab_group_add \<Rightarrow> 'p" where
  "smul F s P = times_nat (ff_value F s) P"

definition dot :: "'f ark_field \<Rightarrow> ('g \<Rightarrow> 'p :: ab_group_add) \<Rightarrow> 'f list \<Rightarrow> 'g list \<Rightarrow> 'p" where
  "dot F proj ss gs = (\<Sum>(s, g) \<leftarrow> zip ss gs. smul F s (proj g))"

section \<open>What the bindings rely on\<close>

text \<open>
  The points form a group of the order of the scalar field \<open>F\<close> (\<open>proj\<close> is the projective
  form of an affine point), a multi-scalar multiplication is the sum of the multiples, and
  \<open>b_poly_coefficients\<close> has one coefficient per subset of the challenges. The scalars it
  is given may be more or fewer than the points: the shorter list decides.
\<close>

locale commitment_contract = ark_field_contract F
  for F :: "'f ark_field" +
  fixes C :: "('f, 'g, 'p :: ab_group_add) commitment_ops" and proj :: "'g \<Rightarrow> 'p"
  assumes group_order: "times_nat (ff_order F) P = 0"
    and msm: "cc_msm C gs bs = (\<Sum>(g, b) \<leftarrow> zip gs bs. times_nat (bigint_value b) (proj g))"
    and zero: "cc_zero C = 0"
    and affine: "proj (cc_into_affine C P) = P"
    and b_poly_length: "length (cc_b_poly_coefficients C cs) = 2 ^ length cs"
    and batch_inversion_length: "length (cc_batch_inversion C cs) = length cs"
begin

lemma smul_zero [simp]: "smul F (ff_zero F) P = 0"
  by (simp add: smul_def value_zero)

lemma smul_one [simp]: "smul F (ff_one F) P = P"
  by (simp add: smul_def value_one)

lemma smul_0 [simp]: "smul F s (0 :: 'p) = 0"
  by (simp add: smul_def)

lemma smul_plus: "smul F s (P + Q) = smul F s P + smul F s Q" for P Q :: 'p
  by (simp add: smul_def times_nat_plus)

lemma smul_minus: "smul F s (P - Q) = smul F s P - smul F s Q" for P Q :: 'p
  using smul_plus [of s "P - Q" Q] by (simp add: algebra_simps)

lemma smul_mul: "smul F (ff_mul F a b) P = smul F a (smul F b P)" for P :: 'p
  by (simp add: smul_def value_mul times_nat_mod [OF group_order] times_nat_mult)

lemma smul_sub: "smul F (ff_sub F a b) P = smul F a P - smul F b P" for P :: 'p
proof -
  have "times_nat (ff_order F - ff_value F b) P + times_nat (ff_value F b) P = times_nat (ff_order F) P"
    using value_bound [of b] by (simp add: times_nat_add [symmetric])
  then have "times_nat (ff_order F - ff_value F b) P = - times_nat (ff_value F b) P"
    by (simp add: group_order eq_neg_iff_add_eq_0)
  then show ?thesis
    by (simp add: smul_def value_sub times_nat_mod [OF group_order] times_nat_add)
qed

lemma dot_Nil [simp]: "dot F proj [] gs = 0" "dot F proj ss [] = 0"
  by (simp_all add: dot_def)

lemma dot_Cons [simp]: "dot F proj (s # ss) (g # gs) = smul F s (proj g) + dot F proj ss gs"
  by (simp add: dot_def)

lemma dot_append: "length ss = length gs \<Longrightarrow> dot F proj (ss @ ss') (gs @ gs') = dot F proj ss gs + dot F proj ss' gs'"
  by (simp add: dot_def)

lemma dot_zeros [simp]: "dot F proj (replicate n (ff_zero F)) gs = 0"
proof (induction n arbitrary: gs)
  case (Suc n)
  then show ?case by (cases gs) auto
qed simp

lemma dot_scale: "dot F proj (map (\<lambda>c. ff_mul F c r) ss) gs = smul F r (dot F proj ss gs)"
proof (induction ss arbitrary: gs)
  case (Cons s ss)
  then show ?case
    by (cases gs) (auto simp: smul_plus smul_mul mul_commute [of s r])
qed simp

lemma dot_sub: "length as = length bs \<Longrightarrow> dot F proj (map2 (ff_sub F) as bs) gs = dot F proj as gs - dot F proj bs gs"
proof (induction as bs arbitrary: gs rule: list_induct2)
  case (Cons a as b bs)
  then show ?case by (cases gs) (auto simp: smul_sub algebra_simps)
qed simp

lemma msm_into_repr: "cc_msm C gs (map (ff_into_repr F) ss) = dot F proj ss gs"
proof (induction ss arbitrary: gs)
  case (Cons s ss)
  then show ?case by (cases gs) (auto simp: msm smul_def ff_value_def)
qed (simp add: msm)

end

end
