(* ===== verification/Reference_Curve.thy ===== *)
theory Reference_Curve
  imports Reference_Crates Kimchi_Data
begin

text \<open>
  An instance of the contract of the commitment operations: the additive group of \<open>Fp\<close>, which
  has the order of the scalar field, with multi-scalar multiplication as the sum of the multiples.
\<close>

instantiation pasta_fp :: ab_group_add
begin

definition zero_pasta_fp :: pasta_fp where
  "zero_pasta_fp = fp_mk 0"

definition plus_pasta_fp :: "pasta_fp \<Rightarrow> pasta_fp \<Rightarrow> pasta_fp" where
  "plus_pasta_fp x y = fp_mk ((fp_rep x + fp_rep y) mod fp_modulus)"

definition uminus_pasta_fp :: "pasta_fp \<Rightarrow> pasta_fp" where
  "uminus_pasta_fp x = fp_mk ((fp_modulus - fp_rep x) mod fp_modulus)"

definition minus_pasta_fp :: "pasta_fp \<Rightarrow> pasta_fp \<Rightarrow> pasta_fp" where
  "minus_pasta_fp x y = x + (- y)"

lemma fp_modulus_pos: "0 < fp_modulus"
  by (simp add: fp_modulus_def)

lemma fp_rep_less: "fp_rep x < fp_modulus"
  using fp_rep [of x] by simp

lemma fp_rep_mk_mod: "fp_rep (fp_mk (n mod fp_modulus)) = n mod fp_modulus"
  using mod_less_divisor [OF fp_modulus_pos] by (simp add: fp_mk_inverse)

lemma fp_rep_zero: "fp_rep 0 = 0"
  using fp_modulus_pos by (simp add: zero_pasta_fp_def fp_mk_inverse)

lemma fp_rep_plus: "fp_rep (x + y) = (fp_rep x + fp_rep y) mod fp_modulus"
  by (simp add: plus_pasta_fp_def fp_rep_mk_mod)

lemma fp_rep_uminus: "fp_rep (- x) = (fp_modulus - fp_rep x) mod fp_modulus"
  by (simp add: uminus_pasta_fp_def fp_rep_mk_mod)

instance
proof
  fix a b c :: pasta_fp
  show "a + b + c = a + (b + c)"
    by (simp add: fp_rep_inject [symmetric] fp_rep_plus mod_simps add.assoc)
  show "a + b = b + a" by (simp add: plus_pasta_fp_def add.commute)
  show "0 + a = a"
    using fp_rep_less [of a] by (simp add: fp_rep_inject [symmetric] fp_rep_plus fp_rep_zero)
  have "((fp_modulus - fp_rep a) mod fp_modulus + fp_rep a) mod fp_modulus =
      (fp_modulus - fp_rep a + fp_rep a) mod fp_modulus"
    by (rule mod_add_left_eq)
  then show "- a + a = 0"
    using fp_rep_less [of a]
    by (simp add: fp_rep_inject [symmetric] fp_rep_plus fp_rep_uminus fp_rep_zero)
  show "a - b = a + - b" by (rule minus_pasta_fp_def)
qed

end

lemma fp_rep_times_nat: "fp_rep (times_nat n x) = n * fp_rep x mod fp_modulus"
  by (induction n) (simp_all add: fp_rep_zero fp_rep_plus mod_simps)

fun ref_b_poly :: "'f ark_field \<Rightarrow> 'f list \<Rightarrow> 'f list" where
  "ref_b_poly F [] = [ff_one F]"
| "ref_b_poly F (c # cs) = ref_b_poly F cs @ map (ff_mul F c) (ref_b_poly F cs)"

definition ref_curve :: "(pasta_fp, pasta_fp, pasta_fp) commitment_ops" where
  "ref_curve = \<lparr>
     cc_msm = (\<lambda>gs bs. \<Sum>(g, b) \<leftarrow> zip gs bs. times_nat (bigint_value b) g),
     cc_zero = 0,
     cc_into_affine = (\<lambda>P. P),
     cc_b_poly_coefficients = ref_b_poly ref_fp,
     cc_batch_inversion = map (\<lambda>c. case ff_inverse ref_fp c of None \<Rightarrow> c | Some d \<Rightarrow> d) \<rparr>"

lemma length_ref_b_poly [simp]: "length (ref_b_poly F cs) = 2 ^ length cs"
  by (induction cs) auto

lemma ff_order_ref_fp: "ff_order ref_fp = fp_modulus"
  by (simp add: ff_order_def ref_fp_def ref_field_def bigint_value_of_nat fp_modulus_def)

lemma ref_curve_contract: "commitment_contract ref_fp ref_curve (\<lambda>P. P)"
proof (intro commitment_contract.intro commitment_contract_axioms.intro)
  show "ark_field_contract ref_fp" by (rule ref_fp_contract)
  show "times_nat (ff_order ref_fp) P = 0" for P :: pasta_fp
    by (simp add: fp_rep_inject [symmetric] fp_rep_times_nat ff_order_ref_fp fp_rep_zero)
qed (simp_all add: ref_curve_def)

interpretation curve: commitment_contract ref_fp ref_curve "\<lambda>P. P"
  by (rule ref_curve_contract)

end
