(* ===== verification/Urs_Utils.thy ===== *)
theory Urs_Utils
  imports Reference_Curve
begin

text \<open>
  The batched check of polynomial commitment accumulators, \<^verbatim>\<open>urs_utils.rs\<close> (the same file
  in \<^verbatim>\<open>stubs/src\<close> and \<^verbatim>\<open>wasm/src\<close>). The randomness drawn from the operating
  system is the argument \<open>r\<close>.
\<close>

definition next_power :: "'f ark_field \<Rightarrow> 'f \<Rightarrow> 'f list \<Rightarrow> nat \<Rightarrow> 'f list" where
  "next_power F r rs i = rs[i := ff_mul F r (rs ! (i - 1))]"

definition batch_powers :: "'f ark_field \<Rightarrow> 'f \<Rightarrow> nat \<Rightarrow> 'f list" where
  "batch_powers F r k = foldl (next_power F r) (replicate k (ff_one F)) [1..<k]"

definition subtract_at :: "'f ark_field \<Rightarrow> 'f list \<Rightarrow> 'f list \<Rightarrow> nat \<Rightarrow> 'f list" where
  "subtract_at F terms scalars i = scalars[i := ff_sub F (scalars ! i) (terms ! i)]"

fun subtract_terms ::
  "'f ark_field \<Rightarrow> nat \<Rightarrow> 'f list list \<Rightarrow> 'f list \<Rightarrow> ('f list, 'e) outcome" where
  "subtract_terms F n [] scalars = Ok scalars"
| "subtract_terms F n (terms # termss) scalars =
     (if length terms \<noteq> n then Panic ''assertion failed: terms.len() == n''
      else subtract_terms F n termss (foldl (subtract_at F terms) scalars [0..<n]))"

definition batch_dlog_accumulator_check ::
  "'f ark_field \<Rightarrow> ('f, 'g, 'p) commitment_ops \<Rightarrow> 'f \<Rightarrow> 'g srs \<Rightarrow> 'g list \<Rightarrow> 'f list \<Rightarrow> (bool, 'e) outcome" where
  "batch_dlog_accumulator_check F C r urs comms chals =
     (let k = length comms in
      if k = 0 then
        (if length chals \<noteq> 0 then Panic ''assertion failed: chals.len() == 0'' else Ok True)
      else
        let rounds = length chals div k in
        if rounds = 0 then Panic ''attempt to calculate the remainder with a divisor of zero''
        else if length chals mod rounds \<noteq> 0 then Panic ''assertion failed: chals.len() % rounds == 0''
        else
          let rs = batch_powers F r k;
              n = length (srs_g urs);
              points = srs_g urs @ comms;
              scalars = replicate n (ff_zero F) @ rs;
              chal_invs = cc_batch_inversion C chals;
              termss = map (\<lambda>(chunk, r).
                  let chals = map fst chunk;
                      s = cc_b_poly_coefficients C chals
                  in map (\<lambda>c. ff_mul F c r) s)
                (zip (chunks rounds (zip chals chal_invs)) rs)
          in and_then (subtract_terms F n termss scalars) (\<lambda>scalars.
               Ok (cc_msm C points (map (ff_into_repr F) scalars) = cc_zero C)))"

definition batch_dlog_accumulator_generate ::
  "'f ark_field \<Rightarrow> ('f, 'g, 'p) commitment_ops \<Rightarrow> 'g srs \<Rightarrow> nat \<Rightarrow> 'f list \<Rightarrow> ('g list, 'e) outcome" where
  "batch_dlog_accumulator_generate F C urs num_comms chals =
     (let k = num_comms in
      if k = 0 then
        (if length chals \<noteq> 0 then Panic ''assertion failed: chals.len() == 0'' else Ok [])
      else
        let rounds = length chals div k in
        if rounds = 0 then Panic ''attempt to calculate the remainder with a divisor of zero''
        else if length chals mod rounds \<noteq> 0 then Panic ''assertion failed: chals.len() % rounds == 0''
        else
          Ok (map (\<lambda>chals.
            let scalars = map (ff_into_repr F) (cc_b_poly_coefficients C chals);
                points = srs_g urs
            in cc_into_affine C (cc_msm C points scalars)) (chunks rounds chals)))"

section \<open>The loops\<close>

lemma length_next_powers [simp]: "length (foldl (next_power F r) rs is) = length rs"
  by (induction "is" arbitrary: rs) (auto simp: next_power_def)

lemma length_batch_powers [simp]: "length (batch_powers F r k) = k"
  by (simp add: batch_powers_def)

lemma next_powers_prefix:
  "m \<le> k \<Longrightarrow> 1 \<le> m \<Longrightarrow>
   foldl (next_power F r) (replicate k (ff_one F)) [1..<m] =
     map (\<lambda>i. ((ff_mul F r) ^^ i) (ff_one F)) [0..<m] @ replicate (k - m) (ff_one F)"
proof (induction m)
  case (Suc m)
  show ?case
  proof (cases "m = 0")
    case True
    with Suc.prems show ?thesis by (cases k) auto
  next
    case False
    let ?p = "\<lambda>i. ((ff_mul F r) ^^ i) (ff_one F)"
    from False Suc have "foldl (next_power F r) (replicate k (ff_one F)) [1..<Suc m] =
        next_power F r (map ?p [0..<m] @ replicate (k - m) (ff_one F)) m" by simp
    also have "\<dots> = map ?p [0..<m] @ (replicate (k - m) (ff_one F))[0 := ff_mul F r (?p (m - 1))]"
      using False by (simp add: next_power_def list_update_append nth_append)
    also have "ff_mul F r (?p (m - 1)) = ?p m" using False by (cases m) auto
    also have "(replicate (k - m) (ff_one F))[0 := ?p m] = ?p m # replicate (k - Suc m) (ff_one F)"
      using Suc.prems by (cases "k - m") (auto simp: Suc_diff_Suc)
    finally show ?thesis by simp
  qed
qed simp

lemma batch_powers_eq: "batch_powers F r k = map (\<lambda>i. ((ff_mul F r) ^^ i) (ff_one F)) [0..<k]"
proof (cases k)
  case (Suc m)
  then show ?thesis using next_powers_prefix [of k k F r] by (simp add: batch_powers_def)
qed (simp add: batch_powers_def)

lemma subtract_prefix:
  "m \<le> length terms \<Longrightarrow> m \<le> length scalars \<Longrightarrow>
   foldl (subtract_at F terms) scalars [0..<m] =
     map2 (ff_sub F) (take m scalars) (take m terms) @ drop m scalars"
proof (induction m)
  case (Suc m)
  then have "foldl (subtract_at F terms) scalars [0..<Suc m] =
      subtract_at F terms (map2 (ff_sub F) (take m scalars) (take m terms) @ drop m scalars) m" by simp
  also have "\<dots> = map2 (ff_sub F) (take m scalars) (take m terms) @
      (drop m scalars)[0 := ff_sub F (scalars ! m) (terms ! m)]"
    using Suc.prems by (simp add: subtract_at_def list_update_append nth_append)
  also have "(drop m scalars)[0 := ff_sub F (scalars ! m) (terms ! m)] =
      ff_sub F (scalars ! m) (terms ! m) # drop (Suc m) scalars"
    using Suc.prems by (simp add: Cons_nth_drop_Suc [symmetric])
  finally show ?case using Suc.prems by (simp add: take_Suc_conv_app_nth)
qed simp

lemma subtract_terms_step:
  assumes "length terms = n" and "length as = n"
  shows "foldl (subtract_at F terms) (as @ bs) [0..<n] = map2 (ff_sub F) as terms @ bs"
  using subtract_prefix [of n terms "as @ bs" F] assms by simp

section \<open>The accumulated equation\<close>

text \<open>
  The randomised sum the check compares with zero: for the powers of \<open>r\<close>, the commitments and
  the groups of challenges, the multiples of the difference between each commitment and the
  commitment to the polynomial of its challenges.
\<close>

definition accumulated_difference ::
  "'f ark_field \<Rightarrow> ('f, 'g, 'p :: ab_group_add) commitment_ops \<Rightarrow> ('g \<Rightarrow> 'p) \<Rightarrow> 'f \<Rightarrow> 'g list \<Rightarrow> 'g list \<Rightarrow> 'f list list \<Rightarrow> 'p" where
  "accumulated_difference F C proj r g comms chalss =
     (\<Sum>(p, comm, chals) \<leftarrow> zip (map (\<lambda>i. ((ff_mul F r) ^^ i) (ff_one F)) [0..<length comms]) (zip comms chalss).
        smul F p (proj comm - dot F proj (cc_b_poly_coefficients C chals) g))"

context commitment_contract
begin

lemma subtract_terms_dot:
  "\<forall>terms \<in> set termss. length terms = n \<Longrightarrow> length as = n \<Longrightarrow>
   \<exists>as'. subtract_terms F n termss (as @ bs) = (Ok (as' @ bs) :: ('f list, 'e) outcome) \<and> length as' = n \<and>
     (\<forall>gs. dot F proj as' gs = dot F proj as gs - (\<Sum>terms \<leftarrow> termss. dot F proj terms gs))"
proof (induction termss arbitrary: as)
  case (Cons terms termss)
  let ?as = "map2 (ff_sub F) as terms"
  have len: "length ?as = n" using Cons.prems by simp
  obtain as' where as': "subtract_terms F n termss (?as @ bs) = (Ok (as' @ bs) :: ('f list, 'e) outcome)" "length as' = n"
      "\<forall>gs. dot F proj as' gs = dot F proj ?as gs - (\<Sum>terms \<leftarrow> termss. dot F proj terms gs)"
    using Cons.IH [OF _ len] Cons.prems by auto
  have "dot F proj ?as gs = dot F proj as gs - dot F proj terms gs" for gs
    using Cons.prems by (intro dot_sub) simp
  with as' Cons.prems show ?case by (simp add: subtract_terms_step diff_diff_add)
qed simp

lemma subtract_terms_panics:
  "\<exists>terms \<in> set termss. length terms \<noteq> n \<Longrightarrow> \<exists>m. subtract_terms F n termss scalars = (Panic m :: ('f list, 'e) outcome)"
  by (induction termss arbitrary: scalars) auto

lemma sum_of_differences:
  "length rs = length comms \<Longrightarrow> length comms \<le> length chalss \<Longrightarrow>
   (\<Sum>(p, comm, chals) \<leftarrow> zip rs (zip comms chalss). smul F p (proj comm - h chals)) =
     dot F proj rs comms - (\<Sum>(chals, p) \<leftarrow> zip chalss rs. smul F p (h chals))"
proof (induction rs comms arbitrary: chalss rule: list_induct2)
  case (Cons p rs comm comms)
  then obtain chals chalss' where "chalss = chals # chalss'" by (cases chalss) auto
  with Cons show ?case by (simp add: smul_minus algebra_simps)
qed simp

lemma accumulated_sum:
  assumes "length comms \<le> length chalss"
  shows "accumulated_difference F C proj r g comms chalss =
    dot F proj (batch_powers F r (length comms)) comms -
      (\<Sum>(chals, p) \<leftarrow> zip chalss (batch_powers F r (length comms)).
         dot F proj (map (\<lambda>c. ff_mul F c p) (cc_b_poly_coefficients C chals)) g)"
  unfolding accumulated_difference_def batch_powers_eq [symmetric] dot_scale
  by (rule sum_of_differences) (use assms in simp_all)

lemma chunk_shapes:
  assumes "rounds \<noteq> 0" and "length chals mod rounds = 0" and "rounds = length chals div k"
  shows "k \<le> length (chunks rounds chals)" "\<forall>c \<in> set (chunks rounds chals). length c = rounds"
proof -
  have len: "length chals = (length chals div rounds) * rounds" using assms(2) by auto
  then show "\<forall>c \<in> set (chunks rounds chals). length c = rounds"
    using length_chunks_mult [OF assms(1) len] by simp
  have "k * rounds \<le> length chals" using assms(3) by simp
  then have "k \<le> length chals div rounds" using assms(1) by (simp add: less_eq_div_iff_mult_less_eq)
  then show "k \<le> length (chunks rounds chals)"
    using length_chunks_mult [OF assms(1) len] by simp
qed

lemma check_step:
  assumes "comms \<noteq> []" and "rounds = length chals div length comms" and "rounds \<noteq> 0"
    and "length chals mod rounds = 0"
  shows "batch_dlog_accumulator_check F C r urs comms chals =
    and_then (subtract_terms F (length (srs_g urs))
        (map (\<lambda>(chals, p). map (\<lambda>c. ff_mul F c p) (cc_b_poly_coefficients C chals))
           (zip (chunks rounds chals) (batch_powers F r (length comms))))
        (replicate (length (srs_g urs)) (ff_zero F) @ batch_powers F r (length comms)))
      (\<lambda>scalars. Ok (dot F proj scalars (srs_g urs @ comms) = 0))"
proof -
  have "map (\<lambda>(chunk, r). map (\<lambda>c. ff_mul F c r) (cc_b_poly_coefficients C (map fst chunk)))
      (zip (chunks rounds (zip chals (cc_batch_inversion C chals))) rs) =
    map (\<lambda>(chals, p). map (\<lambda>c. ff_mul F c p) (cc_b_poly_coefficients C chals))
      (zip (map (map fst) (chunks rounds (zip chals (cc_batch_inversion C chals)))) rs)" for rs
    by (simp add: zip_map1 case_prod_beta comp_def)
  then show ?thesis
    using assms by (simp add: batch_dlog_accumulator_check_def Let_def chunks_zip_fst
        batch_inversion_length msm_into_repr zero case_prod_beta)
qed

lemma check_equation:
  assumes "comms \<noteq> []" and "rounds = length chals div length comms" and "rounds \<noteq> 0"
    and "length chals mod rounds = 0" and "length (srs_g urs) = 2 ^ rounds"
  shows "batch_dlog_accumulator_check F C r urs comms chals =
    (Ok (accumulated_difference F C proj r (srs_g urs) comms (chunks rounds chals) = 0) :: (bool, 'e) outcome)"
proof -
  let ?g = "srs_g urs" and ?rs = "batch_powers F r (length comms)"
  let ?termss = "map (\<lambda>(chals, p). map (\<lambda>c. ff_mul F c p) (cc_b_poly_coefficients C chals))
           (zip (chunks rounds chals) ?rs)"
  note shapes = chunk_shapes [OF assms(3,4,2)]
  have lens: "\<forall>terms \<in> set ?termss. length terms = length ?g"
    using shapes(2) assms(5) by (auto simp: b_poly_length dest!: set_zip_leftD)
  obtain as' where as': "subtract_terms F (length ?g) ?termss (replicate (length ?g) (ff_zero F) @ ?rs) =
        (Ok (as' @ ?rs) :: ('f list, 'e) outcome)" "length as' = length ?g"
      "dot F proj as' ?g = dot F proj (replicate (length ?g) (ff_zero F)) ?g -
        (\<Sum>terms \<leftarrow> ?termss. dot F proj terms ?g)"
    using subtract_terms_dot [OF lens, of "replicate (length ?g) (ff_zero F)" ?rs] by auto
  have "dot F proj (as' @ ?rs) (?g @ comms) =
      accumulated_difference F C proj r ?g comms (chunks rounds chals)"
    unfolding accumulated_sum [OF shapes(1)]
    by (simp add: dot_append [OF as'(2)] as'(3) comp_def case_prod_unfold)
  with as'(1) show ?thesis
    unfolding check_step [OF assms(1-4)] by simp
qed

lemma check_wrong_size:
  assumes "comms \<noteq> []" and "rounds = length chals div length comms" and "rounds \<noteq> 0"
    and "length chals mod rounds = 0" and "length (srs_g urs) \<noteq> 2 ^ rounds"
  shows "\<exists>m. batch_dlog_accumulator_check F C r urs comms chals = (Panic m :: (bool, 'e) outcome)"
proof -
  let ?rs = "batch_powers F r (length comms)"
  let ?termss = "map (\<lambda>(chals, p). map (\<lambda>c. ff_mul F c p) (cc_b_poly_coefficients C chals))
           (zip (chunks rounds chals) ?rs)"
  note shapes = chunk_shapes [OF assms(3,4,2)]
  obtain c cs p ps where "chunks rounds chals = c # cs" "?rs = p # ps"
    using shapes(1) assms(1) by (metis length_0_conv length_batch_powers list.exhaust le_zero_eq)
  then have "length (hd ?termss) \<noteq> length (srs_g urs)" "?termss \<noteq> []"
    using shapes(2) assms(5) by (auto simp: b_poly_length)
  then have "\<exists>terms \<in> set ?termss. length terms \<noteq> length (srs_g urs)"
    by (metis list.set_sel(1))
  then show ?thesis
    using subtract_terms_panics [of ?termss "length (srs_g urs)"]
    unfolding check_step [OF assms(1-4)] by (metis and_then.simps(3))
qed

end

lemma generate_step:
  assumes "k \<noteq> 0" and "rounds = length chals div k" and "rounds \<noteq> 0" and "length chals mod rounds = 0"
  shows "batch_dlog_accumulator_generate F C urs k chals =
    Ok (map (\<lambda>chals. cc_into_affine C (cc_msm C (srs_g urs)
      (map (ff_into_repr F) (cc_b_poly_coefficients C chals)))) (chunks rounds chals))"
  using assms by (simp add: batch_dlog_accumulator_generate_def Let_def)

lemma sum_list_zeros: "(\<And>x. x \<in> set xs \<Longrightarrow> f x = 0) \<Longrightarrow> (\<Sum>x \<leftarrow> xs. f x) = (0 :: 'a :: monoid_add)"
  by (induction xs) auto

lemma accumulated_difference_generated:
  assumes "commitment_contract F C proj"
  shows "accumulated_difference F C proj r g
    (map (\<lambda>chals. cc_into_affine C (cc_msm C g (map (ff_into_repr F) (cc_b_poly_coefficients C chals)))) chalss)
    chalss = 0"
  unfolding accumulated_difference_def
proof (rule sum_list_zeros, clarify)
  fix p comm chals
  let ?h = "\<lambda>chals. cc_into_affine C (cc_msm C g (map (ff_into_repr F) (cc_b_poly_coefficients C chals)))"
  assume "(p, comm, chals) \<in> set (zip (map (\<lambda>i. (ff_mul F r ^^ i) (ff_one F)) [0..<length (map ?h chalss)])
      (zip (map ?h chalss) chalss))"
  then have "(comm, chals) \<in> set (zip (map ?h chalss) chalss)" by (rule set_zip_rightD)
  then have "comm = ?h chals" by (auto simp: zip_map1 set_zip)
  then show "smul F p (proj comm - dot F proj (cc_b_poly_coefficients C chals) g) = 0"
    by (simp add: commitment_contract.affine [OF assms] commitment_contract.msm_into_repr [OF assms]
        commitment_contract.smul_0 [OF assms])
qed

lemma div_div_exact:
  fixes l k :: nat
  assumes "l mod (l div k) = 0" and "l div k \<noteq> 0"
  shows "l div (l div k) = k \<longleftrightarrow> l mod k = 0"
proof
  assume "l div (l div k) = k"
  with assms(1) have "k * (l div k) = l" by (metis add.right_neutral div_mult_mod_eq)
  then show "l mod k = 0" by (metis mod_mult_self1_is_0)
next
  assume "l mod k = 0"
  then have "k * (l div k) = l" by auto
  then show "l div (l div k) = k" using assms(2) by (metis nonzero_mult_div_cancel_right)
qed

section \<open>Properties\<close>

text \<open>
  C2. What the batched check decides. With \<open>rounds\<close> challenges per commitment and
  \<open>2 ^ rounds\<close> generators it returns whether the sum of the differences between the
  commitments and the commitments to the challenge polynomials, weighted with the powers of the
  random \<open>r\<close>, is zero; with another number of generators it panics.
\<close>

theorem batch_check_equation:
  assumes "commitment_contract F C proj" and "comms \<noteq> []"
    and "rounds = length chals div length comms" and "rounds \<noteq> 0" and "length chals mod rounds = 0"
  shows "if length (srs_g urs) = 2 ^ rounds
    then batch_dlog_accumulator_check F C r urs comms chals =
      Ok (accumulated_difference F C proj r (srs_g urs) comms (chunks rounds chals) = 0)
    else \<exists>m. batch_dlog_accumulator_check F C r urs comms chals = Panic m"
  by (simp add: commitment_contract.check_equation [OF assms] commitment_contract.check_wrong_size [OF assms])

theorem batch_check_equation_witness:
  "\<exists>m. batch_dlog_accumulator_check ref_fp ref_curve (ff_one ref_fp)
     \<lparr>srs_g = [], srs_h = 0, srs_lagrange_bases = Map.empty\<rparr> [0] [ff_one ref_fp] =
       (Panic m :: (bool, ocaml_error) outcome)"
  using batch_check_equation [OF ref_curve_contract, of "[0]" 1 "[ff_one ref_fp]"
      "\<lparr>srs_g = [], srs_h = 0, srs_lagrange_bases = Map.empty\<rparr>" "ff_one ref_fp"]
  by simp

text \<open>
  C1. Completeness. For \<open>k\<close> commitments and \<open>k * rounds\<close> challenges, and generators
  that number \<open>2 ^ rounds\<close>, generation returns \<open>k\<close> commitments and the check accepts
  them, whatever randomness it draws.
\<close>

theorem batch_check_accepts_generated:
  assumes "commitment_contract F C proj" and "k \<noteq> 0" and "rounds \<noteq> 0"
    and "length chals = k * rounds" and "length (srs_g urs) = 2 ^ rounds"
  shows "\<exists>comms. batch_dlog_accumulator_generate F C urs k chals = (Ok comms :: ('g list, 'e) outcome) \<and>
    length comms = k \<and>
    (\<forall>r. batch_dlog_accumulator_check F C r urs comms chals = (Ok True :: (bool, 'e) outcome))"
proof -
  let ?comms = "map (\<lambda>chals. cc_into_affine C (cc_msm C (srs_g urs)
      (map (ff_into_repr F) (cc_b_poly_coefficients C chals)))) (chunks rounds chals)"
  have len: "length ?comms = k"
    using length_chunks_mult [OF assms(3,4)] by simp
  have rounds: "rounds = length chals div k" "length chals mod rounds = 0"
    using assms(2,4) by auto
  have "batch_dlog_accumulator_generate F C urs k chals = (Ok ?comms :: ('g list, 'e) outcome)"
    by (rule generate_step [OF assms(2) rounds(1) assms(3) rounds(2)])
  moreover have "batch_dlog_accumulator_check F C r urs ?comms chals = (Ok True :: (bool, 'e) outcome)" for r
    by (subst commitment_contract.check_equation [OF assms(1), of ?comms rounds])
      (use len assms(2,3,5) rounds accumulated_difference_generated [OF assms(1)] in auto)
  ultimately show ?thesis using len by blast
qed

theorem batch_check_accepts_generated_witness:
  "\<exists>comms. batch_dlog_accumulator_generate ref_fp ref_curve
       \<lparr>srs_g = [ff_one ref_fp, ff_zero ref_fp], srs_h = 0, srs_lagrange_bases = Map.empty\<rparr> 2
       [ff_one ref_fp, ff_zero ref_fp] = (Ok comms :: (pasta_fp list, ocaml_error) outcome) \<and> length comms = 2"
  using batch_check_accepts_generated [OF ref_curve_contract, of 2 1 "[ff_one ref_fp, ff_zero ref_fp]"
      "\<lparr>srs_g = [ff_one ref_fp, ff_zero ref_fp], srs_h = 0, srs_lagrange_bases = Map.empty\<rparr>"]
  by auto

text \<open>
  C3. Soundness for one commitment. Checking a single commitment accepts exactly the commitment to
  the polynomial of the challenges, whatever randomness is drawn.
\<close>

theorem batch_check_single_exact:
  assumes "commitment_contract F C proj" and "chals \<noteq> []" and "length (srs_g urs) = 2 ^ length chals"
  shows "batch_dlog_accumulator_check F C r urs [comm] chals =
    Ok (proj comm = dot F proj (cc_b_poly_coefficients C chals) (srs_g urs))"
proof -
  have "chunks (length chals) chals = [chals]"
    using chunks_append [of "length chals" chals "[]"] assms(2) by simp
  then show ?thesis
    using assms(2,3) by (simp add: commitment_contract.check_equation [OF assms(1), of _ "length chals"]
        accumulated_difference_def commitment_contract.smul_one [OF assms(1)])
qed

theorem batch_check_single_exact_witness:
  "batch_dlog_accumulator_check ref_fp ref_curve (ff_one ref_fp)
     \<lparr>srs_g = [0, 0], srs_h = 0, srs_lagrange_bases = Map.empty\<rparr> [0] [ff_one ref_fp] =
     (Ok True :: (bool, ocaml_error) outcome)"
  using batch_check_single_exact [OF ref_curve_contract, of "[ff_one ref_fp]"
      "\<lparr>srs_g = [0, 0], srs_h = 0, srs_lagrange_bases = Map.empty\<rparr>" "ff_one ref_fp" 0]
  by (simp add: dot_def ref_curve_def curve.smul_0)

text \<open>
  C4. The guard on the number of challenges tests divisibility by the number of rounds instead of
  the number of commitments. When no panic occurs, generation returns one commitment per group of
  \<open>rounds\<close> challenges, at least \<open>k\<close> and exactly \<open>k\<close> only when \<open>k\<close>
  divides the number of challenges.
\<close>

theorem batch_generate_count:
  assumes "k \<noteq> 0"
  shows "(case batch_dlog_accumulator_generate F C urs k chals of
      Ok comms \<Rightarrow> length comms = length chals div (length chals div k) \<and> k \<le> length comms \<and>
        (length comms = k \<longleftrightarrow> length chals mod k = 0)
    | Err e \<Rightarrow> False
    | Panic m \<Rightarrow> length chals < k \<or> length chals mod (length chals div k) \<noteq> 0)"
proof (cases "length chals div k = 0 \<or> length chals mod (length chals div k) \<noteq> 0")
  case True
  then show ?thesis using assms
    by (auto simp: batch_dlog_accumulator_generate_def Let_def div_eq_0_iff)
next
  case False
  let ?rounds = "length chals div k"
  have len: "length chals = (length chals div ?rounds) * ?rounds" using False by auto
  have count: "length (chunks ?rounds chals) = length chals div ?rounds"
    by (rule conjunct1 [OF length_chunks_mult [OF _ len]]) (use False in simp)
  have "k * ?rounds \<le> length chals" by simp
  then have le: "k \<le> length chals div ?rounds"
    using False by (simp add: less_eq_div_iff_mult_less_eq)
  have exact: "length chals div ?rounds = k \<longleftrightarrow> length chals mod k = 0"
    by (rule div_div_exact) (use False in auto)
  have gen: "batch_dlog_accumulator_generate F C urs k chals =
    Ok (map (\<lambda>chals. cc_into_affine C (cc_msm C (srs_g urs)
      (map (ff_into_repr F) (cc_b_poly_coefficients C chals)))) (chunks ?rounds chals))"
    by (rule generate_step [OF assms refl]) (use False in auto)
  show ?thesis
    unfolding gen outcome.case length_map count using le exact by blast
qed

theorem batch_generate_count_witness:
  "case batch_dlog_accumulator_generate ref_fp ref_curve
      \<lparr>srs_g = [], srs_h = 0, srs_lagrange_bases = Map.empty\<rparr> 2
      [ff_one ref_fp, ff_one ref_fp, ff_one ref_fp] :: (pasta_fp list, ocaml_error) outcome of
     Ok comms \<Rightarrow> length comms = 3 | Err e \<Rightarrow> False | Panic m \<Rightarrow> False"
proof -
  have "case batch_dlog_accumulator_generate ref_fp ref_curve
      \<lparr>srs_g = [], srs_h = 0, srs_lagrange_bases = Map.empty\<rparr> 2
      [ff_one ref_fp, ff_one ref_fp, ff_one ref_fp] :: (pasta_fp list, ocaml_error) outcome of
     Ok comms \<Rightarrow> length comms = length [ff_one ref_fp, ff_one ref_fp, ff_one ref_fp] div
         (length [ff_one ref_fp, ff_one ref_fp, ff_one ref_fp] div 2) \<and> 2 \<le> length comms \<and>
       (length comms = 2 \<longleftrightarrow> length [ff_one ref_fp, ff_one ref_fp, ff_one ref_fp] mod 2 = 0)
   | Err e \<Rightarrow> False
   | Panic m \<Rightarrow> length [ff_one ref_fp, ff_one ref_fp, ff_one ref_fp] < 2 \<or>
       length [ff_one ref_fp, ff_one ref_fp, ff_one ref_fp] mod
         (length [ff_one ref_fp, ff_one ref_fp, ff_one ref_fp] div 2) \<noteq> 0"
    by (rule batch_generate_count) simp
  then show ?thesis by (simp split: outcome.splits)
qed

end
