(* ===== verification/Field_Vector.thy ===== *)
theory Field_Vector
  imports Crates
begin

text \<open>
  Vectors that live on the Rust side: the interface \<open>growable_vector\<close> that the field and gate
  vectors offer to the host language, and the field vectors of
  \<^verbatim>\<open>stubs/src/field_vector.rs\<close> (the macro \<open>impl_vector_old\<close>, expanded for
  \<open>Fp\<close> and \<open>Fq\<close>). A shared handle to a vector is modelled by passing the contents.
\<close>

section \<open>The interface of a vector\<close>

text \<open>
  \<open>cap\<close> bounds the number of elements: an index is a machine integer of the host language.
\<close>

locale growable_vector =
  fixes cap :: nat and create :: 'v and push :: "'v \<Rightarrow> 'a \<Rightarrow> 'v" and get :: "'v \<Rightarrow> nat \<Rightarrow> 'a option"
    and size_of :: "'v \<Rightarrow> nat"
  assumes size_create: "size_of create = 0"
    and size_push: "size_of v < cap \<Longrightarrow> size_of (push v x) = Suc (size_of v)"
    and get_push: "size_of v < cap \<Longrightarrow> i < cap \<Longrightarrow> get (push v x) i = (if i = size_of v then Some x else get v i)"
    and get_beyond: "i < cap \<Longrightarrow> size_of v \<le> i \<Longrightarrow> get v i = None"
begin

definition build :: "'a list \<Rightarrow> 'v" where
  "build xs = foldl push create xs"

lemma size_build: "length xs \<le> cap \<Longrightarrow> size_of (build xs) = length xs"
  unfolding build_def by (induction xs rule: rev_induct) (auto simp: size_create size_push)

lemma get_build: "length xs \<le> cap \<Longrightarrow> i < cap \<Longrightarrow> get (build xs) i = vec_get xs i"
proof (induction xs rule: rev_induct)
  case Nil
  then show ?case by (simp add: build_def get_beyond size_create vec_get_def)
next
  case (snoc x xs)
  have "get (build (xs @ [x])) i = (if i = length xs then Some x else get (build xs) i)"
    using snoc.prems size_build [of xs] get_push [of "build xs" i x] by (simp add: build_def)
  with snoc show ?case by (simp add: vec_get_def nth_append)
qed

end

section \<open>Field vectors\<close>

definition caml_vector_create :: "'f list" where
  "caml_vector_create = []"

definition caml_vector_length :: "'f list \<Rightarrow> isize" where
  "caml_vector_length v = word_of_nat (length v)"

definition caml_vector_emplace_back :: "'f list \<Rightarrow> 'f \<Rightarrow> 'f list" where
  "caml_vector_emplace_back v x = v @ [x]"

definition caml_vector_get :: "'f list \<Rightarrow> isize \<Rightarrow> ('f, ocaml_error) outcome" where
  "caml_vector_get v i =
     (case vec_get v (unat i) of
        Some x \<Rightarrow> Ok x
      | None \<Rightarrow> Err (InvalidArgument ''vector_get''))"

text \<open>
  The result carries the vector after the assignment.
\<close>

definition caml_vector_set :: "'f list \<Rightarrow> isize \<Rightarrow> 'f \<Rightarrow> ('f list, ocaml_error) outcome" where
  "caml_vector_set v i x =
     (case vec_get v (unat i) of
        Some _ \<Rightarrow> Ok (v[unat i := x])
      | None \<Rightarrow> Err (InvalidArgument ''vector_set''))"

lemma unat_isize_of_nat: "i < 2 ^ 64 \<Longrightarrow> unat (word_of_nat i :: isize) = i"
  by (simp add: unat_of_nat)

fun ok_value :: "('a, 'e) outcome \<Rightarrow> 'a option" where
  "ok_value (Ok x) = Some x"
| "ok_value _ = None"

text \<open>
  The bound is \<open>isize::MAX\<close>, the largest length of a vector.
\<close>

interpretation field_vector: growable_vector "2 ^ 63" caml_vector_create caml_vector_emplace_back
  "\<lambda>v i. ok_value (caml_vector_get v (word_of_nat i))" length
  by unfold_locales
    (auto simp: caml_vector_create_def caml_vector_emplace_back_def caml_vector_get_def
      unat_isize_of_nat vec_get_def nth_append)

section \<open>Properties\<close>

text \<open>
  Field vectors. A vector built by appending the elements of a list has the length of the list
  and gives its elements back by index; an assignment changes the element at its index only; an
  index that is negative or not below the length is an error, never a panic, and leaves no trace.
\<close>

theorem field_vector_access:
  assumes "length xs < 2 ^ 63"
  shows "(let v = foldl caml_vector_emplace_back caml_vector_create xs in
      v = xs \<and> sint (caml_vector_length v) = int (length xs) \<and>
      (if 0 \<le> sint i \<and> sint i < int (length xs)
       then caml_vector_get v i = Ok (xs ! nat (sint i)) \<and>
         (\<exists>w. caml_vector_set v i x = Ok w \<and> caml_vector_get w i = Ok x \<and>
           (\<forall>j. j \<noteq> i \<longrightarrow> caml_vector_get w j = caml_vector_get v j))
       else caml_vector_get v i = Err (InvalidArgument ''vector_get'') \<and>
         caml_vector_set v i x = Err (InvalidArgument ''vector_set'')))"
proof -
  have built: "foldl caml_vector_emplace_back caml_vector_create xs = xs"
    by (induction xs rule: rev_induct) (auto simp: caml_vector_create_def caml_vector_emplace_back_def)
  have "0 \<le> sint i \<and> sint i < int (length xs) \<longleftrightarrow> unat i < length xs"
    using assms negative_isize [of i] nat_sint_isize [of i] by (cases "0 \<le> sint i") auto
  with assms show ?thesis
    by (auto simp: built caml_vector_length_def caml_vector_get_def caml_vector_set_def vec_get_def
        sint_isize_of_nat nat_sint_isize nth_list_update word_unat_eq_iff [symmetric])
qed

theorem field_vector_access_witness:
  "caml_vector_get (foldl caml_vector_emplace_back caml_vector_create [7 :: nat, 8]) (- 1) =
     Err (InvalidArgument ''vector_get'')"
  using field_vector_access [of "[7 :: nat, 8]" "- 1" 0] by (auto simp: Let_def)

end
