(* ===== verification/Gate_Vector.thy ===== *)
theory Gate_Vector
  imports Field_Vector
begin

text \<open>
  Gate vectors: \<^verbatim>\<open>stubs/src/gate_vector.rs\<close> (modules \<open>fp\<close> and \<open>fq\<close>) and
  \<^verbatim>\<open>wasm/src/gate_vector.rs\<close> (one macro, suffix \<open>_wasm\<close>). The gates of
  \<^verbatim>\<open>kimchi\<close> are records; the conversions of the OCaml view of a gate, the digest and the
  JSON text of a circuit belong to \<^verbatim>\<open>kimchi\<close> and are parameters.
\<close>

section \<open>Gates\<close>

record wire =
  wire_row :: nat
  wire_col :: nat

text \<open>
  The array \<open>[Wire; PERMUTS]\<close> of seven wires.
\<close>

datatype gate_wires = GateWires wire wire wire wire wire wire wire

fun wires_list :: "gate_wires \<Rightarrow> wire list" where
  "wires_list (GateWires w0 w1 w2 w3 w4 w5 w6) = [w0, w1, w2, w3, w4, w5, w6]"

fun wires_of_list :: "wire list \<Rightarrow> gate_wires option" where
  "wires_of_list [w0, w1, w2, w3, w4, w5, w6] = Some (GateWires w0 w1 w2 w3 w4 w5 w6)"
| "wires_of_list _ = None"

record ('t, 'f) circuit_gate =
  cg_typ :: 't
  cg_wires :: gate_wires
  cg_coeffs :: "'f list"

text \<open>
  \<open>gates[row].wires[col] = h\<close>, which panics when one of the indices is out of bounds.
\<close>

definition assign_wire ::
  "('t, 'f) circuit_gate list \<Rightarrow> nat \<Rightarrow> nat \<Rightarrow> wire \<Rightarrow> (('t, 'f) circuit_gate list, 'e) outcome" where
  "assign_wire v row col h =
     and_then (vec_index v row) (\<lambda>g.
     and_then (vec_index (wires_list (cg_wires g)) col) (\<lambda>_.
     and_then (expect (wires_of_list ((wires_list (cg_wires g))[col := h])) ''index out of bounds'') (\<lambda>ws.
       Ok (v[row := g\<lparr>cg_wires := ws\<rparr>]))))"

section \<open>The bindings for OCaml\<close>

record caml_wire =
  cw_row :: isize
  cw_col :: isize

definition caml_pasta_fp_plonk_gate_vector_create :: "('t, 'f) circuit_gate list" where
  "caml_pasta_fp_plonk_gate_vector_create = []"

definition caml_pasta_fp_plonk_gate_vector_add ::
  "('cg \<Rightarrow> ('t, 'f) circuit_gate) \<Rightarrow> ('t, 'f) circuit_gate list \<Rightarrow> 'cg \<Rightarrow> ('t, 'f) circuit_gate list" where
  "caml_pasta_fp_plonk_gate_vector_add gate_into v gate = v @ [gate_into gate]"

definition caml_pasta_fp_plonk_gate_vector_get ::
  "(('t, 'f) circuit_gate \<Rightarrow> 'cg) \<Rightarrow> ('t, 'f) circuit_gate list \<Rightarrow> isize \<Rightarrow> ('cg, ocaml_error) outcome" where
  "caml_pasta_fp_plonk_gate_vector_get caml_from v i = map_ok caml_from (vec_index v (unat i))"

definition caml_pasta_fp_plonk_gate_vector_len :: "('t, 'f) circuit_gate list \<Rightarrow> nat" where
  "caml_pasta_fp_plonk_gate_vector_len v = length v"

definition caml_pasta_fp_plonk_gate_vector_wrap ::
  "(caml_wire \<Rightarrow> wire) \<Rightarrow> ('t, 'f) circuit_gate list \<Rightarrow> caml_wire \<Rightarrow> caml_wire \<Rightarrow>
    (('t, 'f) circuit_gate list, ocaml_error) outcome" where
  "caml_pasta_fp_plonk_gate_vector_wrap wire_into v t h =
     assign_wire v (unat (cw_row t)) (unat (cw_col t)) (wire_into h)"

definition caml_pasta_fp_plonk_gate_vector_digest ::
  "(nat \<Rightarrow> ('t, 'f) circuit_gate list \<Rightarrow> bytes) \<Rightarrow> isize \<Rightarrow> ('t, 'f) circuit_gate list \<Rightarrow> (bytes, ocaml_error) outcome" where
  "caml_pasta_fp_plonk_gate_vector_digest circuit_digest public_input_size v =
     (if sint public_input_size < 0 then Panic ''called Result::unwrap() on an Err value''
      else Ok (circuit_digest (nat (sint public_input_size)) v))"

definition caml_pasta_fp_plonk_circuit_serialize ::
  "(nat \<Rightarrow> ('t, 'f) circuit_gate list \<Rightarrow> string option) \<Rightarrow> isize \<Rightarrow> ('t, 'f) circuit_gate list \<Rightarrow> (string, ocaml_error) outcome" where
  "caml_pasta_fp_plonk_circuit_serialize circuit_json public_input_size v =
     (if sint public_input_size < 0 then Panic ''called Result::unwrap() on an Err value''
      else expect (circuit_json (nat (sint public_input_size)) v) ''couldn't serialize constraints'')"

definition caml_pasta_fq_plonk_gate_vector_create :: "('t, 'f) circuit_gate list" where
  "caml_pasta_fq_plonk_gate_vector_create = []"

definition caml_pasta_fq_plonk_gate_vector_add ::
  "('cg \<Rightarrow> ('t, 'f) circuit_gate) \<Rightarrow> ('t, 'f) circuit_gate list \<Rightarrow> 'cg \<Rightarrow> ('t, 'f) circuit_gate list" where
  "caml_pasta_fq_plonk_gate_vector_add gate_into v gate = v @ [gate_into gate]"

definition caml_pasta_fq_plonk_gate_vector_get ::
  "(('t, 'f) circuit_gate \<Rightarrow> 'cg) \<Rightarrow> ('t, 'f) circuit_gate list \<Rightarrow> isize \<Rightarrow> ('cg, ocaml_error) outcome" where
  "caml_pasta_fq_plonk_gate_vector_get caml_from v i = map_ok caml_from (vec_index v (unat i))"

definition caml_pasta_fq_plonk_gate_vector_len :: "('t, 'f) circuit_gate list \<Rightarrow> nat" where
  "caml_pasta_fq_plonk_gate_vector_len v = length v"

definition caml_pasta_fq_plonk_gate_vector_wrap ::
  "(caml_wire \<Rightarrow> wire) \<Rightarrow> ('t, 'f) circuit_gate list \<Rightarrow> caml_wire \<Rightarrow> caml_wire \<Rightarrow>
    (('t, 'f) circuit_gate list, ocaml_error) outcome" where
  "caml_pasta_fq_plonk_gate_vector_wrap wire_into v t h =
     assign_wire v (unat (cw_row t)) (unat (cw_col t)) (wire_into h)"

definition caml_pasta_fq_plonk_gate_vector_digest ::
  "(nat \<Rightarrow> ('t, 'f) circuit_gate list \<Rightarrow> bytes) \<Rightarrow> isize \<Rightarrow> ('t, 'f) circuit_gate list \<Rightarrow> (bytes, ocaml_error) outcome" where
  "caml_pasta_fq_plonk_gate_vector_digest circuit_digest public_input_size v =
     (if sint public_input_size < 0 then Panic ''called Result::unwrap() on an Err value''
      else Ok (circuit_digest (nat (sint public_input_size)) v))"

definition caml_pasta_fq_plonk_circuit_serialize ::
  "(nat \<Rightarrow> ('t, 'f) circuit_gate list \<Rightarrow> string option) \<Rightarrow> isize \<Rightarrow> ('t, 'f) circuit_gate list \<Rightarrow> (string, ocaml_error) outcome" where
  "caml_pasta_fq_plonk_circuit_serialize circuit_json public_input_size v =
     (if sint public_input_size < 0 then Panic ''called Result::unwrap() on an Err value''
      else expect (circuit_json (nat (sint public_input_size)) v) ''couldn't serialize constraints'')"

section \<open>The bindings for JavaScript\<close>

datatype wasm_gate_wires = WasmGateWires wire wire wire wire wire wire wire

definition wasm_gate_wires_new ::
  "wire \<Rightarrow> wire \<Rightarrow> wire \<Rightarrow> wire \<Rightarrow> wire \<Rightarrow> wire \<Rightarrow> wire \<Rightarrow> wasm_gate_wires" where
  "wasm_gate_wires_new w0 w1 w2 w3 w4 w5 w6 = WasmGateWires w0 w1 w2 w3 w4 w5 w6"

record ('t, 'f) wasm_gate =
  wgate_typ :: 't
  wgate_wires :: wasm_gate_wires
  wgate_coeffs :: "'f list"

definition wasm_gate_new :: "'t \<Rightarrow> wasm_gate_wires \<Rightarrow> 'f list \<Rightarrow> ('t, 'f) wasm_gate" where
  "wasm_gate_new typ wires coeffs =
     \<lparr>wgate_typ = typ, wgate_wires = wires, wgate_coeffs = coeffs\<rparr>"

definition wasm_gate_from :: "('t, 'f) circuit_gate \<Rightarrow> ('t, 'f) wasm_gate" where
  "wasm_gate_from cg =
     \<lparr>wgate_typ = cg_typ cg,
      wgate_wires = (case cg_wires cg of
        GateWires w0 w1 w2 w3 w4 w5 w6 \<Rightarrow> WasmGateWires w0 w1 w2 w3 w4 w5 w6),
      wgate_coeffs = cg_coeffs cg\<rparr>"

definition circuit_gate_from_wasm :: "('t, 'f) wasm_gate \<Rightarrow> ('t, 'f) circuit_gate" where
  "circuit_gate_from_wasm ccg =
     \<lparr>cg_typ = wgate_typ ccg,
      cg_wires = (case wgate_wires ccg of
        WasmGateWires w0 w1 w2 w3 w4 w5 w6 \<Rightarrow> GateWires w0 w1 w2 w3 w4 w5 w6),
      cg_coeffs = wgate_coeffs ccg\<rparr>"

definition caml_plonk_gate_vector_create_wasm :: "('t, 'f) circuit_gate list" where
  "caml_plonk_gate_vector_create_wasm = []"

definition caml_plonk_gate_vector_add_wasm ::
  "('t, 'f) circuit_gate list \<Rightarrow> ('t, 'f) wasm_gate \<Rightarrow> ('t, 'f) circuit_gate list" where
  "caml_plonk_gate_vector_add_wasm v gate = v @ [circuit_gate_from_wasm gate]"

definition caml_plonk_gate_vector_get_wasm ::
  "('t, 'f) circuit_gate list \<Rightarrow> i32 \<Rightarrow> (('t, 'f) wasm_gate, js_error) outcome" where
  "caml_plonk_gate_vector_get_wasm v i = map_ok wasm_gate_from (vec_index v (unat i))"

definition caml_plonk_gate_vector_len_wasm :: "('t, 'f) circuit_gate list \<Rightarrow> nat" where
  "caml_plonk_gate_vector_len_wasm v = length v"

definition caml_plonk_gate_vector_wrap_wasm ::
  "('t, 'f) circuit_gate list \<Rightarrow> wire \<Rightarrow> wire \<Rightarrow> (('t, 'f) circuit_gate list, js_error) outcome" where
  "caml_plonk_gate_vector_wrap_wasm v t h = assign_wire v (wire_row t) (wire_col t) h"

definition caml_plonk_gate_vector_digest_wasm ::
  "(nat \<Rightarrow> ('t, 'f) circuit_gate list \<Rightarrow> bytes) \<Rightarrow> nat \<Rightarrow> ('t, 'f) circuit_gate list \<Rightarrow> bytes" where
  "caml_plonk_gate_vector_digest_wasm circuit_digest public_input_size v = circuit_digest public_input_size v"

definition caml_plonk_circuit_serialize_wasm ::
  "(nat \<Rightarrow> ('t, 'f) circuit_gate list \<Rightarrow> string option) \<Rightarrow> nat \<Rightarrow> ('t, 'f) circuit_gate list \<Rightarrow> (string, js_error) outcome" where
  "caml_plonk_circuit_serialize_wasm circuit_json public_input_size v =
     expect (circuit_json public_input_size v) ''couldn't serialize constraints''"

section \<open>Lemmas on gates\<close>

lemma length_wires_list [simp]: "length (wires_list ws) = 7"
  by (cases ws) simp

lemma wires_of_list_wires [simp]: "wires_of_list (wires_list ws) = Some ws"
  by (cases ws) simp

lemma wires_of_list_length: "length xs = 7 \<Longrightarrow> \<exists>ws. wires_of_list xs = Some ws \<and> wires_list ws = xs"
  by (auto simp: length_Suc_conv numeral_eq_Suc)

interpretation wasm_gate: codec wasm_gate_from "\<lambda>g. Ok (circuit_gate_from_wasm g)"
  by unfold_locales
    (simp add: wasm_gate_from_def circuit_gate_from_wasm_def split: gate_wires.splits wasm_gate_wires.splits)

lemma wasm_gate_from_circuit [simp]: "wasm_gate_from (circuit_gate_from_wasm g) = g"
  by (simp add: wasm_gate_from_def circuit_gate_from_wasm_def split: gate_wires.splits wasm_gate_wires.splits)

interpretation gate_vector_wasm: growable_vector "2 ^ 32" caml_plonk_gate_vector_create_wasm
  caml_plonk_gate_vector_add_wasm "\<lambda>v i. ok_value (caml_plonk_gate_vector_get_wasm v (word_of_nat i))" length
  by unfold_locales
    (auto simp: caml_plonk_gate_vector_create_wasm_def caml_plonk_gate_vector_add_wasm_def
      caml_plonk_gate_vector_get_wasm_def vec_index_def nth_append unat_of_nat)

lemma assign_wire_cases:
  "assign_wire v row col h =
     (if row < length v \<and> col < 7
      then Ok (v[row := (v ! row)\<lparr>cg_wires := the (wires_of_list ((wires_list (cg_wires (v ! row)))[col := h]))\<rparr>])
      else Panic ''index out of bounds'')"
proof (cases "row < length v \<and> col < 7")
  case True
  then obtain ws where "wires_of_list ((wires_list (cg_wires (v ! row)))[col := h]) = Some ws"
    using wires_of_list_length [of "(wires_list (cg_wires (v ! row)))[col := h]"] by auto
  with True show ?thesis by (simp add: assign_wire_def vec_index_def)
qed (auto simp: assign_wire_def vec_index_def)

lemma assign_wire_wires:
  assumes "row < length v" and "col < 7"
  shows "\<exists>w. assign_wire v row col h = Ok w \<and> length w = length v \<and>
    wires_list (cg_wires (w ! row)) = (wires_list (cg_wires (v ! row)))[col := h] \<and>
    cg_typ (w ! row) = cg_typ (v ! row) \<and> cg_coeffs (w ! row) = cg_coeffs (v ! row) \<and>
    (\<forall>i. i \<noteq> row \<longrightarrow> w ! i = v ! i)"
proof -
  obtain ws where "wires_of_list ((wires_list (cg_wires (v ! row)))[col := h]) = Some ws"
      "wires_list ws = (wires_list (cg_wires (v ! row)))[col := h]"
    using wires_of_list_length [of "(wires_list (cg_wires (v ! row)))[col := h]"] by auto
  with assms show ?thesis by (simp add: assign_wire_cases)
qed

section \<open>Properties\<close>

text \<open>
  C25. Rewiring a gate. \<open>wrap\<close> changes the wire in one column of one gate and nothing else; it
  panics exactly when the row or the column is out of range, a negative index included.
\<close>

theorem gate_vector_wrap_changes_one_wire:
  assumes "length v < 2 ^ 63"
  shows "if 0 \<le> sint (cw_row t) \<and> sint (cw_row t) < int (length v) \<and> 0 \<le> sint (cw_col t) \<and> sint (cw_col t) < 7
    then \<exists>w. caml_pasta_fp_plonk_gate_vector_wrap wire_into v t h = Ok w \<and> length w = length v \<and>
      wires_list (cg_wires (w ! nat (sint (cw_row t)))) =
        (wires_list (cg_wires (v ! nat (sint (cw_row t)))))[nat (sint (cw_col t)) := wire_into h] \<and>
      cg_typ (w ! nat (sint (cw_row t))) = cg_typ (v ! nat (sint (cw_row t))) \<and>
      cg_coeffs (w ! nat (sint (cw_row t))) = cg_coeffs (v ! nat (sint (cw_row t))) \<and>
      (\<forall>i. i \<noteq> nat (sint (cw_row t)) \<longrightarrow> w ! i = v ! i)
    else caml_pasta_fp_plonk_gate_vector_wrap wire_into v t h = Panic ''index out of bounds''"
proof -
  have row: "0 \<le> sint (cw_row t) \<and> sint (cw_row t) < int (length v) \<longleftrightarrow> unat (cw_row t) < length v"
    using assms negative_isize [of "cw_row t"] nat_sint_isize [of "cw_row t"]
    by (cases "0 \<le> sint (cw_row t)") auto
  have col: "0 \<le> sint (cw_col t) \<and> sint (cw_col t) < 7 \<longleftrightarrow> unat (cw_col t) < 7"
    using negative_isize [of "cw_col t"] nat_sint_isize [of "cw_col t"]
    by (cases "0 \<le> sint (cw_col t)") auto
  show ?thesis
  proof (cases "unat (cw_row t) < length v \<and> unat (cw_col t) < 7")
    case True
    with assign_wire_wires [of "unat (cw_row t)" v "unat (cw_col t)" "wire_into h"] row col
    show ?thesis by (simp add: caml_pasta_fp_plonk_gate_vector_wrap_def nat_sint_isize)
  next
    case False
    with row col show ?thesis
      by (auto simp: caml_pasta_fp_plonk_gate_vector_wrap_def assign_wire_cases)
  qed
qed

theorem gate_vector_wrap_changes_one_wire_witness:
  "caml_pasta_fp_plonk_gate_vector_wrap (\<lambda>w. \<lparr>wire_row = unat (cw_row w), wire_col = unat (cw_col w)\<rparr>)
     ([] :: (nat, nat) circuit_gate list) \<lparr>cw_row = - 1, cw_col = 0\<rparr> \<lparr>cw_row = 0, cw_col = 0\<rparr> =
     Panic ''index out of bounds''"
  using gate_vector_wrap_changes_one_wire [of "[] :: (nat, nat) circuit_gate list" "\<lparr>cw_row = - 1, cw_col = 0\<rparr>"
      "\<lambda>w. \<lparr>wire_row = unat (cw_row w), wire_col = unat (cw_col w)\<rparr>" "\<lparr>cw_row = 0, cw_col = 0\<rparr>"]
  by simp

text \<open>
  Gate vectors for JavaScript. Gates and their JavaScript views correspond one to one, and a
  vector built by adding views gives them back by index; every other index panics.
\<close>

theorem gate_vector_wasm_access:
  assumes "length gs < 2 ^ 31"
  shows "circuit_gate_from_wasm (wasm_gate_from g) = g \<and>
    (let v = foldl caml_plonk_gate_vector_add_wasm caml_plonk_gate_vector_create_wasm gs in
      caml_plonk_gate_vector_len_wasm v = length gs \<and>
      caml_plonk_gate_vector_get_wasm v i =
        (if 0 \<le> sint i \<and> sint i < int (length gs) then Ok (gs ! nat (sint i))
         else Panic ''index out of bounds''))"
proof -
  let ?v = "foldl caml_plonk_gate_vector_add_wasm caml_plonk_gate_vector_create_wasm gs"
  have built: "?v = map circuit_gate_from_wasm gs"
    by (induction gs rule: rev_induct)
      (auto simp: caml_plonk_gate_vector_create_wasm_def caml_plonk_gate_vector_add_wasm_def)
  have range: "0 \<le> sint i \<and> sint i < int (length gs) \<longleftrightarrow> unat i < length gs"
    using assms negative_i32 [of i] nat_sint_i32 [of i] by (cases "0 \<le> sint i") auto
  show ?thesis
    using wasm_gate.decode_encode [of g] range
    by (auto simp: built caml_plonk_gate_vector_len_wasm_def caml_plonk_gate_vector_get_wasm_def
        vec_index_def nat_sint_i32 Let_def)
qed

theorem gate_vector_wasm_access_witness:
  "caml_plonk_gate_vector_get_wasm
     (foldl caml_plonk_gate_vector_add_wasm caml_plonk_gate_vector_create_wasm ([] :: (nat, nat) wasm_gate list)) 0 =
     Panic ''index out of bounds''"
  using gate_vector_wasm_access [of "[] :: (nat, nat) wasm_gate list" undefined 0] by (auto simp: Let_def)

end
