(* ===== verification/Flat_Vector.thy ===== *)
theory Flat_Vector
  imports Pasta_Fp Pasta_Fq Field_Vector
begin

text \<open>
  Vectors that cross the boundary to JavaScript: \<^verbatim>\<open>wasm/src/wasm_flat_vector.rs\<close> (elements
  of a fixed number of bytes, one after the other in one buffer) and
  \<^verbatim>\<open>wasm/src/wasm_vector.rs\<close> (vectors of pointers and vectors of vectors). The trait
  \<open>FlatVectorElem\<close> is the locale \<open>flat_vector_elem\<close>, which the two fields provide. A
  buffer handed over by \<^verbatim>\<open>wasm_bindgen\<close> is its list of bytes.
\<close>

section \<open>Flat vectors\<close>

fun flat_from_abi_loop ::
  "nat \<Rightarrow> (bytes \<Rightarrow> ('a, js_error) outcome) \<Rightarrow> bytes \<Rightarrow> 'a list \<Rightarrow> bytes \<Rightarrow> ('a list \<times> bytes, js_error) outcome" where
  "flat_from_abi_loop sz unflatten [] res buf = Ok (res, buf)"
| "flat_from_abi_loop sz unflatten (x # data) res buf =
     (if \<not> length buf < sz then Panic ''assertion failed: buf.len() < T::FLATTENED_SIZE''
      else
        let buf = buf @ [x] in
        if length buf \<ge> sz
        then and_then (unflatten buf) (\<lambda>e. flat_from_abi_loop sz unflatten data (res @ [e]) [])
        else flat_from_abi_loop sz unflatten data res buf)"

definition flat_from_abi ::
  "nat \<Rightarrow> (bytes \<Rightarrow> ('a, js_error) outcome) \<Rightarrow> bytes \<Rightarrow> ('a list, js_error) outcome" where
  "flat_from_abi sz unflatten data =
     (if sz = 0 then Panic ''attempt to divide by zero''
      else and_then (flat_from_abi_loop sz unflatten data [] []) (\<lambda>(res, buf).
        if length buf \<noteq> 0 then Panic ''assertion failed: buf.len() == 0'' else Ok res))"

definition flat_into_abi :: "('a \<Rightarrow> bytes) \<Rightarrow> 'a list \<Rightarrow> bytes" where
  "flat_into_abi flatten xs = foldl (\<lambda>data x. data @ flatten x) [] xs"

section \<open>Vectors of pointers\<close>

text \<open>
  Each element is turned into a pointer and back by the conversions of its own type.
\<close>

definition wasm_vector_from_abi :: "(u32 \<Rightarrow> ('a, js_error) outcome) \<Rightarrow> u32 list \<Rightarrow> ('a list, js_error) outcome" where
  "wasm_vector_from_abi elem_from_abi js = collect elem_from_abi js"

definition wasm_vector_into_abi :: "('a \<Rightarrow> u32) \<Rightarrow> 'a list \<Rightarrow> u32 list" where
  "wasm_vector_into_abi elem_into_abi xs = map elem_into_abi xs"

section \<open>Vectors of vectors\<close>

text \<open>
  \<open>Vec::with_capacity(n as usize)\<close> panics when the allocation would exceed \<open>isize::MAX\<close>
  bytes; an inner vector occupies 12 bytes on the 32-bit target.
\<close>

definition vec_vec_create :: "i32 \<Rightarrow> ('f list list, js_error) outcome" where
  "vec_vec_create n = (if 2 ^ 31 - 1 < 12 * unat n then Panic ''capacity overflow'' else Ok [])"

definition vec_vec_push :: "'f list list \<Rightarrow> 'f list \<Rightarrow> 'f list list" where
  "vec_vec_push v x = v @ [x]"

definition vec_vec_get :: "'f list list \<Rightarrow> i32 \<Rightarrow> ('f list, js_error) outcome" where
  "vec_vec_get v i = vec_index v (unat i)"

definition vec_vec_set :: "'f list list \<Rightarrow> i32 \<Rightarrow> 'f list \<Rightarrow> ('f list list, js_error) outcome" where
  "vec_vec_set v i x = and_then (vec_index v (unat i)) (\<lambda>_. Ok (v[unat i := x]))"

interpretation vec_vec: growable_vector "2 ^ 32" "[]" vec_vec_push "\<lambda>v i. ok_value (vec_vec_get v (word_of_nat i))" length
  by unfold_locales (auto simp: vec_vec_push_def vec_vec_get_def vec_index_def nth_append unat_of_nat)

section \<open>The loop and the chunks of the buffer\<close>

lemma chunks_short: "xs \<noteq> [] \<Longrightarrow> length xs \<le> n \<Longrightarrow> n \<noteq> 0 \<Longrightarrow> chunks n xs = [xs]"
  by (simp add: chunks_step)

text \<open>
  With the partial element \<open>buf\<close> read so far, the loop converts the full chunks of what is
  left and returns the incomplete last one.
\<close>

lemma flat_from_abi_loop_chunks:
  assumes "sz \<noteq> 0" and "length buf < sz"
  shows "flat_from_abi_loop sz unflatten data res buf =
    (let k = length (buf @ data) div sz * sz in
     and_then (collect unflatten (chunks sz (take k (buf @ data)))) (\<lambda>es.
       Ok (res @ es, drop k (buf @ data))))"
  using assms(2)
proof (induction data arbitrary: buf res)
  case Nil
  then show ?case by (simp add: Let_def)
next
  case (Cons x data)
  show ?case
  proof (cases "length (buf @ [x]) < sz")
    case True
    with Cons.IH [of "buf @ [x]" res] Cons.prems show ?thesis by simp
  next
    case False
    let ?c = "buf @ [x]"
    from False Cons.prems have len: "length ?c = sz" by simp
    let ?k = "length data div sz * sz"
    have total: "length (buf @ x # data) = sz + length data" using len by simp
    have k: "length (buf @ x # data) div sz * sz = sz + ?k"
      unfolding total using assms(1) by (simp add: div_add_self1)
    have split: "take (sz + ?k) (buf @ x # data) = ?c @ take ?k data"
      "drop (sz + ?k) (buf @ x # data) = drop ?k data"
      using len by (simp_all add: take_Cons' drop_Cons' flip: len)
    have "flat_from_abi_loop sz unflatten (x # data) res buf =
        and_then (unflatten ?c) (\<lambda>e. flat_from_abi_loop sz unflatten data (res @ [e]) [])"
      using Cons.prems False by simp
    also have "\<dots> = and_then (unflatten ?c) (\<lambda>e. and_then (collect unflatten (chunks sz (take ?k data)))
        (\<lambda>es. Ok (res @ e # es, drop ?k data)))"
      using Cons.IH [of "[]"] assms(1) by (simp add: Let_def)
    also have "\<dots> = and_then (collect unflatten (chunks sz (?c @ take ?k data)))
        (\<lambda>es. Ok (res @ es, drop ?k data))"
      using chunks_append [OF assms(1) len] by (simp add: and_then_assoc)
    finally show ?thesis unfolding k split Let_def .
  qed
qed

lemma flat_into_abi_concat: "flat_into_abi flatten xs = concat (map flatten xs)"
  unfolding flat_into_abi_def by (induction xs rule: rev_induct) auto

section \<open>The elements of a flat vector\<close>

locale flat_vector_elem = codec flatten unflatten
  for flatten :: "'a \<Rightarrow> bytes" and unflatten :: "bytes \<Rightarrow> ('a, js_error) outcome" +
  fixes FLATTENED_SIZE :: nat
  assumes size_pos: "0 < FLATTENED_SIZE"
    and length_flatten: "length (flatten x) = FLATTENED_SIZE"
begin

lemma from_abi_into_abi: "flat_from_abi FLATTENED_SIZE unflatten (flat_into_abi flatten xs) = Ok xs"
proof -
  have len: "length (concat (map flatten xs)) = length xs * FLATTENED_SIZE"
    by (simp add: length_concat comp_def length_flatten sum_list_triv)
  have "chunks FLATTENED_SIZE (concat (map flatten xs)) = map flatten xs"
    using size_pos by (intro chunks_concat) (auto simp: length_flatten)
  then show ?thesis
    using size_pos by (simp add: flat_from_abi_def flat_into_abi_concat flat_from_abi_loop_chunks len
        decode_list)
qed

lemma length_into_abi: "length (flat_into_abi flatten xs) = length xs * FLATTENED_SIZE"
  by (simp add: flat_into_abi_concat length_concat comp_def length_flatten sum_list_triv)

end

sublocale ark_field_contract \<subseteq> fp_elem: flat_vector_elem "fp_flatten F" "fp_unflatten F" size_of_fp
  by unfold_locales (simp_all add: fp_flatten_def length_write)

sublocale ark_field_contract \<subseteq> fq_elem: flat_vector_elem "fq_flatten F" "fq_unflatten F" size_of_fq
  by unfold_locales (simp_all add: fq_flatten_def length_write)

context ark_field_contract
begin

lemmas fp_vector_abi = fp_elem.from_abi_into_abi fp_elem.length_into_abi
lemmas fq_vector_abi = fq_elem.from_abi_into_abi fq_elem.length_into_abi

end

section \<open>Properties\<close>

text \<open>
  C23. Reading a flat vector. The loop that fills a buffer and converts it whenever it is full
  computes what the specification says: split the bytes into chunks of the element size, convert
  them in order, and panic if bytes are left over (unless a conversion failed before).
\<close>

theorem flat_from_abi_is_chunkwise:
  assumes "sz \<noteq> 0"
  shows "flat_from_abi sz unflatten data =
    and_then (collect unflatten (chunks sz (take (length data div sz * sz) data))) (\<lambda>res.
      if length data mod sz = 0 then Ok res else Panic ''assertion failed: buf.len() == 0'')"
proof -
  have "length data \<le> length data div sz * sz \<longleftrightarrow> length data mod sz = 0"
    by (simp add: minus_div_mult_eq_mod [symmetric])
  then show ?thesis
    using assms by (cases "length data mod sz = 0")
      (simp_all add: flat_from_abi_def flat_from_abi_loop_chunks Let_def and_then_assoc)
qed

theorem flat_from_abi_is_chunkwise_witness:
  "flat_from_abi 2 (\<lambda>bs. Ok bs) [1, 2, 3] = Panic ''assertion failed: buf.len() == 0'' \<and>
   flat_from_abi 2 (\<lambda>bs. Ok bs) [1, 2, 3, 4] = Ok [[1, 2], [3, 4]]"
proof
  show "flat_from_abi 2 (\<lambda>bs. Ok bs) [1, 2, 3] = Panic ''assertion failed: buf.len() == 0''"
    using flat_from_abi_is_chunkwise [of 2 "\<lambda>bs. Ok bs" "[1, 2, 3]"] by simp
  show "flat_from_abi 2 (\<lambda>bs. Ok bs) [1, 2, 3, 4] = Ok [[1, 2], [3, 4]]"
    using flat_from_abi_is_chunkwise [of 2 "\<lambda>bs. Ok bs" "[1, 2, 3, 4]"] by (simp add: chunks.simps(2))
qed

text \<open>
  Vectors of field elements cross the boundary unchanged: reading the buffer written for a
  vector of elements of \<open>Fp\<close> or \<open>Fq\<close> gives the vector, and the buffer has 32 bytes
  per element.
\<close>

theorem flat_field_vector_roundtrip:
  assumes "ark_field_contract F" and "ark_field_contract G"
  shows "flat_from_abi size_of_fp (fp_unflatten F) (flat_into_abi (fp_flatten F) xs) = Ok xs \<and>
    length (flat_into_abi (fp_flatten F) xs) = 32 * length xs \<and>
    flat_from_abi size_of_fq (fq_unflatten G) (flat_into_abi (fq_flatten G) ys) = Ok ys \<and>
    length (flat_into_abi (fq_flatten G) ys) = 32 * length ys"
  using ark_field_contract.fp_vector_abi [OF assms(1)] ark_field_contract.fq_vector_abi [OF assms(2)]
  by simp

theorem flat_field_vector_roundtrip_witness:
  "flat_from_abi size_of_fp (fp_unflatten ref_fp) (flat_into_abi (fp_flatten ref_fp) [ff_one ref_fp, ff_zero ref_fp]) =
     Ok [ff_one ref_fp, ff_zero ref_fp]"
  using flat_field_vector_roundtrip [OF ref_fp_contract ref_fq_contract, of "[ff_one ref_fp, ff_zero ref_fp]"]
  by blast

end
