(* ===== verification/Wasm_Abi.thy ===== *)
theory Wasm_Abi
  imports Flat_Vector
begin

text \<open>
  Values that may be absent, on their way to JavaScript and back: the implementations of
  \<open>OptionIntoWasmAbi\<close> and \<open>OptionFromWasmAbi\<close> in
  \<^verbatim>\<open>wasm/src/arkworks/pasta_fp.rs\<close>, \<^verbatim>\<open>wasm/src/arkworks/pasta_fq.rs\<close>,
  \<^verbatim>\<open>wasm/src/wasm_flat_vector.rs\<close> and \<^verbatim>\<open>wasm/src/wasm_vector.rs\<close>. All of them borrow the
  absent value of a plain vector, so none of them may ever produce it for a value that is
  present: not for the empty vector either. How \<^verbatim>\<open>wasm_bindgen\<close> passes a vector
  (\<open>vec_abi\<close>) and what it makes of an \<open>Option\<close> (\<open>option_glue\<close>) are
  parameters.
\<close>

section \<open>What the bindings use of wasm-bindgen\<close>

record ('abi, 'e) vec_abi =
  va_into :: "'e list \<Rightarrow> 'abi"
  va_from :: "'abi \<Rightarrow> 'e list"
  va_none :: 'abi
  va_is_none :: "'abi \<Rightarrow> bool"

locale vec_abi_contract =
  fixes V :: "('abi, 'e) vec_abi"
  assumes from_into: "va_from V (va_into V xs) = xs"
    and is_none_none: "va_is_none V (va_none V)"
    and is_none_into: "\<not> va_is_none V (va_into V xs)"

text \<open>
  \<open>Option<T>\<close> crosses the boundary as the absent value of \<open>T\<close>, or as the value itself; on
  the way back the conversion of \<open>T\<close> runs only on what is not the absent value.
\<close>

record ('abi, 't) option_glue =
  og_into :: "'t option \<Rightarrow> 'abi"
  og_from :: "'abi \<Rightarrow> ('t option, js_error) outcome"

locale option_glue_contract =
  fixes G :: "('abi, 't) option_glue"
    and into_abi :: "'t \<Rightarrow> 'abi" and from_abi :: "'abi \<Rightarrow> ('t, js_error) outcome"
    and none :: 'abi and is_none :: "'abi \<Rightarrow> bool"
  assumes into_None: "og_into G None = none"
    and into_Some: "og_into G (Some x) = into_abi x"
    and from_none: "is_none a \<Longrightarrow> og_from G a = Ok None"
    and from_some: "\<not> is_none a \<Longrightarrow> og_from G a = map_ok Some (from_abi a)"

section \<open>The implementations\<close>

definition fp_none :: "('abi, u8) vec_abi \<Rightarrow> 'abi" where
  "fp_none V = va_none V"

definition fp_is_none :: "('abi, u8) vec_abi \<Rightarrow> 'abi \<Rightarrow> bool" where
  "fp_is_none V abi = va_is_none V abi"

definition fq_none :: "('abi, u8) vec_abi \<Rightarrow> 'abi" where
  "fq_none V = va_none V"

definition fq_is_none :: "('abi, u8) vec_abi \<Rightarrow> 'abi \<Rightarrow> bool" where
  "fq_is_none V abi = va_is_none V abi"

definition flat_vector_none :: "('abi, u8) vec_abi \<Rightarrow> 'abi" where
  "flat_vector_none V = va_none V"

definition flat_vector_is_none :: "('abi, u8) vec_abi \<Rightarrow> 'abi \<Rightarrow> bool" where
  "flat_vector_is_none V x = va_is_none V x"

definition wasm_vector_none :: "('abi, u32) vec_abi \<Rightarrow> 'abi" where
  "wasm_vector_none V = va_none V"

definition wasm_vector_is_none :: "('abi, u32) vec_abi \<Rightarrow> 'abi \<Rightarrow> bool" where
  "wasm_vector_is_none V x = va_is_none V x"

section \<open>Optional values return as they were\<close>

text \<open>
  A type whose values and whose absent value can be told apart, and whose conversion to the
  bytes or pointers of a vector can be undone.
\<close>

locale optional_value = codec encode decode + vec_abi_contract V
  for encode :: "'t \<Rightarrow> 'e list" and decode :: "'e list \<Rightarrow> ('t, js_error) outcome"
    and V :: "('abi, 'e) vec_abi"
begin

lemma option_return:
  assumes "option_glue_contract G (\<lambda>x. va_into V (encode x)) (\<lambda>a. decode (va_from V a)) (va_none V) (va_is_none V)"
  shows "og_from G (og_into G x) = Ok x"
  using option_glue_contract.into_None [OF assms] option_glue_contract.into_Some [OF assms]
    option_glue_contract.from_none [OF assms is_none_none]
    option_glue_contract.from_some [OF assms is_none_into]
  by (cases x) (simp_all add: from_into decode_encode)

lemma option_absent:
  assumes "option_glue_contract G (\<lambda>x. va_into V (encode x)) (\<lambda>a. decode (va_from V a)) (va_none V) (va_is_none V)"
  shows "va_is_none V (og_into G x) \<longleftrightarrow> x = None"
  using option_glue_contract.into_None [OF assms] option_glue_contract.into_Some [OF assms]
  by (cases x) (simp_all add: is_none_none is_none_into)

end

text \<open>
  The four types of the bindings: the two fields, flat vectors of either field, and vectors of
  pointers to values whose own conversion can be undone.
\<close>

context ark_field_contract
begin

lemma field_codecs:
  "codec (fp_into_abi F) (fp_from_abi F)" "codec (fq_into_abi F) (fq_from_abi F)"
  "codec (flat_into_abi (fp_flatten F)) (flat_from_abi size_of_fp (fp_unflatten F))"
  "codec (flat_into_abi (fq_flatten F)) (flat_from_abi size_of_fq (fq_unflatten F))"
  by (rule fp_abi.codec_axioms, rule fq_abi.codec_axioms)
    (unfold_locales, rule fp_elem.from_abi_into_abi fq_elem.from_abi_into_abi)+

end

lemma pointer_vector_codec:
  "codec into_ptr from_ptr \<Longrightarrow> codec (wasm_vector_into_abi into_ptr) (wasm_vector_from_abi from_ptr)"
  by (simp add: codec_def wasm_vector_into_abi_def wasm_vector_from_abi_def codec.decode_list)

lemma option_abi:
  "fp_none = va_none" "fq_none = va_none" "flat_vector_none = va_none" "wasm_vector_none = va_none"
  "fp_is_none = va_is_none" "fq_is_none = va_is_none" "flat_vector_is_none = va_is_none"
  "wasm_vector_is_none = va_is_none"
  by (simp_all add: fun_eq_iff fp_none_def fp_is_none_def fq_none_def fq_is_none_def flat_vector_none_def
      flat_vector_is_none_def wasm_vector_none_def wasm_vector_is_none_def)

text \<open>
  A reference for the parameters: a vector is passed as the address of its buffer, with what the
  buffer holds, and no buffer has the address zero; \<open>Option\<close> by cases.
\<close>

definition slice_abi :: "(u32 \<times> 'e list, 'e) vec_abi" where
  "slice_abi = \<lparr>va_into = \<lambda>xs. (8, xs), va_from = snd, va_none = (0, []), va_is_none = \<lambda>a. fst a = 0\<rparr>"

definition option_by_cases ::
  "('t \<Rightarrow> 'abi) \<Rightarrow> ('abi \<Rightarrow> ('t, js_error) outcome) \<Rightarrow> 'abi \<Rightarrow> ('abi \<Rightarrow> bool) \<Rightarrow> ('abi, 't) option_glue" where
  "option_by_cases into_abi from_abi none is_none =
     \<lparr>og_into = case_option none into_abi,
      og_from = \<lambda>a. if is_none a then Ok None else map_ok Some (from_abi a)\<rparr>"

interpretation slice: vec_abi_contract slice_abi
  by unfold_locales (simp_all add: slice_abi_def)

interpretation by_cases: option_glue_contract "option_by_cases into_abi from_abi none is_none"
  into_abi from_abi none is_none
  by unfold_locales (simp_all add: option_by_cases_def)

interpretation fp_slice: optional_value "fp_into_abi ref_fp" "fp_from_abi ref_fp" slice_abi
  by (intro optional_value.intro ark_field_contract.field_codecs ref_fp_contract slice.vec_abi_contract_axioms)

interpretation fq_vector_slice: optional_value "flat_into_abi (fq_flatten ref_fq)"
  "flat_from_abi size_of_fq (fq_unflatten ref_fq)" slice_abi
  by (intro optional_value.intro ark_field_contract.field_codecs ref_fq_contract slice.vec_abi_contract_axioms)

section \<open>Properties\<close>

text \<open>
  What JavaScript gets from an inversion or a square root, in either field, and hands back is what
  the operation returned to the OCaml side: the absent value appears exactly where OCaml sees
  \<open>None\<close>, and a present result is read back as the same element.
\<close>

theorem js_option_results:
  assumes "ark_field_contract F" and "ark_field_contract Q" and "vec_abi_contract V"
    and "option_glue_contract G (\<lambda>x. va_into V (fp_into_abi F x)) (\<lambda>a. fp_from_abi F (va_from V a))
      (fp_none V) (fp_is_none V)"
    and "option_glue_contract H (\<lambda>x. va_into V (fq_into_abi Q x)) (\<lambda>a. fq_from_abi Q (va_from V a))
      (fq_none V) (fq_is_none V)"
  shows "og_from G (og_into G (caml_pasta_fp_inv_wasm F x)) = Ok (caml_pasta_fp_inv F x) \<and>
    og_from G (og_into G (caml_pasta_fp_sqrt_wasm F x)) = Ok (caml_pasta_fp_sqrt F x) \<and>
    (fp_is_none V (og_into G (caml_pasta_fp_sqrt_wasm F x)) \<longleftrightarrow> caml_pasta_fp_sqrt F x = None) \<and>
    fp_is_none V (og_into G (caml_pasta_fp_inv_wasm F (ff_zero F))) \<and>
    og_from H (og_into H (caml_pasta_fq_inv_wasm Q y)) = Ok (caml_pasta_fq_inv Q y) \<and>
    og_from H (og_into H (caml_pasta_fq_sqrt_wasm Q y)) = Ok (caml_pasta_fq_sqrt Q y) \<and>
    (fq_is_none V (og_into H (caml_pasta_fq_sqrt_wasm Q y)) \<longleftrightarrow> caml_pasta_fq_sqrt Q y = None) \<and>
    fq_is_none V (og_into H (caml_pasta_fq_inv_wasm Q (ff_zero Q)))"
proof -
  have fp: "optional_value (fp_into_abi F) (fp_from_abi F) V"
    and fq: "optional_value (fq_into_abi Q) (fq_from_abi Q) V"
    by (intro optional_value.intro assms ark_field_contract.field_codecs)+
  note defs = caml_pasta_fp_inv_wasm_def caml_pasta_fp_inv_def caml_pasta_fp_sqrt_wasm_def
    caml_pasta_fp_sqrt_def caml_pasta_fq_inv_wasm_def caml_pasta_fq_inv_def
    caml_pasta_fq_sqrt_wasm_def caml_pasta_fq_sqrt_def
  show ?thesis
    using optional_value.option_return [OF fp] optional_value.option_absent [OF fp] assms(4)
      optional_value.option_return [OF fq] optional_value.option_absent [OF fq] assms(5)
    by (simp add: defs option_abi ark_field_contract.inverse_zero [OF assms(1)]
        ark_field_contract.inverse_zero [OF assms(2)])
qed

theorem js_option_results_witness:
  "let G = option_by_cases (\<lambda>x. va_into slice_abi (fp_into_abi ref_fp x))
         (\<lambda>a. fp_from_abi ref_fp (va_from slice_abi a)) (fp_none slice_abi) (fp_is_none slice_abi)
   in og_from G (og_into G (caml_pasta_fp_inv_wasm ref_fp (ff_one ref_fp))) =
        Ok (caml_pasta_fp_inv ref_fp (ff_one ref_fp)) \<and>
      fp_is_none slice_abi (og_into G (caml_pasta_fp_inv_wasm ref_fp (ff_zero ref_fp)))"
  unfolding Let_def
  using js_option_results [OF ref_fp_contract ref_fq_contract slice.vec_abi_contract_axioms
      by_cases.option_glue_contract_axioms by_cases.option_glue_contract_axioms]
  by blast

text \<open>
  Optional vectors, flat or of pointers, return as they were; the empty vector is never taken
  for an absent one.
\<close>

theorem js_option_vectors:
  assumes "ark_field_contract F" and "vec_abi_contract V" and "vec_abi_contract W" and "codec into_ptr from_ptr"
    and "option_glue_contract G (\<lambda>xs. va_into V (flat_into_abi (fp_flatten F) xs))
      (\<lambda>a. flat_from_abi size_of_fp (fp_unflatten F) (va_from V a)) (flat_vector_none V) (flat_vector_is_none V)"
    and "option_glue_contract H (\<lambda>ps. va_into W (wasm_vector_into_abi into_ptr ps))
      (\<lambda>a. wasm_vector_from_abi from_ptr (va_from W a)) (wasm_vector_none W) (wasm_vector_is_none W)"
  shows "og_from G (og_into G xs) = Ok xs \<and> \<not> flat_vector_is_none V (og_into G (Some [])) \<and>
    og_from H (og_into H ps) = Ok ps \<and> \<not> wasm_vector_is_none W (og_into H (Some []))"
proof -
  have flat: "optional_value (flat_into_abi (fp_flatten F)) (flat_from_abi size_of_fp (fp_unflatten F)) V"
    and ptrs: "optional_value (wasm_vector_into_abi into_ptr) (wasm_vector_from_abi from_ptr) W"
    by (intro optional_value.intro assms ark_field_contract.field_codecs pointer_vector_codec)+
  show ?thesis
    using optional_value.option_return [OF flat] optional_value.option_absent [OF flat] assms(5)
      optional_value.option_return [OF ptrs] optional_value.option_absent [OF ptrs] assms(6)
    by (simp add: option_abi)
qed

theorem js_option_vectors_witness:
  "let G = option_by_cases (\<lambda>xs. va_into slice_abi (flat_into_abi (fp_flatten ref_fp) xs))
         (\<lambda>a. flat_from_abi size_of_fp (fp_unflatten ref_fp) (va_from slice_abi a))
         (flat_vector_none slice_abi) (flat_vector_is_none slice_abi)
   in og_from G (og_into G (Some [ff_one ref_fp])) = Ok (Some [ff_one ref_fp]) \<and>
      \<not> flat_vector_is_none slice_abi (og_into G (Some []))"
  unfolding Let_def
  using js_option_vectors [OF ref_fp_contract slice.vec_abi_contract_axioms slice.vec_abi_contract_axioms
      codec.intro [of Ok id] by_cases.option_glue_contract_axioms by_cases.option_glue_contract_axioms]
  by simp

end
