(* ===== verification/Hashing.thy ===== *)
theory Hashing
  imports Field_Vector Flat_Vector
begin

text \<open>
  The Poseidon permutation: \<^verbatim>\<open>stubs/src/pasta_fp_poseidon.rs\<close>,
  \<^verbatim>\<open>stubs/src/pasta_fq_poseidon.rs\<close> and \<^verbatim>\<open>wasm/src/poseidon.rs\<close> (suffix
  \<open>_wasm\<close>). The permutation and the constants of \<^verbatim>\<open>mina_poseidon\<close> are parameters. OCaml
  passes a vector that is permuted in place, so the call returns the vector after it; JavaScript
  passes a flat vector and gets a new one.
\<close>

section \<open>Operations of the crates\<close>

record ('p, 's) poseidon_ops =
  ps_params :: 'p
  ps_block_cipher :: "'p \<Rightarrow> 's list \<Rightarrow> 's list"

section \<open>The bindings\<close>

definition caml_pasta_fp_poseidon_params_create :: "('p, 's) poseidon_ops \<Rightarrow> 'p" where
  "caml_pasta_fp_poseidon_params_create H = ps_params H"

definition caml_pasta_fp_poseidon_block_cipher :: "('p, 's) poseidon_ops \<Rightarrow> 'p \<Rightarrow> 's list \<Rightarrow> 's list" where
  "caml_pasta_fp_poseidon_block_cipher H params state = ps_block_cipher H params state"

definition caml_pasta_fq_poseidon_params_create :: "('p, 's) poseidon_ops \<Rightarrow> 'p" where
  "caml_pasta_fq_poseidon_params_create H = ps_params H"

definition caml_pasta_fq_poseidon_block_cipher :: "('p, 's) poseidon_ops \<Rightarrow> 'p \<Rightarrow> 's list \<Rightarrow> 's list" where
  "caml_pasta_fq_poseidon_block_cipher H params state = ps_block_cipher H params state"

definition caml_pasta_fp_poseidon_block_cipher_wasm :: "('p, 's) poseidon_ops \<Rightarrow> 's list \<Rightarrow> 's list" where
  "caml_pasta_fp_poseidon_block_cipher_wasm H state =
     (let state_vec = ps_block_cipher H (ps_params H) state in map (\<lambda>f. f) state_vec)"

definition caml_pasta_fq_poseidon_block_cipher_wasm :: "('p, 's) poseidon_ops \<Rightarrow> 's list \<Rightarrow> 's list" where
  "caml_pasta_fq_poseidon_block_cipher_wasm H state =
     (let state_vec = ps_block_cipher H (ps_params H) state in map (\<lambda>f. f) state_vec)"

section \<open>Lemmas\<close>

text \<open>
  With the parameters that OCaml creates, both host languages see the same permutation.
\<close>

lemma poseidon_bindings_agree:
  "caml_pasta_fp_poseidon_block_cipher H (caml_pasta_fp_poseidon_params_create H) state =
     caml_pasta_fp_poseidon_block_cipher_wasm H state"
  "caml_pasta_fq_poseidon_block_cipher H (caml_pasta_fq_poseidon_params_create H) state =
     caml_pasta_fq_poseidon_block_cipher_wasm H state"
  by (simp_all add: caml_pasta_fp_poseidon_block_cipher_def caml_pasta_fp_poseidon_params_create_def
      caml_pasta_fp_poseidon_block_cipher_wasm_def caml_pasta_fq_poseidon_block_cipher_def
      caml_pasta_fq_poseidon_params_create_def caml_pasta_fq_poseidon_block_cipher_wasm_def)

end
