(* ===== verification/Group.thy ===== *)
theory Group
  imports Reference_Curve
begin

text \<open>
  The Pasta curves: \<^verbatim>\<open>arkworks/group_affine.rs\<close>,
  \<^verbatim>\<open>arkworks/group_projective.rs\<close> and \<^verbatim>\<open>projective.rs\<close> of both crates. The
  functions of \<^verbatim>\<open>projective.rs\<close> come from one macro that is expanded for Pallas and for
  Vesta; they are modelled once, over the operations \<open>V\<close> of the curve. A projective point is
  wrapped in a custom block or in a JavaScript object without change.
\<close>

record 'f affine =
  af_x :: 'f
  af_y :: 'f
  af_infinity :: bool

text \<open>
  Operations of \<^verbatim>\<open>ark_ec\<close> and \<^verbatim>\<open>mina_curves\<close> on a curve with base field \<open>'f\<close>,
  scalar field \<open>'s\<close> and projective points \<open>'p\<close>.
\<close>

record ('s, 'f, 'p) curve_ops =
  cv_affine_zero :: "'f affine"
  cv_generator :: 'p
  cv_generator_x :: 'f
  cv_generator_y :: 'f
  cv_add :: "'p \<Rightarrow> 'p \<Rightarrow> 'p"
  cv_sub :: "'p \<Rightarrow> 'p \<Rightarrow> 'p"
  cv_neg :: "'p \<Rightarrow> 'p"
  cv_double :: "'p \<Rightarrow> 'p"
  cv_mul :: "'p \<Rightarrow> bigint256 \<Rightarrow> 'p"
  cv_rand_seeded :: "u64 \<Rightarrow> 'p"
  cv_endos :: "'f \<times> 's"
  cv_to_affine :: "'p \<Rightarrow> 'f affine"
  cv_to_projective :: "'f affine \<Rightarrow> 'p"
  cv_projective_new :: "'f \<Rightarrow> 'f \<Rightarrow> 'f \<Rightarrow> 'p"

section \<open>Affine points for OCaml\<close>

datatype 'f caml_group_affine = Infinity | Finite "'f \<times> 'f"

definition caml_gvesta_from :: "'f affine \<Rightarrow> 'f caml_group_affine" where
  "caml_gvesta_from point =
     (if af_infinity point then Infinity else Finite (af_x point, af_y point))"

definition affine_vesta_from_caml :: "('s, 'f, 'p) curve_ops \<Rightarrow> 'f caml_group_affine \<Rightarrow> 'f affine" where
  "affine_vesta_from_caml V camlg =
     (case camlg of
        Infinity \<Rightarrow> cv_affine_zero V
      | Finite (x, y) \<Rightarrow> \<lparr>af_x = x, af_y = y, af_infinity = False\<rparr>)"

definition caml_gpallas_from :: "'f affine \<Rightarrow> 'f caml_group_affine" where
  "caml_gpallas_from point =
     (if af_infinity point then Infinity else Finite (af_x point, af_y point))"

definition affine_pallas_from_caml :: "('s, 'f, 'p) curve_ops \<Rightarrow> 'f caml_group_affine \<Rightarrow> 'f affine" where
  "affine_pallas_from_caml V camlg =
     (case camlg of
        Infinity \<Rightarrow> cv_affine_zero V
      | Finite (x, y) \<Rightarrow> \<lparr>af_x = x, af_y = y, af_infinity = False\<rparr>)"

section \<open>Affine points for JavaScript\<close>

record 'f wasm_g =
  wg_x :: 'f
  wg_y :: 'f
  wg_infinity :: bool

definition wasm_gvesta_from :: "'f affine \<Rightarrow> 'f wasm_g" where
  "wasm_gvesta_from point =
     \<lparr>wg_x = af_x point, wg_y = af_y point, wg_infinity = af_infinity point\<rparr>"

definition affine_vesta_from_wasm :: "'f wasm_g \<Rightarrow> 'f affine" where
  "affine_vesta_from_wasm point =
     \<lparr>af_x = wg_x point, af_y = wg_y point, af_infinity = wg_infinity point\<rparr>"

definition caml_vesta_affine_one :: "('s, 'f, 'p) curve_ops \<Rightarrow> 'f wasm_g" where
  "caml_vesta_affine_one V =
     \<lparr>wg_x = cv_generator_x V, wg_y = cv_generator_y V, wg_infinity = False\<rparr>"

definition wasm_gpallas_from :: "'f affine \<Rightarrow> 'f wasm_g" where
  "wasm_gpallas_from point =
     \<lparr>wg_x = af_x point, wg_y = af_y point, wg_infinity = af_infinity point\<rparr>"

definition affine_pallas_from_wasm :: "'f wasm_g \<Rightarrow> 'f affine" where
  "affine_pallas_from_wasm point =
     \<lparr>af_x = wg_x point, af_y = wg_y point, af_infinity = wg_infinity point\<rparr>"

definition caml_pallas_affine_one :: "('s, 'f, 'p) curve_ops \<Rightarrow> 'f wasm_g" where
  "caml_pallas_affine_one V =
     \<lparr>wg_x = cv_generator_x V, wg_y = cv_generator_y V, wg_infinity = False\<rparr>"

section \<open>Arithmetic of projective points\<close>

definition group_projective_pallas_add :: "('s, 'f, 'p) curve_ops \<Rightarrow> 'p \<Rightarrow> 'p \<Rightarrow> 'p" where
  "group_projective_pallas_add V x other = cv_add V x other"

definition group_projective_pallas_sub :: "('s, 'f, 'p) curve_ops \<Rightarrow> 'p \<Rightarrow> 'p \<Rightarrow> 'p" where
  "group_projective_pallas_sub V x other = cv_sub V x other"

definition group_projective_pallas_neg :: "('s, 'f, 'p) curve_ops \<Rightarrow> 'p \<Rightarrow> 'p" where
  "group_projective_pallas_neg V x = cv_neg V x"

definition group_projective_vesta_add :: "('s, 'f, 'p) curve_ops \<Rightarrow> 'p \<Rightarrow> 'p \<Rightarrow> 'p" where
  "group_projective_vesta_add V x other = cv_add V x other"

definition group_projective_vesta_sub :: "('s, 'f, 'p) curve_ops \<Rightarrow> 'p \<Rightarrow> 'p \<Rightarrow> 'p" where
  "group_projective_vesta_sub V x other = cv_sub V x other"

definition group_projective_vesta_neg :: "('s, 'f, 'p) curve_ops \<Rightarrow> 'p \<Rightarrow> 'p" where
  "group_projective_vesta_neg V x = cv_neg V x"

definition group_projective_pallas_add_wasm :: "('s, 'f, 'p) curve_ops \<Rightarrow> 'p \<Rightarrow> 'p \<Rightarrow> 'p" where
  "group_projective_pallas_add_wasm V x other = cv_add V x other"

definition group_projective_pallas_sub_wasm :: "('s, 'f, 'p) curve_ops \<Rightarrow> 'p \<Rightarrow> 'p \<Rightarrow> 'p" where
  "group_projective_pallas_sub_wasm V x other = cv_sub V x other"

definition group_projective_pallas_neg_wasm :: "('s, 'f, 'p) curve_ops \<Rightarrow> 'p \<Rightarrow> 'p" where
  "group_projective_pallas_neg_wasm V x = cv_neg V x"

definition group_projective_vesta_add_wasm :: "('s, 'f, 'p) curve_ops \<Rightarrow> 'p \<Rightarrow> 'p \<Rightarrow> 'p" where
  "group_projective_vesta_add_wasm V x other = cv_add V x other"

definition group_projective_vesta_sub_wasm :: "('s, 'f, 'p) curve_ops \<Rightarrow> 'p \<Rightarrow> 'p \<Rightarrow> 'p" where
  "group_projective_vesta_sub_wasm V x other = cv_sub V x other"

definition group_projective_vesta_neg_wasm :: "('s, 'f, 'p) curve_ops \<Rightarrow> 'p \<Rightarrow> 'p" where
  "group_projective_vesta_neg_wasm V x = cv_neg V x"

section \<open>The exported functions for OCaml\<close>

text \<open>
  The conversions of affine points are those of the curve for which the macro is expanded; the ones
  for Vesta and for Pallas are the same function.
\<close>

definition caml_group_one :: "('s, 'f, 'p) curve_ops \<Rightarrow> 'p" where
  "caml_group_one V = cv_generator V"

definition caml_group_add :: "('s, 'f, 'p) curve_ops \<Rightarrow> 'p \<Rightarrow> 'p \<Rightarrow> 'p" where
  "caml_group_add V x y = cv_add V x y"

definition caml_group_sub :: "('s, 'f, 'p) curve_ops \<Rightarrow> 'p \<Rightarrow> 'p \<Rightarrow> 'p" where
  "caml_group_sub V x y = cv_sub V x y"

definition caml_group_negate :: "('s, 'f, 'p) curve_ops \<Rightarrow> 'p \<Rightarrow> 'p" where
  "caml_group_negate V x = cv_neg V x"

definition caml_group_double :: "('s, 'f, 'p) curve_ops \<Rightarrow> 'p \<Rightarrow> 'p" where
  "caml_group_double V x = cv_double V x"

definition caml_group_scale :: "'s ark_field \<Rightarrow> ('s, 'f, 'p) curve_ops \<Rightarrow> 'p \<Rightarrow> 's \<Rightarrow> 'p" where
  "caml_group_scale S V x y = (let y = ff_into_repr S y in cv_mul V x y)"

definition caml_group_random :: "'p \<Rightarrow> 'p" where
  "caml_group_random proj = proj"

definition caml_group_rng :: "('s, 'f, 'p) curve_ops \<Rightarrow> isize \<Rightarrow> 'p" where
  "caml_group_rng V i = (let i = (ucast (ucast i :: u32) :: u64) in cv_rand_seeded V i)"

definition caml_group_endo_base :: "('s, 'f, 'p) curve_ops \<Rightarrow> 'f" where
  "caml_group_endo_base V = (let (endo_q, endo_r) = cv_endos V in endo_q)"

definition caml_group_endo_scalar :: "('s, 'f, 'p) curve_ops \<Rightarrow> 's" where
  "caml_group_endo_scalar V = (let (endo_q, endo_r) = cv_endos V in endo_r)"

definition caml_group_to_affine :: "('s, 'f, 'p) curve_ops \<Rightarrow> 'p \<Rightarrow> 'f caml_group_affine" where
  "caml_group_to_affine V x = caml_gvesta_from (cv_to_affine V x)"

definition caml_group_of_affine :: "('s, 'f, 'p) curve_ops \<Rightarrow> 'f caml_group_affine \<Rightarrow> 'p" where
  "caml_group_of_affine V x = cv_to_projective V (affine_vesta_from_caml V x)"

definition caml_group_of_affine_coordinates ::
  "'f ark_field \<Rightarrow> ('s, 'f, 'p) curve_ops \<Rightarrow> 'f \<Rightarrow> 'f \<Rightarrow> 'p" where
  "caml_group_of_affine_coordinates B V x y = cv_projective_new V x y (ff_one B)"

definition caml_group_affine_deep_copy :: "'f caml_group_affine \<Rightarrow> 'f caml_group_affine" where
  "caml_group_affine_deep_copy x = x"

section \<open>The exported functions for JavaScript\<close>

definition caml_group_one_wasm :: "('s, 'f, 'p) curve_ops \<Rightarrow> 'p" where
  "caml_group_one_wasm V = cv_generator V"

definition caml_group_add_wasm :: "('s, 'f, 'p) curve_ops \<Rightarrow> 'p \<Rightarrow> 'p \<Rightarrow> 'p" where
  "caml_group_add_wasm V x y = cv_add V x y"

definition caml_group_sub_wasm :: "('s, 'f, 'p) curve_ops \<Rightarrow> 'p \<Rightarrow> 'p \<Rightarrow> 'p" where
  "caml_group_sub_wasm V x y = cv_sub V x y"

definition caml_group_negate_wasm :: "('s, 'f, 'p) curve_ops \<Rightarrow> 'p \<Rightarrow> 'p" where
  "caml_group_negate_wasm V x = cv_neg V x"

definition caml_group_double_wasm :: "('s, 'f, 'p) curve_ops \<Rightarrow> 'p \<Rightarrow> 'p" where
  "caml_group_double_wasm V x = cv_double V x"

definition caml_group_scale_wasm :: "'s ark_field \<Rightarrow> ('s, 'f, 'p) curve_ops \<Rightarrow> 'p \<Rightarrow> 's \<Rightarrow> 'p" where
  "caml_group_scale_wasm S V x y = (let y = ff_into_repr S y in cv_mul V x y)"

definition caml_group_random_wasm :: "'p \<Rightarrow> 'p" where
  "caml_group_random_wasm proj = proj"

definition caml_group_rng_wasm :: "('s, 'f, 'p) curve_ops \<Rightarrow> u32 \<Rightarrow> 'p" where
  "caml_group_rng_wasm V i = (let i = (ucast i :: u64) in cv_rand_seeded V i)"

definition caml_group_endo_base_wasm :: "('s, 'f, 'p) curve_ops \<Rightarrow> 'f" where
  "caml_group_endo_base_wasm V = (let (endo_q, endo_r) = cv_endos V in endo_q)"

definition caml_group_endo_scalar_wasm :: "('s, 'f, 'p) curve_ops \<Rightarrow> 's" where
  "caml_group_endo_scalar_wasm V = (let (endo_q, endo_r) = cv_endos V in endo_r)"

definition caml_group_to_affine_wasm :: "('s, 'f, 'p) curve_ops \<Rightarrow> 'p \<Rightarrow> 'f wasm_g" where
  "caml_group_to_affine_wasm V x = wasm_gvesta_from (cv_to_affine V x)"

definition caml_group_of_affine_wasm :: "('s, 'f, 'p) curve_ops \<Rightarrow> 'f wasm_g \<Rightarrow> 'p" where
  "caml_group_of_affine_wasm V x = cv_to_projective V (affine_vesta_from_wasm x)"

definition caml_group_of_affine_coordinates_wasm ::
  "'f ark_field \<Rightarrow> ('s, 'f, 'p) curve_ops \<Rightarrow> 'f \<Rightarrow> 'f \<Rightarrow> 'p" where
  "caml_group_of_affine_coordinates_wasm B V x y = cv_projective_new V x y (ff_one B)"

definition caml_group_affine_deep_copy_wasm :: "'f wasm_g \<Rightarrow> 'f wasm_g" where
  "caml_group_affine_deep_copy_wasm x = x"

section \<open>What the bindings rely on\<close>

text \<open>
  The projective points form a group; multiplication by an integer is repeated addition; a finite
  affine point \<open>(x, y)\<close> is the projective point \<open>(x, y, 1)\<close>, and an affine point is
  recovered from its projective form.
\<close>

locale curve_contract = ark_field_contract S
  for S :: "'s ark_field" +
  fixes B :: "'f ark_field" and V :: "('s, 'f, 'p :: ab_group_add) curve_ops"
  assumes cv_add: "cv_add V x y = x + y"
    and cv_sub: "cv_sub V x y = x - y"
    and cv_neg: "cv_neg V x = - x"
    and cv_double: "cv_double V x = x + x"
    and cv_mul: "cv_mul V x b = times_nat (bigint_value b) x"
    and curve_order: "times_nat (ff_order S) x = 0"
    and to_projective: "cv_to_projective V \<lparr>af_x = u, af_y = v, af_infinity = False\<rparr> = cv_projective_new V u v (ff_one B)"
    and zero_projective: "cv_to_projective V (cv_affine_zero V) = 0"
    and zero_infinity: "af_infinity (cv_affine_zero V)"
    and to_affine_projective: "cv_to_projective V (cv_to_affine V x) = x"
    and to_affine_zero: "af_infinity (cv_to_affine V x) \<longleftrightarrow> x = 0"

section \<open>Lemmas on the conversions\<close>

lemma pallas_vesta_conversions:
  "caml_gpallas_from = caml_gvesta_from" "affine_pallas_from_caml = affine_vesta_from_caml"
  "wasm_gpallas_from = wasm_gvesta_from" "affine_pallas_from_wasm = affine_vesta_from_wasm"
  by (simp_all add: fun_eq_iff caml_gpallas_from_def caml_gvesta_from_def affine_pallas_from_caml_def
      affine_vesta_from_caml_def wasm_gpallas_from_def wasm_gvesta_from_def affine_pallas_from_wasm_def
      affine_vesta_from_wasm_def)

lemma affine_from_caml_from:
  "affine_vesta_from_caml V (caml_gvesta_from p) = (if af_infinity p then cv_affine_zero V else p)"
  by (simp add: affine_vesta_from_caml_def caml_gvesta_from_def)

interpretation wasm_vesta: codec wasm_gvesta_from "\<lambda>g. Ok (affine_vesta_from_wasm g)"
  by unfold_locales (simp add: affine_vesta_from_wasm_def wasm_gvesta_from_def)

interpretation wasm_pallas: codec wasm_gpallas_from "\<lambda>g. Ok (affine_pallas_from_wasm g)"
  by unfold_locales (simp add: affine_pallas_from_wasm_def wasm_gpallas_from_def)

lemma affine_vesta_wasm_inverse [simp]: "affine_vesta_from_wasm (wasm_gvesta_from p) = p"
  using wasm_vesta.decode_encode [of p] by simp

lemma affine_pallas_wasm_inverse [simp]: "affine_pallas_from_wasm (wasm_gpallas_from p) = p"
  using wasm_pallas.decode_encode [of p] by simp

lemma wasm_affine_inverse [simp]: "wasm_gvesta_from (affine_vesta_from_wasm g) = g"
  by (simp add: affine_vesta_from_wasm_def wasm_gvesta_from_def)

section \<open>A curve\<close>

text \<open>
  The additive group of \<open>Fp\<close> as a curve, with the point \<open>x\<close> at the coordinates
  \<open>(x, x)\<close>.
\<close>

definition ref_curve_ops :: "(pasta_fp, pasta_fp, pasta_fp) curve_ops" where
  "ref_curve_ops = \<lparr>
     cv_affine_zero = \<lparr>af_x = 0, af_y = 0, af_infinity = True\<rparr>,
     cv_generator = ff_one ref_fp, cv_generator_x = ff_one ref_fp, cv_generator_y = ff_one ref_fp,
     cv_add = (+), cv_sub = (-), cv_neg = uminus, cv_double = (\<lambda>x. x + x),
     cv_mul = (\<lambda>x b. times_nat (bigint_value b) x),
     cv_rand_seeded = ff_from_u64 ref_fp,
     cv_endos = (ff_one ref_fp, ff_one ref_fp),
     cv_to_affine = (\<lambda>x. \<lparr>af_x = x, af_y = x, af_infinity = (x = 0)\<rparr>),
     cv_to_projective = (\<lambda>p. af_x p),
     cv_projective_new = (\<lambda>x y z. x) \<rparr>"

lemma ref_curve_ops_contract: "curve_contract ref_fp ref_fp ref_curve_ops"
proof (intro curve_contract.intro curve_contract_axioms.intro)
  show "ark_field_contract ref_fp" by (rule ref_fp_contract)
  show "times_nat (ff_order ref_fp) x = 0" for x :: pasta_fp by (rule curve.group_order)
qed (simp_all add: ref_curve_ops_def)

interpretation points: curve_contract ref_fp ref_fp ref_curve_ops
  by (rule ref_curve_ops_contract)

section \<open>Properties\<close>

text \<open>
  Affine and projective points. A projective point converted to an affine one and back, through
  either host language, is the same point; the point at infinity of OCaml is the neutral element;
  a finite affine point and its coordinates denote the same projective point.
\<close>

theorem group_affine_roundtrip:
  assumes "curve_contract S B V"
  shows "caml_group_of_affine V (caml_group_to_affine V x) = x \<and>
    caml_group_of_affine_wasm V (caml_group_to_affine_wasm V x) = x \<and>
    caml_group_of_affine V Infinity = 0 \<and>
    (caml_group_to_affine V x = Infinity \<longleftrightarrow> x = 0) \<and>
    caml_group_of_affine V (Finite (u, v)) = caml_group_of_affine_coordinates B V u v \<and>
    caml_group_of_affine_wasm V \<lparr>wg_x = u, wg_y = v, wg_infinity = False\<rparr> =
      caml_group_of_affine_coordinates_wasm B V u v"
proof -
  note facts = curve_contract.to_affine_projective [OF assms] curve_contract.to_affine_zero [OF assms]
    curve_contract.zero_projective [OF assms] curve_contract.to_projective [OF assms]
  have "caml_group_of_affine V (caml_group_to_affine V x) = x"
    using facts by (simp add: caml_group_of_affine_def caml_group_to_affine_def affine_from_caml_from)
  moreover have "caml_group_of_affine_wasm V (caml_group_to_affine_wasm V x) = x"
    using facts by (simp add: caml_group_of_affine_wasm_def caml_group_to_affine_wasm_def)
  ultimately show ?thesis
    using facts
    by (simp add: caml_group_of_affine_def caml_group_to_affine_def caml_gvesta_from_def
        affine_vesta_from_caml_def caml_group_of_affine_coordinates_def
        caml_group_of_affine_wasm_def caml_group_of_affine_coordinates_wasm_def affine_vesta_from_wasm_def)
qed

theorem group_affine_roundtrip_witness:
  "caml_group_of_affine ref_curve_ops (caml_group_to_affine ref_curve_ops (ff_one ref_fp)) = ff_one ref_fp"
  using group_affine_roundtrip [OF ref_curve_ops_contract, of "ff_one ref_fp"] by simp

text \<open>
  C24. Scalar multiplication. Scaling by a sum of scalars is the sum of the scaled points, scaling by
  a product is scaling twice, scaling by minus one is negation, and doubling is scaling by two:
  the bindings pass the canonical integer of the scalar, and the points have the order of the
  scalar field.
\<close>

theorem group_scale_laws:
  assumes "curve_contract S B V"
  shows "caml_group_scale S V x (ff_add S a b) = caml_group_add V (caml_group_scale S V x a) (caml_group_scale S V x b) \<and>
    caml_group_scale S V x (ff_mul S a b) = caml_group_scale S V (caml_group_scale S V x b) a \<and>
    caml_group_scale S V x (ff_neg S (ff_one S)) = caml_group_negate V x \<and>
    caml_group_scale S V x (ff_add S (ff_one S) (ff_one S)) = caml_group_double V x \<and>
    caml_group_sub V x y = caml_group_add V x (caml_group_negate V y) \<and>
    caml_group_scale_wasm S V x a = caml_group_scale S V x a"
proof -
  note field = curve_contract.axioms(1) [OF assms]
  note facts = curve_contract.cv_add [OF assms] curve_contract.cv_sub [OF assms] curve_contract.cv_neg [OF assms]
    curve_contract.cv_double [OF assms] curve_contract.cv_mul [OF assms]
  have scale: "caml_group_scale S V x a = times_nat (ff_value S a) x" for x a
    by (simp add: caml_group_scale_def facts ff_value_def)
  note order = times_nat_mod [OF curve_contract.curve_order [OF assms]]
  have "times_nat (ff_order S - 1) x + x = times_nat (ff_order S - 1) x + times_nat 1 x" by simp
  also have "\<dots> = times_nat (ff_order S) x"
    using ark_field_contract.order_bound [OF field] unfolding times_nat_add [symmetric] by simp
  finally have minus_one: "times_nat (ff_order S - 1) x = - x"
    by (simp add: curve_contract.curve_order [OF assms] eq_neg_iff_add_eq_0)
  have value_two: "ff_value S (ff_add S (ff_one S) (ff_one S)) = 2"
    using ark_field_contract.order_bound [OF field]
    by (simp add: ark_field_contract.value_add [OF field] ark_field_contract.value_one [OF field])
  show ?thesis
    using minus_one value_two
    by (simp add: scale order ark_field_contract.value_add [OF field] ark_field_contract.value_mul [OF field]
        ark_field_contract.value_neg [OF field] ark_field_contract.value_one [OF field] times_nat_add
        times_nat_mult caml_group_add_def caml_group_negate_def caml_group_double_def caml_group_sub_def
        caml_group_scale_wasm_def facts numeral_2_eq_2 ff_value_def [symmetric])
qed

theorem group_scale_laws_witness:
  "caml_group_scale ref_fp ref_curve_ops (ff_one ref_fp) (ff_neg ref_fp (ff_one ref_fp)) =
     caml_group_negate ref_curve_ops (ff_one ref_fp)"
  using group_scale_laws [OF ref_curve_ops_contract, of "ff_one ref_fp"] by blast

end
