(* ===== verification/Poly_Comm.thy ===== *)
theory Poly_Comm
  imports Group
begin

text \<open>
  Polynomial commitments for JavaScript, \<^verbatim>\<open>wasm/src/poly_comm.rs\<close>: one macro, expanded for
  Vesta and for Pallas, whose conversions of points are the same function.
\<close>

record 'g wasm_poly_comm =
  wpc_unshifted :: "'g list"
  wpc_shifted :: "'g option"

definition shifted_deprecated :: string where
  "shifted_deprecated = ''mina#14628: Shifted commitments are deprecated and must not be used''"

definition wasm_poly_comm_new :: "'g list \<Rightarrow> 'g option \<Rightarrow> ('g wasm_poly_comm, js_error) outcome" where
  "wasm_poly_comm_new unshifted shifted =
     and_then (rust_assert (shifted = None) shifted_deprecated) (\<lambda>_.
       Ok \<lparr>wpc_unshifted = unshifted, wpc_shifted = shifted\<rparr>)"

definition wasm_poly_comm_unshifted :: "'g wasm_poly_comm \<Rightarrow> 'g list" where
  "wasm_poly_comm_unshifted x = wpc_unshifted x"

definition wasm_poly_comm_set_unshifted :: "'g wasm_poly_comm \<Rightarrow> 'g list \<Rightarrow> 'g wasm_poly_comm" where
  "wasm_poly_comm_set_unshifted self x = self\<lparr>wpc_unshifted := x\<rparr>"

definition wasm_poly_comm_from :: "'f affine poly_comm \<Rightarrow> 'f wasm_g wasm_poly_comm" where
  "wasm_poly_comm_from x =
     \<lparr>wpc_unshifted = map wasm_gvesta_from (pc_elems x), wpc_shifted = None\<rparr>"

definition poly_comm_from_wasm :: "'f wasm_g wasm_poly_comm \<Rightarrow> ('f affine poly_comm, js_error) outcome" where
  "poly_comm_from_wasm x =
     and_then (rust_assert (wpc_shifted x = None) shifted_deprecated) (\<lambda>_.
       Ok \<lparr>pc_elems = map affine_vesta_from_wasm (wpc_unshifted x)\<rparr>)"

interpretation poly_comm: codec wasm_poly_comm_from poly_comm_from_wasm
  by unfold_locales (simp add: wasm_poly_comm_from_def poly_comm_from_wasm_def rust_assert_def comp_def)

lemma poly_comm_roundtrip [simp]: "poly_comm_from_wasm (wasm_poly_comm_from x) = Ok x"
  by (rule poly_comm.decode_encode)

section \<open>Properties\<close>

text \<open>
  Polynomial commitments. A commitment survives the trip to JavaScript and back; the view of a
  commitment without shifted part is recovered from its commitment, and a view with a shifted part
  can neither be constructed nor converted: both panic.
\<close>

theorem poly_comm_wasm_roundtrip:
  "poly_comm_from_wasm (wasm_poly_comm_from c) = Ok c \<and>
   (case wasm_poly_comm_new unshifted shifted of
      Ok w \<Rightarrow> shifted = None \<and> wasm_poly_comm_unshifted w = unshifted \<and>
        map_ok wasm_poly_comm_from (poly_comm_from_wasm w) = Ok w
    | Err e \<Rightarrow> False
    | Panic m \<Rightarrow> shifted \<noteq> None) \<and>
   (wpc_shifted w \<noteq> None \<longleftrightarrow> (\<exists>m. poly_comm_from_wasm w = Panic m))"
  by (cases "wpc_shifted w"; cases shifted)
    (auto simp: poly_comm_from_wasm_def wasm_poly_comm_from_def wasm_poly_comm_new_def rust_assert_def
      comp_def wasm_poly_comm_unshifted_def)

theorem poly_comm_wasm_roundtrip_witness:
  "\<exists>m. poly_comm_from_wasm \<lparr>wpc_unshifted = [], wpc_shifted = Some \<lparr>wg_x = 0 :: nat, wg_y = 0, wg_infinity = True\<rparr>\<rparr> = Panic m"
  using poly_comm_wasm_roundtrip [where w = "\<lparr>wpc_unshifted = [], wpc_shifted = Some \<lparr>wg_x = 0 :: nat, wg_y = 0, wg_infinity = True\<rparr>\<rparr>"
      and unshifted = "[] :: nat wasm_g list" and shifted = None and c = "\<lparr>pc_elems = []\<rparr>"]
  by simp

end
