(* ===== verification/Wasm_Runtime.thy ===== *)
theory Wasm_Runtime
  imports Crates
begin

text \<open>
  The runtime of the JavaScript bindings: the thread pool of \<^verbatim>\<open>wasm/src/rayon.rs\<close> and the
  shared words of \<^verbatim>\<open>wasm/src/lib.rs\<close> on which a thread waits. The static variable
  \<open>THREAD_POOL\<close>, the builders with their channels and the workers are a state on which the calls of
  JavaScript act in any order. A job of the pool is computed sequentially.
\<close>

section \<open>The thread pool\<close>

text \<open>
  A message of a channel is a \<open>rayon::ThreadBuilder\<close>, known by the index of its thread in the pool. What
  rayon and spmc do is a parameter: the threads for which rayon calls the spawn handler when it is asked for a
  number of threads (it chooses itself when asked for none), whether building the pool succeeds after that,
  sending on a channel (\<open>None\<close> is an error) and receiving from it (\<open>None\<close> while nothing is there).
\<close>

record pool_ops =
  po_threads :: "nat \<Rightarrow> nat list"
  po_build :: "nat \<Rightarrow> bool"
  po_send :: "nat list \<Rightarrow> nat \<Rightarrow> nat list option"
  po_recv :: "nat list \<Rightarrow> (nat \<times> nat list) option"

record pool_builder =
  pb_num_threads :: nat
  pb_channel :: "nat list"

text \<open>
  \<open>THREAD_POOL\<close>, the builders that were handed to JavaScript by their address, and the workers that run a
  thread, with the address of the receiver they were started with.
\<close>

record pool_state =
  thread_pool :: "nat option"
  builders :: "nat \<rightharpoonup> pool_builder"
  workers :: "(nat \<times> nat) list"

definition initial_pool :: pool_state where
  "initial_pool = \<lparr>thread_pool = None, builders = Map.empty, workers = []\<rparr>"

definition run_in_pool :: "pool_state \<Rightarrow> (unit \<Rightarrow> ('r, 'e) outcome) \<Rightarrow> ('r, 'e) outcome" where
  "run_in_pool s job =
     and_then (expect (thread_pool s) ''called Option::unwrap() on a None value'') (\<lambda>_. job ())"

definition pool_builder_new :: "nat \<Rightarrow> pool_builder" where
  "pool_builder_new num_threads = \<lparr>pb_num_threads = num_threads, pb_channel = []\<rparr>"

text \<open>
  What JavaScript asks of the builder before it starts that many workers.
\<close>

definition pool_builder_num_threads :: "pool_builder \<Rightarrow> nat" where
  "pool_builder_num_threads b = pb_num_threads b"

text \<open>
  \<open>initThreadPool\<close> hands a new builder, at a new address, to the workers that JavaScript starts; builders
  handed over before stay where they are.
\<close>

definition init_thread_pool :: "nat \<Rightarrow> nat \<Rightarrow> pool_state \<Rightarrow> pool_state" where
  "init_thread_pool addr num_threads s = s\<lparr>builders := (builders s)(addr \<mapsto> pool_builder_new num_threads)\<rparr>"

text \<open>
  \<open>build\<close>: the spawn handler sends one message per thread, then the pool is published. A failing \<open>send\<close> or
  \<open>build\<close> throws; what was sent before stays in the channel and the old pool stays published.
\<close>

fun send_all :: "pool_ops \<Rightarrow> nat list \<Rightarrow> nat list \<Rightarrow> nat list \<times> bool" where
  "send_all Y [] ch = (ch, True)"
| "send_all Y (t # ts) ch = (case po_send Y ch t of None \<Rightarrow> (ch, False) | Some ch \<Rightarrow> send_all Y ts ch)"

definition unwrap_throw :: "bool \<Rightarrow> (unit, js_error) outcome" where
  "unwrap_throw ok = (if ok then Ok () else Panic ''called Result::unwrap_throw() on an Err value'')"

definition pool_builder_build :: "pool_ops \<Rightarrow> nat \<Rightarrow> pool_state \<Rightarrow> (unit, js_error) outcome \<times> pool_state" where
  "pool_builder_build Y addr s =
     (case builders s addr of
        None \<Rightarrow> (Panic ''null pointer passed to rust'', s)
      | Some self \<Rightarrow>
          let threads = po_threads Y (pb_num_threads self);
              (ch, sent) = send_all Y threads (pb_channel self);
              s = s\<lparr>builders := (builders s)(addr \<mapsto> self\<lparr>pb_channel := ch\<rparr>)\<rparr>;
              r = and_then (unwrap_throw sent) (\<lambda>_. unwrap_throw (po_build Y (pb_num_threads self)))
          in (r, if r = Ok () then s\<lparr>thread_pool := Some (length threads)\<rparr> else s))"

text \<open>
  \<open>wbg_rayon_start_worker\<close> waits on its own receiver until a message is there, takes it and runs that thread.
\<close>

definition wbg_rayon_start_worker :: "pool_ops \<Rightarrow> nat \<Rightarrow> pool_state \<Rightarrow> pool_state option" where
  "wbg_rayon_start_worker Y addr s =
     (case builders s addr of
        None \<Rightarrow> None
      | Some b \<Rightarrow>
          map_option (\<lambda>(t, ch).
            s\<lparr>builders := (builders s)(addr \<mapsto> b\<lparr>pb_channel := ch\<rparr>), workers := (addr, t) # workers s\<rparr>)
            (po_recv Y (pb_channel b)))"

text \<open>
  \<open>exitThreadPool\<close> asks JavaScript to terminate the workers, which happens later and is the event
  \<open>WorkerTerminated\<close>, and withdraws the pool at once.
\<close>

definition exit_thread_pool :: "pool_state \<Rightarrow> pool_state" where
  "exit_thread_pool s = s\<lparr>thread_pool := None\<rparr>"

datatype pool_event =
    InitThreadPool nat nat
  | Build nat
  | StartWorker nat
  | ExitThreadPool
  | WorkerTerminated "nat \<times> nat"

fun pool_step :: "pool_ops \<Rightarrow> pool_state \<Rightarrow> pool_event \<Rightarrow> pool_state" where
  "pool_step Y s (InitThreadPool addr n) = init_thread_pool addr n s"
| "pool_step Y s (Build addr) = snd (pool_builder_build Y addr s)"
| "pool_step Y s (StartWorker addr) = (case wbg_rayon_start_worker Y addr s of None \<Rightarrow> s | Some s \<Rightarrow> s)"
| "pool_step Y s ExitThreadPool = exit_thread_pool s"
| "pool_step Y s (WorkerTerminated w) = s\<lparr>workers := remove1 w (workers s)\<rparr>"

definition pool_run :: "pool_ops \<Rightarrow> pool_event list \<Rightarrow> pool_state" where
  "pool_run Y evs = foldl (pool_step Y) initial_pool evs"

text \<open>
  Whether the last build that succeeded was not followed by an exit.
\<close>

definition published :: "pool_ops \<Rightarrow> pool_event list \<Rightarrow> bool" where
  "published Y evs \<longleftrightarrow>
     (\<exists>pre addr post. evs = pre @ Build addr # post \<and>
        fst (pool_builder_build Y addr (pool_run Y pre)) = Ok () \<and> ExitThreadPool \<notin> set post)"

lemma build_publishes:
  "thread_pool (snd (pool_builder_build Y addr s)) \<noteq> None \<longleftrightarrow>
   fst (pool_builder_build Y addr s) = Ok () \<or> thread_pool s \<noteq> None"
  by (auto simp: pool_builder_build_def Let_def split: option.split prod.split)

lemma step_publishes:
  "thread_pool (pool_step Y s ev) \<noteq> None \<longleftrightarrow>
   (\<exists>addr. ev = Build addr \<and> fst (pool_builder_build Y addr s) = Ok ()) \<or> (ev \<noteq> ExitThreadPool \<and> thread_pool s \<noteq> None)"
  using build_publishes [of Y]
  by (cases ev) (auto simp: init_thread_pool_def exit_thread_pool_def wbg_rayon_start_worker_def split: option.split)

lemma published_snoc:
  "published Y (evs @ [ev]) \<longleftrightarrow>
   (\<exists>addr. ev = Build addr \<and> fst (pool_builder_build Y addr (pool_run Y evs)) = Ok ()) \<or> (ev \<noteq> ExitThreadPool \<and> published Y evs)"
    (is "_ \<longleftrightarrow> ?last \<or> ?earlier")
proof
  assume "published Y (evs @ [ev])"
  then obtain pre addr post where evs: "evs @ [ev] = pre @ Build addr # post"
    and ok: "fst (pool_builder_build Y addr (pool_run Y pre)) = Ok ()" "ExitThreadPool \<notin> set post"
    unfolding published_def by blast
  then show "?last \<or> ?earlier" unfolding published_def
    by (cases post rule: rev_cases) fastforce+
next
  assume "?last \<or> ?earlier"
  then show "published Y (evs @ [ev])"
  proof
    assume ?last
    then show ?thesis unfolding published_def by fastforce
  next
    assume earlier: ?earlier
    then obtain pre addr post where "evs = pre @ Build addr # post"
      "fst (pool_builder_build Y addr (pool_run Y pre)) = Ok ()" "ExitThreadPool \<notin> set post"
      unfolding published_def by blast
    then have "evs @ [ev] = pre @ Build addr # (post @ [ev]) \<and>
        fst (pool_builder_build Y addr (pool_run Y pre)) = Ok () \<and> ExitThreadPool \<notin> set (post @ [ev])"
      using earlier by auto
    then show ?thesis unfolding published_def by blast
  qed
qed

lemma pool_run_published: "thread_pool (pool_run Y evs) \<noteq> None \<longleftrightarrow> published Y evs"
proof (induction evs rule: rev_induct)
  case Nil
  show ?case by (simp add: pool_run_def initial_pool_def published_def)
next
  case (snoc ev evs)
  have "pool_run Y (evs @ [ev]) = pool_step Y (pool_run Y evs) ev" by (simp add: pool_run_def)
  with snoc step_publishes [of Y "pool_run Y evs" ev] show ?case by (simp add: published_snoc)
qed

section \<open>Waiting for a shared word\<close>

text \<open>
  The values that successive volatile reads of the word return are the function \<open>reads\<close>; the
  loop reads until it finds a value that is not zero. \<open>fuel\<close> bounds the number of reads:
  \<open>None\<close> means that the loop is still spinning.
\<close>

fun wait_until_non_zero :: "nat \<Rightarrow> (nat \<Rightarrow> u32) \<Rightarrow> u32 option" where
  "wait_until_non_zero 0 reads = None"
| "wait_until_non_zero (Suc fuel) reads =
     (let contents = reads 0 in
      if contents \<noteq> 0 then Some contents
      else wait_until_non_zero fuel (\<lambda>i. reads (Suc i)))"

text \<open>
  The boxes behind the pointers given to JavaScript: allocation of a zero, release and the write.
\<close>

definition create_zero_u32_ptr :: "nat \<Rightarrow> (nat \<rightharpoonup> u32) \<Rightarrow> (nat \<rightharpoonup> u32)" where
  "create_zero_u32_ptr ptr m = m(ptr \<mapsto> 0)"

definition free_u32_ptr :: "nat \<Rightarrow> (nat \<rightharpoonup> u32) \<Rightarrow> (nat \<rightharpoonup> u32)" where
  "free_u32_ptr ptr m = m(ptr := None)"

definition set_u32_ptr :: "nat \<Rightarrow> u32 \<Rightarrow> (nat \<rightharpoonup> u32) \<Rightarrow> (nat \<rightharpoonup> u32)" where
  "set_u32_ptr ptr arg m = m(ptr \<mapsto> arg)"

section \<open>Calls into JavaScript\<close>

text \<open>
  The imported functions \<open>alert\<close> and \<open>console.log\<close> are calls of JavaScript; a function that makes
  them returns them in order.
\<close>

datatype js_call = Alert string | ConsoleLog string

definition greet :: "string \<Rightarrow> js_call list" where
  "greet name = [Alert (''Hello, '' @ name @ ''!'')]"

definition console_log :: "string \<Rightarrow> js_call list" where
  "console_log s = [ConsoleLog s]"

section \<open>The waiting loop\<close>

lemma wait_first_nonzero:
  "reads n \<noteq> 0 \<Longrightarrow> \<forall>i < n. reads i = 0 \<Longrightarrow> n < fuel \<Longrightarrow> wait_until_non_zero fuel reads = Some (reads n)"
proof (induction n arbitrary: fuel reads)
  case 0
  then show ?case by (cases fuel) auto
next
  case (Suc n)
  then obtain fuel' where "fuel = Suc fuel'" "n < fuel'" by (cases fuel) auto
  with Suc.IH [of "\<lambda>i. reads (Suc i)" fuel'] Suc.prems show ?case by auto
qed

lemma wait_all_zero: "\<forall>i < fuel. reads i = 0 \<Longrightarrow> wait_until_non_zero fuel reads = None"
  by (induction fuel arbitrary: reads) auto

section \<open>Properties\<close>


definition ref_pool_ops :: pool_ops where
  "ref_pool_ops =
     \<lparr>po_threads = (\<lambda>n. [0..<(if n = 0 then 1 else n)]), po_build = (\<lambda>n. n < 3), po_send = (\<lambda>ch t. Some (ch @ [t])),
      po_recv = (\<lambda>ch. case ch of [] \<Rightarrow> None | t # ts \<Rightarrow> Some (t, ts))\<rparr>"


text \<open>
  C27. Waiting. The spinning loop returns the first value read that is not zero, with as many
  iterations as it takes to read it, and spins for as long as every read gives zero.
\<close>

theorem wait_until_non_zero_returns:
  "(if \<exists>i. reads i \<noteq> 0
    then \<exists>n. reads n \<noteq> 0 \<and> (\<forall>i. i < n \<longrightarrow> reads i = 0) \<and>
      (\<forall>fuel. wait_until_non_zero fuel reads = (if n < fuel then Some (reads n) else None))
    else \<forall>fuel. wait_until_non_zero fuel reads = None)"
proof (cases "\<exists>i. reads i \<noteq> 0")
  case True
  define n where "n = (LEAST i. reads i \<noteq> 0)"
  have "reads n \<noteq> 0" unfolding n_def using LeastI_ex [OF True] .
  moreover have below: "\<forall>i < n. reads i = 0" unfolding n_def using not_less_Least by blast
  ultimately have "\<forall>fuel. wait_until_non_zero fuel reads = (if n < fuel then Some (reads n) else None)"
    using wait_first_nonzero [of reads n] wait_all_zero [of _ reads] by (simp add: not_less)
  with \<open>reads n \<noteq> 0\<close> below True show ?thesis by (auto intro!: exI [of _ n])
next
  case False
  then show ?thesis using wait_all_zero [of _ reads] by simp
qed

theorem wait_until_non_zero_returns_witness:
  "wait_until_non_zero 3 (\<lambda>i. if i = 2 then 5 else 0) = Some 5"
proof -
  let ?reads = "\<lambda>i. if i = 2 then 5 else 0 :: u32"
  have "\<exists>i. ?reads i \<noteq> 0" by (rule exI [of _ 2]) simp
  then obtain n where n: "?reads n \<noteq> 0"
      "\<forall>fuel. wait_until_non_zero fuel ?reads = (if n < fuel then Some (?reads n) else None)"
    using wait_until_non_zero_returns [of ?reads] by metis
  then have "n = 2" by (simp split: if_splits)
  with spec [OF n(2), of 3] show ?thesis by simp
qed

end
