(* ===== verification/Srs.thy ===== *)
theory Srs
  imports Poly_Comm Urs_Utils Wasm_Runtime
begin

text \<open>
  The structured reference string: \<^verbatim>\<open>stubs/src/srs.rs\<close> (one macro, expanded for both
  fields) and \<^verbatim>\<open>wasm/src/srs.rs\<close> (suffix \<open>_wasm\<close>; one macro, and the modules
  \<open>fp\<close> and \<open>fq\<close>). The bindings mutate the Lagrange bases through a shared
  \<open>Arc\<close>: such an operation returns the string after the call. An evaluation domain is
  identified with its size. Files are a map from paths to contents. For OCaml the only failures of opening
  one are that it does not exist or that no access mode was requested; the crate for JavaScript is built for
  \<^verbatim>\<open>wasm32-unknown-unknown\<close> (\<^verbatim>\<open>wasm/.cargo/config\<close>), where the standard library has no files, so that
  opening is a parameter there.
\<close>

section \<open>Operations of the crates\<close>

record ('f, 'g, 'poly) srs_ops =
  so_create :: "nat \<Rightarrow> 'g srs"
  so_create_parallel :: "nat \<Rightarrow> 'g srs"
  so_domain_new :: "nat \<Rightarrow> nat option"
  so_add_lagrange_basis :: "'g srs \<Rightarrow> nat \<Rightarrow> 'g srs"
  so_interpolate :: "'f list \<Rightarrow> nat \<Rightarrow> 'poly"
  so_dense_polynomial :: "'f list \<Rightarrow> 'poly"
  so_commit_non_hiding :: "'g srs \<Rightarrow> 'poly \<Rightarrow> nat \<Rightarrow> 'g poly_comm"
  so_serialize :: "'g srs \<Rightarrow> (bytes, string) outcome"
  so_deserialize :: "bytes \<Rightarrow> 'g srs option"

type_synonym files = "string \<rightharpoonup> bytes"

text \<open>
  \<open>OpenOptions::new().append(b).open(path)\<close> with no other option: without an access mode it
  fails, with \<open>append\<close> the file must exist. The result is the contents to append to.
\<close>

definition open_append :: "files \<Rightarrow> bool \<Rightarrow> string \<Rightarrow> bytes option" where
  "open_append fs b path = (if b then fs path else None)"

definition io_not_found :: string where
  "io_not_found = ''No such file or directory (os error 2)''"

definition io_invalid_argument :: string where
  "io_invalid_argument = ''Invalid argument (os error 22)''"

definition open_append_error :: "bool \<Rightarrow> string" where
  "open_append_error b = (if b then io_not_found else io_invalid_argument)"

text \<open>
  \<open>File::open\<close> and \<open>OpenOptions::open\<close> of the target: with the files of a Unix system, and of the target
  that has none.
\<close>

record std_fs =
  fs_open :: "files \<Rightarrow> string \<Rightarrow> (bytes, string) outcome"
  fs_open_append :: "files \<Rightarrow> bool \<Rightarrow> string \<Rightarrow> (bytes, string) outcome"

definition unix_fs :: std_fs where
  "unix_fs =
     \<lparr>fs_open = (\<lambda>fs path. ok_or (fs path) io_not_found),
      fs_open_append = (\<lambda>fs b path. ok_or (open_append fs b path) (open_append_error b))\<rparr>"

definition wasm32_fs :: std_fs where
  "wasm32_fs =
     \<lparr>fs_open = (\<lambda>fs path. Err ''operation not supported on this platform''),
      fs_open_append = (\<lambda>fs b path. Err ''operation not supported on this platform'')\<rparr>"

text \<open>
  \<open>reader.seek(Start(n))\<close>: the system call takes the offset as a signed number and refuses a negative
  one; seeking past the end is allowed and leaves nothing to read. The error is the message of the system.
\<close>

definition seek_start :: "u64 option \<Rightarrow> bytes \<Rightarrow> (bytes, string) outcome" where
  "seek_start offset file =
     (case offset of
        None \<Rightarrow> Ok file
      | Some n \<Rightarrow> if sint n < 0 then Err io_invalid_argument else Ok (drop (unat n) file))"

text \<open>
  \<open>map[&k]\<close> of a \<open>HashMap\<close>.
\<close>

definition hash_index :: "('k \<rightharpoonup> 'v) \<Rightarrow> 'k \<Rightarrow> ('v, 'e) outcome" where
  "hash_index m k = expect (m k) ''no entry found for key''"

section \<open>The bindings for OCaml\<close>

definition caml_srs_create :: "('f, 'g, 'poly) srs_ops \<Rightarrow> isize \<Rightarrow> 'g srs" where
  "caml_srs_create P depth = so_create P (unat depth)"

definition caml_srs_write ::
  "('f, 'g, 'poly) srs_ops \<Rightarrow> files \<Rightarrow> bool option \<Rightarrow> 'g srs \<Rightarrow> string \<Rightarrow> (files, ocaml_error) outcome" where
  "caml_srs_write P fs append_mode srs path =
     and_then (ok_or (open_append fs (case append_mode of None \<Rightarrow> True | Some b \<Rightarrow> b) path)
                 (InvalidArgument ''CamlSRS::write'')) (\<lambda>file.
     and_then (map_err_with ErrorBox (so_serialize P srs)) (\<lambda>out.
       Ok (fs(path \<mapsto> file @ out))))"

definition caml_srs_read ::
  "('f, 'g, 'poly) srs_ops \<Rightarrow> files \<Rightarrow> isize option \<Rightarrow> string \<Rightarrow> ('g srs option, ocaml_error) outcome" where
  "caml_srs_read P fs offset path =
     and_then (ok_or (fs path) (InvalidArgument ''CamlSRS::read'')) (\<lambda>file.
     and_then (map_err_with ErrorBox (seek_start offset file)) (\<lambda>reader.
       case so_deserialize P reader of
         Some srs \<Rightarrow> Ok (Some srs)
       | None \<Rightarrow> Ok None))"

definition caml_srs_lagrange_commitment ::
  "('f, 'g, 'poly) srs_ops \<Rightarrow> ('g poly_comm \<Rightarrow> 'c) \<Rightarrow> 'g srs \<Rightarrow> isize \<Rightarrow> isize \<Rightarrow> ('c \<times> 'g srs, ocaml_error) outcome" where
  "caml_srs_lagrange_commitment P into_caml srs domain_size i =
     and_then (ok_or (so_domain_new P (unat domain_size)) (InvalidArgument ''CamlSRS::lagrange_commitment'')) (\<lambda>x_domain.
       let srs = so_add_lagrange_basis P srs x_domain in
       and_then (hash_index (srs_lagrange_bases srs) x_domain) (\<lambda>bases.
       and_then (vec_index bases (unat i)) (\<lambda>c. Ok (into_caml c, srs))))"

definition caml_srs_add_lagrange_basis ::
  "bool \<Rightarrow> ('f, 'g, 'poly) srs_ops \<Rightarrow> 'g srs \<Rightarrow> isize \<Rightarrow> ('g srs, ocaml_error) outcome" where
  "caml_srs_add_lagrange_basis overflow_checks P srs log2_size =
     and_then (shl_one overflow_checks 64 (uint log2_size)) (\<lambda>n.
     and_then (expect (so_domain_new P n) ''invalid domain size'') (\<lambda>domain.
       Ok (so_add_lagrange_basis P srs domain)))"

definition caml_srs_commit_evaluations ::
  "('f, 'g, 'poly) srs_ops \<Rightarrow> ('g poly_comm \<Rightarrow> 'c) \<Rightarrow> 'g srs \<Rightarrow> isize \<Rightarrow> 'f list \<Rightarrow> ('c, ocaml_error) outcome" where
  "caml_srs_commit_evaluations P into_caml srs domain_size evals =
     and_then (ok_or (so_domain_new P (unat domain_size)) (InvalidArgument ''CamlSRS::evaluations'')) (\<lambda>x_domain.
       let p = so_interpolate P evals x_domain in
       Ok (into_caml (so_commit_non_hiding P srs p 1)))"

definition caml_srs_b_poly_commitment ::
  "('f, 'g, 'p) commitment_ops \<Rightarrow> ('f, 'g, 'poly) srs_ops \<Rightarrow> ('g poly_comm \<Rightarrow> 'c) \<Rightarrow> 'g srs \<Rightarrow> 'f list \<Rightarrow> ('c, ocaml_error) outcome" where
  "caml_srs_b_poly_commitment C P into_caml srs chals =
     (let coeffs = cc_b_poly_coefficients C chals;
          p = so_dense_polynomial P coeffs
      in Ok (into_caml (so_commit_non_hiding P srs p 1)))"

definition caml_srs_batch_accumulator_check ::
  "'s ark_field \<Rightarrow> ('s, 'f affine, 'p) commitment_ops \<Rightarrow> ('s, 'f, 'p) curve_ops \<Rightarrow> 's \<Rightarrow> 'f affine srs \<Rightarrow>
    'f caml_group_affine list \<Rightarrow> 's list \<Rightarrow> (bool, ocaml_error) outcome" where
  "caml_srs_batch_accumulator_check F C V r srs comms chals =
     batch_dlog_accumulator_check F C r srs (map (affine_vesta_from_caml V) comms) chals"

definition caml_srs_batch_accumulator_generate ::
  "'s ark_field \<Rightarrow> ('s, 'f affine, 'p) commitment_ops \<Rightarrow> 'f affine srs \<Rightarrow> isize \<Rightarrow> 's list \<Rightarrow>
    ('f caml_group_affine list, ocaml_error) outcome" where
  "caml_srs_batch_accumulator_generate F C srs comms chals =
     map_ok (map caml_gvesta_from) (batch_dlog_accumulator_generate F C srs (unat comms) chals)"

definition caml_srs_h :: "'f affine srs \<Rightarrow> 'f caml_group_affine" where
  "caml_srs_h srs = caml_gvesta_from (srs_h srs)"

section \<open>The bindings for JavaScript\<close>

definition batch_dlog_accumulator_check_wasm ::
  "'f ark_field \<Rightarrow> ('f, 'g, 'p) commitment_ops \<Rightarrow> 'f \<Rightarrow> 'g srs \<Rightarrow> 'g list \<Rightarrow> 'f list \<Rightarrow> (bool, js_error) outcome" where
  "batch_dlog_accumulator_check_wasm = batch_dlog_accumulator_check"

definition batch_dlog_accumulator_generate_wasm ::
  "'f ark_field \<Rightarrow> ('f, 'g, 'p) commitment_ops \<Rightarrow> 'g srs \<Rightarrow> nat \<Rightarrow> 'f list \<Rightarrow> ('g list, js_error) outcome" where
  "batch_dlog_accumulator_generate_wasm = batch_dlog_accumulator_generate"

definition caml_srs_create_wasm :: "('f, 'g, 'poly) srs_ops \<Rightarrow> i32 \<Rightarrow> 'g srs" where
  "caml_srs_create_wasm P depth = so_create P (unat depth)"

definition caml_srs_add_lagrange_basis_wasm ::
  "pool_state \<Rightarrow> bool \<Rightarrow> ('f, 'g, 'poly) srs_ops \<Rightarrow> 'g srs \<Rightarrow> i32 \<Rightarrow> ('g srs, js_error) outcome" where
  "caml_srs_add_lagrange_basis_wasm pool overflow_checks P srs log2_size =
     run_in_pool pool (\<lambda>_.
       and_then (shl_one overflow_checks 32 (uint log2_size)) (\<lambda>n.
       and_then (expect (so_domain_new P n) ''invalid domain size'') (\<lambda>domain.
         Ok (so_add_lagrange_basis P srs domain))))"

definition caml_srs_write_wasm ::
  "std_fs \<Rightarrow> ('f, 'g, 'poly) srs_ops \<Rightarrow> files \<Rightarrow> bool option \<Rightarrow> 'g srs \<Rightarrow> string \<Rightarrow> (files, js_error) outcome" where
  "caml_srs_write_wasm D P fs append_mode srs path =
     and_then (map_err_with (\<lambda>e. JsValue (''caml_pasta_fp_urs_write: '' @ e))
       (fs_open_append D fs (case append_mode of None \<Rightarrow> True | Some b \<Rightarrow> b) path)) (\<lambda>file.
     and_then (map_err_with (\<lambda>e. JsValue (''caml_pasta_fp_urs_write: '' @ e)) (so_serialize P srs)) (\<lambda>out.
       Ok (fs(path \<mapsto> file @ out))))"

text \<open>
  \<open>offset as u64\<close> extends the sign of the 32-bit offset.
\<close>

definition caml_srs_read_wasm ::
  "std_fs \<Rightarrow> ('f, 'g, 'poly) srs_ops \<Rightarrow> files \<Rightarrow> i32 option \<Rightarrow> string \<Rightarrow> ('g srs option, js_error) outcome" where
  "caml_srs_read_wasm D P fs offset path =
     and_then (map_err_with (\<lambda>e. JsValue (''caml_pasta_fp_urs_read: '' @ e)) (fs_open D fs path)) (\<lambda>file.
     and_then (map_err_with (\<lambda>e. JsValue (''caml_pasta_fp_urs_read: '' @ e)) (seek_start (map_option scast offset) file)) (\<lambda>reader.
       case so_deserialize P reader of
         Some srs \<Rightarrow> Ok (Some srs)
       | None \<Rightarrow> Ok None))"

definition caml_srs_lagrange_commitment_wasm ::
  "pool_state \<Rightarrow> ('s, 'f affine, 'poly) srs_ops \<Rightarrow> 'f affine srs \<Rightarrow> i32 \<Rightarrow> i32 \<Rightarrow>
    ('f wasm_g wasm_poly_comm \<times> 'f affine srs, js_error) outcome" where
  "caml_srs_lagrange_commitment_wasm pool P srs domain_size i =
     and_then (ok_or (so_domain_new P (unat domain_size)) (JsValue ''caml_pasta_fp_urs_lagrange_commitment'')) (\<lambda>x_domain.
     and_then (run_in_pool pool (\<lambda>_. Ok (so_add_lagrange_basis P srs x_domain))) (\<lambda>srs.
     and_then (hash_index (srs_lagrange_bases srs) x_domain) (\<lambda>bases.
     and_then (vec_index bases (unat i)) (\<lambda>c. Ok (wasm_poly_comm_from c, srs)))))"

definition caml_srs_commit_evaluations_wasm ::
  "('s, 'f affine, 'poly) srs_ops \<Rightarrow> 'f affine srs \<Rightarrow> i32 \<Rightarrow> 's list \<Rightarrow> ('f wasm_g wasm_poly_comm, js_error) outcome" where
  "caml_srs_commit_evaluations_wasm P srs domain_size evals =
     and_then (ok_or (so_domain_new P (unat domain_size)) (JsValue ''caml_pasta_fp_urs_commit_evaluations'')) (\<lambda>x_domain.
       let p = so_interpolate P evals x_domain in
       Ok (wasm_poly_comm_from (so_commit_non_hiding P srs p 1)))"

definition caml_srs_b_poly_commitment_wasm ::
  "pool_state \<Rightarrow> ('s, 'f affine, 'p) commitment_ops \<Rightarrow> ('s, 'f affine, 'poly) srs_ops \<Rightarrow> 'f affine srs \<Rightarrow> 's list \<Rightarrow>
    ('f wasm_g wasm_poly_comm, js_error) outcome" where
  "caml_srs_b_poly_commitment_wasm pool C P srs chals =
     map_ok wasm_poly_comm_from (run_in_pool pool (\<lambda>_.
       let coeffs = cc_b_poly_coefficients C chals;
           p = so_dense_polynomial P coeffs
       in Ok (so_commit_non_hiding P srs p 1)))"

definition caml_srs_batch_accumulator_check_wasm ::
  "pool_state \<Rightarrow> 's ark_field \<Rightarrow> ('s, 'f affine, 'p) commitment_ops \<Rightarrow> 's \<Rightarrow> 'f affine srs \<Rightarrow>
    'f wasm_g list \<Rightarrow> 's list \<Rightarrow> (bool, js_error) outcome" where
  "caml_srs_batch_accumulator_check_wasm pool F C r srs comms chals =
     run_in_pool pool (\<lambda>_.
       batch_dlog_accumulator_check_wasm F C r srs (map affine_vesta_from_wasm comms) chals)"

definition caml_srs_batch_accumulator_generate_wasm ::
  "'s ark_field \<Rightarrow> ('s, 'f affine, 'p) commitment_ops \<Rightarrow> 'f affine srs \<Rightarrow> i32 \<Rightarrow> 's list \<Rightarrow>
    ('f wasm_g list, js_error) outcome" where
  "caml_srs_batch_accumulator_generate_wasm F C srs comms chals =
     map_ok (map wasm_gvesta_from) (batch_dlog_accumulator_generate_wasm F C srs (unat comms) chals)"

definition caml_srs_h_wasm :: "'f affine srs \<Rightarrow> 'f wasm_g" where
  "caml_srs_h_wasm srs = wasm_gvesta_from (srs_h srs)"

section \<open>The module \<open>fp\<close> for JavaScript\<close>

definition caml_fp_srs_create_parallel ::
  "pool_state \<Rightarrow> ('f, 'g, 'poly) srs_ops \<Rightarrow> i32 \<Rightarrow> ('g srs, js_error) outcome" where
  "caml_fp_srs_create_parallel pool P depth =
     run_in_pool pool (\<lambda>_. Ok (so_create_parallel P (unat depth)))"

definition caml_fp_srs_get :: "'f affine srs \<Rightarrow> 'f wasm_g list" where
  "caml_fp_srs_get srs = [wasm_gvesta_from (srs_h srs)] @ map wasm_gvesta_from (srs_g srs)"

text \<open>
  \<open>remove(0)\<close> panics on an empty vector.
\<close>

definition caml_fp_srs_set :: "'f wasm_g list \<Rightarrow> ('f affine srs, js_error) outcome" where
  "caml_fp_srs_set h_and_gs =
     (case map affine_vesta_from_wasm h_and_gs of
        [] \<Rightarrow> Panic ''removal index (is 0) should be < len (is 0)''
      | h # g \<Rightarrow> Ok \<lparr>srs_g = g, srs_h = h, srs_lagrange_bases = Map.empty\<rparr>)"

definition caml_fp_srs_maybe_lagrange_commitment ::
  "'f affine srs \<Rightarrow> i32 \<Rightarrow> i32 \<Rightarrow> ('f wasm_g wasm_poly_comm option, js_error) outcome" where
  "caml_fp_srs_maybe_lagrange_commitment srs domain_size i =
     (let bases = srs_lagrange_bases srs (unat domain_size) in
      collect_option (\<lambda>bases. map_ok wasm_poly_comm_from (vec_index bases (unat i))) bases)"

definition caml_fp_srs_set_lagrange_basis ::
  "'f affine srs \<Rightarrow> i32 \<Rightarrow> 'f wasm_g wasm_poly_comm list \<Rightarrow> ('f affine srs, js_error) outcome" where
  "caml_fp_srs_set_lagrange_basis srs domain_size input_bases =
     and_then (collect poly_comm_from_wasm input_bases) (\<lambda>bases.
       Ok (srs\<lparr>srs_lagrange_bases := (srs_lagrange_bases srs)(unat domain_size \<mapsto> bases)\<rparr>))"

definition caml_fp_srs_get_lagrange_basis ::
  "pool_state \<Rightarrow> ('s, 'f affine, 'poly) srs_ops \<Rightarrow> 'f affine srs \<Rightarrow> i32 \<Rightarrow>
    ('f wasm_g wasm_poly_comm list \<times> 'f affine srs, js_error) outcome" where
  "caml_fp_srs_get_lagrange_basis pool P srs domain_size =
     and_then (run_in_pool pool (\<lambda>_.
       and_then (expect (so_domain_new P (unat domain_size)) ''invalid domain size'') (\<lambda>domain.
         Ok (so_add_lagrange_basis P srs domain)))) (\<lambda>srs.
     and_then (hash_index (srs_lagrange_bases srs) (unat domain_size)) (\<lambda>bases.
       Ok (map wasm_poly_comm_from bases, srs)))"

section \<open>The module \<open>fq\<close> for JavaScript\<close>

definition caml_fq_srs_create_parallel ::
  "pool_state \<Rightarrow> ('f, 'g, 'poly) srs_ops \<Rightarrow> i32 \<Rightarrow> ('g srs, js_error) outcome" where
  "caml_fq_srs_create_parallel pool P depth =
     run_in_pool pool (\<lambda>_. Ok (so_create_parallel P (unat depth)))"

definition caml_fq_srs_get :: "'f affine srs \<Rightarrow> 'f wasm_g list" where
  "caml_fq_srs_get srs = [wasm_gvesta_from (srs_h srs)] @ map wasm_gvesta_from (srs_g srs)"

text \<open>
  \<open>remove(0)\<close> panics on an empty vector.
\<close>

definition caml_fq_srs_set :: "'f wasm_g list \<Rightarrow> ('f affine srs, js_error) outcome" where
  "caml_fq_srs_set h_and_gs =
     (case map affine_vesta_from_wasm h_and_gs of
        [] \<Rightarrow> Panic ''removal index (is 0) should be < len (is 0)''
      | h # g \<Rightarrow> Ok \<lparr>srs_g = g, srs_h = h, srs_lagrange_bases = Map.empty\<rparr>)"

definition caml_fq_srs_maybe_lagrange_commitment ::
  "'f affine srs \<Rightarrow> i32 \<Rightarrow> i32 \<Rightarrow> ('f wasm_g wasm_poly_comm option, js_error) outcome" where
  "caml_fq_srs_maybe_lagrange_commitment srs domain_size i =
     (let bases = srs_lagrange_bases srs (unat domain_size) in
      collect_option (\<lambda>bases. map_ok wasm_poly_comm_from (vec_index bases (unat i))) bases)"

definition caml_fq_srs_set_lagrange_basis ::
  "'f affine srs \<Rightarrow> i32 \<Rightarrow> 'f wasm_g wasm_poly_comm list \<Rightarrow> ('f affine srs, js_error) outcome" where
  "caml_fq_srs_set_lagrange_basis srs domain_size input_bases =
     and_then (collect poly_comm_from_wasm input_bases) (\<lambda>bases.
       Ok (srs\<lparr>srs_lagrange_bases := (srs_lagrange_bases srs)(unat domain_size \<mapsto> bases)\<rparr>))"

definition caml_fq_srs_get_lagrange_basis ::
  "pool_state \<Rightarrow> ('s, 'f affine, 'poly) srs_ops \<Rightarrow> 'f affine srs \<Rightarrow> i32 \<Rightarrow>
    ('f wasm_g wasm_poly_comm list \<times> 'f affine srs, js_error) outcome" where
  "caml_fq_srs_get_lagrange_basis pool P srs domain_size =
     and_then (run_in_pool pool (\<lambda>_.
       and_then (expect (so_domain_new P (unat domain_size)) ''invalid domain size'') (\<lambda>domain.
         Ok (so_add_lagrange_basis P srs domain)))) (\<lambda>srs.
     and_then (hash_index (srs_lagrange_bases srs) (unat domain_size)) (\<lambda>bases.
       Ok (map wasm_poly_comm_from bases, srs)))"

section \<open>What the bindings rely on\<close>

text \<open>
  A domain for \<open>n\<close> coefficients has a size of at least \<open>n\<close> and is the domain for its own
  size. Adding a Lagrange basis keeps the generators and all bases in the cache and provides the
  basis of the domain, one commitment per element. The binary format stores the generators and skips
  the cache (\<open>#[serde(skip)]\<close>).
\<close>

definition uncached :: "'g srs \<Rightarrow> 'g srs" where
  "uncached s = s\<lparr>srs_lagrange_bases := Map.empty\<rparr>"

lemma uncached_simps [simp]:
  "srs_g (uncached s) = srs_g s" "srs_h (uncached s) = srs_h s" "srs_lagrange_bases (uncached s) = Map.empty"
  "uncached (uncached s) = uncached s"
  by (simp_all add: uncached_def)

lemma uncached_id: "srs_lagrange_bases s = Map.empty \<Longrightarrow> uncached s = s"
  by (cases s) (simp add: uncached_def)

locale srs_contract =
  fixes P :: "('s, 'g, 'poly) srs_ops"
  assumes domain_size: "so_domain_new P n = Some d \<Longrightarrow> 0 < d \<and> n \<le> d \<and> so_domain_new P d = Some d"
    and add_keeps_generators: "srs_g (so_add_lagrange_basis P s d) = srs_g s" "srs_h (so_add_lagrange_basis P s d) = srs_h s"
    and add_keeps_bases: "srs_lagrange_bases s d' = Some bs \<Longrightarrow> srs_lagrange_bases (so_add_lagrange_basis P s d) d' = Some bs"
    and add_other: "d' \<noteq> d \<Longrightarrow> srs_lagrange_bases (so_add_lagrange_basis P s d) d' = srs_lagrange_bases s d'"
    and add_provides: "srs_lagrange_bases s d = None \<Longrightarrow>
      \<exists>bs. srs_lagrange_bases (so_add_lagrange_basis P s d) d = Some bs \<and> length bs = d"
    and deserialize_serialize: "so_serialize P s = Ok out \<Longrightarrow> so_deserialize P (out @ rest) = Some (uncached s)"

text \<open>
  The cache invariant: every basis in the cache has one commitment per element of its domain.
\<close>

definition lagrange_cache_ok :: "'g srs \<Rightarrow> bool" where
  "lagrange_cache_ok s \<longleftrightarrow> (\<forall>d bs. srs_lagrange_bases s d = Some bs \<longrightarrow> length bs = d)"

context srs_contract
begin

lemma add_lagrange_basis_ok:
  assumes "lagrange_cache_ok s"
  shows "lagrange_cache_ok (so_add_lagrange_basis P s d)"
    and "\<exists>bs. srs_lagrange_bases (so_add_lagrange_basis P s d) d = Some bs \<and> length bs = d"
proof -
  show d: "\<exists>bs. srs_lagrange_bases (so_add_lagrange_basis P s d) d = Some bs \<and> length bs = d"
    using assms add_provides [of s d] add_keeps_bases [of s d _ d]
    by (cases "srs_lagrange_bases s d") (auto simp: lagrange_cache_ok_def)
  show "lagrange_cache_ok (so_add_lagrange_basis P s d)"
    unfolding lagrange_cache_ok_def
  proof (intro allI impI)
    fix d' bs assume bs: "srs_lagrange_bases (so_add_lagrange_basis P s d) d' = Some bs"
    show "length bs = d'"
      using bs d add_other [of d' d s] assms by (cases "d' = d") (auto simp: lagrange_cache_ok_def)
  qed
qed

end

section \<open>A reference string\<close>

definition ref_srs_ops :: "'g \<Rightarrow> ('f, 'g, 'f list) srs_ops" where
  "ref_srs_ops g = \<lparr>
     so_create = (\<lambda>n. \<lparr>srs_g = [g], srs_h = g, srs_lagrange_bases = Map.empty\<rparr>),
     so_create_parallel = (\<lambda>n. \<lparr>srs_g = [g], srs_h = g, srs_lagrange_bases = Map.empty\<rparr>),
     so_domain_new = (\<lambda>n. if n \<le> 1 then Some 1 else if n = 2 then Some 2 else if n \<le> 4 then Some 4 else None),
     so_add_lagrange_basis = (\<lambda>s d. if srs_lagrange_bases s d = None
       then s\<lparr>srs_lagrange_bases := (srs_lagrange_bases s)(d \<mapsto> replicate d \<lparr>pc_elems = [srs_h s]\<rparr>)\<rparr> else s),
     so_interpolate = (\<lambda>evals d. take d evals),
     so_dense_polynomial = (\<lambda>cs. cs),
     so_commit_non_hiding = (\<lambda>s p n. \<lparr>pc_elems = replicate n (srs_h s)\<rparr>),
     so_serialize = (\<lambda>s. if srs_g s = [g] \<and> srs_h s = g then Ok [1] else Err ''unsupported''),
     so_deserialize = (\<lambda>bs. if take 1 bs = [1] then Some \<lparr>srs_g = [g], srs_h = g, srs_lagrange_bases = Map.empty\<rparr> else None) \<rparr>"

interpretation ref_srs: srs_contract "ref_srs_ops g" for g
  by unfold_locales (auto simp: ref_srs_ops_def uncached_def split: if_splits)

definition ref_srs_value :: "pasta_fp affine srs" where
  "ref_srs_value =
     \<lparr>srs_g = [\<lparr>af_x = 0, af_y = 0, af_infinity = True\<rparr>], srs_h = \<lparr>af_x = 0, af_y = 0, af_infinity = True\<rparr>,
      srs_lagrange_bases = Map.empty\<rparr>"

abbreviation ref_srs_fp :: "(pasta_fp, pasta_fp affine, pasta_fp list) srs_ops" where
  "ref_srs_fp \<equiv> ref_srs_ops (srs_h ref_srs_value)"

definition ready_pool :: pool_state where
  "ready_pool = \<lparr>thread_pool = Some 1, builders = Map.empty, workers = []\<rparr>"

lemma run_in_ready_pool [simp]: "thread_pool pool = Some k \<Longrightarrow> run_in_pool pool job = job ()"
  by (simp add: run_in_pool_def)

section \<open>Properties\<close>

text \<open>
  Lagrange commitments. For an index in the domain the call returns a commitment, keeps every
  basis already in the cache, the generators and the cache invariant, and a second call returns
  the same commitment and leaves the string as it is in what it has cached; an index outside of the
  domain panics and a size without domain is an error.
\<close>

theorem lagrange_commitment_cached:
  assumes "srs_contract P" and "lagrange_cache_ok s"
  shows "(case so_domain_new P (unat n) of
      None \<Rightarrow> caml_srs_lagrange_commitment P into_caml s n i = Err (InvalidArgument ''CamlSRS::lagrange_commitment'')
    | Some d \<Rightarrow>
        if unat i < d
        then \<exists>c s' s''. caml_srs_lagrange_commitment P into_caml s n i = Ok (c, s') \<and> lagrange_cache_ok s' \<and>
          srs_g s' = srs_g s \<and> srs_h s' = srs_h s \<and> srs_lagrange_bases s \<subseteq>\<^sub>m srs_lagrange_bases s' \<and>
          caml_srs_lagrange_commitment P into_caml s' n i = Ok (c, s'') \<and>
          srs_lagrange_bases s'' = srs_lagrange_bases s'
        else caml_srs_lagrange_commitment P into_caml s n i = Panic ''index out of bounds'')"
proof (cases "so_domain_new P (unat n)")
  case None
  then show ?thesis by (simp add: caml_srs_lagrange_commitment_def)
next
  case (Some d)
  let ?s = "so_add_lagrange_basis P s d" and ?s2 = "so_add_lagrange_basis P (so_add_lagrange_basis P s d) d"
  note ok = srs_contract.add_lagrange_basis_ok [OF assms]
  obtain bs where bs: "srs_lagrange_bases ?s d = Some bs" "length bs = d" using ok(2) by blast
  have keep: "srs_lagrange_bases s \<subseteq>\<^sub>m srs_lagrange_bases ?s"
    using srs_contract.add_keeps_bases [OF assms(1), of s] by (auto simp: map_le_def dom_def)
  have again: "srs_lagrange_bases ?s2 = srs_lagrange_bases ?s"
  proof
    fix x show "srs_lagrange_bases ?s2 x = srs_lagrange_bases ?s x"
      using srs_contract.add_keeps_bases [OF assms(1), of ?s d bs d] bs(1)
        srs_contract.add_other [OF assms(1), of x d ?s] by (cases "x = d") auto
  qed
  show ?thesis
    using Some bs ok(1) keep again srs_contract.add_keeps_generators [OF assms(1)]
    by (simp add: caml_srs_lagrange_commitment_def hash_index_def vec_index_def Let_def)
qed

theorem lagrange_commitment_cached_witness:
  "\<exists>c s'. caml_srs_lagrange_commitment ref_srs_fp (\<lambda>c. c) ref_srs_value 3 3 = Ok (c, s')"
proof -
  have "so_domain_new ref_srs_fp (unat (3 :: isize)) = Some 4" by (simp add: ref_srs_ops_def)
  moreover have "lagrange_cache_ok ref_srs_value" by (simp add: lagrange_cache_ok_def ref_srs_value_def)
  ultimately show ?thesis
    using lagrange_commitment_cached [where P = ref_srs_fp and s = ref_srs_value and n = 3 and i = 3
        and into_caml = "\<lambda>c. c", OF ref_srs.srs_contract_axioms]
    by auto
qed

text \<open>
  C31. The Lagrange basis for JavaScript. The call computes the basis of the domain but looks it up
  under the size it was given. When the size is the size of a domain, it returns the whole basis, commitment by
  commitment: the one that was cached before, if there was one, and otherwise the one the crate computes. When
  the domain is larger than the size, it returns what was stored under that size before, or panics. In all
  cases the string keeps the basis of the domain, and the bindings for both curves agree.
\<close>

theorem get_lagrange_basis_exact_sizes:
  assumes "srs_contract P" and "lagrange_cache_ok s" and "thread_pool pool = Some k"
    and "so_domain_new P (unat n) = Some d"
  shows "(if unat n = d
    then \<exists>bs s'. caml_fp_srs_get_lagrange_basis pool P s n = Ok (map wasm_poly_comm_from bs, s') \<and>
      s' = so_add_lagrange_basis P s d \<and> srs_lagrange_bases s' d = Some bs \<and> length bs = d \<and>
      (srs_lagrange_bases s d = None \<or> srs_lagrange_bases s d = Some bs)
    else caml_fp_srs_get_lagrange_basis pool P s n =
      (case srs_lagrange_bases s (unat n) of
         None \<Rightarrow> Panic ''no entry found for key''
       | Some bs \<Rightarrow> Ok (map wasm_poly_comm_from bs, so_add_lagrange_basis P s d))) \<and>
    caml_fq_srs_get_lagrange_basis pool P s n = caml_fp_srs_get_lagrange_basis pool P s n"
proof -
  obtain bs where bs: "srs_lagrange_bases (so_add_lagrange_basis P s d) d = Some bs" "length bs = d"
    using srs_contract.add_lagrange_basis_ok(2) [OF assms(1,2)] by blast
  have old: "srs_lagrange_bases s d = None \<or> srs_lagrange_bases s d = Some bs"
    using srs_contract.add_keeps_bases [OF assms(1), of s d _ d] bs(1) by (cases "srs_lagrange_bases s d") auto
  have got: "caml_fp_srs_get_lagrange_basis pool P s n =
      and_then (hash_index (srs_lagrange_bases (so_add_lagrange_basis P s d)) (unat n)) (\<lambda>bases.
        Ok (map wasm_poly_comm_from bases, so_add_lagrange_basis P s d))"
    using assms(3,4) by (simp add: caml_fp_srs_get_lagrange_basis_def)
  have fq: "caml_fq_srs_get_lagrange_basis pool P s n = caml_fp_srs_get_lagrange_basis pool P s n"
    by (simp add: caml_fq_srs_get_lagrange_basis_def caml_fp_srs_get_lagrange_basis_def)
  show ?thesis
    using bs old fq srs_contract.add_other [OF assms(1), of "unat n" d s]
    by (cases "unat n = d"; cases "srs_lagrange_bases s (unat n)") (simp_all add: got hash_index_def)
qed

theorem get_lagrange_basis_exact_sizes_witness:
  "caml_fp_srs_get_lagrange_basis ready_pool ref_srs_fp ref_srs_value 3 = Panic ''no entry found for key'' \<and>
   (\<exists>bs s'. caml_fp_srs_get_lagrange_basis ready_pool ref_srs_fp ref_srs_value 2 = Ok (map wasm_poly_comm_from bs, s') \<and>
     srs_lagrange_bases s' 2 = Some bs)"
proof -
  have sizes: "so_domain_new ref_srs_fp (unat (3 :: i32)) = Some 4" "so_domain_new ref_srs_fp (unat (2 :: i32)) = Some 2"
    by (simp_all add: ref_srs_ops_def)
  have cache: "lagrange_cache_ok ref_srs_value" by (simp add: lagrange_cache_ok_def ref_srs_value_def)
  have pool: "thread_pool ready_pool = Some 1" by (simp add: ready_pool_def)
  note basis = get_lagrange_basis_exact_sizes [OF ref_srs.srs_contract_axioms cache pool]
  show ?thesis
    using basis [OF sizes(1)] basis [OF sizes(2)] by (auto simp: ref_srs_value_def)
qed

text \<open>
  Storing a reference string on the JavaScript side. Setting what was got restores the generators
  and starts with an empty cache; an empty vector panics. A basis that was set is found by the
  lookup that does not compute it, and every other size keeps its basis.
\<close>

theorem srs_get_set:
  "caml_fp_srs_set (caml_fp_srs_get s) = Ok (s\<lparr>srs_lagrange_bases := Map.empty\<rparr>) \<and>
   length (caml_fp_srs_get s) = Suc (length (srs_g s)) \<and>
   ((\<exists>m. caml_fp_srs_set v = Panic m) \<longleftrightarrow> v = []) \<and>
   (\<exists>s'. caml_fp_srs_set_lagrange_basis s n (map wasm_poly_comm_from bs) = Ok s' \<and>
     (\<forall>i. caml_fp_srs_maybe_lagrange_commitment s' n i =
       (if unat i < length bs then Ok (Some (wasm_poly_comm_from (bs ! unat i))) else Panic ''index out of bounds'')) \<and>
     (\<forall>k. k \<noteq> n \<longrightarrow> caml_fp_srs_maybe_lagrange_commitment s' k = caml_fp_srs_maybe_lagrange_commitment s k))"
proof -
  have set: "caml_fp_srs_set_lagrange_basis s n (map wasm_poly_comm_from bs) =
      Ok (s\<lparr>srs_lagrange_bases := (srs_lagrange_bases s)(unat n \<mapsto> bs)\<rparr>)"
    by (simp add: caml_fp_srs_set_lagrange_basis_def poly_comm.decode_list)
  have "(\<exists>m. caml_fp_srs_set v = Panic m) \<longleftrightarrow> v = []"
    by (cases v) (simp_all add: caml_fp_srs_set_def)
  with set show ?thesis
    by (auto simp: caml_fp_srs_set_def caml_fp_srs_get_def comp_def caml_fp_srs_maybe_lagrange_commitment_def
        vec_index_def fun_eq_iff word_unat_eq_iff)
qed

theorem srs_get_set_witness:
  "\<exists>s'. caml_fp_srs_set_lagrange_basis ref_srs_value 4 (map wasm_poly_comm_from [\<lparr>pc_elems = []\<rparr>]) = Ok s' \<and>
     caml_fp_srs_maybe_lagrange_commitment s' 4 0 = Ok (Some (wasm_poly_comm_from \<lparr>pc_elems = []\<rparr>))"
  using srs_get_set [of ref_srs_value "[]" 4 "[\<lparr>pc_elems = []\<rparr>]"] by fastforce

lemma seek_start_append:
  "length old < 2 ^ 63 \<Longrightarrow> seek_start (Some (word_of_nat (length old))) (old @ out) = Ok out"
  by (simp add: seek_start_def sint_isize_of_nat unat_of_nat)

text \<open>
  C32. Files. Writing appends to an existing file, so reading at the old length gives the string back, with
  an empty cache;
  asking not to append always fails, because the file is then opened without any access mode, and so
  does reading at a negative offset.
\<close>

theorem srs_file_roundtrip:
  assumes "srs_contract P" and "fs path = Some old" and "length old < 2 ^ 63"
    and "so_serialize P s = Ok out"
  shows "(\<exists>fs'. caml_srs_write P fs None s path = Ok fs' \<and> fs' path = Some (old @ out) \<and>
      caml_srs_read P fs' (Some (word_of_nat (length old))) path = Ok (Some (uncached s)) \<and>
      (\<forall>p. p \<noteq> path \<longrightarrow> fs' p = fs p)) \<and>
    caml_srs_write P fs (Some False) s path = Err (InvalidArgument ''CamlSRS::write'') \<and>
    caml_srs_write P fs (Some True) s path = caml_srs_write P fs None s path \<and>
    (\<forall>off. sint off < 0 \<longrightarrow> caml_srs_read P fs (Some off) path = Err (ErrorBox io_invalid_argument))"
proof -
  have "seek_start (Some (word_of_nat (length old))) (old @ out) = Ok out"
    using assms(3) by (simp add: seek_start_append)
  moreover have "so_deserialize P out = Some (uncached s)"
    using srs_contract.deserialize_serialize [OF assms(1,4), of "[]"] by simp
  ultimately show ?thesis
    using assms(2,4) by (simp add: caml_srs_write_def caml_srs_read_def open_append_def seek_start_def [of "Some _" old])
qed

theorem srs_file_roundtrip_witness:
  "\<exists>fs'. caml_srs_write ref_srs_fp [''f'' \<mapsto> [7]] None ref_srs_value ''f'' = Ok fs' \<and>
     caml_srs_read ref_srs_fp fs' (Some 1) ''f'' = Ok (Some ref_srs_value)"
proof -
  have "so_serialize ref_srs_fp ref_srs_value = Ok [1]" by (simp add: ref_srs_ops_def ref_srs_value_def)
  moreover have "uncached ref_srs_value = ref_srs_value" by (simp add: uncached_id ref_srs_value_def)
  ultimately show ?thesis
    using srs_file_roundtrip [OF ref_srs.srs_contract_axioms, where fs = "[''f'' \<mapsto> [7]]" and path = "''f''" and old = "[7]"
        and g1 = "srs_h ref_srs_value"]
    by force
qed

text \<open>
  Files and JavaScript. On the target the crate is built for, reading and writing a reference string fails for
  every path, before any file is touched. On a target with files the calls would do what the ones for OCaml
  do: they succeed on the same arguments with the same result.
\<close>

theorem srs_files_wasm:
  "(\<exists>e. caml_srs_write_wasm wasm32_fs P fs append_mode s path = Err (JsValue (''caml_pasta_fp_urs_write: '' @ e))) \<and>
   (\<exists>e. caml_srs_read_wasm wasm32_fs P fs offset path = Err (JsValue (''caml_pasta_fp_urs_read: '' @ e))) \<and>
   (caml_srs_write_wasm unix_fs P fs append_mode s path = Ok fs' \<longleftrightarrow> caml_srs_write P fs append_mode s path = Ok fs') \<and>
   (caml_srs_read_wasm unix_fs P fs offset path = Ok r \<longleftrightarrow> caml_srs_read P fs (map_option scast offset) path = Ok r)"
  by (auto simp: caml_srs_write_wasm_def caml_srs_read_wasm_def caml_srs_write_def caml_srs_read_def wasm32_fs_def unix_fs_def
      split: option.splits)

end
