(* ===== verification/Srs_Refinement.thy ===== *)
theory Srs_Refinement
  imports Srs
begin

text \<open>
  The cache of Lagrange bases is invisible: any sequence of calls of \<^verbatim>\<open>stubs/src/srs.rs\<close> on a
  reference string whose cache mutates behind a shared pointer gives the answers of a specification that
  has no cache and computes every basis from the generators.
\<close>

section \<open>The specification\<close>

text \<open>
  A reference string without cache is its generators; \<open>basis g h d\<close> is the Lagrange basis of the
  domain of size \<open>d\<close>.
\<close>

type_synonym 'g lagrange = "'g list \<Rightarrow> 'g \<Rightarrow> nat \<Rightarrow> 'g poly_comm list"

definition generators :: "'g srs \<Rightarrow> 'g list \<times> 'g" where
  "generators s = (srs_g s, srs_h s)"

datatype srs_call = LagrangeCommitment isize isize | AddLagrangeBasis isize | BlindingGenerator

datatype ('c, 'f) srs_answer = Commitment 'c | Done | Point "'f caml_group_affine" | Failed ocaml_error

fun spec_call ::
  "bool \<Rightarrow> ('s, 'f affine, 'poly) srs_ops \<Rightarrow> 'f affine lagrange \<Rightarrow> ('f affine poly_comm \<Rightarrow> 'c) \<Rightarrow> 'f affine list \<times> 'f affine \<Rightarrow>
    srs_call \<Rightarrow> (('c, 'f) srs_answer, unit) outcome" where
  "spec_call ch P basis into_caml (g, h) (LagrangeCommitment n i) =
     (case so_domain_new P (unat n) of
        None \<Rightarrow> Ok (Failed (InvalidArgument ''CamlSRS::lagrange_commitment''))
      | Some d \<Rightarrow> map_ok (\<lambda>c. Commitment (into_caml c)) (vec_index (basis g h d) (unat i)))"
| "spec_call ch P basis into_caml (g, h) (AddLagrangeBasis log2_size) =
     and_then (shl_one ch 64 (uint log2_size)) (\<lambda>n.
     and_then (expect (so_domain_new P n) ''invalid domain size'') (\<lambda>_. Ok Done))"
| "spec_call ch P basis into_caml (g, h) BlindingGenerator = Ok (Point (caml_gvesta_from h))"

text \<open>
  The same calls of the bindings: an error leaves the string as it was, a panic ends the run.
\<close>

definition answer :: "('x \<Rightarrow> 'b \<times> 's) \<Rightarrow> (ocaml_error \<Rightarrow> 'b) \<Rightarrow> 's \<Rightarrow> ('x, ocaml_error) outcome \<Rightarrow> ('b \<times> 's, unit) outcome" where
  "answer ok failed s r =
     (case r of Ok x \<Rightarrow> Ok (ok x) | Err e \<Rightarrow> Ok (failed e, s) | Panic m \<Rightarrow> Panic m)"

fun srs_step ::
  "bool \<Rightarrow> ('s, 'f affine, 'poly) srs_ops \<Rightarrow> ('f affine poly_comm \<Rightarrow> 'c) \<Rightarrow> 'f affine srs \<Rightarrow> srs_call \<Rightarrow>
    (('c, 'f) srs_answer \<times> 'f affine srs, unit) outcome" where
  "srs_step ch P into_caml s (LagrangeCommitment n i) =
     answer (\<lambda>(c, s'). (Commitment c, s')) Failed s (caml_srs_lagrange_commitment P into_caml s n i)"
| "srs_step ch P into_caml s (AddLagrangeBasis log2_size) =
     answer (\<lambda>s'. (Done, s')) Failed s (caml_srs_add_lagrange_basis ch P s log2_size)"
| "srs_step ch P into_caml s BlindingGenerator = Ok (Point (caml_srs_h s), s)"

fun srs_run ::
  "bool \<Rightarrow> ('s, 'f affine, 'poly) srs_ops \<Rightarrow> ('f affine poly_comm \<Rightarrow> 'c) \<Rightarrow> 'f affine srs \<Rightarrow> srs_call list \<Rightarrow>
    (('c, 'f) srs_answer list \<times> 'f affine srs, unit) outcome" where
  "srs_run ch P into_caml s [] = Ok ([], s)"
| "srs_run ch P into_caml s (call # calls) =
     and_then (srs_step ch P into_caml s call) (\<lambda>(a, s).
     and_then (srs_run ch P into_caml s calls) (\<lambda>(as, s). Ok (a # as, s)))"

section \<open>The simulation\<close>

text \<open>
  A basis that is not in the cache is computed from the generators.
\<close>

locale lagrange_contract = srs_contract P
  for P :: "('s, 'f affine, 'poly) srs_ops" +
  fixes basis :: "'f affine lagrange"
  assumes computes: "srs_lagrange_bases s d = None \<Longrightarrow>
    srs_lagrange_bases (so_add_lagrange_basis P s d) d = Some (basis (srs_g s) (srs_h s) d)"

text \<open>
  The simulation relation: the cache holds only bases of the string's own generators.
\<close>

definition cache_faithful :: "'g lagrange \<Rightarrow> 'g srs \<Rightarrow> bool" where
  "cache_faithful basis s \<longleftrightarrow> (\<forall>d bs. srs_lagrange_bases s d = Some bs \<longrightarrow> bs = basis (srs_g s) (srs_h s) d)"

context lagrange_contract
begin

lemma generators_add [simp]: "generators (so_add_lagrange_basis P s d) = generators s"
  by (simp add: generators_def add_keeps_generators)

lemma add_faithful:
  assumes "cache_faithful basis s"
  shows "cache_faithful basis (so_add_lagrange_basis P s d)"
    and "srs_lagrange_bases (so_add_lagrange_basis P s d) d = Some (basis (srs_g s) (srs_h s) d)"
proof -
  show d: "srs_lagrange_bases (so_add_lagrange_basis P s d) d = Some (basis (srs_g s) (srs_h s) d)"
    using computes [of s d] add_keeps_bases [of s d _ d] assms
    by (cases "srs_lagrange_bases s d") (auto simp: cache_faithful_def)
  show "cache_faithful basis (so_add_lagrange_basis P s d)"
    unfolding cache_faithful_def add_keeps_generators
  proof (intro allI impI)
    fix d' bs assume "srs_lagrange_bases (so_add_lagrange_basis P s d) d' = Some bs"
    with d add_other [of d' d s] assms show "bs = basis (srs_g s) (srs_h s) d'"
      by (cases "d' = d") (auto simp: cache_faithful_def)
  qed
qed

lemma step_refines:
  assumes "cache_faithful basis s"
  shows "case spec_call ch P basis into_caml (generators s) call of
      Ok a \<Rightarrow> \<exists>s'. srs_step ch P into_caml s call = Ok (a, s') \<and> cache_faithful basis s' \<and> generators s' = generators s
    | Err e \<Rightarrow> False
    | Panic m \<Rightarrow> srs_step ch P into_caml s call = Panic m"
proof (cases call)
  case (LagrangeCommitment n i)
  then show ?thesis
    using assms add_faithful [OF assms]
    by (cases "so_domain_new P (unat n)")
      (auto simp: generators_def caml_srs_lagrange_commitment_def hash_index_def answer_def vec_index_def add_keeps_generators Let_def)
next
  case (AddLagrangeBasis k)
  then show ?thesis
    using assms add_faithful [OF assms]
    by (cases "0 \<le> uint k \<and> uint k < 64 \<or> \<not> ch"; cases "so_domain_new P (2 ^ nat (uint k))"; cases "so_domain_new P (2 ^ nat (uint k mod 64))")
      (auto simp: generators_def caml_srs_add_lagrange_basis_def shl_one_def answer_def add_keeps_generators)
next
  case BlindingGenerator
  then show ?thesis using assms by (simp add: generators_def caml_srs_h_def)
qed

lemma run_refines:
  assumes "cache_faithful basis s"
  shows "case collect (spec_call ch P basis into_caml (generators s)) calls of
      Ok as \<Rightarrow> \<exists>s'. srs_run ch P into_caml s calls = Ok (as, s') \<and> cache_faithful basis s' \<and> generators s' = generators s
    | Err e \<Rightarrow> False
    | Panic m \<Rightarrow> srs_run ch P into_caml s calls = Panic m"
  using assms
proof (induction calls arbitrary: s)
  case (Cons call calls)
  note step = step_refines [OF Cons.prems, of ch into_caml call]
  show ?case
  proof (cases "spec_call ch P basis into_caml (generators s) call")
    case (Ok a)
    with step obtain s' where s': "srs_step ch P into_caml s call = Ok (a, s')" "cache_faithful basis s'" "generators s' = generators s"
      by auto
    show ?thesis
      using Cons.IH [OF s'(2)] Ok s'
      by (cases "collect (spec_call ch P basis into_caml (generators s)) calls") auto
  qed (use step in auto)
qed simp

end

section \<open>Properties\<close>

text \<open>
  C5. The cache is invisible. From a string whose cached bases belong to its generators, every sequence of
  calls that read Lagrange commitments, add bases or read the blinding generator gives, call by call, the
  answers of the specification without cache, panics exactly when it does, and keeps the generators and
  that invariant.
\<close>

theorem srs_cache_refines:
  assumes "lagrange_contract P basis" and "cache_faithful basis s"
  shows "case collect (spec_call ch P basis into_caml (generators s)) calls of
      Ok answers \<Rightarrow> \<exists>s'. srs_run ch P into_caml s calls = Ok (answers, s') \<and> cache_faithful basis s' \<and> generators s' = generators s
    | Err e \<Rightarrow> False
    | Panic m \<Rightarrow> srs_run ch P into_caml s calls = Panic m"
  by (rule lagrange_contract.run_refines [OF assms])

interpretation ref_lagrange: lagrange_contract "ref_srs_ops g" "\<lambda>gs h d. replicate d \<lparr>pc_elems = [h]\<rparr>" for g :: "'f affine"
  by unfold_locales (simp add: ref_srs_ops_def)

theorem srs_cache_refines_witness:
  "\<exists>s'. srs_run True ref_srs_fp (\<lambda>c. pc_elems c) ref_srs_value
     [AddLagrangeBasis 2, LagrangeCommitment 3 3, LagrangeCommitment 9 0, BlindingGenerator] =
     Ok ([Done, Commitment [srs_h ref_srs_value], Failed (InvalidArgument ''CamlSRS::lagrange_commitment''), Point Infinity], s')"
proof -
  let ?calls = "[AddLagrangeBasis 2, LagrangeCommitment 3 3, LagrangeCommitment 9 0, BlindingGenerator]"
  let ?basis = "\<lambda>gs h d. replicate d \<lparr>pc_elems = [h]\<rparr>"
  have "cache_faithful ?basis ref_srs_value" by (simp add: cache_faithful_def ref_srs_value_def)
  moreover have "collect (spec_call True ref_srs_fp ?basis (\<lambda>c. pc_elems c) (generators ref_srs_value)) ?calls =
      Ok [Done, Commitment [srs_h ref_srs_value], Failed (InvalidArgument ''CamlSRS::lagrange_commitment''), Point Infinity]"
    by (simp add: generators_def ref_srs_ops_def shl_one_def vec_index_def ref_srs_value_def caml_gvesta_from_def)
  ultimately show ?thesis
    using srs_cache_refines [of ref_srs_fp ?basis ref_srs_value True "\<lambda>c. pc_elems c" ?calls, OF ref_lagrange.lagrange_contract_axioms]
    by auto
qed

end
