(* ===== verification/Verifier_Index.thy ===== *)
theory Verifier_Index
  imports Srs
begin

text \<open>
  Verifier indexes for OCaml: \<^verbatim>\<open>stubs/src/plonk_verifier_index.rs\<close> and
  \<^verbatim>\<open>stubs/src/pasta_fp_plonk_verifier_index.rs\<close>. The structures of
  \<^verbatim>\<open>kimchi\<close> that the conversions take apart are records; evaluation domains,
  linearization, the permutation polynomial and the conversion of a single commitment are the
  parameters \<open>K\<close>, \<open>pc_into\<close> and \<open>pc_from\<close>.
\<close>

text \<open>
  The number of wires of a gate that are permuted (the seven wires of \<open>WasmGateWires\<close>) and the
  number of columns of the witness (\<open>w0\<close> to \<open>w14\<close> of the proof evaluations).
\<close>

definition PERMUTS :: nat where "PERMUTS = 7"
definition COLUMNS :: nat where "COLUMNS = 15"

section \<open>Lookup structures\<close>

record lookup_patterns =
  lpat_xor :: bool
  lpat_lookup :: bool
  lpat_range_check :: bool
  lpat_foreign_field_mul :: bool

record lookup_features =
  lf_patterns :: lookup_patterns
  lf_joint_lookup_used :: bool
  lf_uses_runtime_tables :: bool

record feature_flags =
  ff_range_check0 :: bool
  ff_range_check1 :: bool
  ff_foreign_field_add :: bool
  ff_foreign_field_mul :: bool
  ff_xor :: bool
  ff_rot :: bool
  ff_lookup_features :: lookup_features

record 'c lookup_selectors =
  ls_xor :: "'c option"
  ls_lookup :: "'c option"
  ls_range_check :: "'c option"
  ls_ffmul :: "'c option"

record 'c caml_lookup_selectors =
  cls_lookup :: "'c option"
  cls_xor :: "'c option"
  cls_range_check :: "'c option"
  cls_ffmul :: "'c option"

definition caml_lookup_selectors_from ::
  "('g poly_comm \<Rightarrow> 'c) \<Rightarrow> 'g poly_comm lookup_selectors \<Rightarrow> 'c caml_lookup_selectors" where
  "caml_lookup_selectors_from pc_into val =
     \<lparr>cls_lookup = map_option pc_into (ls_lookup val),
      cls_xor = map_option pc_into (ls_xor val),
      cls_range_check = map_option pc_into (ls_range_check val),
      cls_ffmul = map_option pc_into (ls_ffmul val)\<rparr>"

definition lookup_selectors_from_caml ::
  "('c \<Rightarrow> ('g poly_comm, ocaml_error) outcome) \<Rightarrow> 'c caml_lookup_selectors \<Rightarrow> ('g poly_comm lookup_selectors, ocaml_error) outcome" where
  "lookup_selectors_from_caml pc_from val =
     and_then (collect_option pc_from (cls_lookup val)) (\<lambda>lookup.
     and_then (collect_option pc_from (cls_xor val)) (\<lambda>xor.
     and_then (collect_option pc_from (cls_range_check val)) (\<lambda>range_check.
     and_then (collect_option pc_from (cls_ffmul val)) (\<lambda>ffmul.
       Ok \<lparr>ls_xor = xor, ls_lookup = lookup, ls_range_check = range_check, ls_ffmul = ffmul\<rparr>))))"

text \<open>
  \<open>max_per_row\<close> is a \<open>usize\<close>, whose width \<open>'u\<close> depends on the target, and \<open>max_joint_size\<close> a \<open>u32\<close>.
\<close>

record 'u lookup_info =
  li_max_per_row :: 'u
  li_max_joint_size :: u32
  li_features :: lookup_features

record caml_lookup_info =
  cli_max_per_row :: isize
  cli_max_joint_size :: isize
  cli_features :: lookup_features

definition caml_lookup_info_from :: "u64 lookup_info \<Rightarrow> caml_lookup_info" where
  "caml_lookup_info_from li =
     \<lparr>cli_max_per_row = li_max_per_row li,
      cli_max_joint_size = ucast (li_max_joint_size li),
      cli_features = li_features li\<rparr>"

definition lookup_info_from_caml :: "caml_lookup_info \<Rightarrow> u64 lookup_info" where
  "lookup_info_from_caml li =
     \<lparr>li_max_per_row = cli_max_per_row li,
      li_max_joint_size = ucast (cli_max_joint_size li),
      li_features = cli_features li\<rparr>"

record ('u, 'c) lookup_verifier_index =
  lvi_joint_lookup_used :: bool
  lvi_lookup_table :: "'c list"
  lvi_lookup_selectors :: "'c lookup_selectors"
  lvi_table_ids :: "'c option"
  lvi_lookup_info :: "'u lookup_info"
  lvi_runtime_tables_selector :: "'c option"

record 'c caml_lookup_verifier_index =
  clvi_joint_lookup_used :: bool
  clvi_lookup_table :: "'c list"
  clvi_lookup_selectors :: "'c caml_lookup_selectors"
  clvi_table_ids :: "'c option"
  clvi_lookup_info :: caml_lookup_info
  clvi_runtime_tables_selector :: "'c option"

definition caml_lookup_verifier_index_from ::
  "('g poly_comm \<Rightarrow> 'c) \<Rightarrow> (u64, 'g poly_comm) lookup_verifier_index \<Rightarrow> 'c caml_lookup_verifier_index" where
  "caml_lookup_verifier_index_from pc_into li =
     \<lparr>clvi_joint_lookup_used = lvi_joint_lookup_used li,
      clvi_lookup_table = map pc_into (lvi_lookup_table li),
      clvi_lookup_selectors = caml_lookup_selectors_from pc_into (lvi_lookup_selectors li),
      clvi_table_ids = map_option pc_into (lvi_table_ids li),
      clvi_lookup_info = caml_lookup_info_from (lvi_lookup_info li),
      clvi_runtime_tables_selector = map_option pc_into (lvi_runtime_tables_selector li)\<rparr>"

definition lookup_verifier_index_from_caml ::
  "('c \<Rightarrow> ('g poly_comm, ocaml_error) outcome) \<Rightarrow> 'c caml_lookup_verifier_index \<Rightarrow>
    ((u64, 'g poly_comm) lookup_verifier_index, ocaml_error) outcome" where
  "lookup_verifier_index_from_caml pc_from li =
     and_then (collect pc_from (clvi_lookup_table li)) (\<lambda>lookup_table.
     and_then (lookup_selectors_from_caml pc_from (clvi_lookup_selectors li)) (\<lambda>lookup_selectors.
     and_then (collect_option pc_from (clvi_table_ids li)) (\<lambda>table_ids.
     and_then (collect_option pc_from (clvi_runtime_tables_selector li)) (\<lambda>runtime_tables_selector.
       Ok \<lparr>lvi_joint_lookup_used = clvi_joint_lookup_used li,
           lvi_lookup_table = lookup_table,
           lvi_lookup_selectors = lookup_selectors,
           lvi_table_ids = table_ids,
           lvi_lookup_info = lookup_info_from_caml (clvi_lookup_info li),
           lvi_runtime_tables_selector = runtime_tables_selector\<rparr>))))"

section \<open>Verifier indexes\<close>

text \<open>
  \<open>Radix2EvaluationDomain\<close>, as far as the bindings read it.
\<close>

record 'f radix2_domain =
  dom_log_size_of_group :: u32
  dom_group_gen :: 'f

record 'f caml_plonk_domain =
  cd_log_size_of_group :: isize
  cd_group_gen :: 'f

record 'c caml_plonk_verification_evals =
  cve_sigma_comm :: "'c list"
  cve_coefficients_comm :: "'c list"
  cve_generic_comm :: 'c
  cve_psm_comm :: 'c
  cve_complete_add_comm :: 'c
  cve_mul_comm :: 'c
  cve_emul_comm :: 'c
  cve_endomul_scalar_comm :: 'c
  cve_xor_comm :: "'c option"
  cve_range_check0_comm :: "'c option"
  cve_range_check1_comm :: "'c option"
  cve_foreign_field_add_comm :: "'c option"
  cve_foreign_field_mul_comm :: "'c option"
  cve_rot_comm :: "'c option"

record ('f, 's, 'c) caml_plonk_verifier_index =
  cvi_domain :: "'f caml_plonk_domain"
  cvi_max_poly_size :: isize
  cvi_public :: isize
  cvi_prev_challenges :: isize
  cvi_srs :: 's
  cvi_evals :: "'c caml_plonk_verification_evals"
  cvi_shifts :: "'f list"
  cvi_lookup_index :: "'c caml_lookup_verifier_index option"
  cvi_zk_rows :: isize

text \<open>
  \<open>VerifierIndex\<close>; \<open>'u\<close> is the type of sizes, \<open>'e\<close> is the other field of the cycle, \<open>'a\<close> the powers of alpha,
  \<open>'l\<close> the linearization and \<open>'v\<close> the permutation polynomial.
\<close>

record ('u, 'f, 'e, 's, 'c, 'a, 'l, 'v) verifier_index =
  vi_domain :: "'f radix2_domain"
  vi_max_poly_size :: 'u
  vi_public :: 'u
  vi_prev_challenges :: 'u
  vi_powers_of_alpha :: 'a
  vi_srs :: 's
  vi_zk_rows :: u64
  vi_sigma_comm :: "'c list"
  vi_coefficients_comm :: "'c list"
  vi_generic_comm :: 'c
  vi_psm_comm :: 'c
  vi_complete_add_comm :: 'c
  vi_mul_comm :: 'c
  vi_emul_comm :: 'c
  vi_endomul_scalar_comm :: 'c
  vi_xor_comm :: "'c option"
  vi_range_check0_comm :: "'c option"
  vi_range_check1_comm :: "'c option"
  vi_foreign_field_add_comm :: "'c option"
  vi_foreign_field_mul_comm :: "'c option"
  vi_rot_comm :: "'c option"
  vi_shift :: "'f list"
  vi_permutation_vanishing_polynomial_m :: 'v
  vi_w :: 'f
  vi_endo :: 'e
  vi_lookup_index :: "('u, 'c) lookup_verifier_index option"
  vi_linearization :: 'l

text \<open>
  Operations of \<^verbatim>\<open>kimchi\<close>: \<open>Domain::new\<close>, the endomorphism of the other curve,
  \<open>expr_linearization\<close>, \<open>permutation_vanishing_polynomial\<close>, \<open>zk_w\<close> and
  \<open>Shifts::new\<close>.
\<close>

record ('f, 'e, 'a, 'l, 'v) kimchi_index_ops =
  ki_domain_new :: "nat \<Rightarrow> 'f radix2_domain option"
  ki_endo_q :: 'e
  ki_expr_linearization :: "feature_flags \<Rightarrow> bool \<Rightarrow> 'l \<times> 'a"
  ki_permutation_vanishing_polynomial :: "'f radix2_domain \<Rightarrow> u64 \<Rightarrow> 'v"
  ki_zk_w :: "'f radix2_domain \<Rightarrow> u64 \<Rightarrow> 'f"
  ki_shifts :: "'f radix2_domain \<Rightarrow> 'f list"

definition no_lookup_features :: lookup_features where
  "no_lookup_features =
     \<lparr>lf_patterns = \<lparr>lpat_xor = False, lpat_lookup = False, lpat_range_check = False, lpat_foreign_field_mul = False\<rparr>,
      lf_joint_lookup_used = False,
      lf_uses_runtime_tables = False\<rparr>"

text \<open>
  The feature flags that the conversion reads off an index.
\<close>

definition caml_feature_flags :: "('f, 's, 'c) caml_plonk_verifier_index \<Rightarrow> feature_flags" where
  "caml_feature_flags index =
     (let evals = cvi_evals index in
      \<lparr>ff_range_check0 = cve_range_check0_comm evals \<noteq> None,
       ff_range_check1 = cve_range_check1_comm evals \<noteq> None,
       ff_foreign_field_add = cve_foreign_field_add_comm evals \<noteq> None,
       ff_foreign_field_mul = cve_foreign_field_mul_comm evals \<noteq> None,
       ff_xor = cve_xor_comm evals \<noteq> None,
       ff_rot = cve_rot_comm evals \<noteq> None,
       ff_lookup_features =
         (case cvi_lookup_index index of
            Some li \<Rightarrow> cli_features (clvi_lookup_info li)
          | None \<Rightarrow> no_lookup_features)\<rparr>)"

text \<open>
  \<open>CamlPolyComm\<close> of \<^verbatim>\<open>poly_commitment\<close>.
\<close>

record 'cg caml_poly_comm =
  cpc_unshifted :: "'cg list"
  cpc_shifted :: "'cg option"

section \<open>The field \<open>Fp\<close>\<close>

definition caml_pasta_fp_plonk_verifier_index_from ::
  "('g poly_comm \<Rightarrow> 'c) \<Rightarrow> (u64, 'f, 'e, 's, 'g poly_comm, 'a, 'l, 'v) verifier_index \<Rightarrow> ('f, 's, 'c) caml_plonk_verifier_index" where
  "caml_pasta_fp_plonk_verifier_index_from pc_into vi =
     \<lparr>cvi_domain = \<lparr>cd_log_size_of_group = ucast (dom_log_size_of_group (vi_domain vi)),
        cd_group_gen = dom_group_gen (vi_domain vi)\<rparr>,
      cvi_max_poly_size = vi_max_poly_size vi,
      cvi_public = vi_public vi,
      cvi_prev_challenges = vi_prev_challenges vi,
      cvi_srs = vi_srs vi,
      cvi_evals = \<lparr>
        cve_sigma_comm = map pc_into (vi_sigma_comm vi),
        cve_coefficients_comm = map pc_into (vi_coefficients_comm vi),
        cve_generic_comm = pc_into (vi_generic_comm vi),
        cve_psm_comm = pc_into (vi_psm_comm vi),
        cve_complete_add_comm = pc_into (vi_complete_add_comm vi),
        cve_mul_comm = pc_into (vi_mul_comm vi),
        cve_emul_comm = pc_into (vi_emul_comm vi),
        cve_endomul_scalar_comm = pc_into (vi_endomul_scalar_comm vi),
        cve_xor_comm = map_option pc_into (vi_xor_comm vi),
        cve_range_check0_comm = map_option pc_into (vi_range_check0_comm vi),
        cve_range_check1_comm = map_option pc_into (vi_range_check1_comm vi),
        cve_foreign_field_add_comm = map_option pc_into (vi_foreign_field_add_comm vi),
        cve_foreign_field_mul_comm = map_option pc_into (vi_foreign_field_mul_comm vi),
        cve_rot_comm = map_option pc_into (vi_rot_comm vi)\<rparr>,
      cvi_shifts = vi_shift vi,
      cvi_lookup_index = map_option (caml_lookup_verifier_index_from pc_into) (vi_lookup_index vi),
      cvi_zk_rows = vi_zk_rows vi\<rparr>"

definition verifier_index_from_caml_fp ::
  "bool \<Rightarrow> ('f, 'e, 'a, 'l, 'v) kimchi_index_ops \<Rightarrow> ('c \<Rightarrow> ('g poly_comm, ocaml_error) outcome) \<Rightarrow>
    ('f, 's, 'c) caml_plonk_verifier_index \<Rightarrow> ((u64, 'f, 'e, 's, 'g poly_comm, 'a, 'l, 'v) verifier_index, ocaml_error) outcome" where
  "verifier_index_from_caml_fp overflow_checks K pc_from index =
     (let evals = cvi_evals index in
      and_then (shl_one overflow_checks 64 (sint (cd_log_size_of_group (cvi_domain index)))) (\<lambda>n.
      and_then (expect (ki_domain_new K n) ''wrong size'') (\<lambda>domain.
      and_then (collect pc_from (cve_coefficients_comm evals)) (\<lambda>coefficients_comm.
      and_then (expect (try_into_array COLUMNS coefficients_comm) ''wrong size'') (\<lambda>coefficients_comm.
      and_then (collect pc_from (cve_sigma_comm evals)) (\<lambda>sigma_comm.
      and_then (expect (try_into_array PERMUTS sigma_comm) ''vector of sigma comm is of wrong size'') (\<lambda>sigma_comm.
      and_then (expect (try_into_array PERMUTS (cvi_shifts index)) ''wrong size'') (\<lambda>shift.
      let (linearization, powers_of_alpha) = ki_expr_linearization K (caml_feature_flags index) True in
      and_then (pc_from (cve_generic_comm evals)) (\<lambda>generic_comm.
      and_then (pc_from (cve_psm_comm evals)) (\<lambda>psm_comm.
      and_then (pc_from (cve_complete_add_comm evals)) (\<lambda>complete_add_comm.
      and_then (pc_from (cve_mul_comm evals)) (\<lambda>mul_comm.
      and_then (pc_from (cve_emul_comm evals)) (\<lambda>emul_comm.
      and_then (pc_from (cve_endomul_scalar_comm evals)) (\<lambda>endomul_scalar_comm.
      and_then (collect_option pc_from (cve_xor_comm evals)) (\<lambda>xor_comm.
      and_then (collect_option pc_from (cve_range_check0_comm evals)) (\<lambda>range_check0_comm.
      and_then (collect_option pc_from (cve_range_check1_comm evals)) (\<lambda>range_check1_comm.
      and_then (collect_option pc_from (cve_foreign_field_add_comm evals)) (\<lambda>foreign_field_add_comm.
      and_then (collect_option pc_from (cve_foreign_field_mul_comm evals)) (\<lambda>foreign_field_mul_comm.
      and_then (collect_option pc_from (cve_rot_comm evals)) (\<lambda>rot_comm.
      and_then (collect_option (lookup_verifier_index_from_caml pc_from) (cvi_lookup_index index)) (\<lambda>lookup_index.
        Ok \<lparr>vi_domain = domain,
            vi_max_poly_size = cvi_max_poly_size index,
            vi_public = cvi_public index,
            vi_prev_challenges = cvi_prev_challenges index,
            vi_powers_of_alpha = powers_of_alpha,
            vi_srs = cvi_srs index,
            vi_zk_rows = cvi_zk_rows index,
            vi_sigma_comm = sigma_comm,
            vi_coefficients_comm = coefficients_comm,
            vi_generic_comm = generic_comm,
            vi_psm_comm = psm_comm,
            vi_complete_add_comm = complete_add_comm,
            vi_mul_comm = mul_comm,
            vi_emul_comm = emul_comm,
            vi_endomul_scalar_comm = endomul_scalar_comm,
            vi_xor_comm = xor_comm,
            vi_range_check0_comm = range_check0_comm,
            vi_range_check1_comm = range_check1_comm,
            vi_foreign_field_add_comm = foreign_field_add_comm,
            vi_foreign_field_mul_comm = foreign_field_mul_comm,
            vi_rot_comm = rot_comm,
            vi_shift = shift,
            vi_permutation_vanishing_polynomial_m = ki_permutation_vanishing_polynomial K domain (cvi_zk_rows index),
            vi_w = ki_zk_w K domain (cvi_zk_rows index),
            vi_endo = ki_endo_q K,
            vi_lookup_index = lookup_index,
            vi_linearization = linearization\<rparr>)))))))))))))))))))))"

text \<open>
  \<open>VerifierIndex::from_file\<close> and \<open>to_file\<close> belong to \<^verbatim>\<open>kimchi\<close>.
\<close>

definition read_raw_fp ::
  "('s \<Rightarrow> string \<Rightarrow> u64 option \<Rightarrow> 'e \<Rightarrow> 'vi option) \<Rightarrow> 'e \<Rightarrow> isize option \<Rightarrow> 's \<Rightarrow> string \<Rightarrow> ('vi, ocaml_error) outcome" where
  "read_raw_fp from_file endo_q offset srs path =
     ok_or (from_file srs path offset endo_q) (InvalidArgument ''caml_pasta_fp_plonk_verifier_index_raw_read'')"

definition caml_pasta_fp_plonk_verifier_index_read ::
  "('g poly_comm \<Rightarrow> 'c) \<Rightarrow> ('s \<Rightarrow> string \<Rightarrow> u64 option \<Rightarrow> 'e \<Rightarrow> (u64, 'f, 'e, 's, 'g poly_comm, 'a, 'l, 'v) verifier_index option) \<Rightarrow> 'e \<Rightarrow>
    isize option \<Rightarrow> 's \<Rightarrow> string \<Rightarrow> (('f, 's, 'c) caml_plonk_verifier_index, ocaml_error) outcome" where
  "caml_pasta_fp_plonk_verifier_index_read pc_into from_file endo_q offset srs path =
     and_then (read_raw_fp from_file endo_q offset srs path) (\<lambda>vi.
       Ok (caml_pasta_fp_plonk_verifier_index_from pc_into vi))"

definition caml_pasta_fp_plonk_verifier_index_write ::
  "bool \<Rightarrow> ('f, 'e, 'a, 'l, 'v) kimchi_index_ops \<Rightarrow> ('c \<Rightarrow> ('g poly_comm, ocaml_error) outcome) \<Rightarrow>
    ((u64, 'f, 'e, 's, 'g poly_comm, 'a, 'l, 'v) verifier_index \<Rightarrow> string \<Rightarrow> bool option \<Rightarrow> files option) \<Rightarrow>
    bool option \<Rightarrow> ('f, 's, 'c) caml_plonk_verifier_index \<Rightarrow> string \<Rightarrow> (files, ocaml_error) outcome" where
  "caml_pasta_fp_plonk_verifier_index_write overflow_checks K pc_from to_file append_mode index path =
     and_then (verifier_index_from_caml_fp overflow_checks K pc_from index) (\<lambda>index.
       ok_or (to_file index path append_mode) (InvalidArgument ''caml_pasta_fp_plonk_verifier_index_raw_read''))"

text \<open>
  The prover index is given by its reference string, the size of its domain \<open>d1\<close> and
  \<open>verifier_index()\<close>; the Lagrange basis is added to the shared reference string first.
\<close>

definition caml_pasta_fp_plonk_verifier_index_create ::
  "('f, 'g, 'poly) srs_ops \<Rightarrow> ('g poly_comm \<Rightarrow> 'c) \<Rightarrow>
    ('g srs \<Rightarrow> (u64, 'f, 'e, 'g srs, 'g poly_comm, 'a, 'l, 'v) verifier_index) \<Rightarrow> nat \<Rightarrow> 'g srs \<Rightarrow>
    ('f, 'g srs, 'c) caml_plonk_verifier_index \<times> 'g srs" where
  "caml_pasta_fp_plonk_verifier_index_create P pc_into index_verifier_index d1 srs =
     (let srs = so_add_lagrange_basis P srs d1;
          verifier_index = index_verifier_index srs
      in (caml_pasta_fp_plonk_verifier_index_from pc_into verifier_index, srs))"

definition caml_pasta_fp_plonk_verifier_index_shifts ::
  "bool \<Rightarrow> ('f, 'e, 'a, 'l, 'v) kimchi_index_ops \<Rightarrow> isize \<Rightarrow> ('f list, ocaml_error) outcome" where
  "caml_pasta_fp_plonk_verifier_index_shifts overflow_checks K log2_size =
     and_then (shl_one overflow_checks 64 (sint log2_size)) (\<lambda>n.
     and_then (expect (ki_domain_new K n) ''called Option::unwrap() on a None value'') (\<lambda>domain.
       Ok (ki_shifts K domain)))"

definition dummy_comm_fp :: "'cg \<Rightarrow> 'cg caml_poly_comm" where
  "dummy_comm_fp g = \<lparr>cpc_unshifted = [g, g, g], cpc_shifted = None\<rparr>"

definition caml_pasta_fp_plonk_verifier_index_dummy ::
  "'f ark_field \<Rightarrow> 's \<Rightarrow> 'cg \<Rightarrow> ('f, 's, 'cg caml_poly_comm) caml_plonk_verifier_index" where
  "caml_pasta_fp_plonk_verifier_index_dummy F empty_srs g =
     (let comm = dummy_comm_fp g; vec_comm = (\<lambda>num. map (\<lambda>_. comm) [0..<num]) in
      \<lparr>cvi_domain = \<lparr>cd_log_size_of_group = 1, cd_group_gen = ff_one F\<rparr>,
       cvi_max_poly_size = 0,
       cvi_public = 0,
       cvi_prev_challenges = 0,
       cvi_srs = empty_srs,
       cvi_evals = \<lparr>
         cve_sigma_comm = vec_comm PERMUTS,
         cve_coefficients_comm = vec_comm COLUMNS,
         cve_generic_comm = comm,
         cve_psm_comm = comm,
         cve_complete_add_comm = comm,
         cve_mul_comm = comm,
         cve_emul_comm = comm,
         cve_endomul_scalar_comm = comm,
         cve_xor_comm = None,
         cve_range_check0_comm = None,
         cve_range_check1_comm = None,
         cve_foreign_field_add_comm = None,
         cve_foreign_field_mul_comm = None,
         cve_rot_comm = None\<rparr>,
       cvi_shifts = map (\<lambda>_. ff_one F) [0..<PERMUTS - 1],
       cvi_lookup_index = None,
       cvi_zk_rows = 3\<rparr>)"

definition caml_pasta_fp_plonk_verifier_index_deep_copy ::
  "('f, 's, 'c) caml_plonk_verifier_index \<Rightarrow> ('f, 's, 'c) caml_plonk_verifier_index" where
  "caml_pasta_fp_plonk_verifier_index_deep_copy x = x"

section \<open>The field \<open>Fq\<close>\<close>

definition caml_pasta_fq_plonk_verifier_index_from ::
  "('g poly_comm \<Rightarrow> 'c) \<Rightarrow> (u64, 'f, 'e, 's, 'g poly_comm, 'a, 'l, 'v) verifier_index \<Rightarrow> ('f, 's, 'c) caml_plonk_verifier_index" where
  "caml_pasta_fq_plonk_verifier_index_from pc_into vi =
     \<lparr>cvi_domain = \<lparr>cd_log_size_of_group = ucast (dom_log_size_of_group (vi_domain vi)),
        cd_group_gen = dom_group_gen (vi_domain vi)\<rparr>,
      cvi_max_poly_size = vi_max_poly_size vi,
      cvi_public = vi_public vi,
      cvi_prev_challenges = vi_prev_challenges vi,
      cvi_srs = vi_srs vi,
      cvi_evals = \<lparr>
        cve_sigma_comm = map pc_into (vi_sigma_comm vi),
        cve_coefficients_comm = map pc_into (vi_coefficients_comm vi),
        cve_generic_comm = pc_into (vi_generic_comm vi),
        cve_psm_comm = pc_into (vi_psm_comm vi),
        cve_complete_add_comm = pc_into (vi_complete_add_comm vi),
        cve_mul_comm = pc_into (vi_mul_comm vi),
        cve_emul_comm = pc_into (vi_emul_comm vi),
        cve_endomul_scalar_comm = pc_into (vi_endomul_scalar_comm vi),
        cve_xor_comm = map_option pc_into (vi_xor_comm vi),
        cve_range_check0_comm = map_option pc_into (vi_range_check0_comm vi),
        cve_range_check1_comm = map_option pc_into (vi_range_check1_comm vi),
        cve_foreign_field_add_comm = map_option pc_into (vi_foreign_field_add_comm vi),
        cve_foreign_field_mul_comm = map_option pc_into (vi_foreign_field_mul_comm vi),
        cve_rot_comm = map_option pc_into (vi_rot_comm vi)\<rparr>,
      cvi_shifts = vi_shift vi,
      cvi_lookup_index = map_option (caml_lookup_verifier_index_from pc_into) (vi_lookup_index vi),
      cvi_zk_rows = vi_zk_rows vi\<rparr>"

definition verifier_index_from_caml_fq ::
  "bool \<Rightarrow> ('f, 'e, 'a, 'l, 'v) kimchi_index_ops \<Rightarrow> ('c \<Rightarrow> ('g poly_comm, ocaml_error) outcome) \<Rightarrow>
    ('f, 's, 'c) caml_plonk_verifier_index \<Rightarrow> ((u64, 'f, 'e, 's, 'g poly_comm, 'a, 'l, 'v) verifier_index, ocaml_error) outcome" where
  "verifier_index_from_caml_fq overflow_checks K pc_from index =
     (let evals = cvi_evals index in
      and_then (shl_one overflow_checks 64 (sint (cd_log_size_of_group (cvi_domain index)))) (\<lambda>n.
      and_then (expect (ki_domain_new K n) ''wrong size'') (\<lambda>domain.
      and_then (collect pc_from (cve_coefficients_comm evals)) (\<lambda>coefficients_comm.
      and_then (expect (try_into_array COLUMNS coefficients_comm) ''wrong size'') (\<lambda>coefficients_comm.
      and_then (collect pc_from (cve_sigma_comm evals)) (\<lambda>sigma_comm.
      and_then (expect (try_into_array PERMUTS sigma_comm) ''vector of sigma comm is of wrong size'') (\<lambda>sigma_comm.
      and_then (expect (try_into_array PERMUTS (cvi_shifts index)) ''wrong size'') (\<lambda>shift.
      let (linearization, powers_of_alpha) = ki_expr_linearization K (caml_feature_flags index) True in
      and_then (pc_from (cve_generic_comm evals)) (\<lambda>generic_comm.
      and_then (pc_from (cve_psm_comm evals)) (\<lambda>psm_comm.
      and_then (pc_from (cve_complete_add_comm evals)) (\<lambda>complete_add_comm.
      and_then (pc_from (cve_mul_comm evals)) (\<lambda>mul_comm.
      and_then (pc_from (cve_emul_comm evals)) (\<lambda>emul_comm.
      and_then (pc_from (cve_endomul_scalar_comm evals)) (\<lambda>endomul_scalar_comm.
      and_then (collect_option pc_from (cve_xor_comm evals)) (\<lambda>xor_comm.
      and_then (collect_option pc_from (cve_range_check0_comm evals)) (\<lambda>range_check0_comm.
      and_then (collect_option pc_from (cve_range_check1_comm evals)) (\<lambda>range_check1_comm.
      and_then (collect_option pc_from (cve_foreign_field_add_comm evals)) (\<lambda>foreign_field_add_comm.
      and_then (collect_option pc_from (cve_foreign_field_mul_comm evals)) (\<lambda>foreign_field_mul_comm.
      and_then (collect_option pc_from (cve_rot_comm evals)) (\<lambda>rot_comm.
      and_then (collect_option (lookup_verifier_index_from_caml pc_from) (cvi_lookup_index index)) (\<lambda>lookup_index.
        Ok \<lparr>vi_domain = domain,
            vi_max_poly_size = cvi_max_poly_size index,
            vi_public = cvi_public index,
            vi_prev_challenges = cvi_prev_challenges index,
            vi_powers_of_alpha = powers_of_alpha,
            vi_srs = cvi_srs index,
            vi_zk_rows = cvi_zk_rows index,
            vi_sigma_comm = sigma_comm,
            vi_coefficients_comm = coefficients_comm,
            vi_generic_comm = generic_comm,
            vi_psm_comm = psm_comm,
            vi_complete_add_comm = complete_add_comm,
            vi_mul_comm = mul_comm,
            vi_emul_comm = emul_comm,
            vi_endomul_scalar_comm = endomul_scalar_comm,
            vi_xor_comm = xor_comm,
            vi_range_check0_comm = range_check0_comm,
            vi_range_check1_comm = range_check1_comm,
            vi_foreign_field_add_comm = foreign_field_add_comm,
            vi_foreign_field_mul_comm = foreign_field_mul_comm,
            vi_rot_comm = rot_comm,
            vi_shift = shift,
            vi_permutation_vanishing_polynomial_m = ki_permutation_vanishing_polynomial K domain (cvi_zk_rows index),
            vi_w = ki_zk_w K domain (cvi_zk_rows index),
            vi_endo = ki_endo_q K,
            vi_lookup_index = lookup_index,
            vi_linearization = linearization\<rparr>)))))))))))))))))))))"

text \<open>
  \<open>VerifierIndex::from_file\<close> and \<open>to_file\<close> belong to \<^verbatim>\<open>kimchi\<close>.
\<close>

definition read_raw_fq ::
  "('s \<Rightarrow> string \<Rightarrow> u64 option \<Rightarrow> 'e \<Rightarrow> 'vi option) \<Rightarrow> 'e \<Rightarrow> isize option \<Rightarrow> 's \<Rightarrow> string \<Rightarrow> ('vi, ocaml_error) outcome" where
  "read_raw_fq from_file endo_q offset srs path =
     ok_or (from_file srs path offset endo_q) (InvalidArgument ''caml_pasta_fq_plonk_verifier_index_raw_read'')"

definition caml_pasta_fq_plonk_verifier_index_read ::
  "('g poly_comm \<Rightarrow> 'c) \<Rightarrow> ('s \<Rightarrow> string \<Rightarrow> u64 option \<Rightarrow> 'e \<Rightarrow> (u64, 'f, 'e, 's, 'g poly_comm, 'a, 'l, 'v) verifier_index option) \<Rightarrow> 'e \<Rightarrow>
    isize option \<Rightarrow> 's \<Rightarrow> string \<Rightarrow> (('f, 's, 'c) caml_plonk_verifier_index, ocaml_error) outcome" where
  "caml_pasta_fq_plonk_verifier_index_read pc_into from_file endo_q offset srs path =
     and_then (read_raw_fq from_file endo_q offset srs path) (\<lambda>vi.
       Ok (caml_pasta_fq_plonk_verifier_index_from pc_into vi))"

definition caml_pasta_fq_plonk_verifier_index_write ::
  "bool \<Rightarrow> ('f, 'e, 'a, 'l, 'v) kimchi_index_ops \<Rightarrow> ('c \<Rightarrow> ('g poly_comm, ocaml_error) outcome) \<Rightarrow>
    ((u64, 'f, 'e, 's, 'g poly_comm, 'a, 'l, 'v) verifier_index \<Rightarrow> string \<Rightarrow> bool option \<Rightarrow> files option) \<Rightarrow>
    bool option \<Rightarrow> ('f, 's, 'c) caml_plonk_verifier_index \<Rightarrow> string \<Rightarrow> (files, ocaml_error) outcome" where
  "caml_pasta_fq_plonk_verifier_index_write overflow_checks K pc_from to_file append_mode index path =
     and_then (verifier_index_from_caml_fq overflow_checks K pc_from index) (\<lambda>index.
       ok_or (to_file index path append_mode) (InvalidArgument ''caml_pasta_fq_plonk_verifier_index_raw_read''))"

text \<open>
  The prover index is given by its reference string, the size of its domain \<open>d1\<close> and
  \<open>verifier_index()\<close>; the Lagrange basis is added to the shared reference string first.
\<close>

definition caml_pasta_fq_plonk_verifier_index_create ::
  "('f, 'g, 'poly) srs_ops \<Rightarrow> ('g poly_comm \<Rightarrow> 'c) \<Rightarrow>
    ('g srs \<Rightarrow> (u64, 'f, 'e, 'g srs, 'g poly_comm, 'a, 'l, 'v) verifier_index) \<Rightarrow> nat \<Rightarrow> 'g srs \<Rightarrow>
    ('f, 'g srs, 'c) caml_plonk_verifier_index \<times> 'g srs" where
  "caml_pasta_fq_plonk_verifier_index_create P pc_into index_verifier_index d1 srs =
     (let srs = so_add_lagrange_basis P srs d1;
          verifier_index = index_verifier_index srs
      in (caml_pasta_fq_plonk_verifier_index_from pc_into verifier_index, srs))"

definition caml_pasta_fq_plonk_verifier_index_shifts ::
  "bool \<Rightarrow> ('f, 'e, 'a, 'l, 'v) kimchi_index_ops \<Rightarrow> isize \<Rightarrow> ('f list, ocaml_error) outcome" where
  "caml_pasta_fq_plonk_verifier_index_shifts overflow_checks K log2_size =
     and_then (shl_one overflow_checks 64 (sint log2_size)) (\<lambda>n.
     and_then (expect (ki_domain_new K n) ''called Option::unwrap() on a None value'') (\<lambda>domain.
       Ok (ki_shifts K domain)))"

definition dummy_comm_fq :: "'cg \<Rightarrow> 'cg caml_poly_comm" where
  "dummy_comm_fq g = \<lparr>cpc_unshifted = [g, g, g], cpc_shifted = None\<rparr>"

definition caml_pasta_fq_plonk_verifier_index_dummy ::
  "'f ark_field \<Rightarrow> 's \<Rightarrow> 'cg \<Rightarrow> ('f, 's, 'cg caml_poly_comm) caml_plonk_verifier_index" where
  "caml_pasta_fq_plonk_verifier_index_dummy F empty_srs g =
     (let comm = dummy_comm_fq g; vec_comm = (\<lambda>num. map (\<lambda>_. comm) [0..<num]) in
      \<lparr>cvi_domain = \<lparr>cd_log_size_of_group = 1, cd_group_gen = ff_one F\<rparr>,
       cvi_max_poly_size = 0,
       cvi_public = 0,
       cvi_prev_challenges = 0,
       cvi_srs = empty_srs,
       cvi_evals = \<lparr>
         cve_sigma_comm = vec_comm PERMUTS,
         cve_coefficients_comm = vec_comm COLUMNS,
         cve_generic_comm = comm,
         cve_psm_comm = comm,
         cve_complete_add_comm = comm,
         cve_mul_comm = comm,
         cve_emul_comm = comm,
         cve_endomul_scalar_comm = comm,
         cve_xor_comm = None,
         cve_range_check0_comm = None,
         cve_range_check1_comm = None,
         cve_foreign_field_add_comm = None,
         cve_foreign_field_mul_comm = None,
         cve_rot_comm = None\<rparr>,
       cvi_shifts = map (\<lambda>_. ff_one F) [0..<PERMUTS - 1],
       cvi_lookup_index = None,
       cvi_zk_rows = 3\<rparr>)"

definition caml_pasta_fq_plonk_verifier_index_deep_copy ::
  "('f, 's, 'c) caml_plonk_verifier_index \<Rightarrow> ('f, 's, 'c) caml_plonk_verifier_index" where
  "caml_pasta_fq_plonk_verifier_index_deep_copy x = x"

section \<open>What the bindings rely on\<close>

text \<open>
  A domain built for \<open>2 ^ k\<close> elements has the logarithm \<open>k\<close>.
\<close>

definition domain_log_ok :: "('f, 'e, 'a, 'l, 'v) kimchi_index_ops \<Rightarrow> bool" where
  "domain_log_ok K \<longleftrightarrow> (\<forall>k < 64. \<forall>d. ki_domain_new K (2 ^ k) = Some d \<longrightarrow> unat (dom_log_size_of_group d) = k)"

section \<open>Lemmas on the conversions\<close>

lemma ucast_u32_u64 [simp]: "ucast (ucast (x :: u32) :: u64) = x"
  by (rule bit_word_eqI) (simp add: bit_simps)

interpretation lookup_info: codec caml_lookup_info_from "\<lambda>li. Ok (lookup_info_from_caml li)"
  by unfold_locales (simp add: caml_lookup_info_from_def lookup_info_from_caml_def)

lemma lookup_info_roundtrip [simp]: "lookup_info_from_caml (caml_lookup_info_from li) = li"
  using lookup_info.decode_encode [of li] by simp

context codec
begin

lemmas decode_all = decode_encode decode_list decode_option

end

lemma lookup_selectors_codec:
  "codec pc_into pc_from \<Longrightarrow> codec (caml_lookup_selectors_from pc_into) (lookup_selectors_from_caml pc_from)"
  by (rule codec.intro)
    (simp add: caml_lookup_selectors_from_def lookup_selectors_from_caml_def codec.decode_all)

lemma lookup_verifier_index_codec:
  assumes "codec pc_into pc_from"
  shows "codec (caml_lookup_verifier_index_from pc_into) (lookup_verifier_index_from_caml pc_from)"
  by (rule codec.intro)
    (simp add: caml_lookup_verifier_index_from_def lookup_verifier_index_from_caml_def
      codec.decode_all [OF assms] codec.decode_encode [OF lookup_selectors_codec [OF assms]])

lemma shl_one_small: "0 \<le> k \<Longrightarrow> k < int w \<Longrightarrow> shl_one b w k = Ok (2 ^ nat k)"
  by (simp add: shl_one_def)

lemma shl_one_of_nat: "k < w \<Longrightarrow> shl_one b w (int k) = Ok (2 ^ k)"
  by (simp add: shl_one_def)

text \<open>
  The conversion from OCaml panics on its sizes exactly when one of them is wrong; \<open>sizes_ok\<close>
  collects them.
\<close>

definition sizes_ok :: "('f, 's, 'c) caml_plonk_verifier_index \<Rightarrow> bool" where
  "sizes_ok index \<longleftrightarrow> length (cve_coefficients_comm (cvi_evals index)) = COLUMNS \<and>
     length (cve_sigma_comm (cvi_evals index)) = PERMUTS \<and> length (cvi_shifts index) = PERMUTS"

text \<open>
  The commitments that the conversion converts one by one. Converting one succeeds or panics, the latter when it
  has a shifted part.
\<close>

definition selector_commitments :: "'c caml_lookup_selectors \<Rightarrow> 'c set" where
  "selector_commitments s =
     set_option (cls_lookup s) \<union> set_option (cls_xor s) \<union> set_option (cls_range_check s) \<union> set_option (cls_ffmul s)"

definition lookup_commitments_of :: "'c caml_lookup_verifier_index \<Rightarrow> 'c set" where
  "lookup_commitments_of li =
     set (clvi_lookup_table li) \<union> selector_commitments (clvi_lookup_selectors li) \<union>
     set_option (clvi_table_ids li) \<union> set_option (clvi_runtime_tables_selector li)"

definition index_commitments :: "('f, 's, 'c) caml_plonk_verifier_index \<Rightarrow> 'c set" where
  "index_commitments index =
     (let evals = cvi_evals index in
      set (cve_coefficients_comm evals) \<union> set (cve_sigma_comm evals) \<union>
      {cve_generic_comm evals, cve_psm_comm evals, cve_complete_add_comm evals, cve_mul_comm evals,
       cve_emul_comm evals, cve_endomul_scalar_comm evals} \<union>
      set_option (cve_xor_comm evals) \<union> set_option (cve_range_check0_comm evals) \<union>
      set_option (cve_range_check1_comm evals) \<union> set_option (cve_foreign_field_add_comm evals) \<union>
      set_option (cve_foreign_field_mul_comm evals) \<union> set_option (cve_rot_comm evals) \<union>
      \<Union> (lookup_commitments_of ` set_option (cvi_lookup_index index)))"

lemmas is_ok_steps = is_ok_and_then is_ok_collect is_ok_collect_option is_ok_iff [symmetric]

lemma selectors_from_caml_ok_iff:
  "is_ok (lookup_selectors_from_caml pc_from s) \<longleftrightarrow> (\<forall>c \<in> selector_commitments s. is_ok (pc_from c))"
  by (simp add: lookup_selectors_from_caml_def selector_commitments_def ball_Un is_ok_steps conj_assoc)

lemma lookup_from_caml_ok_iff:
  "is_ok (lookup_verifier_index_from_caml pc_from li) \<longleftrightarrow> (\<forall>c \<in> lookup_commitments_of li. is_ok (pc_from c))"
  by (simp add: lookup_verifier_index_from_caml_def lookup_commitments_of_def ball_Un is_ok_steps
      selectors_from_caml_ok_iff conj_assoc)

lemma collect_array_ok_iff:
  "(\<exists>ys. collect f xs = Ok ys \<and> length ys = n \<and> Q) \<longleftrightarrow> (\<forall>x \<in> set xs. is_ok (f x)) \<and> length xs = n \<and> Q"
proof -
  have "(\<exists>ys. collect f xs = Ok ys \<and> length ys = n) \<longleftrightarrow> is_ok (collect f xs) \<and> length xs = n"
    using collect_length [of f xs] unfolding is_ok_iff by metis
  then show ?thesis unfolding is_ok_collect by blast
qed

lemma from_caml_ok_iff:
  assumes "shl_one ch 64 (sint (cd_log_size_of_group (cvi_domain index))) = (Ok n :: (nat, ocaml_error) outcome)"
    and "ki_domain_new K n = Some d"
  shows "is_ok (verifier_index_from_caml_fp ch K pc_from index) \<longleftrightarrow>
    sizes_ok index \<and> (\<forall>c \<in> index_commitments index. is_ok (pc_from c))"
  by (simp add: verifier_index_from_caml_fp_def Let_def assms split_beta is_ok_steps
      collect_array_ok_iff lookup_from_caml_ok_iff sizes_ok_def index_commitments_def ball_Un) blast

lemma collect_map_Ok: "collect f xs = Ok ys \<Longrightarrow> map Ok ys = map f xs"
  by (induction xs arbitrary: ys) auto

lemma from_caml_fields:
  assumes "shl_one ch 64 (sint (cd_log_size_of_group (cvi_domain index))) = (Ok n :: (nat, ocaml_error) outcome)"
    and "ki_domain_new K n = Some d" and "verifier_index_from_caml_fp ch K pc_from index = Ok vi"
  shows "vi_domain vi = d" "vi_public vi = cvi_public index" "vi_zk_rows vi = cvi_zk_rows index"
    "vi_shift vi = cvi_shifts index" "vi_w vi = ki_zk_w K d (cvi_zk_rows index)"
    "map Ok (vi_sigma_comm vi) = map pc_from (cve_sigma_comm (cvi_evals index))" "length (vi_sigma_comm vi) = PERMUTS"
    "map Ok (vi_coefficients_comm vi) = map pc_from (cve_coefficients_comm (cvi_evals index))"
    "length (vi_coefficients_comm vi) = COLUMNS"
  using assms(3)
  by (auto simp: verifier_index_from_caml_fp_def Let_def assms(1,2) try_into_array_def split_beta
      dest: collect_map_Ok split: if_splits)

lemma from_caml_no_err:
  assumes "\<And>c e. pc_from c \<noteq> Err e"
    and "shl_one ch 64 (sint (cd_log_size_of_group (cvi_domain index))) = (Ok n :: (nat, ocaml_error) outcome)"
  shows "verifier_index_from_caml_fp ch K pc_from index \<noteq> Err e"
proof -
  note converts = collect_no_err [OF assms(1)] collect_option_no_err [OF assms(1)]
  have "lookup_verifier_index_from_caml pc_from li \<noteq> Err e" for li e
    by (simp add: lookup_verifier_index_from_caml_def lookup_selectors_from_caml_def and_then_Err_iff converts)
  note converts = converts collect_option_no_err [OF this]
  show ?thesis
    using assms(1)
    by (simp add: verifier_index_from_caml_fp_def Let_def and_then_Err_iff converts expect_no_err assms(2) split_beta)
qed

text \<open>
  The fields of an index that are computed from the others agree with them.
\<close>

definition derived_ok ::
  "('f, 'e, 'a, 'l, 'v) kimchi_index_ops \<Rightarrow> (u64, 'f, 'e, 's, 'g poly_comm, 'a, 'l, 'v) verifier_index \<Rightarrow> bool" where
  "derived_ok K vi \<longleftrightarrow>
     unat (dom_log_size_of_group (vi_domain vi)) < 64 \<and>
     ki_domain_new K (2 ^ unat (dom_log_size_of_group (vi_domain vi))) = Some (vi_domain vi) \<and>
     ki_expr_linearization K (caml_feature_flags (caml_pasta_fp_plonk_verifier_index_from (\<lambda>c. c) vi)) True =
       (vi_linearization vi, vi_powers_of_alpha vi) \<and>
     vi_permutation_vanishing_polynomial_m vi = ki_permutation_vanishing_polynomial K (vi_domain vi) (vi_zk_rows vi) \<and>
     vi_w vi = ki_zk_w K (vi_domain vi) (vi_zk_rows vi) \<and> vi_endo vi = ki_endo_q K"

lemma caml_feature_flags_pc_into:
  "caml_feature_flags (caml_pasta_fp_plonk_verifier_index_from pc_into vi) =
   caml_feature_flags (caml_pasta_fp_plonk_verifier_index_from (\<lambda>c. c) vi)"
  by (cases "vi_lookup_index vi")
    (simp_all add: caml_feature_flags_def caml_pasta_fp_plonk_verifier_index_from_def
      caml_lookup_verifier_index_from_def)

lemma sint_ucast_u32: "sint (ucast (x :: u32) :: isize) = int (unat x)"
proof -
  have "unat x < 2 ^ 32" using unsigned_less [of x] by simp
  moreover have "(ucast x :: isize) = word_of_nat (unat x)" by simp
  ultimately show ?thesis using sint_isize_of_nat [of "unat x"] by simp
qed

lemma collect_total_ok:
  assumes "\<And>c. \<exists>g. f c = Ok g"
  shows "\<exists>gs. collect f cs = Ok gs \<and> length gs = length cs"
proof -
  obtain h where "f = (\<lambda>c. Ok (h c))" using assms by metis
  then show ?thesis by simp
qed

section \<open>Properties\<close>

text \<open>
  C20. Verifier indexes survive the trip through OCaml. An index whose arrays have their sizes and
  whose computed fields agree with the others is converted to its OCaml view and back to itself,
  whenever single commitments are.
\<close>

theorem verifier_index_roundtrip:
  assumes "codec pc_into pc_from" and "derived_ok K vi"
    and "length (vi_sigma_comm vi) = PERMUTS" and "length (vi_coefficients_comm vi) = COLUMNS"
    and "length (vi_shift vi) = PERMUTS"
  shows "verifier_index_from_caml_fp ch K pc_from (caml_pasta_fp_plonk_verifier_index_from pc_into vi) = Ok vi"
proof -
  let ?log = "dom_log_size_of_group (vi_domain vi)"
  have shl: "shl_one ch 64 (sint (ucast ?log :: isize)) = (Ok (2 ^ unat ?log) :: (nat, ocaml_error) outcome)"
    using assms(2) unfolding derived_ok_def sint_ucast_u32
    by (intro shl_one_of_nat) simp
  note lookup = codec.decode_option [OF lookup_verifier_index_codec [OF assms(1)]]
  show ?thesis
    using assms(2-5) shl
    by (simp add: verifier_index_from_caml_fp_def caml_feature_flags_pc_into [of pc_into] derived_ok_def)
      (simp add: caml_pasta_fp_plonk_verifier_index_from_def codec.decode_all [OF assms(1)] lookup
        try_into_array_def)
qed

definition ref_index_ops :: "(nat, nat, nat, nat, nat) kimchi_index_ops" where
  "ref_index_ops = \<lparr>
     ki_domain_new = (\<lambda>n. if n = 2 then Some \<lparr>dom_log_size_of_group = 1, dom_group_gen = 1\<rparr> else None),
     ki_endo_q = 0,
     ki_expr_linearization = (\<lambda>flags b. (if ff_rot flags then 1 else 2, 3)),
     ki_permutation_vanishing_polynomial = (\<lambda>d zk. unat zk),
     ki_zk_w = (\<lambda>d zk. unat zk),
     ki_shifts = (\<lambda>d. replicate 7 (dom_group_gen d)) \<rparr>"

definition ref_index :: "(u64, nat, nat, nat, nat poly_comm, nat, nat, nat) verifier_index" where
  "ref_index = (let c = \<lparr>pc_elems = [5]\<rparr> in
     \<lparr>vi_domain = \<lparr>dom_log_size_of_group = 1, dom_group_gen = 1\<rparr>,
      vi_max_poly_size = 2, vi_public = 1, vi_prev_challenges = 0, vi_powers_of_alpha = 3, vi_srs = 0, vi_zk_rows = 3,
      vi_sigma_comm = replicate 7 c, vi_coefficients_comm = replicate 15 c,
      vi_generic_comm = c, vi_psm_comm = c, vi_complete_add_comm = c, vi_mul_comm = c, vi_emul_comm = c, vi_endomul_scalar_comm = c,
      vi_xor_comm = None, vi_range_check0_comm = None, vi_range_check1_comm = None, vi_foreign_field_add_comm = None, vi_foreign_field_mul_comm = None, vi_rot_comm = Some c,
      vi_shift = replicate 7 1, vi_permutation_vanishing_polynomial_m = 3, vi_w = 3, vi_endo = 0,
      vi_lookup_index = None, vi_linearization = 1\<rparr>)"

lemma caml_index_codec: "codec (\<lambda>c. c) (\<lambda>c. Ok c)"
  by (rule codec.intro) simp

theorem verifier_index_roundtrip_witness:
  "verifier_index_from_caml_fp True ref_index_ops (\<lambda>c. Ok c) (caml_pasta_fp_plonk_verifier_index_from (\<lambda>c. c) ref_index) =
     Ok ref_index"
  by (rule verifier_index_roundtrip [OF caml_index_codec])
    (simp_all add: Let_def derived_ok_def ref_index_def ref_index_ops_def PERMUTS_def COLUMNS_def caml_feature_flags_def
      caml_pasta_fp_plonk_verifier_index_from_def)

text \<open>
  C30. When the conversion from OCaml panics. If the domain exists, it succeeds exactly when the numbers of
  coefficient commitments, permutation commitments and shifts are right and every commitment of the index,
  those of the lookup tables included, converts, and then it keeps the sizes, the commitments and the
  zero-knowledge rows it was given; otherwise it panics. The dummy index has one shift too few and cannot be
  converted.
\<close>

theorem verifier_index_from_caml_sizes:
  assumes "\<And>c e. pc_from c \<noteq> Err e"
    and "shl_one ch 64 (sint (cd_log_size_of_group (cvi_domain index))) = (Ok n :: (nat, ocaml_error) outcome)"
    and "ki_domain_new K n = Some d"
  shows "(if sizes_ok index \<and> (\<forall>c \<in> index_commitments index. \<exists>g. pc_from c = Ok g)
    then \<exists>vi. verifier_index_from_caml_fp ch K pc_from index = Ok vi \<and> vi_domain vi = d \<and>
      vi_public vi = cvi_public index \<and> vi_zk_rows vi = cvi_zk_rows index \<and> vi_shift vi = cvi_shifts index \<and>
      map Ok (vi_sigma_comm vi) = map pc_from (cve_sigma_comm (cvi_evals index)) \<and>
      map Ok (vi_coefficients_comm vi) = map pc_from (cve_coefficients_comm (cvi_evals index)) \<and>
      length (vi_sigma_comm vi) = PERMUTS \<and> length (vi_coefficients_comm vi) = COLUMNS \<and>
      vi_w vi = ki_zk_w K d (cvi_zk_rows index)
    else \<exists>m. verifier_index_from_caml_fp ch K pc_from index = Panic m) \<and>
    \<not> sizes_ok (caml_pasta_fp_plonk_verifier_index_dummy F empty_srs g)"
proof (intro conjI)
  let ?r = "verifier_index_from_caml_fp ch K pc_from index"
  show "if sizes_ok index \<and> (\<forall>c \<in> index_commitments index. \<exists>g. pc_from c = Ok g)
    then \<exists>vi. ?r = Ok vi \<and> vi_domain vi = d \<and>
      vi_public vi = cvi_public index \<and> vi_zk_rows vi = cvi_zk_rows index \<and> vi_shift vi = cvi_shifts index \<and>
      map Ok (vi_sigma_comm vi) = map pc_from (cve_sigma_comm (cvi_evals index)) \<and>
      map Ok (vi_coefficients_comm vi) = map pc_from (cve_coefficients_comm (cvi_evals index)) \<and>
      length (vi_sigma_comm vi) = PERMUTS \<and> length (vi_coefficients_comm vi) = COLUMNS \<and>
      vi_w vi = ki_zk_w K d (cvi_zk_rows index)
    else \<exists>m. ?r = Panic m"
  proof (cases "is_ok ?r")
    case True
    then obtain vi where vi: "?r = Ok vi" unfolding is_ok_iff by blast
    from True show ?thesis
      using from_caml_ok_iff [OF assms(2,3), of pc_from] from_caml_fields [OF assms(2,3) vi] vi
      by (auto simp: is_ok_iff)
  next
    case False
    then show ?thesis
      using not_ok_panics [OF False from_caml_no_err [OF assms(1,2)]] from_caml_ok_iff [OF assms(2,3), of pc_from]
      by (simp add: is_ok_iff)
  qed
  show "\<not> sizes_ok (caml_pasta_fp_plonk_verifier_index_dummy F empty_srs g)"
    by (simp add: sizes_ok_def caml_pasta_fp_plonk_verifier_index_dummy_def PERMUTS_def Let_def)
qed

theorem verifier_index_from_caml_sizes_witness:
  "\<exists>m. verifier_index_from_caml_fp True ref_index_ops (\<lambda>c. Ok \<lparr>pc_elems = cpc_unshifted c\<rparr>)
     (caml_pasta_fp_plonk_verifier_index_dummy
        (ref_field 7 2 (\<lambda>n. n) (\<lambda>n. n)) (0 :: nat) (0 :: nat)) = Panic m"
proof -
  let ?dummy = "caml_pasta_fp_plonk_verifier_index_dummy (ref_field 7 2 (\<lambda>n. n) (\<lambda>n. n)) (0 :: nat) (0 :: nat)"
  have shl: "shl_one True 64 (sint (cd_log_size_of_group (cvi_domain ?dummy))) = (Ok 2 :: (nat, ocaml_error) outcome)"
    by (simp add: caml_pasta_fp_plonk_verifier_index_dummy_def Let_def shl_one_def)
  have domain: "ki_domain_new ref_index_ops 2 = Some \<lparr>dom_log_size_of_group = 1, dom_group_gen = 1\<rparr>"
    by (simp add: ref_index_ops_def)
  show ?thesis
    using verifier_index_from_caml_sizes [where index = ?dummy and g = "0 :: nat" and F = "ref_field 7 2 (\<lambda>n. n) (\<lambda>n. n)"
        and empty_srs = "0 :: nat" and pc_from = "\<lambda>c. Ok \<lparr>pc_elems = cpc_unshifted c\<rparr>", OF _ shl domain]
    by simp
qed

end

