(* ===== verification/Verifier_Index_Wasm.thy ===== *)
theory Verifier_Index_Wasm
  imports Verifier_Index
begin

text \<open>
  Verifier indexes for JavaScript: \<^verbatim>\<open>wasm/src/plonk_verifier_index.rs\<close>, one macro that is
  expanded for both fields. Sizes are 32-bit words on this target. The commitments are converted by
  the functions of \<open>Poly_Comm\<close>, which panic on a shifted commitment.
\<close>

section \<open>Structures with their accessors\<close>

record 'f wasm_domain =
  wd_log_size_of_group :: i32
  wd_group_gen :: 'f

definition wasm_domain_new :: "i32 \<Rightarrow> 'f \<Rightarrow> 'f wasm_domain" where
  "wasm_domain_new log_size_of_group group_gen =
     \<lparr>wd_log_size_of_group = log_size_of_group, wd_group_gen = group_gen\<rparr>"

record 'c wasm_plonk_verification_evals =
  wve_sigma_comm :: "'c list"
  wve_coefficients_comm :: "'c list"
  wve_generic_comm :: 'c
  wve_psm_comm :: 'c
  wve_complete_add_comm :: 'c
  wve_mul_comm :: 'c
  wve_emul_comm :: 'c
  wve_endomul_scalar_comm :: 'c
  wve_xor_comm :: "'c option"
  wve_range_check0_comm :: "'c option"
  wve_range_check1_comm :: "'c option"
  wve_foreign_field_add_comm :: "'c option"
  wve_foreign_field_mul_comm :: "'c option"
  wve_rot_comm :: "'c option"

definition wasm_verification_evals_new ::
  "'c list \<Rightarrow> 'c list \<Rightarrow> 'c \<Rightarrow> 'c \<Rightarrow> 'c \<Rightarrow> 'c \<Rightarrow> 'c \<Rightarrow> 'c \<Rightarrow> 'c option \<Rightarrow> 'c option \<Rightarrow> 'c option \<Rightarrow> 'c option \<Rightarrow> 'c option \<Rightarrow> 'c option \<Rightarrow> 'c wasm_plonk_verification_evals" where
  "wasm_verification_evals_new sigma_comm coefficients_comm generic_comm psm_comm complete_add_comm mul_comm emul_comm endomul_scalar_comm xor_comm range_check0_comm range_check1_comm foreign_field_add_comm foreign_field_mul_comm rot_comm =
     \<lparr>wve_sigma_comm = sigma_comm,
      wve_coefficients_comm = coefficients_comm,
      wve_generic_comm = generic_comm,
      wve_psm_comm = psm_comm,
      wve_complete_add_comm = complete_add_comm,
      wve_mul_comm = mul_comm,
      wve_emul_comm = emul_comm,
      wve_endomul_scalar_comm = endomul_scalar_comm,
      wve_xor_comm = xor_comm,
      wve_range_check0_comm = range_check0_comm,
      wve_range_check1_comm = range_check1_comm,
      wve_foreign_field_add_comm = foreign_field_add_comm,
      wve_foreign_field_mul_comm = foreign_field_mul_comm,
      wve_rot_comm = rot_comm\<rparr>"

definition wasm_evals_sigma_comm :: "'c wasm_plonk_verification_evals \<Rightarrow> 'c list" where
  "wasm_evals_sigma_comm self = wve_sigma_comm self"

definition wasm_evals_set_sigma_comm :: "'c wasm_plonk_verification_evals \<Rightarrow> 'c list \<Rightarrow> 'c wasm_plonk_verification_evals" where
  "wasm_evals_set_sigma_comm self x = self\<lparr>wve_sigma_comm := x\<rparr>"

definition wasm_evals_coefficients_comm :: "'c wasm_plonk_verification_evals \<Rightarrow> 'c list" where
  "wasm_evals_coefficients_comm self = wve_coefficients_comm self"

definition wasm_evals_set_coefficients_comm :: "'c wasm_plonk_verification_evals \<Rightarrow> 'c list \<Rightarrow> 'c wasm_plonk_verification_evals" where
  "wasm_evals_set_coefficients_comm self x = self\<lparr>wve_coefficients_comm := x\<rparr>"

definition wasm_evals_generic_comm :: "'c wasm_plonk_verification_evals \<Rightarrow> 'c" where
  "wasm_evals_generic_comm self = wve_generic_comm self"

definition wasm_evals_set_generic_comm :: "'c wasm_plonk_verification_evals \<Rightarrow> 'c \<Rightarrow> 'c wasm_plonk_verification_evals" where
  "wasm_evals_set_generic_comm self x = self\<lparr>wve_generic_comm := x\<rparr>"

definition wasm_evals_psm_comm :: "'c wasm_plonk_verification_evals \<Rightarrow> 'c" where
  "wasm_evals_psm_comm self = wve_psm_comm self"

definition wasm_evals_set_psm_comm :: "'c wasm_plonk_verification_evals \<Rightarrow> 'c \<Rightarrow> 'c wasm_plonk_verification_evals" where
  "wasm_evals_set_psm_comm self x = self\<lparr>wve_psm_comm := x\<rparr>"

definition wasm_evals_complete_add_comm :: "'c wasm_plonk_verification_evals \<Rightarrow> 'c" where
  "wasm_evals_complete_add_comm self = wve_complete_add_comm self"

definition wasm_evals_set_complete_add_comm :: "'c wasm_plonk_verification_evals \<Rightarrow> 'c \<Rightarrow> 'c wasm_plonk_verification_evals" where
  "wasm_evals_set_complete_add_comm self x = self\<lparr>wve_complete_add_comm := x\<rparr>"

definition wasm_evals_mul_comm :: "'c wasm_plonk_verification_evals \<Rightarrow> 'c" where
  "wasm_evals_mul_comm self = wve_mul_comm self"

definition wasm_evals_set_mul_comm :: "'c wasm_plonk_verification_evals \<Rightarrow> 'c \<Rightarrow> 'c wasm_plonk_verification_evals" where
  "wasm_evals_set_mul_comm self x = self\<lparr>wve_mul_comm := x\<rparr>"

definition wasm_evals_emul_comm :: "'c wasm_plonk_verification_evals \<Rightarrow> 'c" where
  "wasm_evals_emul_comm self = wve_emul_comm self"

definition wasm_evals_set_emul_comm :: "'c wasm_plonk_verification_evals \<Rightarrow> 'c \<Rightarrow> 'c wasm_plonk_verification_evals" where
  "wasm_evals_set_emul_comm self x = self\<lparr>wve_emul_comm := x\<rparr>"

definition wasm_evals_endomul_scalar_comm :: "'c wasm_plonk_verification_evals \<Rightarrow> 'c" where
  "wasm_evals_endomul_scalar_comm self = wve_endomul_scalar_comm self"

definition wasm_evals_set_endomul_scalar_comm :: "'c wasm_plonk_verification_evals \<Rightarrow> 'c \<Rightarrow> 'c wasm_plonk_verification_evals" where
  "wasm_evals_set_endomul_scalar_comm self x = self\<lparr>wve_endomul_scalar_comm := x\<rparr>"

definition wasm_evals_xor_comm :: "'c wasm_plonk_verification_evals \<Rightarrow> 'c option" where
  "wasm_evals_xor_comm self = wve_xor_comm self"

definition wasm_evals_set_xor_comm :: "'c wasm_plonk_verification_evals \<Rightarrow> 'c option \<Rightarrow> 'c wasm_plonk_verification_evals" where
  "wasm_evals_set_xor_comm self x = self\<lparr>wve_xor_comm := x\<rparr>"

definition wasm_evals_range_check0_comm :: "'c wasm_plonk_verification_evals \<Rightarrow> 'c option" where
  "wasm_evals_range_check0_comm self = wve_range_check0_comm self"

definition wasm_evals_set_range_check0_comm :: "'c wasm_plonk_verification_evals \<Rightarrow> 'c option \<Rightarrow> 'c wasm_plonk_verification_evals" where
  "wasm_evals_set_range_check0_comm self x = self\<lparr>wve_range_check0_comm := x\<rparr>"

definition wasm_evals_range_check1_comm :: "'c wasm_plonk_verification_evals \<Rightarrow> 'c option" where
  "wasm_evals_range_check1_comm self = wve_range_check1_comm self"

definition wasm_evals_set_range_check1_comm :: "'c wasm_plonk_verification_evals \<Rightarrow> 'c option \<Rightarrow> 'c wasm_plonk_verification_evals" where
  "wasm_evals_set_range_check1_comm self x = self\<lparr>wve_range_check1_comm := x\<rparr>"

definition wasm_evals_foreign_field_add_comm :: "'c wasm_plonk_verification_evals \<Rightarrow> 'c option" where
  "wasm_evals_foreign_field_add_comm self = wve_foreign_field_add_comm self"

definition wasm_evals_set_foreign_field_add_comm :: "'c wasm_plonk_verification_evals \<Rightarrow> 'c option \<Rightarrow> 'c wasm_plonk_verification_evals" where
  "wasm_evals_set_foreign_field_add_comm self x = self\<lparr>wve_foreign_field_add_comm := x\<rparr>"

definition wasm_evals_foreign_field_mul_comm :: "'c wasm_plonk_verification_evals \<Rightarrow> 'c option" where
  "wasm_evals_foreign_field_mul_comm self = wve_foreign_field_mul_comm self"

definition wasm_evals_set_foreign_field_mul_comm :: "'c wasm_plonk_verification_evals \<Rightarrow> 'c option \<Rightarrow> 'c wasm_plonk_verification_evals" where
  "wasm_evals_set_foreign_field_mul_comm self x = self\<lparr>wve_foreign_field_mul_comm := x\<rparr>"

definition wasm_evals_rot_comm :: "'c wasm_plonk_verification_evals \<Rightarrow> 'c option" where
  "wasm_evals_rot_comm self = wve_rot_comm self"

definition wasm_evals_set_rot_comm :: "'c wasm_plonk_verification_evals \<Rightarrow> 'c option \<Rightarrow> 'c wasm_plonk_verification_evals" where
  "wasm_evals_set_rot_comm self x = self\<lparr>wve_rot_comm := x\<rparr>"

record 'f wasm_shifts =
  ws_s0 :: 'f
  ws_s1 :: 'f
  ws_s2 :: 'f
  ws_s3 :: 'f
  ws_s4 :: 'f
  ws_s5 :: 'f
  ws_s6 :: 'f

definition wasm_shifts_new :: "'f \<Rightarrow> 'f \<Rightarrow> 'f \<Rightarrow> 'f \<Rightarrow> 'f \<Rightarrow> 'f \<Rightarrow> 'f \<Rightarrow> 'f wasm_shifts" where
  "wasm_shifts_new s0 s1 s2 s3 s4 s5 s6 =
     \<lparr>ws_s0 = s0, ws_s1 = s1, ws_s2 = s2, ws_s3 = s3, ws_s4 = s4, ws_s5 = s5, ws_s6 = s6\<rparr>"

record 'c wasm_lookup_selectors =
  wls_xor :: "'c option"
  wls_lookup :: "'c option"
  wls_range_check :: "'c option"
  wls_ffmul :: "'c option"

definition wasm_lookup_selectors_new ::
  "'c option \<Rightarrow> 'c option \<Rightarrow> 'c option \<Rightarrow> 'c option \<Rightarrow> 'c wasm_lookup_selectors" where
  "wasm_lookup_selectors_new xor_sel lookup range_check ffmul =
     \<lparr>wls_xor = xor_sel, wls_lookup = lookup, wls_range_check = range_check, wls_ffmul = ffmul\<rparr>"

definition wasm_selectors_xor :: "'c wasm_lookup_selectors \<Rightarrow> 'c option" where
  "wasm_selectors_xor self = wls_xor self"

definition wasm_selectors_set_xor :: "'c wasm_lookup_selectors \<Rightarrow> 'c option \<Rightarrow> 'c wasm_lookup_selectors" where
  "wasm_selectors_set_xor self x = self\<lparr>wls_xor := x\<rparr>"

definition wasm_selectors_lookup :: "'c wasm_lookup_selectors \<Rightarrow> 'c option" where
  "wasm_selectors_lookup self = wls_lookup self"

definition wasm_selectors_set_lookup :: "'c wasm_lookup_selectors \<Rightarrow> 'c option \<Rightarrow> 'c wasm_lookup_selectors" where
  "wasm_selectors_set_lookup self x = self\<lparr>wls_lookup := x\<rparr>"

definition wasm_selectors_ffmul :: "'c wasm_lookup_selectors \<Rightarrow> 'c option" where
  "wasm_selectors_ffmul self = wls_ffmul self"

definition wasm_selectors_set_ffmul :: "'c wasm_lookup_selectors \<Rightarrow> 'c option \<Rightarrow> 'c wasm_lookup_selectors" where
  "wasm_selectors_set_ffmul self x = self\<lparr>wls_ffmul := x\<rparr>"

definition wasm_selectors_range_check :: "'c wasm_lookup_selectors \<Rightarrow> 'c option" where
  "wasm_selectors_range_check self = wls_range_check self"

definition wasm_selectors_set_range_check :: "'c wasm_lookup_selectors \<Rightarrow> 'c option \<Rightarrow> 'c wasm_lookup_selectors" where
  "wasm_selectors_set_range_check self x = self\<lparr>wls_range_check := x\<rparr>"

record 'c wasm_lookup_verifier_index =
  wlvi_joint_lookup_used :: bool
  wlvi_lookup_table :: "'c list"
  wlvi_lookup_selectors :: "'c wasm_lookup_selectors"
  wlvi_table_ids :: "'c option"
  wlvi_lookup_info :: "u32 lookup_info"
  wlvi_runtime_tables_selector :: "'c option"

definition wasm_lookup_verifier_index_new ::
  "bool \<Rightarrow> 'c list \<Rightarrow> 'c wasm_lookup_selectors \<Rightarrow> 'c option \<Rightarrow> u32 lookup_info \<Rightarrow> 'c option \<Rightarrow> 'c wasm_lookup_verifier_index" where
  "wasm_lookup_verifier_index_new joint_lookup_used lookup_table lookup_selectors table_ids lookup_info runtime_tables_selector =
     \<lparr>wlvi_joint_lookup_used = joint_lookup_used,
      wlvi_lookup_table = lookup_table,
      wlvi_lookup_selectors = lookup_selectors,
      wlvi_table_ids = table_ids,
      wlvi_lookup_info = lookup_info,
      wlvi_runtime_tables_selector = runtime_tables_selector\<rparr>"

definition wasm_lookup_index_lookup_table :: "'c wasm_lookup_verifier_index \<Rightarrow> 'c list" where
  "wasm_lookup_index_lookup_table self = wlvi_lookup_table self"

definition wasm_lookup_index_set_lookup_table :: "'c wasm_lookup_verifier_index \<Rightarrow> 'c list \<Rightarrow> 'c wasm_lookup_verifier_index" where
  "wasm_lookup_index_set_lookup_table self x = self\<lparr>wlvi_lookup_table := x\<rparr>"

definition wasm_lookup_index_lookup_selectors :: "'c wasm_lookup_verifier_index \<Rightarrow> 'c wasm_lookup_selectors" where
  "wasm_lookup_index_lookup_selectors self = wlvi_lookup_selectors self"

definition wasm_lookup_index_set_lookup_selectors :: "'c wasm_lookup_verifier_index \<Rightarrow> 'c wasm_lookup_selectors \<Rightarrow> 'c wasm_lookup_verifier_index" where
  "wasm_lookup_index_set_lookup_selectors self x = self\<lparr>wlvi_lookup_selectors := x\<rparr>"

definition wasm_lookup_index_table_ids :: "'c wasm_lookup_verifier_index \<Rightarrow> 'c option" where
  "wasm_lookup_index_table_ids self = wlvi_table_ids self"

definition wasm_lookup_index_set_table_ids :: "'c wasm_lookup_verifier_index \<Rightarrow> 'c option \<Rightarrow> 'c wasm_lookup_verifier_index" where
  "wasm_lookup_index_set_table_ids self x = self\<lparr>wlvi_table_ids := x\<rparr>"

definition wasm_lookup_index_lookup_info :: "'c wasm_lookup_verifier_index \<Rightarrow> u32 lookup_info" where
  "wasm_lookup_index_lookup_info self = wlvi_lookup_info self"

definition wasm_lookup_index_set_lookup_info :: "'c wasm_lookup_verifier_index \<Rightarrow> u32 lookup_info \<Rightarrow> 'c wasm_lookup_verifier_index" where
  "wasm_lookup_index_set_lookup_info self x = self\<lparr>wlvi_lookup_info := x\<rparr>"

definition wasm_lookup_index_runtime_tables_selector :: "'c wasm_lookup_verifier_index \<Rightarrow> 'c option" where
  "wasm_lookup_index_runtime_tables_selector self = wlvi_runtime_tables_selector self"

definition wasm_lookup_index_set_runtime_tables_selector :: "'c wasm_lookup_verifier_index \<Rightarrow> 'c option \<Rightarrow> 'c wasm_lookup_verifier_index" where
  "wasm_lookup_index_set_runtime_tables_selector self x = self\<lparr>wlvi_runtime_tables_selector := x\<rparr>"

record ('f, 's, 'c) wasm_plonk_verifier_index =
  wvi_domain :: "'f wasm_domain"
  wvi_max_poly_size :: i32
  wvi_public :: i32
  wvi_prev_challenges :: i32
  wvi_srs :: 's
  wvi_evals :: "'c wasm_plonk_verification_evals"
  wvi_shifts :: "'f wasm_shifts"
  wvi_lookup_index :: "'c wasm_lookup_verifier_index option"
  wvi_zk_rows :: i32

definition wasm_plonk_verifier_index_new ::
  "'f wasm_domain \<Rightarrow> i32 \<Rightarrow> i32 \<Rightarrow> i32 \<Rightarrow> 's \<Rightarrow> 'c wasm_plonk_verification_evals \<Rightarrow> 'f wasm_shifts \<Rightarrow>
    'c wasm_lookup_verifier_index option \<Rightarrow> i32 \<Rightarrow> ('f, 's, 'c) wasm_plonk_verifier_index" where
  "wasm_plonk_verifier_index_new domain max_poly_size public prev_challenges srs evals shifts lookup_index zk_rows =
     \<lparr>wvi_domain = domain, wvi_max_poly_size = max_poly_size, wvi_public = public,
      wvi_prev_challenges = prev_challenges, wvi_srs = srs, wvi_evals = evals, wvi_shifts = shifts,
      wvi_lookup_index = lookup_index, wvi_zk_rows = zk_rows\<rparr>"

definition wasm_index_srs :: "('f, 's, 'c) wasm_plonk_verifier_index \<Rightarrow> 's" where
  "wasm_index_srs self = wvi_srs self"

definition wasm_index_set_srs :: "('f, 's, 'c) wasm_plonk_verifier_index \<Rightarrow> 's \<Rightarrow> ('f, 's, 'c) wasm_plonk_verifier_index" where
  "wasm_index_set_srs self x = self\<lparr>wvi_srs := x\<rparr>"

definition wasm_index_evals :: "('f, 's, 'c) wasm_plonk_verifier_index \<Rightarrow> 'c wasm_plonk_verification_evals" where
  "wasm_index_evals self = wvi_evals self"

definition wasm_index_set_evals :: "('f, 's, 'c) wasm_plonk_verifier_index \<Rightarrow> 'c wasm_plonk_verification_evals \<Rightarrow> ('f, 's, 'c) wasm_plonk_verifier_index" where
  "wasm_index_set_evals self x = self\<lparr>wvi_evals := x\<rparr>"

definition wasm_index_lookup_index :: "('f, 's, 'c) wasm_plonk_verifier_index \<Rightarrow> 'c wasm_lookup_verifier_index option" where
  "wasm_index_lookup_index self = wvi_lookup_index self"

definition wasm_index_set_lookup_index :: "('f, 's, 'c) wasm_plonk_verifier_index \<Rightarrow> 'c wasm_lookup_verifier_index option \<Rightarrow> ('f, 's, 'c) wasm_plonk_verifier_index" where
  "wasm_index_set_lookup_index self x = self\<lparr>wvi_lookup_index := x\<rparr>"

section \<open>Conversions\<close>

definition lookup_selectors_from_wasm ::
  "'b wasm_g wasm_poly_comm wasm_lookup_selectors \<Rightarrow> ('b affine poly_comm lookup_selectors, js_error) outcome" where
  "lookup_selectors_from_wasm x =
     and_then (collect_option poly_comm_from_wasm (wls_xor x)) (\<lambda>xor.
     and_then (collect_option poly_comm_from_wasm (wls_lookup x)) (\<lambda>lookup.
     and_then (collect_option poly_comm_from_wasm (wls_range_check x)) (\<lambda>range_check.
     and_then (collect_option poly_comm_from_wasm (wls_ffmul x)) (\<lambda>ffmul.
       Ok \<lparr>ls_xor = xor, ls_lookup = lookup, ls_range_check = range_check, ls_ffmul = ffmul\<rparr>))))"

definition wasm_lookup_selectors_from ::
  "'b affine poly_comm lookup_selectors \<Rightarrow> 'b wasm_g wasm_poly_comm wasm_lookup_selectors" where
  "wasm_lookup_selectors_from x =
     \<lparr>wls_xor = map_option wasm_poly_comm_from (ls_xor x),
      wls_lookup = map_option wasm_poly_comm_from (ls_lookup x),
      wls_range_check = map_option wasm_poly_comm_from (ls_range_check x),
      wls_ffmul = map_option wasm_poly_comm_from (ls_ffmul x)\<rparr>"

definition wasm_lookup_verifier_index_from ::
  "(u32, 'b affine poly_comm) lookup_verifier_index \<Rightarrow> 'b wasm_g wasm_poly_comm wasm_lookup_verifier_index" where
  "wasm_lookup_verifier_index_from x =
     \<lparr>wlvi_joint_lookup_used = lvi_joint_lookup_used x,
      wlvi_lookup_table = map wasm_poly_comm_from (lvi_lookup_table x),
      wlvi_lookup_selectors = wasm_lookup_selectors_from (lvi_lookup_selectors x),
      wlvi_table_ids = map_option wasm_poly_comm_from (lvi_table_ids x),
      wlvi_lookup_info = lvi_lookup_info x,
      wlvi_runtime_tables_selector = map_option wasm_poly_comm_from (lvi_runtime_tables_selector x)\<rparr>"

definition lookup_verifier_index_from_wasm ::
  "'b wasm_g wasm_poly_comm wasm_lookup_verifier_index \<Rightarrow> ((u32, 'b affine poly_comm) lookup_verifier_index, js_error) outcome" where
  "lookup_verifier_index_from_wasm x =
     and_then (collect poly_comm_from_wasm (wlvi_lookup_table x)) (\<lambda>lookup_table.
     and_then (lookup_selectors_from_wasm (wlvi_lookup_selectors x)) (\<lambda>lookup_selectors.
     and_then (collect_option poly_comm_from_wasm (wlvi_table_ids x)) (\<lambda>table_ids.
     and_then (collect_option poly_comm_from_wasm (wlvi_runtime_tables_selector x)) (\<lambda>runtime_tables_selector.
       Ok \<lparr>lvi_joint_lookup_used = wlvi_joint_lookup_used x,
           lvi_lookup_table = lookup_table,
           lvi_lookup_selectors = lookup_selectors,
           lvi_table_ids = table_ids,
           lvi_lookup_info = wlvi_lookup_info x,
           lvi_runtime_tables_selector = runtime_tables_selector\<rparr>))))"

text \<open>
  The seven elements of the array \<open>shift\<close>.
\<close>

definition wasm_shifts_of :: "'f list \<Rightarrow> 'f wasm_shifts" where
  "wasm_shifts_of s =
     \<lparr>ws_s0 = s ! 0, ws_s1 = s ! 1, ws_s2 = s ! 2, ws_s3 = s ! 3, ws_s4 = s ! 4, ws_s5 = s ! 5, ws_s6 = s ! 6\<rparr>"

definition to_wasm ::
  "'s \<Rightarrow> (u32, 'f, 'e, 's, 'b affine poly_comm, 'a, 'l, 'v) verifier_index \<Rightarrow>
    ('f, 's, 'b wasm_g wasm_poly_comm) wasm_plonk_verifier_index" where
  "to_wasm srs vi =
     \<lparr>wvi_domain = \<lparr>wd_log_size_of_group = dom_log_size_of_group (vi_domain vi),
        wd_group_gen = dom_group_gen (vi_domain vi)\<rparr>,
      wvi_max_poly_size = vi_max_poly_size vi,
      wvi_public = vi_public vi,
      wvi_prev_challenges = vi_prev_challenges vi,
      wvi_srs = srs,
      wvi_evals = \<lparr>
        wve_sigma_comm = map wasm_poly_comm_from (vi_sigma_comm vi),
        wve_coefficients_comm = map wasm_poly_comm_from (vi_coefficients_comm vi),
        wve_generic_comm = wasm_poly_comm_from (vi_generic_comm vi),
        wve_psm_comm = wasm_poly_comm_from (vi_psm_comm vi),
        wve_complete_add_comm = wasm_poly_comm_from (vi_complete_add_comm vi),
        wve_mul_comm = wasm_poly_comm_from (vi_mul_comm vi),
        wve_emul_comm = wasm_poly_comm_from (vi_emul_comm vi),
        wve_endomul_scalar_comm = wasm_poly_comm_from (vi_endomul_scalar_comm vi),
        wve_xor_comm = map_option wasm_poly_comm_from (vi_xor_comm vi),
        wve_range_check0_comm = map_option wasm_poly_comm_from (vi_range_check0_comm vi),
        wve_range_check1_comm = map_option wasm_poly_comm_from (vi_range_check1_comm vi),
        wve_foreign_field_add_comm = map_option wasm_poly_comm_from (vi_foreign_field_add_comm vi),
        wve_foreign_field_mul_comm = map_option wasm_poly_comm_from (vi_foreign_field_mul_comm vi),
        wve_rot_comm = map_option wasm_poly_comm_from (vi_rot_comm vi)\<rparr>,
      wvi_shifts = wasm_shifts_of (vi_shift vi),
      wvi_lookup_index = map_option wasm_lookup_verifier_index_from (vi_lookup_index vi),
      wvi_zk_rows = ucast (vi_zk_rows vi)\<rparr>"

text \<open>
  \<open>joint_lookups_used\<close> of \<open>LookupPatterns\<close> belongs to \<^verbatim>\<open>kimchi\<close>.
\<close>

definition compute_feature_flags ::
  "(lookup_patterns \<Rightarrow> bool) \<Rightarrow> ('f, 's, 'c) wasm_plonk_verifier_index \<Rightarrow> feature_flags" where
  "compute_feature_flags joint_lookups_used index =
     (let xor_used = wve_xor_comm (wvi_evals index) \<noteq> None;
          range_check0 = wve_range_check0_comm (wvi_evals index) \<noteq> None;
          range_check1 = wve_range_check1_comm (wvi_evals index) \<noteq> None;
          foreign_field_add = wve_foreign_field_add_comm (wvi_evals index) \<noteq> None;
          foreign_field_mul = wve_foreign_field_mul_comm (wvi_evals index) \<noteq> None;
          rot = wve_rot_comm (wvi_evals index) \<noteq> None;
          lookup = (case wvi_lookup_index index of
              None \<Rightarrow> False
            | Some li \<Rightarrow> lpat_lookup (lf_patterns (li_features (wlvi_lookup_info li))));
          runtime_tables = False;
          patterns = \<lparr>lpat_xor = xor_used, lpat_lookup = lookup,
            lpat_range_check = range_check0 \<or> range_check1 \<or> rot,
            lpat_foreign_field_mul = foreign_field_mul\<rparr>
      in \<lparr>ff_range_check0 = range_check0,
          ff_range_check1 = range_check1,
          ff_foreign_field_add = foreign_field_add,
          ff_foreign_field_mul = foreign_field_mul,
          ff_xor = xor_used,
          ff_rot = rot,
          ff_lookup_features = \<lparr>lf_patterns = patterns,
            lf_joint_lookup_used = joint_lookups_used patterns,
            lf_uses_runtime_tables = runtime_tables\<rparr>\<rparr>)"

text \<open>
  \<open>array_init(|i| (&xs[i]).into())\<close>: the first \<open>n\<close> elements, in order; panics when there are fewer.
\<close>

definition array_init :: "nat \<Rightarrow> ('c \<Rightarrow> ('d, js_error) outcome) \<Rightarrow> 'c list \<Rightarrow> ('d list, js_error) outcome" where
  "array_init n conv xs = collect (\<lambda>i. and_then (vec_index xs i) conv) [0..<n]"

definition of_wasm ::
  "bool \<Rightarrow> (lookup_patterns \<Rightarrow> bool) \<Rightarrow> ('f, 'e, 'a, 'l, 'v) kimchi_index_ops \<Rightarrow>
    ('f, 's, 'b wasm_g wasm_poly_comm) wasm_plonk_verifier_index \<Rightarrow>
    ((u32, 'f, 'e, 's, 'b affine poly_comm, 'a, 'l, 'v) verifier_index \<times> 's, js_error) outcome" where
  "of_wasm overflow_checks joint_lookups_used K index =
     (let evals = wvi_evals index; shifts = wvi_shifts index in
      and_then (shl_one overflow_checks 32 (sint (wd_log_size_of_group (wvi_domain index)))) (\<lambda>n.
      and_then (expect (ki_domain_new K n) ''called Option::unwrap() on a None value'') (\<lambda>domain.
      let feature_flags = compute_feature_flags joint_lookups_used index;
          (linearization, powers_of_alpha) = ki_expr_linearization K feature_flags True in
      and_then (array_init PERMUTS poly_comm_from_wasm (wve_sigma_comm evals)) (\<lambda>sigma_comm.
      and_then (poly_comm_from_wasm (wve_generic_comm evals)) (\<lambda>generic_comm.
      and_then (array_init COLUMNS poly_comm_from_wasm (wve_coefficients_comm evals)) (\<lambda>coefficients_comm.
      and_then (poly_comm_from_wasm (wve_psm_comm evals)) (\<lambda>psm_comm.
      and_then (poly_comm_from_wasm (wve_complete_add_comm evals)) (\<lambda>complete_add_comm.
      and_then (poly_comm_from_wasm (wve_mul_comm evals)) (\<lambda>mul_comm.
      and_then (poly_comm_from_wasm (wve_emul_comm evals)) (\<lambda>emul_comm.
      and_then (poly_comm_from_wasm (wve_endomul_scalar_comm evals)) (\<lambda>endomul_scalar_comm.
      and_then (collect_option poly_comm_from_wasm (wve_xor_comm evals)) (\<lambda>xor_comm.
      and_then (collect_option poly_comm_from_wasm (wve_range_check0_comm evals)) (\<lambda>range_check0_comm.
      and_then (collect_option poly_comm_from_wasm (wve_range_check1_comm evals)) (\<lambda>range_check1_comm.
      and_then (collect_option poly_comm_from_wasm (wve_foreign_field_add_comm evals)) (\<lambda>foreign_field_add_comm.
      and_then (collect_option poly_comm_from_wasm (wve_foreign_field_mul_comm evals)) (\<lambda>foreign_field_mul_comm.
      and_then (collect_option poly_comm_from_wasm (wve_rot_comm evals)) (\<lambda>rot_comm.
      and_then (collect_option lookup_verifier_index_from_wasm (wvi_lookup_index index)) (\<lambda>lookup_index.
        Ok (\<lparr>vi_domain = domain,
            vi_max_poly_size = wvi_max_poly_size index,
            vi_public = wvi_public index,
            vi_prev_challenges = wvi_prev_challenges index,
            vi_powers_of_alpha = powers_of_alpha,
            vi_srs = wvi_srs index,
            vi_zk_rows = scast (wvi_zk_rows index),
            vi_sigma_comm = sigma_comm,
            vi_coefficients_comm = coefficients_comm,
            vi_generic_comm = generic_comm,
            vi_psm_comm = psm_comm,
            vi_complete_add_comm = complete_add_comm,
            vi_mul_comm = mul_comm,
            vi_emul_comm = emul_comm,
            vi_endomul_scalar_comm = endomul_scalar_comm,
            vi_xor_comm = xor_comm,
            vi_range_check0_comm = range_check0_comm,
            vi_range_check1_comm = range_check1_comm,
            vi_foreign_field_add_comm = foreign_field_add_comm,
            vi_foreign_field_mul_comm = foreign_field_mul_comm,
            vi_rot_comm = rot_comm,
            vi_shift = [ws_s0 shifts, ws_s1 shifts, ws_s2 shifts, ws_s3 shifts, ws_s4 shifts, ws_s5 shifts, ws_s6 shifts],
            vi_permutation_vanishing_polynomial_m = ki_permutation_vanishing_polynomial K domain 3,
            vi_w = ki_zk_w K domain 3,
            vi_endo = ki_endo_q K,
            vi_lookup_index = lookup_index,
            vi_linearization = linearization\<rparr>, wvi_srs index)))))))))))))))))))"

definition verifier_index_from_wasm ::
  "bool \<Rightarrow> (lookup_patterns \<Rightarrow> bool) \<Rightarrow> ('f, 'e, 'a, 'l, 'v) kimchi_index_ops \<Rightarrow>
    ('f, 's, 'b wasm_g wasm_poly_comm) wasm_plonk_verifier_index \<Rightarrow>
    ((u32, 'f, 'e, 's, 'b affine poly_comm, 'a, 'l, 'v) verifier_index, js_error) outcome" where
  "verifier_index_from_wasm overflow_checks joint_lookups_used K index =
     map_ok fst (of_wasm overflow_checks joint_lookups_used K index)"

section \<open>The exported functions\<close>

text \<open>
  \<open>from_file\<close> returns the message of the error.
\<close>

definition read_raw_wasm ::
  "('s \<Rightarrow> string \<Rightarrow> u64 option \<Rightarrow> 'e \<Rightarrow> string + 'vi) \<Rightarrow> 'e \<Rightarrow> i32 option \<Rightarrow> 's \<Rightarrow> string \<Rightarrow> ('vi, js_error) outcome" where
  "read_raw_wasm from_file endo_q offset srs path =
     (case from_file srs path (map_option scast offset) endo_q of
        Inr vi \<Rightarrow> Ok vi
      | Inl e \<Rightarrow> Err (JsValue (''read_raw: '' @ e)))"

definition caml_plonk_verifier_index_read_wasm ::
  "('s \<Rightarrow> string \<Rightarrow> u64 option \<Rightarrow> 'e \<Rightarrow> string + (u32, 'f, 'e, 's, 'b affine poly_comm, 'a, 'l, 'v) verifier_index) \<Rightarrow> 'e \<Rightarrow>
    i32 option \<Rightarrow> 's \<Rightarrow> string \<Rightarrow> (('f, 's, 'b wasm_g wasm_poly_comm) wasm_plonk_verifier_index, js_error) outcome" where
  "caml_plonk_verifier_index_read_wasm from_file endo_q offset srs path =
     and_then (read_raw_wasm from_file endo_q offset srs path) (\<lambda>vi. Ok (to_wasm srs vi))"

definition caml_plonk_verifier_index_write_wasm ::
  "bool \<Rightarrow> (lookup_patterns \<Rightarrow> bool) \<Rightarrow> ('f, 'e, 'a, 'l, 'v) kimchi_index_ops \<Rightarrow>
    ((u32, 'f, 'e, 's, 'b affine poly_comm, 'a, 'l, 'v) verifier_index \<Rightarrow> string \<Rightarrow> bool option \<Rightarrow> files option) \<Rightarrow>
    bool option \<Rightarrow> ('f, 's, 'b wasm_g wasm_poly_comm) wasm_plonk_verifier_index \<Rightarrow> string \<Rightarrow> (files, js_error) outcome" where
  "caml_plonk_verifier_index_write_wasm overflow_checks joint_lookups_used K to_file append_mode index path =
     and_then (verifier_index_from_wasm overflow_checks joint_lookups_used K index) (\<lambda>index.
       ok_or (to_file index path append_mode) (JsValue ''caml_pasta_fp_plonk_verifier_index_raw_read''))"

definition caml_plonk_verifier_index_serialize_wasm ::
  "bool \<Rightarrow> (lookup_patterns \<Rightarrow> bool) \<Rightarrow> ('f, 'e, 'a, 'l, 'v) kimchi_index_ops \<Rightarrow>
    ((u32, 'f, 'e, 's, 'b affine poly_comm, 'a, 'l, 'v) verifier_index \<Rightarrow> string option) \<Rightarrow>
    ('f, 's, 'b wasm_g wasm_poly_comm) wasm_plonk_verifier_index \<Rightarrow> (string, js_error) outcome" where
  "caml_plonk_verifier_index_serialize_wasm overflow_checks joint_lookups_used K index_json index =
     and_then (verifier_index_from_wasm overflow_checks joint_lookups_used K index) (\<lambda>index.
       expect (index_json index) ''called Result::unwrap() on an Err value'')"

definition caml_plonk_verifier_index_deserialize_wasm ::
  "(string \<Rightarrow> string + (u32, 'f, 'e, 's, 'b affine poly_comm, 'a, 'l, 'v) verifier_index) \<Rightarrow>
    's \<Rightarrow> string \<Rightarrow> (('f, 's, 'b wasm_g wasm_poly_comm) wasm_plonk_verifier_index, js_error) outcome" where
  "caml_plonk_verifier_index_deserialize_wasm index_of_json srs index =
     (case index_of_json index of
        Inr vi \<Rightarrow> Ok (to_wasm srs vi)
      | Inl e \<Rightarrow> Err (JsError e))"

definition caml_plonk_verifier_index_create_wasm ::
  "('f, 'b affine, 'poly) srs_ops \<Rightarrow>
    ('b affine srs \<Rightarrow> (u32, 'f, 'e, 'b affine srs, 'b affine poly_comm, 'a, 'l, 'v) verifier_index) \<Rightarrow> nat \<Rightarrow> 'b affine srs \<Rightarrow>
    ('f, 'b affine srs, 'b wasm_g wasm_poly_comm) wasm_plonk_verifier_index \<times> 'b affine srs" where
  "caml_plonk_verifier_index_create_wasm P index_verifier_index d1 srs =
     (let srs = so_add_lagrange_basis P srs d1;
          verifier_index = index_verifier_index srs
      in (to_wasm srs verifier_index, srs))"

definition caml_plonk_verifier_index_shifts_wasm ::
  "bool \<Rightarrow> ('f, 'e, 'a, 'l, 'v) kimchi_index_ops \<Rightarrow> i32 \<Rightarrow> ('f wasm_shifts, js_error) outcome" where
  "caml_plonk_verifier_index_shifts_wasm overflow_checks K log2_size =
     and_then (shl_one overflow_checks 32 (sint log2_size)) (\<lambda>n.
     and_then (expect (ki_domain_new K n) ''called Option::unwrap() on a None value'') (\<lambda>domain.
       Ok (wasm_shifts_of (ki_shifts K domain))))"

definition caml_plonk_verifier_index_dummy_wasm ::
  "'f ark_field \<Rightarrow> 's \<Rightarrow> 'wg \<Rightarrow> ('f, 's, 'wg wasm_poly_comm) wasm_plonk_verifier_index" where
  "caml_plonk_verifier_index_dummy_wasm F empty_srs g =
     (let comm = \<lparr>wpc_unshifted = [g], wpc_shifted = None\<rparr>; vec_comm = (\<lambda>num. map (\<lambda>_. comm) [0..<num]); one = ff_one F in
      \<lparr>wvi_domain = \<lparr>wd_log_size_of_group = 1, wd_group_gen = one\<rparr>,
       wvi_max_poly_size = 0,
       wvi_public = 0,
       wvi_prev_challenges = 0,
       wvi_srs = empty_srs,
       wvi_evals = \<lparr>
         wve_sigma_comm = vec_comm PERMUTS,
         wve_coefficients_comm = vec_comm COLUMNS,
         wve_generic_comm = comm,
         wve_psm_comm = comm,
         wve_complete_add_comm = comm,
         wve_mul_comm = comm,
         wve_emul_comm = comm,
         wve_endomul_scalar_comm = comm,
         wve_xor_comm = None,
         wve_range_check0_comm = None,
         wve_range_check1_comm = None,
         wve_foreign_field_add_comm = None,
         wve_foreign_field_mul_comm = None,
         wve_rot_comm = None\<rparr>,
       wvi_shifts = \<lparr>ws_s0 = one, ws_s1 = one, ws_s2 = one, ws_s3 = one, ws_s4 = one, ws_s5 = one, ws_s6 = one\<rparr>,
       wvi_lookup_index = None,
       wvi_zk_rows = 3\<rparr>)"

definition caml_plonk_verifier_index_deep_copy_wasm ::
  "('f, 's, 'c) wasm_plonk_verifier_index \<Rightarrow> ('f, 's, 'c) wasm_plonk_verifier_index" where
  "caml_plonk_verifier_index_deep_copy_wasm x = x"

section \<open>Lemmas on the conversions\<close>

lemma array_init_take:
  "n \<le> length xs \<Longrightarrow> array_init n conv xs = collect conv (take n xs)"
proof -
  assume n: "n \<le> length xs"
  have "collect (\<lambda>i. and_then (vec_index xs i) conv) is = collect conv (map ((!) xs) is)"
    if "\<forall>i \<in> set is. i < length xs" for "is"
    using that by (induction "is") (auto simp: vec_index_def)
  moreover have "map ((!) xs) [0..<n] = take n xs"
    using n by (intro nth_equalityI) auto
  ultimately show ?thesis using n by (simp add: array_init_def)
qed

lemma array_init_codec:
  "codec enc dec \<Longrightarrow> length xs = n \<Longrightarrow> array_init n dec (map enc xs) = Ok xs"
  by (simp add: array_init_take codec.decode_list)

lemma array_init_short:
  assumes "length xs < n" and "\<And>c. \<exists>d. conv c = Ok d"
  shows "\<exists>m. array_init n conv xs = Panic m"
proof -
  obtain h where h: "conv = (\<lambda>c. Ok (h c))" using assms(2) by metis
  have "\<exists>m. collect (\<lambda>i. and_then (vec_index xs i) conv) is = Panic m" if "\<exists>i \<in> set is. length xs \<le> i" for "is"
    using that by (induction "is") (auto simp: vec_index_def h and_then_Panic_iff)
  moreover have "length xs \<in> set [0..<n]" using assms(1) by simp
  ultimately show ?thesis unfolding array_init_def by blast
qed

interpretation wasm_lookup_selectors: codec wasm_lookup_selectors_from lookup_selectors_from_wasm
  by unfold_locales
    (simp add: wasm_lookup_selectors_from_def lookup_selectors_from_wasm_def poly_comm.decode_all)

interpretation wasm_lookup_index: codec wasm_lookup_verifier_index_from lookup_verifier_index_from_wasm
  by unfold_locales
    (simp add: wasm_lookup_verifier_index_from_def lookup_verifier_index_from_wasm_def poly_comm.decode_all
      wasm_lookup_selectors.decode_encode)

lemma wasm_shifts_list:
  "length s = PERMUTS \<Longrightarrow>
   [ws_s0 (wasm_shifts_of s), ws_s1 (wasm_shifts_of s), ws_s2 (wasm_shifts_of s), ws_s3 (wasm_shifts_of s),
    ws_s4 (wasm_shifts_of s), ws_s5 (wasm_shifts_of s), ws_s6 (wasm_shifts_of s)] = s"
  by (auto simp: wasm_shifts_of_def PERMUTS_def length_Suc_conv numeral_eq_Suc)

text \<open>
  The fields of an index that are computed from the others agree with what \<open>of_wasm\<close> computes.
\<close>

definition wasm_derived_ok ::
  "(lookup_patterns \<Rightarrow> bool) \<Rightarrow> ('f, 'e, 'a, 'l, 'v) kimchi_index_ops \<Rightarrow>
    (u32, 'f, 'e, 's, 'b affine poly_comm, 'a, 'l, 'v) verifier_index \<Rightarrow> bool" where
  "wasm_derived_ok joint_lookups_used K vi \<longleftrightarrow>
     unat (dom_log_size_of_group (vi_domain vi)) < 32 \<and>
     ki_domain_new K (2 ^ unat (dom_log_size_of_group (vi_domain vi))) = Some (vi_domain vi) \<and>
     ki_expr_linearization K (compute_feature_flags joint_lookups_used (to_wasm (vi_srs vi) vi)) True =
       (vi_linearization vi, vi_powers_of_alpha vi) \<and>
     vi_permutation_vanishing_polynomial_m vi = ki_permutation_vanishing_polynomial K (vi_domain vi) 3 \<and>
     vi_w vi = ki_zk_w K (vi_domain vi) 3 \<and> vi_endo vi = ki_endo_q K"

section \<open>An index\<close>

definition ref_point :: "nat wasm_g" where
  "ref_point = \<lparr>wg_x = 1, wg_y = 2, wg_infinity = False\<rparr>"

definition ref_wasm_index :: "(nat, nat, nat wasm_g wasm_poly_comm) wasm_plonk_verifier_index" where
  "ref_wasm_index = (caml_plonk_verifier_index_dummy_wasm (ref_field 7 2 (\<lambda>n. n) (\<lambda>n. n)) 0 ref_point)\<lparr>wvi_zk_rows := 5\<rparr>"

definition ref_index32 :: "(u32, nat, nat, nat, nat affine poly_comm, nat, nat, nat) verifier_index" where
  "ref_index32 = (let c = \<lparr>pc_elems = [affine_vesta_from_wasm ref_point]\<rparr> in
     \<lparr>vi_domain = \<lparr>dom_log_size_of_group = 1, dom_group_gen = 1\<rparr>,
      vi_max_poly_size = 2, vi_public = 1, vi_prev_challenges = 0, vi_powers_of_alpha = 3, vi_srs = 0, vi_zk_rows = 3,
      vi_sigma_comm = replicate 7 c, vi_coefficients_comm = replicate 15 c,
      vi_generic_comm = c, vi_psm_comm = c, vi_complete_add_comm = c, vi_mul_comm = c, vi_emul_comm = c, vi_endomul_scalar_comm = c,
      vi_xor_comm = None, vi_range_check0_comm = None, vi_range_check1_comm = None, vi_foreign_field_add_comm = None, vi_foreign_field_mul_comm = None, vi_rot_comm = Some c,
      vi_shift = replicate 7 1, vi_permutation_vanishing_polynomial_m = 3, vi_w = 3, vi_endo = 0,
      vi_lookup_index = None, vi_linearization = 1\<rparr>)"

lemma poly_comm_from_wasm_unshifted:
  "poly_comm_from_wasm \<lparr>wpc_unshifted = gs, wpc_shifted = None\<rparr> = Ok \<lparr>pc_elems = map affine_vesta_from_wasm gs\<rparr>"
  by (simp add: poly_comm_from_wasm_def rust_assert_def)

lemma collect_replicate: "f c = Ok d \<Longrightarrow> collect f (replicate n c) = Ok (replicate n d)"
  by (induction n) auto

lemma ref_wasm_index_converts: "\<exists>vi srs. of_wasm True J ref_index_ops ref_wasm_index = Ok (vi, srs)"
  by (simp add: of_wasm_def ref_wasm_index_def caml_plonk_verifier_index_dummy_wasm_def Let_def shl_one_def
      ref_index_ops_def map_replicate_const array_init_take collect_replicate [where f = poly_comm_from_wasm, OF poly_comm_from_wasm_unshifted]
      poly_comm_from_wasm_unshifted split_beta)

section \<open>Properties\<close>

text \<open>
  C28. What \<open>of_wasm\<close> computes for the zero-knowledge rows. The converted index records the number
  of rows it was given, but the vanishing polynomial and the root of unity are those for three rows;
  the bindings for OCaml compute both for the recorded number.
\<close>

theorem of_wasm_assumes_three_zk_rows:
  "(of_wasm ch joint_lookups_used K index = Ok (vi, srs) \<longrightarrow>
     vi_zk_rows vi = scast (wvi_zk_rows index) \<and> vi_w vi = ki_zk_w K (vi_domain vi) 3 \<and>
     vi_permutation_vanishing_polynomial_m vi = ki_permutation_vanishing_polynomial K (vi_domain vi) 3 \<and>
     vi_srs vi = srs \<and> srs = wvi_srs index) \<and>
   (verifier_index_from_caml_fp ch K' pc_from cindex = Ok cvi \<longrightarrow>
     vi_zk_rows cvi = cvi_zk_rows cindex \<and> vi_w cvi = ki_zk_w K' (vi_domain cvi) (vi_zk_rows cvi) \<and>
     vi_permutation_vanishing_polynomial_m cvi =
       ki_permutation_vanishing_polynomial K' (vi_domain cvi) (vi_zk_rows cvi))"
  by (cases "ki_expr_linearization K (compute_feature_flags joint_lookups_used index) True";
      cases "ki_expr_linearization K' (caml_feature_flags cindex) True")
    (auto simp: of_wasm_def verifier_index_from_caml_fp_def Let_def)

theorem of_wasm_assumes_three_zk_rows_witness:
  "\<exists>vi srs. of_wasm True (\<lambda>_. False) ref_index_ops ref_wasm_index = Ok (vi, srs) \<and> vi_zk_rows vi = 5 \<and>
     vi_w vi = ki_zk_w ref_index_ops (vi_domain vi) 3"
proof -
  obtain vi srs where vi: "of_wasm True (\<lambda>_. False) ref_index_ops ref_wasm_index = Ok (vi, srs)"
    using ref_wasm_index_converts by blast
  have "wvi_zk_rows ref_wasm_index = 5" by (simp add: ref_wasm_index_def)
  with vi of_wasm_assumes_three_zk_rows [where ch = True and joint_lookups_used = "\<lambda>_. False" and K = ref_index_ops
      and index = ref_wasm_index and vi = vi and srs = srs]
  show ?thesis by auto
qed

text \<open>
  C21. Verifier indexes survive the trip through JavaScript if they use three zero-knowledge rows in
  what is computed from them, their arrays have their sizes and the feature flags that are
  recomputed are theirs.
\<close>

theorem verifier_index_wasm_roundtrip:
  assumes "wasm_derived_ok joint_lookups_used K vi" and "unat (vi_zk_rows vi) < 2 ^ 31"
    and "length (vi_sigma_comm vi) = PERMUTS" and "length (vi_coefficients_comm vi) = COLUMNS"
    and "length (vi_shift vi) = PERMUTS"
  shows "of_wasm ch joint_lookups_used K (to_wasm (vi_srs vi) vi) = Ok (vi, vi_srs vi)"
proof -
  let ?log = "dom_log_size_of_group (vi_domain vi)"
  have small: "unat ?log < 32" using assms(1) by (simp add: wasm_derived_ok_def)
  then have "sint ?log = int (unat ?log)" by (intro sint_small_i32) simp
  then have shl: "shl_one ch 32 (sint ?log) = (Ok (2 ^ unat ?log) :: (nat, js_error) outcome)"
    using shl_one_of_nat [OF small] by simp
  show ?thesis
    using assms shl
    by (simp add: of_wasm_def wasm_derived_ok_def)
      (simp add: to_wasm_def array_init_codec [OF poly_comm.codec_axioms] poly_comm.decode_all
        wasm_lookup_index.decode_all wasm_shifts_list scast_ucast_small)
qed

theorem verifier_index_wasm_roundtrip_witness:
  "of_wasm True (\<lambda>_. False) ref_index_ops (to_wasm (vi_srs ref_index32) ref_index32) = Ok (ref_index32, vi_srs ref_index32)"
  by (rule verifier_index_wasm_roundtrip)
    (simp_all add: Let_def wasm_derived_ok_def ref_index32_def ref_index_ops_def PERMUTS_def COLUMNS_def
      compute_feature_flags_def to_wasm_def)

text \<open>
  C29. Feature flags. The flags that the JavaScript bindings recompute agree with the features recorded
  in the lookup index exactly when it uses no runtime tables, its patterns are those that the
  selector commitments suggest and its joint lookups are those of its patterns; the bindings for
  OCaml take the recorded features.
\<close>

theorem feature_flags_agreement:
  assumes "wvi_lookup_index index = Some li"
  shows "ff_lookup_features (compute_feature_flags joint_lookups_used index) = li_features (wlvi_lookup_info li) \<longleftrightarrow>
    (let f = li_features (wlvi_lookup_info li); evals = wvi_evals index in
     \<not> lf_uses_runtime_tables f \<and>
     lpat_xor (lf_patterns f) = (wve_xor_comm evals \<noteq> None) \<and>
     lpat_range_check (lf_patterns f) =
       (wve_range_check0_comm evals \<noteq> None \<or> wve_range_check1_comm evals \<noteq> None \<or> wve_rot_comm evals \<noteq> None) \<and>
     lpat_foreign_field_mul (lf_patterns f) = (wve_foreign_field_mul_comm evals \<noteq> None) \<and>
     lf_joint_lookup_used f = joint_lookups_used (lf_patterns f))"
  using assms
  by (cases "li_features (wlvi_lookup_info li)"; cases "lf_patterns (li_features (wlvi_lookup_info li))")
    (auto simp: compute_feature_flags_def Let_def)

definition runtime_table_features :: lookup_features where
  "runtime_table_features = no_lookup_features\<lparr>lf_uses_runtime_tables := True\<rparr>"

definition ref_lookup_index :: "nat wasm_g wasm_poly_comm wasm_lookup_verifier_index" where
  "ref_lookup_index =
     \<lparr>wlvi_joint_lookup_used = False, wlvi_lookup_table = [],
      wlvi_lookup_selectors = \<lparr>wls_xor = None, wls_lookup = None, wls_range_check = None, wls_ffmul = None\<rparr>,
      wlvi_table_ids = None,
      wlvi_lookup_info = \<lparr>li_max_per_row = 1, li_max_joint_size = 1, li_features = runtime_table_features\<rparr>,
      wlvi_runtime_tables_selector = None\<rparr>"

theorem feature_flags_agreement_witness:
  "ff_lookup_features (compute_feature_flags (\<lambda>_. False) (ref_wasm_index\<lparr>wvi_lookup_index := Some ref_lookup_index\<rparr>)) \<noteq>
     runtime_table_features"
  using feature_flags_agreement [of "ref_wasm_index\<lparr>wvi_lookup_index := Some ref_lookup_index\<rparr>" ref_lookup_index "\<lambda>_. False"]
  by (simp add: ref_lookup_index_def runtime_table_features_def Let_def)

end
