(* ===== verification/Linearization.thy ===== *)
theory Linearization
  imports Verifier_Index "HOL-Library.Multiset"
begin

text \<open>
  The text of the linearization of the circuit polynomial, \<^verbatim>\<open>stubs/src/linearization.rs\<close>.
  The expressions of kimchi and how they are printed are parameters; the columns are ordered by their
  \<open>Ord\<close> instance. Kimchi collects the terms of the columns in a hash map, so their order in its
  result is not determined.
\<close>

section \<open>Operations of kimchi\<close>

text \<open>
  \<open>linearization_columns\<close>, \<open>constraints_expr(features, true)\<close>, \<open>linearize\<close>,
  \<open>ocaml_str\<close> of an expression and \<open>Debug\<close> of a column.
\<close>

record ('cols, 'x, 'c, 'e) linearization_ops =
  lo_columns :: "feature_flags option \<Rightarrow> 'cols"
  lo_constraints_expr :: "feature_flags option \<Rightarrow> bool \<Rightarrow> 'x"
  lo_linearize :: "'x \<Rightarrow> 'cols \<Rightarrow> ('e \<times> ('c \<times> 'e) list) option"
  lo_ocaml_str :: "'e \<Rightarrow> string"
  lo_debug :: "'c \<Rightarrow> string"

definition no_features :: feature_flags where
  "no_features =
     \<lparr>ff_range_check0 = False,
      ff_range_check1 = False,
      ff_foreign_field_add = False,
      ff_foreign_field_mul = False,
      ff_xor = False,
      ff_rot = False,
      ff_lookup_features = \<lparr>lf_patterns = \<lparr>lpat_xor = False, lpat_lookup = False, lpat_range_check = False, lpat_foreign_field_mul = False\<rparr>,
        lf_joint_lookup_used = False,
        lf_uses_runtime_tables = False\<rparr>\<rparr>"

section \<open>The bindings\<close>

definition linearization_strings ::
  "('cols, 'x, 'c :: linorder, 'e) linearization_ops \<Rightarrow> bool \<Rightarrow> (string \<times> (string \<times> string) list, ocaml_error) outcome" where
  "linearization_strings L uses_custom_gates =
     (let features = (if uses_custom_gates then None else Some no_features);
          evaluated_cols = lo_columns L features;
          linearization = lo_constraints_expr L features True in
      and_then (expect (lo_linearize L linearization evaluated_cols) ''called Result::unwrap() on an Err value'')
        (\<lambda>(constant_term, index_terms).
      let index_terms = sort_key fst index_terms;
          constant = lo_ocaml_str L constant_term;
          other_terms = map (\<lambda>(col, expr). (lo_debug L col, lo_ocaml_str L expr)) index_terms
      in Ok (constant, other_terms)))"

definition fp_linearization_strings ::
  "('cols, 'x, 'c :: linorder, 'e) linearization_ops \<Rightarrow> (string \<times> (string \<times> string) list, ocaml_error) outcome" where
  "fp_linearization_strings L = linearization_strings L True"

definition fq_linearization_strings ::
  "('cols, 'x, 'c :: linorder, 'e) linearization_ops \<Rightarrow> (string \<times> (string \<times> string) list, ocaml_error) outcome" where
  "fq_linearization_strings L = linearization_strings L False"

section \<open>Properties\<close>

text \<open>
  C38. The printed linearization is deterministic: when every column has one term, the order in which
  kimchi returns the terms does not matter. The terms are printed in ascending order of their
  columns, none is lost, and Fp prints the circuit with all features and Fq the one without any.
\<close>

theorem linearization_strings_deterministic:
  assumes "lo_linearize L (lo_constraints_expr L features True) (lo_columns L features) = Some (c, terms)"
    and "features = (if custom then None else Some no_features)"
    and "distinct (map fst terms)" and "mset terms' = mset terms"
    and "L' = L\<lparr>lo_linearize := \<lambda>_ _. Some (c, terms')\<rparr>"
  shows "linearization_strings L custom = linearization_strings L' custom \<and>
    (\<exists>ts. linearization_strings L custom = Ok (lo_ocaml_str L c, map (map_prod (lo_debug L) (lo_ocaml_str L)) ts) \<and>
      sorted (map fst ts) \<and> mset ts = mset terms) \<and>
    (if custom then fp_linearization_strings L else fq_linearization_strings L) = linearization_strings L custom"
proof -
  have "inj_on fst (set terms')"
    using assms(3,4) by (simp add: distinct_map set_mset_mset flip: mset_eq_setD [OF assms(4)])
  then have "sort_key fst terms' = sort_key fst terms"
    using assms(4) by (intro sort_key_inj_key_eq) auto
  then have "linearization_strings L custom = linearization_strings L' custom"
    using assms(1,2) by (simp add: linearization_strings_def assms(5) Let_def)
  moreover have "\<exists>ts. linearization_strings L custom = Ok (lo_ocaml_str L c, map (map_prod (lo_debug L) (lo_ocaml_str L)) ts) \<and>
      sorted (map fst ts) \<and> mset ts = mset terms"
    using assms(1,2) by (intro exI [of _ "sort_key fst terms"]) (simp add: linearization_strings_def Let_def map_prod_def)
  ultimately show ?thesis
    by (cases custom) (simp_all add: fp_linearization_strings_def fq_linearization_strings_def)
qed

definition ref_linearization :: "(nat \<times> nat) list \<Rightarrow> (unit, unit, nat, nat) linearization_ops" where
  "ref_linearization terms = \<lparr>lo_columns = (\<lambda>_. ()), lo_constraints_expr = (\<lambda>_ _. ()),
     lo_linearize = (\<lambda>_ _. Some (0, terms)), lo_ocaml_str = (\<lambda>e. replicate e (CHR ''x'')), lo_debug = (\<lambda>c. replicate c (CHR ''w''))\<rparr>"

theorem linearization_strings_deterministic_witness:
  "linearization_strings (ref_linearization [(2, 1), (1, 3)]) True = linearization_strings (ref_linearization [(1, 3), (2, 1)]) True"
  using linearization_strings_deterministic [of "ref_linearization [(2, 1), (1, 3)]" None 0 "[(2, 1), (1, 3)]" True "[(1, 3), (2, 1)]"
      "ref_linearization [(1, 3), (2, 1)]"]
  by (simp add: ref_linearization_def add_mset_commute)

end
