(* ===== verification/Plonk_Index.thy ===== *)
theory Plonk_Index
  imports Verifier_Index_Wasm Srs Gate_Vector
begin

text \<open>
  Prover indexes: \<^verbatim>\<open>stubs/src/pasta_fp_plonk_index.rs\<close> and
  \<^verbatim>\<open>stubs/src/pasta_fq_plonk_index.rs\<close>, \<^verbatim>\<open>wasm/src/pasta_fp_plonk_index.rs\<close> and
  \<^verbatim>\<open>wasm/src/pasta_fq_plonk_index.rs\<close> (suffix \<open>_wasm\<close>), and
  \<^verbatim>\<open>wasm/src/circuit.rs\<close>. Building a constraint system, creating an index and its binary format
  belong to kimchi and are parameters. Creating an index caches the Lagrange basis of its domain in the
  shared reference string, which is part of the result.
\<close>

section \<open>Indexes and tables\<close>

record 'f lookup_table =
  lt_id :: i32
  lt_data :: "'f list list"

record 'f runtime_table_cfg =
  rtc_id :: i32
  rtc_first_column :: "'f list"

record ('t, 'f, 'x) constraint_system =
  cs_public :: nat
  cs_gates :: "('t, 'f) circuit_gate list"
  cs_domain_d1 :: nat
  cs_domain_d4 :: nat
  cs_domain_d8 :: nat
  cs_feature_flags :: feature_flags
  cs_rest :: 'x

text \<open>
  \<open>ProverIndex\<close>: \<open>'y\<close> are its fields that the bindings do not touch.
\<close>

record ('t, 'f, 'g, 'l, 'a, 'x, 'y) prover_index =
  pi_cs :: "('t, 'f, 'x) constraint_system"
  pi_srs :: "'g srs"
  pi_linearization :: 'l
  pi_powers_of_alpha :: 'a
  pi_rest :: 'y

text \<open>
  The operations of kimchi: \<open>ConstraintSystem::create(gates)\<close> with the options of its builder
  followed by \<open>build()\<close>, \<open>endos()\<close>, \<open>ProverIndex::create\<close>,
  \<open>compute_verifier_index_digest\<close>, \<open>max_poly_size\<close> and \<open>max_degree\<close> of a reference
  string, the binary format of an index and \<open>expr_linearization\<close>.
\<close>

record ('t, 'f, 'g, 'e, 'l, 'a, 'x, 'y) index_ops =
  ix_build :: "('t, 'f) circuit_gate list \<Rightarrow> nat \<Rightarrow> nat \<Rightarrow> nat option \<Rightarrow> 'f lookup_table list \<Rightarrow>
    'f runtime_table_cfg list option \<Rightarrow> (('t, 'f, 'x) constraint_system, string) outcome"
  ix_endo_q :: 'e
  ix_create :: "('t, 'f, 'x) constraint_system \<Rightarrow> 'e \<Rightarrow> 'g srs \<Rightarrow> ('t, 'f, 'g, 'l, 'a, 'x, 'y) prover_index"
  ix_compute_digest :: "('t, 'f, 'g, 'l, 'a, 'x, 'y) prover_index \<Rightarrow> ('t, 'f, 'g, 'l, 'a, 'x, 'y) prover_index"
  ix_max_poly_size :: "'g srs \<Rightarrow> nat"
  ix_max_degree :: "'g srs \<Rightarrow> nat"
  ix_serialize :: "('t, 'f, 'g, 'l, 'a, 'x, 'y) prover_index \<Rightarrow> (bytes, string) outcome"
  ix_deserialize :: "bytes \<Rightarrow> (('t, 'f, 'g, 'l, 'a, 'x, 'y) prover_index, string) outcome"
  ix_expr_linearization :: "feature_flags \<Rightarrow> bool \<Rightarrow> 'l \<times> 'a"

definition copy_gates :: "('t, 'f) circuit_gate list \<Rightarrow> ('t, 'f) circuit_gate list" where
  "copy_gates gates =
     map (\<lambda>gate. \<lparr>cg_typ = cg_typ gate, cg_wires = cg_wires gate, cg_coeffs = cg_coeffs gate\<rparr>) gates"

definition runtime_option :: "'r list \<Rightarrow> 'r list option" where
  "runtime_option runtime_tables = (if runtime_tables = [] then None else Some runtime_tables)"

text \<open>
  What follows the construction of the constraint system, and what follows reading an index: the fields
  that are not stored are filled in.
\<close>

definition finish_index ::
  "('s, 'g, 'poly) srs_ops \<Rightarrow> ('t, 'f, 'g, 'e, 'l, 'a, 'x, 'y) index_ops \<Rightarrow> 'g srs \<Rightarrow>
    ('t, 'f, 'x) constraint_system \<Rightarrow> ('t, 'f, 'g, 'l, 'a, 'x, 'y) prover_index \<times> 'g srs" where
  "finish_index P X srs cs =
     (let srs = so_add_lagrange_basis P srs (cs_domain_d1 cs);
          index = ix_create X cs (ix_endo_q X) srs;
          index = ix_compute_digest X index
      in (index, srs))"

definition restore_index ::
  "('t, 'f, 'g, 'e, 'l, 'a, 'x, 'y) index_ops \<Rightarrow> 'g srs \<Rightarrow> ('t, 'f, 'g, 'l, 'a, 'x, 'y) prover_index \<Rightarrow>
    ('t, 'f, 'g, 'l, 'a, 'x, 'y) prover_index" where
  "restore_index X srs t =
     (let t = t\<lparr>pi_srs := srs\<rparr>;
          (linearization, powers_of_alpha) = ix_expr_linearization X (cs_feature_flags (pi_cs t)) True
      in t\<lparr>pi_linearization := linearization, pi_powers_of_alpha := powers_of_alpha\<rparr>)"

section \<open>The bindings for OCaml: fp\<close>

definition caml_pasta_fp_plonk_index_create ::
  "('s, 'g, 'poly) srs_ops \<Rightarrow> ('t, 'f, 'g, 'e, 'l, 'a, 'x, 'y) index_ops \<Rightarrow> ('lt \<Rightarrow> 'f lookup_table) \<Rightarrow> ('rt \<Rightarrow> 'f runtime_table_cfg) \<Rightarrow>
    ('t, 'f) circuit_gate list \<Rightarrow> isize \<Rightarrow> 'lt list \<Rightarrow> 'rt list \<Rightarrow> isize \<Rightarrow> 'g srs \<Rightarrow>
    (('t, 'f, 'g, 'l, 'a, 'x, 'y) prover_index \<times> 'g srs, ocaml_error) outcome" where
  "caml_pasta_fp_plonk_index_create P X lt_from rt_from gates public lookup_tables runtime_tables prev_challenges srs =
     (let gates = copy_gates gates;
          runtime_tables = map rt_from runtime_tables;
          lookup_tables = map lt_from lookup_tables in
      and_then (map_err_with ErrorBox (ix_build X gates (unat public) (unat prev_challenges) (Some (ix_max_poly_size X srs))
          lookup_tables (runtime_option runtime_tables))) (\<lambda>cs.
        Ok (finish_index P X srs cs)))"

definition caml_pasta_fp_plonk_index_max_degree :: "('t, 'f, 'g, 'e, 'l, 'a, 'x, 'y) index_ops \<Rightarrow> ('t, 'f, 'g, 'l, 'a, 'x, 'y) prover_index \<Rightarrow> isize" where
  "caml_pasta_fp_plonk_index_max_degree X index = word_of_nat (ix_max_degree X (pi_srs index))"

definition caml_pasta_fp_plonk_index_public_inputs :: "('t, 'f, 'g, 'l, 'a, 'x, 'y) prover_index \<Rightarrow> isize" where
  "caml_pasta_fp_plonk_index_public_inputs index = word_of_nat (cs_public (pi_cs index))"

definition caml_pasta_fp_plonk_index_domain_d1_size :: "('t, 'f, 'g, 'l, 'a, 'x, 'y) prover_index \<Rightarrow> isize" where
  "caml_pasta_fp_plonk_index_domain_d1_size index = word_of_nat (cs_domain_d1 (pi_cs index))"

definition caml_pasta_fp_plonk_index_domain_d4_size :: "('t, 'f, 'g, 'l, 'a, 'x, 'y) prover_index \<Rightarrow> isize" where
  "caml_pasta_fp_plonk_index_domain_d4_size index = word_of_nat (cs_domain_d4 (pi_cs index))"

definition caml_pasta_fp_plonk_index_domain_d8_size :: "('t, 'f, 'g, 'l, 'a, 'x, 'y) prover_index \<Rightarrow> isize" where
  "caml_pasta_fp_plonk_index_domain_d8_size index = word_of_nat (cs_domain_d8 (pi_cs index))"

definition caml_pasta_fp_plonk_index_read ::
  "('t, 'f, 'g, 'e, 'l, 'a, 'x, 'y) index_ops \<Rightarrow> files \<Rightarrow> isize option \<Rightarrow> 'g srs \<Rightarrow> string \<Rightarrow> (('t, 'f, 'g, 'l, 'a, 'x, 'y) prover_index, ocaml_error) outcome" where
  "caml_pasta_fp_plonk_index_read X fs offset srs path =
     and_then (ok_or (fs path) (InvalidArgument ''caml_pasta_fp_plonk_index_read'')) (\<lambda>file.
     and_then (map_err_with ErrorBox (seek_start offset file)) (\<lambda>r.
     and_then (map_err_with ErrorBox (ix_deserialize X r)) (\<lambda>t.
       Ok (restore_index X srs t))))"

definition caml_pasta_fp_plonk_index_write ::
  "('t, 'f, 'g, 'e, 'l, 'a, 'x, 'y) index_ops \<Rightarrow> files \<Rightarrow> bool option \<Rightarrow> ('t, 'f, 'g, 'l, 'a, 'x, 'y) prover_index \<Rightarrow> string \<Rightarrow> (files, ocaml_error) outcome" where
  "caml_pasta_fp_plonk_index_write X fs append_mode index path =
     and_then (ok_or (open_append fs (case append_mode of None \<Rightarrow> True | Some b \<Rightarrow> b) path)
                 (InvalidArgument ''caml_pasta_fp_plonk_index_write'')) (\<lambda>file.
     and_then (map_err_with ErrorBox (ix_serialize X index)) (\<lambda>out.
       Ok (fs(path \<mapsto> file @ out))))"

section \<open>The bindings for OCaml: fq\<close>

definition caml_pasta_fq_plonk_index_create ::
  "('s, 'g, 'poly) srs_ops \<Rightarrow> ('t, 'f, 'g, 'e, 'l, 'a, 'x, 'y) index_ops \<Rightarrow> ('lt \<Rightarrow> 'f lookup_table) \<Rightarrow> ('rt \<Rightarrow> 'f runtime_table_cfg) \<Rightarrow>
    ('t, 'f) circuit_gate list \<Rightarrow> isize \<Rightarrow> 'lt list \<Rightarrow> 'rt list \<Rightarrow> isize \<Rightarrow> 'g srs \<Rightarrow>
    (('t, 'f, 'g, 'l, 'a, 'x, 'y) prover_index \<times> 'g srs, ocaml_error) outcome" where
  "caml_pasta_fq_plonk_index_create P X lt_from rt_from gates public lookup_tables runtime_tables prev_challenges srs =
     (let gates = copy_gates gates;
          runtime_tables = map rt_from runtime_tables;
          lookup_tables = map lt_from lookup_tables in
      and_then (map_err_with ErrorBox (ix_build X gates (unat public) (unat prev_challenges) None
          lookup_tables (runtime_option runtime_tables))) (\<lambda>cs.
        Ok (finish_index P X srs cs)))"

definition caml_pasta_fq_plonk_index_max_degree :: "('t, 'f, 'g, 'e, 'l, 'a, 'x, 'y) index_ops \<Rightarrow> ('t, 'f, 'g, 'l, 'a, 'x, 'y) prover_index \<Rightarrow> isize" where
  "caml_pasta_fq_plonk_index_max_degree X index = word_of_nat (ix_max_degree X (pi_srs index))"

definition caml_pasta_fq_plonk_index_public_inputs :: "('t, 'f, 'g, 'l, 'a, 'x, 'y) prover_index \<Rightarrow> isize" where
  "caml_pasta_fq_plonk_index_public_inputs index = word_of_nat (cs_public (pi_cs index))"

definition caml_pasta_fq_plonk_index_domain_d1_size :: "('t, 'f, 'g, 'l, 'a, 'x, 'y) prover_index \<Rightarrow> isize" where
  "caml_pasta_fq_plonk_index_domain_d1_size index = word_of_nat (cs_domain_d1 (pi_cs index))"

definition caml_pasta_fq_plonk_index_domain_d4_size :: "('t, 'f, 'g, 'l, 'a, 'x, 'y) prover_index \<Rightarrow> isize" where
  "caml_pasta_fq_plonk_index_domain_d4_size index = word_of_nat (cs_domain_d4 (pi_cs index))"

definition caml_pasta_fq_plonk_index_domain_d8_size :: "('t, 'f, 'g, 'l, 'a, 'x, 'y) prover_index \<Rightarrow> isize" where
  "caml_pasta_fq_plonk_index_domain_d8_size index = word_of_nat (cs_domain_d8 (pi_cs index))"

definition caml_pasta_fq_plonk_index_read ::
  "('t, 'f, 'g, 'e, 'l, 'a, 'x, 'y) index_ops \<Rightarrow> files \<Rightarrow> isize option \<Rightarrow> 'g srs \<Rightarrow> string \<Rightarrow> (('t, 'f, 'g, 'l, 'a, 'x, 'y) prover_index, ocaml_error) outcome" where
  "caml_pasta_fq_plonk_index_read X fs offset srs path =
     and_then (ok_or (fs path) (InvalidArgument ''caml_pasta_fq_plonk_index_read'')) (\<lambda>file.
     and_then (map_err_with ErrorBox (seek_start offset file)) (\<lambda>r.
     and_then (map_err_with ErrorBox (ix_deserialize X r)) (\<lambda>t.
       Ok (restore_index X srs t))))"

definition caml_pasta_fq_plonk_index_write ::
  "('t, 'f, 'g, 'e, 'l, 'a, 'x, 'y) index_ops \<Rightarrow> files \<Rightarrow> bool option \<Rightarrow> ('t, 'f, 'g, 'l, 'a, 'x, 'y) prover_index \<Rightarrow> string \<Rightarrow> (files, ocaml_error) outcome" where
  "caml_pasta_fq_plonk_index_write X fs append_mode index path =
     and_then (ok_or (open_append fs (case append_mode of None \<Rightarrow> True | Some b \<Rightarrow> b) path)
                 (InvalidArgument ''caml_pasta_fq_plonk_index_write'')) (\<lambda>file.
     and_then (map_err_with ErrorBox (ix_serialize X index)) (\<lambda>out.
       Ok (fs(path \<mapsto> file @ out))))"

section \<open>The bindings for JavaScript: fp\<close>

record 'f wasm_fp_lookup_table =
  wlt_fp_id :: i32
  wlt_fp_data :: "'f list list"

definition wasm_fp_lookup_table_new :: "i32 \<Rightarrow> 'f list list \<Rightarrow> 'f wasm_fp_lookup_table" where
  "wasm_fp_lookup_table_new table_id data = \<lparr>wlt_fp_id = table_id, wlt_fp_data = data\<rparr>"

definition lookup_table_from_wasm_fp :: "'f wasm_fp_lookup_table \<Rightarrow> 'f lookup_table" where
  "lookup_table_from_wasm_fp wasm_lt = \<lparr>lt_id = wlt_fp_id wasm_lt, lt_data = wlt_fp_data wasm_lt\<rparr>"

record 'f wasm_fp_runtime_table_cfg =
  wrc_fp_id :: i32
  wrc_fp_first_column :: "'f list"

definition wasm_fp_runtime_table_cfg_new :: "i32 \<Rightarrow> 'f list \<Rightarrow> 'f wasm_fp_runtime_table_cfg" where
  "wasm_fp_runtime_table_cfg_new table_id first_column =
     \<lparr>wrc_fp_id = table_id, wrc_fp_first_column = first_column\<rparr>"

definition runtime_table_cfg_from_wasm_fp :: "'f wasm_fp_runtime_table_cfg \<Rightarrow> 'f runtime_table_cfg" where
  "runtime_table_cfg_from_wasm_fp x =
     \<lparr>rtc_id = wrc_fp_id x, rtc_first_column = wrc_fp_first_column x\<rparr>"

definition caml_pasta_fp_plonk_index_create_wasm ::
  "pool_state \<Rightarrow> ('s, 'g, 'poly) srs_ops \<Rightarrow> ('t, 'f, 'g, 'e, 'l, 'a, 'x, 'y) index_ops \<Rightarrow>
    ('t, 'f) circuit_gate list \<Rightarrow> i32 \<Rightarrow> 'f wasm_fp_lookup_table list \<Rightarrow> 'f wasm_fp_runtime_table_cfg list \<Rightarrow>
    i32 \<Rightarrow> 'g srs \<Rightarrow> (('t, 'f, 'g, 'l, 'a, 'x, 'y) prover_index \<times> 'g srs, js_error) outcome" where
  "caml_pasta_fp_plonk_index_create_wasm pool P X gates public lookup_tables runtime_table_cfgs prev_challenges srs =
     run_in_pool pool (\<lambda>_.
       let gates = copy_gates gates;
           rust_runtime_table_cfgs = map runtime_table_cfg_from_wasm_fp runtime_table_cfgs;
           rust_lookup_tables = map lookup_table_from_wasm_fp lookup_tables in
       and_then (map_err_with (\<lambda>_. JsError ''caml_pasta_fp_plonk_index_create: could not create constraint system'')
           (ix_build X gates (unat public) (unat prev_challenges) None
             rust_lookup_tables (runtime_option rust_runtime_table_cfgs))) (\<lambda>cs.
         Ok (finish_index P X srs cs)))"

definition caml_pasta_fp_plonk_index_max_degree_wasm :: "('t, 'f, 'g, 'e, 'l, 'a, 'x, 'y) index_ops \<Rightarrow> ('t, 'f, 'g, 'l, 'a, 'x, 'y) prover_index \<Rightarrow> i32" where
  "caml_pasta_fp_plonk_index_max_degree_wasm X index = word_of_nat (ix_max_degree X (pi_srs index))"

definition caml_pasta_fp_plonk_index_public_inputs_wasm :: "('t, 'f, 'g, 'l, 'a, 'x, 'y) prover_index \<Rightarrow> i32" where
  "caml_pasta_fp_plonk_index_public_inputs_wasm index = word_of_nat (cs_public (pi_cs index))"

definition caml_pasta_fp_plonk_index_domain_d1_size_wasm :: "('t, 'f, 'g, 'l, 'a, 'x, 'y) prover_index \<Rightarrow> i32" where
  "caml_pasta_fp_plonk_index_domain_d1_size_wasm index = word_of_nat (cs_domain_d1 (pi_cs index))"

definition caml_pasta_fp_plonk_index_domain_d4_size_wasm :: "('t, 'f, 'g, 'l, 'a, 'x, 'y) prover_index \<Rightarrow> i32" where
  "caml_pasta_fp_plonk_index_domain_d4_size_wasm index = word_of_nat (cs_domain_d4 (pi_cs index))"

definition caml_pasta_fp_plonk_index_domain_d8_size_wasm :: "('t, 'f, 'g, 'l, 'a, 'x, 'y) prover_index \<Rightarrow> i32" where
  "caml_pasta_fp_plonk_index_domain_d8_size_wasm index = word_of_nat (cs_domain_d8 (pi_cs index))"

definition caml_pasta_fp_plonk_index_decode_wasm ::
  "('t, 'f, 'g, 'e, 'l, 'a, 'x, 'y) index_ops \<Rightarrow> bytes \<Rightarrow> 'g srs \<Rightarrow> (('t, 'f, 'g, 'l, 'a, 'x, 'y) prover_index, js_error) outcome" where
  "caml_pasta_fp_plonk_index_decode_wasm X bytes srs =
     and_then (map_err_with (\<lambda>e. JsError (''caml_pasta_fp_plonk_index_decode: '' @ e)) (ix_deserialize X bytes)) (\<lambda>index.
       Ok (restore_index X srs index))"

definition caml_pasta_fp_plonk_index_encode_wasm :: "('t, 'f, 'g, 'e, 'l, 'a, 'x, 'y) index_ops \<Rightarrow> ('t, 'f, 'g, 'l, 'a, 'x, 'y) prover_index \<Rightarrow> (bytes, js_error) outcome" where
  "caml_pasta_fp_plonk_index_encode_wasm X index =
     map_err_with (\<lambda>e. JsError (''caml_pasta_fp_plonk_index_encode: '' @ e)) (ix_serialize X index)"

definition caml_pasta_fp_plonk_index_read_wasm ::
  "std_fs \<Rightarrow> ('t, 'f, 'g, 'e, 'l, 'a, 'x, 'y) index_ops \<Rightarrow> files \<Rightarrow> i32 option \<Rightarrow> 'g srs \<Rightarrow> string \<Rightarrow> (('t, 'f, 'g, 'l, 'a, 'x, 'y) prover_index, js_error) outcome" where
  "caml_pasta_fp_plonk_index_read_wasm D X fs offset srs path =
     and_then (map_err_with (\<lambda>_. JsValue ''caml_pasta_fp_plonk_index_read'') (fs_open D fs path)) (\<lambda>file.
     and_then (map_err_with (\<lambda>e. JsValue (''caml_pasta_fp_plonk_index_read: '' @ e)) (seek_start (map_option scast offset) file)) (\<lambda>r.
     and_then (map_err_with (\<lambda>e. JsValue (''caml_pasta_fp_plonk_index_read: '' @ e)) (ix_deserialize X r)) (\<lambda>t.
       Ok (restore_index X srs t))))"

definition caml_pasta_fp_plonk_index_write_wasm ::
  "std_fs \<Rightarrow> ('t, 'f, 'g, 'e, 'l, 'a, 'x, 'y) index_ops \<Rightarrow> files \<Rightarrow> bool option \<Rightarrow> ('t, 'f, 'g, 'l, 'a, 'x, 'y) prover_index \<Rightarrow> string \<Rightarrow> (files, js_error) outcome" where
  "caml_pasta_fp_plonk_index_write_wasm D X fs append_mode index path =
     and_then (map_err_with (\<lambda>_. JsValue ''caml_pasta_fp_plonk_index_write'')
       (fs_open_append D fs (case append_mode of None \<Rightarrow> True | Some b \<Rightarrow> b) path)) (\<lambda>file.
     and_then (map_err_with (\<lambda>e. JsValue (''caml_pasta_fp_plonk_index_read: '' @ e)) (ix_serialize X index)) (\<lambda>out.
       Ok (fs(path \<mapsto> file @ out))))"

definition caml_pasta_fp_plonk_index_serialize_wasm ::
  "('t, 'f, 'g, 'e, 'l, 'a, 'x, 'y) index_ops \<Rightarrow> (bytes \<Rightarrow> string) \<Rightarrow> ('t, 'f, 'g, 'l, 'a, 'x, 'y) prover_index \<Rightarrow> (string, js_error) outcome" where
  "caml_pasta_fp_plonk_index_serialize_wasm X base64_encode index =
     (case ix_serialize X index of
        Ok serialized \<Rightarrow> Ok (base64_encode serialized)
      | Err e \<Rightarrow> Panic ''called Result::unwrap() on an Err value''
      | Panic m \<Rightarrow> Panic m)"

section \<open>The bindings for JavaScript: fq\<close>

record 'f wasm_fq_lookup_table =
  wlt_fq_id :: i32
  wlt_fq_data :: "'f list list"

definition wasm_fq_lookup_table_new :: "i32 \<Rightarrow> 'f list list \<Rightarrow> 'f wasm_fq_lookup_table" where
  "wasm_fq_lookup_table_new table_id data = \<lparr>wlt_fq_id = table_id, wlt_fq_data = data\<rparr>"

definition lookup_table_from_wasm_fq :: "'f wasm_fq_lookup_table \<Rightarrow> 'f lookup_table" where
  "lookup_table_from_wasm_fq wasm_lt = \<lparr>lt_id = wlt_fq_id wasm_lt, lt_data = wlt_fq_data wasm_lt\<rparr>"

record 'f wasm_fq_runtime_table_cfg =
  wrc_fq_id :: i32
  wrc_fq_first_column :: "'f list"

definition wasm_fq_runtime_table_cfg_new :: "i32 \<Rightarrow> 'f list \<Rightarrow> 'f wasm_fq_runtime_table_cfg" where
  "wasm_fq_runtime_table_cfg_new table_id first_column =
     \<lparr>wrc_fq_id = table_id, wrc_fq_first_column = first_column\<rparr>"

definition runtime_table_cfg_from_wasm_fq :: "'f wasm_fq_runtime_table_cfg \<Rightarrow> 'f runtime_table_cfg" where
  "runtime_table_cfg_from_wasm_fq x =
     \<lparr>rtc_id = wrc_fq_id x, rtc_first_column = wrc_fq_first_column x\<rparr>"

definition caml_pasta_fq_plonk_index_create_wasm ::
  "pool_state \<Rightarrow> ('s, 'g, 'poly) srs_ops \<Rightarrow> ('t, 'f, 'g, 'e, 'l, 'a, 'x, 'y) index_ops \<Rightarrow>
    ('t, 'f) circuit_gate list \<Rightarrow> i32 \<Rightarrow> 'f wasm_fq_lookup_table list \<Rightarrow> 'f wasm_fq_runtime_table_cfg list \<Rightarrow>
    i32 \<Rightarrow> 'g srs \<Rightarrow> (('t, 'f, 'g, 'l, 'a, 'x, 'y) prover_index \<times> 'g srs, js_error) outcome" where
  "caml_pasta_fq_plonk_index_create_wasm pool P X gates public lookup_tables runtime_table_cfgs prev_challenges srs =
     run_in_pool pool (\<lambda>_.
       let gates = copy_gates gates;
           rust_runtime_table_cfgs = map runtime_table_cfg_from_wasm_fq runtime_table_cfgs;
           rust_lookup_tables = map lookup_table_from_wasm_fq lookup_tables in
       and_then (map_err_with (\<lambda>_. JsError ''caml_pasta_fq_plonk_index_create: could not create constraint system'')
           (ix_build X gates (unat public) (unat prev_challenges) None
             rust_lookup_tables (runtime_option rust_runtime_table_cfgs))) (\<lambda>cs.
         Ok (finish_index P X srs cs)))"

definition caml_pasta_fq_plonk_index_max_degree_wasm :: "('t, 'f, 'g, 'e, 'l, 'a, 'x, 'y) index_ops \<Rightarrow> ('t, 'f, 'g, 'l, 'a, 'x, 'y) prover_index \<Rightarrow> i32" where
  "caml_pasta_fq_plonk_index_max_degree_wasm X index = word_of_nat (ix_max_degree X (pi_srs index))"

definition caml_pasta_fq_plonk_index_public_inputs_wasm :: "('t, 'f, 'g, 'l, 'a, 'x, 'y) prover_index \<Rightarrow> i32" where
  "caml_pasta_fq_plonk_index_public_inputs_wasm index = word_of_nat (cs_public (pi_cs index))"

definition caml_pasta_fq_plonk_index_domain_d1_size_wasm :: "('t, 'f, 'g, 'l, 'a, 'x, 'y) prover_index \<Rightarrow> i32" where
  "caml_pasta_fq_plonk_index_domain_d1_size_wasm index = word_of_nat (cs_domain_d1 (pi_cs index))"

definition caml_pasta_fq_plonk_index_domain_d4_size_wasm :: "('t, 'f, 'g, 'l, 'a, 'x, 'y) prover_index \<Rightarrow> i32" where
  "caml_pasta_fq_plonk_index_domain_d4_size_wasm index = word_of_nat (cs_domain_d4 (pi_cs index))"

definition caml_pasta_fq_plonk_index_domain_d8_size_wasm :: "('t, 'f, 'g, 'l, 'a, 'x, 'y) prover_index \<Rightarrow> i32" where
  "caml_pasta_fq_plonk_index_domain_d8_size_wasm index = word_of_nat (cs_domain_d8 (pi_cs index))"

definition caml_pasta_fq_plonk_index_decode_wasm ::
  "('t, 'f, 'g, 'e, 'l, 'a, 'x, 'y) index_ops \<Rightarrow> bytes \<Rightarrow> 'g srs \<Rightarrow> (('t, 'f, 'g, 'l, 'a, 'x, 'y) prover_index, js_error) outcome" where
  "caml_pasta_fq_plonk_index_decode_wasm X bytes srs =
     and_then (map_err_with (\<lambda>e. JsError (''caml_pasta_fq_plonk_index_decode: '' @ e)) (ix_deserialize X bytes)) (\<lambda>index.
       Ok (restore_index X srs index))"

definition caml_pasta_fq_plonk_index_encode_wasm :: "('t, 'f, 'g, 'e, 'l, 'a, 'x, 'y) index_ops \<Rightarrow> ('t, 'f, 'g, 'l, 'a, 'x, 'y) prover_index \<Rightarrow> (bytes, js_error) outcome" where
  "caml_pasta_fq_plonk_index_encode_wasm X index =
     map_err_with (\<lambda>e. JsError (''caml_pasta_fq_plonk_index_encode: '' @ e)) (ix_serialize X index)"

definition caml_pasta_fq_plonk_index_read_wasm ::
  "std_fs \<Rightarrow> ('t, 'f, 'g, 'e, 'l, 'a, 'x, 'y) index_ops \<Rightarrow> files \<Rightarrow> i32 option \<Rightarrow> 'g srs \<Rightarrow> string \<Rightarrow> (('t, 'f, 'g, 'l, 'a, 'x, 'y) prover_index, js_error) outcome" where
  "caml_pasta_fq_plonk_index_read_wasm D X fs offset srs path =
     and_then (map_err_with (\<lambda>_. JsValue ''caml_pasta_fq_plonk_index_read'') (fs_open D fs path)) (\<lambda>file.
     and_then (map_err_with (\<lambda>e. JsValue (''caml_pasta_fq_plonk_index_read: '' @ e)) (seek_start (map_option scast offset) file)) (\<lambda>r.
     and_then (map_err_with (\<lambda>e. JsValue (''caml_pasta_fq_plonk_index_read: '' @ e)) (ix_deserialize X r)) (\<lambda>t.
       Ok (restore_index X srs t))))"

definition caml_pasta_fq_plonk_index_write_wasm ::
  "std_fs \<Rightarrow> ('t, 'f, 'g, 'e, 'l, 'a, 'x, 'y) index_ops \<Rightarrow> files \<Rightarrow> bool option \<Rightarrow> ('t, 'f, 'g, 'l, 'a, 'x, 'y) prover_index \<Rightarrow> string \<Rightarrow> (files, js_error) outcome" where
  "caml_pasta_fq_plonk_index_write_wasm D X fs append_mode index path =
     and_then (map_err_with (\<lambda>_. JsValue ''caml_pasta_fq_plonk_index_write'')
       (fs_open_append D fs (case append_mode of None \<Rightarrow> True | Some b \<Rightarrow> b) path)) (\<lambda>file.
     and_then (map_err_with (\<lambda>e. JsValue (''caml_pasta_fq_plonk_index_read: '' @ e)) (ix_serialize X index)) (\<lambda>out.
       Ok (fs(path \<mapsto> file @ out))))"

definition caml_pasta_fq_plonk_index_serialize_wasm ::
  "('t, 'f, 'g, 'e, 'l, 'a, 'x, 'y) index_ops \<Rightarrow> (bytes \<Rightarrow> string) \<Rightarrow> ('t, 'f, 'g, 'l, 'a, 'x, 'y) prover_index \<Rightarrow> (string, js_error) outcome" where
  "caml_pasta_fq_plonk_index_serialize_wasm X base64_encode index =
     (case ix_serialize X index of
        Ok serialized \<Rightarrow> Ok (base64_encode serialized)
      | Err e \<Rightarrow> Panic ''called Result::unwrap() on an Err value''
      | Panic m \<Rightarrow> Panic m)"

section \<open>Text of circuits\<close>

text \<open>
  \<open>xs.join(sep)\<close>.
\<close>

fun join :: "string \<Rightarrow> string list \<Rightarrow> string" where
  "join sep [] = []"
| "join sep [x] = x"
| "join sep (x # xs) = x @ sep @ join sep xs"

text \<open>
  \<open>format_circuit_gate\<close>: the coefficients and the wires that leave their own cell;
  \<open>show_nat\<close> is \<open>Display\<close> of \<open>usize\<close>, \<open>debug_typ\<close> the \<open>Debug\<close> of a gate type.
\<close>

definition format_wire :: "(nat \<Rightarrow> string) \<Rightarrow> nat \<Rightarrow> nat \<times> wire \<Rightarrow> string" where
  "format_wire show_nat i = (\<lambda>(j, wire).
     ''('' @ show_nat i @ '', '' @ show_nat j @ '') --> ('' @ show_nat (wire_row wire) @ '', '' @
     show_nat (wire_col wire) @ '')'')"

definition moved_wires :: "nat \<Rightarrow> gate_wires \<Rightarrow> (nat \<times> wire) list" where
  "moved_wires i wires =
     filter (\<lambda>(j, wire). wire_row wire \<noteq> i \<or> wire_col wire \<noteq> j) (List.enumerate 0 (wires_list wires))"

definition format_circuit_gate ::
  "'f ark_field \<Rightarrow> (nat \<Rightarrow> string) \<Rightarrow> ('t \<Rightarrow> string) \<Rightarrow> nat \<Rightarrow> ('t, 'f) circuit_gate \<Rightarrow> string" where
  "format_circuit_gate F show_nat debug_typ i gate =
     (let newline = [CHR 0x0A];
          coeffs = join newline (map (ff_display F) (cg_coeffs gate));
          wires = join newline (map (format_wire show_nat i) (moved_wires i (cg_wires gate)))
      in ''c['' @ show_nat i @ '']['' @ debug_typ (cg_typ gate) @ '']:'' @ newline @
         ''constraints'' @ newline @ coeffs @ newline @ ''wires'' @ newline @ wires @ newline)"

record ('t, 'f) circuit =
  ci_public_input_size :: nat
  ci_gates :: "('t, 'f) circuit_gate list"

definition circuit_from :: "('t, 'f, 'x) constraint_system \<Rightarrow> ('t, 'f) circuit" where
  "circuit_from cs = \<lparr>ci_public_input_size = cs_public cs, ci_gates = cs_gates cs\<rparr>"

definition prover_to_json ::
  "(('t, 'f) circuit \<Rightarrow> string option) \<Rightarrow> ('t, 'f, 'g, 'l, 'a, 'x, 'y) prover_index \<Rightarrow> (string, js_error) outcome" where
  "prover_to_json to_json prover_index =
     expect (to_json (circuit_from (pi_cs prover_index))) ''couldn't serialize constraints''"

section \<open>What the bindings rely on\<close>

text \<open>
  A new index holds the reference string it was given and the linearization for its feature flags, and
  keeps the sizes and flags of its constraint system; computing the digest touches none of these.
\<close>

locale index_contract =
  fixes X :: "('t, 'f, 'g, 'e, 'l, 'a, 'x, 'y) index_ops"
  assumes create_srs: "pi_srs (ix_create X cs e srs) = srs"
    and create_linearization: "ix_expr_linearization X (cs_feature_flags (pi_cs (ix_create X cs e srs))) True =
      (pi_linearization (ix_create X cs e srs), pi_powers_of_alpha (ix_create X cs e srs))"
    and create_public: "cs_public (pi_cs (ix_create X cs e srs)) = cs_public cs"
    and create_domain: "cs_domain_d1 (pi_cs (ix_create X cs e srs)) = cs_domain_d1 cs"
    and digest: "pi_cs (ix_compute_digest X index) = pi_cs index" "pi_srs (ix_compute_digest X index) = pi_srs index"
      "pi_linearization (ix_compute_digest X index) = pi_linearization index"
      "pi_powers_of_alpha (ix_compute_digest X index) = pi_powers_of_alpha index"
begin

text \<open>
  The linearization and the powers of alpha are the ones for the feature flags.
\<close>

definition derived_current :: "('t, 'f, 'g, 'l, 'a, 'x, 'y) prover_index \<Rightarrow> bool" where
  "derived_current index \<longleftrightarrow>
     ix_expr_linearization X (cs_feature_flags (pi_cs index)) True = (pi_linearization index, pi_powers_of_alpha index)"

lemma finish_index_facts:
  assumes "finish_index P X srs cs = (index, srs')"
  shows "pi_srs index = srs'" and "srs' = so_add_lagrange_basis P srs (cs_domain_d1 cs)" and "derived_current index"
    and "cs_public (pi_cs index) = cs_public cs" and "cs_domain_d1 (pi_cs index) = cs_domain_d1 cs"
  using assms
  by (auto simp: finish_index_def Let_def digest create_srs create_public create_domain create_linearization derived_current_def)

end

text \<open>
  The binary format. A field that is marked to be skipped is not stored and has its default value when it is
  read: \<open>stored_cs\<close> and \<open>stored\<close> are what is left of the fields that the bindings do not touch. Nothing is said
  of the reference string, the linearization and the powers of alpha of what is read, which are skipped as well.
\<close>

definition stored_index :: "('x \<Rightarrow> 'x) \<Rightarrow> ('y \<Rightarrow> 'y) \<Rightarrow> ('t, 'f, 'g, 'l, 'a, 'x, 'y) prover_index \<Rightarrow> ('t, 'f, 'g, 'l, 'a, 'x, 'y) prover_index" where
  "stored_index stored_cs stored index =
     index\<lparr>pi_cs := (pi_cs index)\<lparr>cs_rest := stored_cs (cs_rest (pi_cs index))\<rparr>, pi_rest := stored (pi_rest index)\<rparr>"

locale index_format_contract = index_contract X
  for X :: "('t, 'f, 'g, 'e, 'l, 'a, 'x, 'y) index_ops" +
  fixes stored_cs :: "'x \<Rightarrow> 'x" and stored :: "'y \<Rightarrow> 'y"
  assumes deserialize_serialize: "ix_serialize X index = Ok out \<Longrightarrow>
      \<exists>t. ix_deserialize X (out @ rest) = Ok t \<and> pi_cs t = pi_cs (stored_index stored_cs stored index) \<and>
        pi_rest t = pi_rest (stored_index stored_cs stored index)"
begin

lemma restore_stored:
  assumes "derived_current index" and "ix_serialize X index = Ok out"
  shows "\<exists>t. ix_deserialize X (out @ rest) = Ok t \<and>
    (\<forall>srs. restore_index X srs t = (stored_index stored_cs stored index)\<lparr>pi_srs := srs\<rparr>)"
  using deserialize_serialize [OF assms(2), of rest] assms(1)
  by (auto simp: restore_index_def derived_current_def stored_index_def)

end

lemma copy_gates_id: "copy_gates gates = gates"
  by (rule nth_equalityI) (simp_all add: copy_gates_def)

section \<open>Reference operations\<close>

definition ref_cs :: "nat \<Rightarrow> (unit, nat, unit) constraint_system" where
  "ref_cs n =
     \<lparr>cs_public = n, cs_gates = [], cs_domain_d1 = 4, cs_domain_d4 = 16, cs_domain_d8 = 32,
      cs_feature_flags = \<lparr>ff_range_check0 = False, ff_range_check1 = False, ff_foreign_field_add = False,
        ff_foreign_field_mul = False, ff_xor = False, ff_rot = False, ff_lookup_features = no_lookup_features\<rparr>, cs_rest = ()\<rparr>"

definition ref_affine :: "pasta_fp affine" where
  "ref_affine = \<lparr>af_x = ff_one ref_fp, af_y = ff_one ref_fp, af_infinity = False\<rparr>"

definition ref_string :: "pasta_fp affine srs" where
  "ref_string = \<lparr>srs_g = [ref_affine], srs_h = ref_affine, srs_lagrange_bases = Map.empty\<rparr>"

definition ref_prover_index :: "nat \<Rightarrow> (unit, nat, pasta_fp affine, unit, unit, unit, unit) prover_index" where
  "ref_prover_index n =
     \<lparr>pi_cs = ref_cs n, pi_srs = ref_string, pi_linearization = (), pi_powers_of_alpha = (), pi_rest = ()\<rparr>"

lemma ref_prover_index_cache: "lagrange_cache_ok (pi_srs (ref_prover_index n))"
  by (simp add: lagrange_cache_ok_def ref_prover_index_def ref_string_def)

definition ref_builder :: "(unit, nat, pasta_fp affine, unit, unit, unit, unit, unit) index_ops" where
  "ref_builder = \<lparr>
     ix_build = (\<lambda>gates public prev size tables runtime. if public = 0 then Err ''empty'' else Ok (ref_cs public)),
     ix_endo_q = (),
     ix_create = (\<lambda>cs e srs. \<lparr>pi_cs = cs, pi_srs = srs, pi_linearization = (), pi_powers_of_alpha = (), pi_rest = ()\<rparr>),
     ix_compute_digest = (\<lambda>index. index),
     ix_max_poly_size = (\<lambda>srs. length (srs_g srs)),
     ix_max_degree = (\<lambda>srs. length (srs_g srs)),
     ix_serialize = (\<lambda>index. if pi_cs index = ref_cs 1 then Ok [1] else Err ''unsupported''),
     ix_deserialize = (\<lambda>bs. Ok (ref_prover_index 1)),
     ix_expr_linearization = (\<lambda>flags b. ((), ()))\<rparr>"

interpretation ref_builder: index_format_contract ref_builder "\<lambda>x. x" "\<lambda>y. y"
  by unfold_locales (auto simp: ref_builder_def ref_prover_index_def stored_index_def split: if_splits)

section \<open>Properties\<close>

text \<open>
  C17. Creating a prover index. An error of the constraint system is reported. Otherwise the index has
  the number of public inputs and the domain of its constraint system and shares the reference string,
  in which the basis of the domain is now cached: the generators, the bases cached before and the
  cache invariant are kept. The bindings for Fp pass the largest polynomial size of the string to
  the constraint system and those for Fq do not; they agree when it has no influence.
\<close>

theorem plonk_index_create_caches:
  assumes "srs_contract P" and "index_contract X" and "lagrange_cache_ok srs"
  shows "(case ix_build X gates (unat public) (unat prev) (Some (ix_max_poly_size X srs)) (map lt_from tables)
        (runtime_option (map rt_from runtime)) of
      Panic m \<Rightarrow> caml_pasta_fp_plonk_index_create P X lt_from rt_from gates public tables runtime prev srs = Panic m
    | Err e \<Rightarrow> caml_pasta_fp_plonk_index_create P X lt_from rt_from gates public tables runtime prev srs = Err (ErrorBox e)
    | Ok cs \<Rightarrow> \<exists>index. caml_pasta_fp_plonk_index_create P X lt_from rt_from gates public tables runtime prev srs = Ok (index, pi_srs index) \<and>
        caml_pasta_fp_plonk_index_public_inputs index = word_of_nat (cs_public cs) \<and>
        caml_pasta_fp_plonk_index_domain_d1_size index = word_of_nat (cs_domain_d1 cs) \<and>
        srs_g (pi_srs index) = srs_g srs \<and> srs_h (pi_srs index) = srs_h srs \<and>
        lagrange_cache_ok (pi_srs index) \<and> srs_lagrange_bases srs \<subseteq>\<^sub>m srs_lagrange_bases (pi_srs index) \<and>
        (\<exists>bs. srs_lagrange_bases (pi_srs index) (cs_domain_d1 cs) = Some bs \<and> length bs = cs_domain_d1 cs)) \<and>
    ((\<forall>size. ix_build X gates (unat public) (unat prev) size (map lt_from tables) (runtime_option (map rt_from runtime)) =
         ix_build X gates (unat public) (unat prev) None (map lt_from tables) (runtime_option (map rt_from runtime))) \<longrightarrow>
       caml_pasta_fq_plonk_index_create P X lt_from rt_from gates public tables runtime prev srs =
         caml_pasta_fp_plonk_index_create P X lt_from rt_from gates public tables runtime prev srs)"
    (is "?outcome \<and> ?agree")
proof (intro conjI)
  show ?agree
    by (intro impI, drule spec [of _ "Some (ix_max_poly_size X srs)"])
      (simp add: caml_pasta_fq_plonk_index_create_def caml_pasta_fp_plonk_index_create_def copy_gates_id Let_def)
  show ?outcome
  proof (cases "ix_build X gates (unat public) (unat prev) (Some (ix_max_poly_size X srs)) (map lt_from tables)
      (runtime_option (map rt_from runtime))")
    case (Ok cs)
    obtain index srs' where fin: "finish_index P X srs cs = (index, srs')" by fastforce
    note facts = index_contract.finish_index_facts [OF assms(2) fin]
    have "srs_lagrange_bases srs \<subseteq>\<^sub>m srs_lagrange_bases srs'"
      using srs_contract.add_keeps_bases [OF assms(1), of srs] facts(2) by (auto simp: map_le_def dom_def)
    then show ?thesis
      using Ok fin facts srs_contract.add_lagrange_basis_ok [OF assms(1,3), of "cs_domain_d1 cs"]
        srs_contract.add_keeps_generators [OF assms(1), of srs "cs_domain_d1 cs"]
      by (auto simp: caml_pasta_fp_plonk_index_create_def copy_gates_id Let_def caml_pasta_fp_plonk_index_public_inputs_def
          caml_pasta_fp_plonk_index_domain_d1_size_def)
  qed (simp_all add: caml_pasta_fp_plonk_index_create_def copy_gates_id Let_def)
qed

theorem plonk_index_create_caches_witness:
  "\<exists>index. caml_pasta_fp_plonk_index_create (ref_srs_ops ref_affine :: (nat, _, _) srs_ops) ref_builder (\<lambda>t. t) (\<lambda>t. t) [] 2 [] [] 0 ref_string =
       Ok (index, pi_srs index) \<and>
     caml_pasta_fp_plonk_index_public_inputs index = 2 \<and> (\<exists>bs. srs_lagrange_bases (pi_srs index) 4 = Some bs)"
proof -
  have cache: "lagrange_cache_ok ref_string" by (simp add: lagrange_cache_ok_def ref_string_def)
  have "ix_build ref_builder gates 2 0 size tables runtime = Ok (ref_cs 2)" for gates size tables runtime
    by (simp add: ref_builder_def)
  then show ?thesis
    using plonk_index_create_caches [OF ref_srs.srs_contract_axioms [of ref_affine] ref_builder.index_contract_axioms cache,
        where 'a = nat and gates = "[]" and public = 2 and prev = 0 and lt_from = "\<lambda>t. t" and rt_from = "\<lambda>t. t"
          and tables = "[]" and runtime = "[]"]
    by (auto simp: ref_cs_def)
qed

text \<open>
  C18. Files of prover indexes. An index that creation returned and that is written to the end of an
  existing file is read from the old end of the file with any reference string: the result has that string, the
  linearization and the powers of alpha of the index that was written, although none of the three is stored,
  and its constraint system and other fields as far as the format stores them. So is an index encoded for
  JavaScript. Asking not to append always fails, and so does a negative offset.
\<close>

theorem plonk_index_file_roundtrip:
  assumes "index_format_contract X stored_cs stored"
    and "caml_pasta_fp_plonk_index_create P X lt_from rt_from gates public tables runtime prev srs = Ok (index, srs')"
    and "ix_serialize X index = Ok out" and "fs path = Some old" and "length old < 2 ^ 63"
  shows "(\<exists>fs'. caml_pasta_fp_plonk_index_write X fs None index path = Ok fs' \<and> fs' path = Some (old @ out) \<and>
      (\<forall>p. p \<noteq> path \<longrightarrow> fs' p = fs p) \<and>
      (\<forall>srs2. caml_pasta_fp_plonk_index_read X fs' (Some (word_of_nat (length old))) srs2 path =
        Ok ((stored_index stored_cs stored index)\<lparr>pi_srs := srs2\<rparr>))) \<and>
    and_then (caml_pasta_fp_plonk_index_encode_wasm X index) (\<lambda>bs. caml_pasta_fp_plonk_index_decode_wasm X bs srs') =
      Ok (stored_index stored_cs stored index) \<and>
    caml_pasta_fp_plonk_index_public_inputs (stored_index stored_cs stored index) = caml_pasta_fp_plonk_index_public_inputs index \<and>
    caml_pasta_fp_plonk_index_write X fs (Some False) index path = Err (InvalidArgument ''caml_pasta_fp_plonk_index_write'') \<and>
    (\<forall>off. sint off < 0 \<longrightarrow> caml_pasta_fp_plonk_index_read X fs (Some off) srs' path = Err (ErrorBox io_invalid_argument))"
proof -
  have contract: "index_contract X" using assms(1) by (rule index_format_contract.axioms(1))
  obtain cs where "finish_index P X srs cs = (index, srs')"
    using assms(2) by (auto simp: caml_pasta_fp_plonk_index_create_def Let_def)
  note facts = index_contract.finish_index_facts [OF contract this]
  obtain t where t: "ix_deserialize X out = Ok t"
      "\<And>srs. restore_index X srs t = (stored_index stored_cs stored index)\<lparr>pi_srs := srs\<rparr>"
    using index_format_contract.restore_stored [OF assms(1) facts(3) assms(3), of "[]"] by auto
  have same: "(stored_index stored_cs stored index)\<lparr>pi_srs := srs'\<rparr> = stored_index stored_cs stored index"
    using facts(1) by (simp add: stored_index_def)
  show ?thesis
    using assms(3,4) t same
    by (simp add: caml_pasta_fp_plonk_index_write_def caml_pasta_fp_plonk_index_read_def open_append_def
        seek_start_append [OF assms(5)] caml_pasta_fp_plonk_index_encode_wasm_def caml_pasta_fp_plonk_index_decode_wasm_def
        seek_start_def [of "Some _" old] caml_pasta_fp_plonk_index_public_inputs_def stored_index_def)
qed

theorem plonk_index_file_roundtrip_witness:
  "\<exists>index srs'. caml_pasta_fp_plonk_index_create (ref_srs_ops ref_affine :: (nat, _, _) srs_ops) ref_builder (\<lambda>t. t) (\<lambda>t. t) [] 1 [] [] 0 ref_string =
       Ok (index, srs') \<and>
     and_then (caml_pasta_fp_plonk_index_encode_wasm ref_builder index)
       (\<lambda>bs. caml_pasta_fp_plonk_index_decode_wasm ref_builder bs srs') = Ok index"
proof -
  let ?P = "ref_srs_ops ref_affine :: (nat, _, _) srs_ops"
  obtain index srs' where create: "caml_pasta_fp_plonk_index_create ?P ref_builder (\<lambda>t. t) (\<lambda>t. t) [] 1 [] [] 0 ref_string = Ok (index, srs')"
    and cs: "pi_cs index = ref_cs 1"
    by (auto simp: caml_pasta_fp_plonk_index_create_def ref_builder_def finish_index_def Let_def)
  have "ix_serialize ref_builder index = Ok [1]" using cs by (simp add: ref_builder_def)
  from plonk_index_file_roundtrip [OF ref_builder.index_format_contract_axioms create this, of "[''f'' \<mapsto> []]" "''f''" "[]"]
  show ?thesis using create by (auto simp: stored_index_def)
qed

end
