(* ===== verification/Plonk_Proof.thy ===== *)
theory Plonk_Proof
  imports Plonk_Index Flat_Vector
begin

text \<open>
  Proofs: \<^verbatim>\<open>wasm/src/plonk_proof.rs\<close> (one macro, expanded for both fields; definitions
  with the suffix \<open>_wasm\<close> and the structures) and \<^verbatim>\<open>stubs/src/pasta_fp_plonk_proof.rs\<close>,
  \<^verbatim>\<open>stubs/src/pasta_fq_plonk_proof.rs\<close>. The prover and the verifier of kimchi, the OCaml view of
  a proof and of a runtime table are parameters. A call of the prover first caches the Lagrange basis of
  the domain in the reference string that the index shares; the string after the call is part of the
  result.
\<close>

section \<open>Proofs\<close>

record 'c lookup_commitments =
  lc_sorted :: "'c list"
  lc_aggreg :: 'c
  lc_runtime :: "'c option"

record 'c prover_commitments =
  prc_w_comm :: "'c list"
  prc_z_comm :: 'c
  prc_t_comm :: 'c
  prc_lookup :: "'c lookup_commitments option"

record ('g, 's) opening_proof =
  op_lr :: "('g \<times> 'g) list"
  op_delta :: 'g
  op_z1 :: 's
  op_z2 :: 's
  op_sg :: 'g

record ('s, 'c) recursion_challenge =
  rc_chals :: "'s list"
  rc_comm :: 'c

record 's point_evaluations =
  pev_zeta :: "'s list"
  pev_zeta_omega :: "'s list"

record 'v proof_evaluations =
  pe_public :: "'v option"
  pe_w :: "'v list"
  pe_z :: 'v
  pe_s :: "'v list"
  pe_coefficients :: "'v list"
  pe_generic_selector :: 'v
  pe_poseidon_selector :: 'v
  pe_complete_add_selector :: 'v
  pe_mul_selector :: 'v
  pe_emul_selector :: 'v
  pe_endomul_scalar_selector :: 'v
  pe_range_check0_selector :: "'v option"
  pe_range_check1_selector :: "'v option"
  pe_foreign_field_add_selector :: "'v option"
  pe_foreign_field_mul_selector :: "'v option"
  pe_xor_selector :: "'v option"
  pe_rot_selector :: "'v option"
  pe_lookup_aggregation :: "'v option"
  pe_lookup_table :: "'v option"
  pe_lookup_sorted :: "'v option list"
  pe_runtime_lookup_table :: "'v option"
  pe_runtime_lookup_table_selector :: "'v option"
  pe_xor_lookup_selector :: "'v option"
  pe_lookup_gate_lookup_selector :: "'v option"
  pe_range_check_lookup_selector :: "'v option"
  pe_foreign_field_mul_lookup_selector :: "'v option"

record ('s, 'g) prover_proof =
  pp_commitments :: "'g poly_comm prover_commitments"
  pp_proof :: "('g, 's) opening_proof"
  pp_evals :: "'s point_evaluations proof_evaluations"
  pp_ft_eval1 :: 's
  pp_prev_challenges :: "('s, 'g poly_comm) recursion_challenge list"

record 's runtime_table =
  rt_id :: i32
  rt_data :: "'s list"

text \<open>
  The prover and the verifier of kimchi: \<open>create_recursive\<close>, \<open>verifier_index()\<close>,
  \<open>verify\<close>, and whether \<open>batch_verify\<close> on a list of contexts is \<open>Ok\<close>. The prover blinds its
  polynomials and the verifier combines its equations at random; the random bytes that one call draws from the
  system are its first argument.
\<close>

type_synonym entropy = "nat \<Rightarrow> u8"

record ('t, 's, 'g, 'l, 'a, 'x, 'y, 'vi) kimchi_prover =
  kp_create_recursive :: "entropy \<Rightarrow> 's list list \<Rightarrow> 's runtime_table list \<Rightarrow> ('t, 's, 'g, 'l, 'a, 'x, 'y) prover_index \<Rightarrow>
    ('s, 'g poly_comm) recursion_challenge list \<Rightarrow> (('s, 'g) prover_proof, string) outcome"
  kp_verifier_index :: "('t, 's, 'g, 'l, 'a, 'x, 'y) prover_index \<Rightarrow> 'vi"
  kp_verify :: "entropy \<Rightarrow> 'vi \<Rightarrow> ('s, 'g) prover_proof \<Rightarrow> 's list \<Rightarrow> (unit, string) outcome"
  kp_batch_verify :: "entropy \<Rightarrow> ('vi \<times> ('s, 'g) prover_proof \<times> 's list) list \<Rightarrow> bool"

section \<open>The views of proofs in JavaScript\<close>

type_synonym 'b wpc = "'b wasm_g wasm_poly_comm"

record 'c wasm_lookup_commitments =
  wlc_sorted :: "'c list"
  wlc_aggreg :: 'c
  wlc_runtime :: "'c option"

definition wasm_lookup_commitments_new :: "'c list \<Rightarrow> 'c \<Rightarrow> 'c option \<Rightarrow> 'c wasm_lookup_commitments" where
  "wasm_lookup_commitments_new sorted_comms aggreg runtime =
     \<lparr>wlc_sorted = sorted_comms, wlc_aggreg = aggreg, wlc_runtime = runtime\<rparr>"

record 'c wasm_prover_commitments =
  wpr_w_comm :: "'c list"
  wpr_z_comm :: 'c
  wpr_t_comm :: 'c
  wpr_lookup :: "'c wasm_lookup_commitments option"

definition wasm_prover_commitments_new ::
  "'c list \<Rightarrow> 'c \<Rightarrow> 'c \<Rightarrow> 'c wasm_lookup_commitments option \<Rightarrow> 'c wasm_prover_commitments" where
  "wasm_prover_commitments_new w_comm z_comm t_comm lookup =
     \<lparr>wpr_w_comm = w_comm, wpr_z_comm = z_comm, wpr_t_comm = t_comm, wpr_lookup = lookup\<rparr>"

record ('g, 's) wasm_opening_proof =
  wop_lr_0 :: "'g list"
  wop_lr_1 :: "'g list"
  wop_delta :: 'g
  wop_z1 :: 's
  wop_z2 :: 's
  wop_sg :: 'g

definition wasm_opening_proof_new ::
  "'g list \<Rightarrow> 'g list \<Rightarrow> 'g \<Rightarrow> 's \<Rightarrow> 's \<Rightarrow> 'g \<Rightarrow> ('g, 's) wasm_opening_proof" where
  "wasm_opening_proof_new lr_0 lr_1 delta z1 z2 sg =
     \<lparr>wop_lr_0 = lr_0, wop_lr_1 = lr_1, wop_delta = delta, wop_z1 = z1, wop_z2 = z2, wop_sg = sg\<rparr>"

record ('s, 'b) wasm_prover_proof =
  wpp_commitments :: "'b wpc wasm_prover_commitments"
  wpp_proof :: "('b wasm_g, 's) wasm_opening_proof"
  wpp_evals :: "'s point_evaluations proof_evaluations"
  wpp_ft_eval1 :: 's
  wpp_public :: "'s list"
  wpp_prev_challenges_scalars :: "'s list list"
  wpp_prev_challenges_comms :: "'b wpc list"

definition wasm_prover_proof_new ::
  "'b wpc wasm_prover_commitments \<Rightarrow> ('b wasm_g, 's) wasm_opening_proof \<Rightarrow>
    's point_evaluations proof_evaluations \<Rightarrow> 's \<Rightarrow> 's list \<Rightarrow> 's list list \<Rightarrow> 'b wpc list \<Rightarrow>
    ('s, 'b) wasm_prover_proof" where
  "wasm_prover_proof_new commitments pf evals ft_eval1 pub prev_challenges_scalars prev_challenges_comms =
     \<lparr>wpp_commitments = commitments, wpp_proof = pf, wpp_evals = evals, wpp_ft_eval1 = ft_eval1,
      wpp_public = pub, wpp_prev_challenges_scalars = prev_challenges_scalars,
      wpp_prev_challenges_comms = prev_challenges_comms\<rparr>"

text \<open>
  The getters and setters that JavaScript sees.
\<close>

definition wasm_lookup_commitments_get_sorted :: "'c wasm_lookup_commitments \<Rightarrow> 'c list" where
  "wasm_lookup_commitments_get_sorted self = wlc_sorted self"

definition wasm_lookup_commitments_set_sorted :: "'c wasm_lookup_commitments \<Rightarrow> 'c list \<Rightarrow> 'c wasm_lookup_commitments" where
  "wasm_lookup_commitments_set_sorted self x = self\<lparr>wlc_sorted := x\<rparr>"

definition wasm_lookup_commitments_get_aggreg :: "'c wasm_lookup_commitments \<Rightarrow> 'c" where
  "wasm_lookup_commitments_get_aggreg self = wlc_aggreg self"

definition wasm_lookup_commitments_set_aggreg :: "'c wasm_lookup_commitments \<Rightarrow> 'c \<Rightarrow> 'c wasm_lookup_commitments" where
  "wasm_lookup_commitments_set_aggreg self x = self\<lparr>wlc_aggreg := x\<rparr>"

definition wasm_lookup_commitments_get_runtime :: "'c wasm_lookup_commitments \<Rightarrow> 'c option" where
  "wasm_lookup_commitments_get_runtime self = wlc_runtime self"

definition wasm_lookup_commitments_set_runtime :: "'c wasm_lookup_commitments \<Rightarrow> 'c option \<Rightarrow> 'c wasm_lookup_commitments" where
  "wasm_lookup_commitments_set_runtime self x = self\<lparr>wlc_runtime := x\<rparr>"

definition wasm_prover_commitments_get_w_comm :: "'c wasm_prover_commitments \<Rightarrow> 'c list" where
  "wasm_prover_commitments_get_w_comm self = wpr_w_comm self"

definition wasm_prover_commitments_set_w_comm :: "'c wasm_prover_commitments \<Rightarrow> 'c list \<Rightarrow> 'c wasm_prover_commitments" where
  "wasm_prover_commitments_set_w_comm self x = self\<lparr>wpr_w_comm := x\<rparr>"

definition wasm_prover_commitments_get_z_comm :: "'c wasm_prover_commitments \<Rightarrow> 'c" where
  "wasm_prover_commitments_get_z_comm self = wpr_z_comm self"

definition wasm_prover_commitments_set_z_comm :: "'c wasm_prover_commitments \<Rightarrow> 'c \<Rightarrow> 'c wasm_prover_commitments" where
  "wasm_prover_commitments_set_z_comm self x = self\<lparr>wpr_z_comm := x\<rparr>"

definition wasm_prover_commitments_get_t_comm :: "'c wasm_prover_commitments \<Rightarrow> 'c" where
  "wasm_prover_commitments_get_t_comm self = wpr_t_comm self"

definition wasm_prover_commitments_set_t_comm :: "'c wasm_prover_commitments \<Rightarrow> 'c \<Rightarrow> 'c wasm_prover_commitments" where
  "wasm_prover_commitments_set_t_comm self x = self\<lparr>wpr_t_comm := x\<rparr>"

definition wasm_prover_commitments_get_lookup :: "'c wasm_prover_commitments \<Rightarrow> 'c wasm_lookup_commitments option" where
  "wasm_prover_commitments_get_lookup self = wpr_lookup self"

definition wasm_prover_commitments_set_lookup :: "'c wasm_prover_commitments \<Rightarrow> 'c wasm_lookup_commitments option \<Rightarrow> 'c wasm_prover_commitments" where
  "wasm_prover_commitments_set_lookup self x = self\<lparr>wpr_lookup := x\<rparr>"

definition wasm_opening_proof_get_lr_0 :: "('g, 's) wasm_opening_proof \<Rightarrow> 'g list" where
  "wasm_opening_proof_get_lr_0 self = wop_lr_0 self"

definition wasm_opening_proof_set_lr_0 :: "('g, 's) wasm_opening_proof \<Rightarrow> 'g list \<Rightarrow> ('g, 's) wasm_opening_proof" where
  "wasm_opening_proof_set_lr_0 self x = self\<lparr>wop_lr_0 := x\<rparr>"

definition wasm_opening_proof_get_lr_1 :: "('g, 's) wasm_opening_proof \<Rightarrow> 'g list" where
  "wasm_opening_proof_get_lr_1 self = wop_lr_1 self"

definition wasm_opening_proof_set_lr_1 :: "('g, 's) wasm_opening_proof \<Rightarrow> 'g list \<Rightarrow> ('g, 's) wasm_opening_proof" where
  "wasm_opening_proof_set_lr_1 self x = self\<lparr>wop_lr_1 := x\<rparr>"

definition wasm_opening_proof_get_delta :: "('g, 's) wasm_opening_proof \<Rightarrow> 'g" where
  "wasm_opening_proof_get_delta self = wop_delta self"

definition wasm_opening_proof_set_delta :: "('g, 's) wasm_opening_proof \<Rightarrow> 'g \<Rightarrow> ('g, 's) wasm_opening_proof" where
  "wasm_opening_proof_set_delta self x = self\<lparr>wop_delta := x\<rparr>"

definition wasm_opening_proof_get_sg :: "('g, 's) wasm_opening_proof \<Rightarrow> 'g" where
  "wasm_opening_proof_get_sg self = wop_sg self"

definition wasm_opening_proof_set_sg :: "('g, 's) wasm_opening_proof \<Rightarrow> 'g \<Rightarrow> ('g, 's) wasm_opening_proof" where
  "wasm_opening_proof_set_sg self x = self\<lparr>wop_sg := x\<rparr>"

definition wasm_prover_proof_get_commitments :: "('s, 'b) wasm_prover_proof \<Rightarrow> 'b wpc wasm_prover_commitments" where
  "wasm_prover_proof_get_commitments self = wpp_commitments self"

definition wasm_prover_proof_set_commitments :: "('s, 'b) wasm_prover_proof \<Rightarrow> 'b wpc wasm_prover_commitments \<Rightarrow> ('s, 'b) wasm_prover_proof" where
  "wasm_prover_proof_set_commitments self x = self\<lparr>wpp_commitments := x\<rparr>"

definition wasm_prover_proof_get_proof :: "('s, 'b) wasm_prover_proof \<Rightarrow> ('b wasm_g, 's) wasm_opening_proof" where
  "wasm_prover_proof_get_proof self = wpp_proof self"

definition wasm_prover_proof_set_proof :: "('s, 'b) wasm_prover_proof \<Rightarrow> ('b wasm_g, 's) wasm_opening_proof \<Rightarrow> ('s, 'b) wasm_prover_proof" where
  "wasm_prover_proof_set_proof self x = self\<lparr>wpp_proof := x\<rparr>"

definition wasm_prover_proof_get_evals :: "('s, 'b) wasm_prover_proof \<Rightarrow> 's point_evaluations proof_evaluations" where
  "wasm_prover_proof_get_evals self = wpp_evals self"

definition wasm_prover_proof_set_evals :: "('s, 'b) wasm_prover_proof \<Rightarrow> 's point_evaluations proof_evaluations \<Rightarrow> ('s, 'b) wasm_prover_proof" where
  "wasm_prover_proof_set_evals self x = self\<lparr>wpp_evals := x\<rparr>"

definition wasm_prover_proof_get_public :: "('s, 'b) wasm_prover_proof \<Rightarrow> 's list" where
  "wasm_prover_proof_get_public self = wpp_public self"

definition wasm_prover_proof_set_public :: "('s, 'b) wasm_prover_proof \<Rightarrow> 's list \<Rightarrow> ('s, 'b) wasm_prover_proof" where
  "wasm_prover_proof_set_public self x = self\<lparr>wpp_public := x\<rparr>"

definition wasm_prover_proof_get_prev_challenges_scalars :: "('s, 'b) wasm_prover_proof \<Rightarrow> 's list list" where
  "wasm_prover_proof_get_prev_challenges_scalars self = wpp_prev_challenges_scalars self"

definition wasm_prover_proof_set_prev_challenges_scalars :: "('s, 'b) wasm_prover_proof \<Rightarrow> 's list list \<Rightarrow> ('s, 'b) wasm_prover_proof" where
  "wasm_prover_proof_set_prev_challenges_scalars self x = self\<lparr>wpp_prev_challenges_scalars := x\<rparr>"

definition wasm_prover_proof_get_prev_challenges_comms :: "('s, 'b) wasm_prover_proof \<Rightarrow> 'b wpc list" where
  "wasm_prover_proof_get_prev_challenges_comms self = wpp_prev_challenges_comms self"

definition wasm_prover_proof_set_prev_challenges_comms :: "('s, 'b) wasm_prover_proof \<Rightarrow> 'b wpc list \<Rightarrow> ('s, 'b) wasm_prover_proof" where
  "wasm_prover_proof_set_prev_challenges_comms self x = self\<lparr>wpp_prev_challenges_comms := x\<rparr>"

section \<open>Conversions\<close>

text \<open>
  The evaluations of a proof are a wrapper of kimchi's; across the boundary they are written and read
  with the serializer of \<^verbatim>\<open>wasm_ocaml_serde\<close>, whose errors are unwrapped.
\<close>

definition wasm_proof_evaluations_from_abi ::
  "('js \<Rightarrow> ('s point_evaluations proof_evaluations, string) outcome) \<Rightarrow> 'js \<Rightarrow>
    ('s point_evaluations proof_evaluations, js_error) outcome" where
  "wasm_proof_evaluations_from_abi deserialize js =
     (case deserialize js of
        Ok x \<Rightarrow> Ok x
      | Err e \<Rightarrow> Panic ''called Result::unwrap() on an Err value''
      | Panic m \<Rightarrow> Panic m)"

definition wasm_proof_evaluations_into_abi ::
  "('s point_evaluations proof_evaluations \<Rightarrow> ('js, string) outcome) \<Rightarrow> 's point_evaluations proof_evaluations \<Rightarrow>
    ('js, js_error) outcome" where
  "wasm_proof_evaluations_into_abi serialize self =
     (case serialize self of
        Ok js \<Rightarrow> Ok js
      | Err e \<Rightarrow> Panic ''called Result::unwrap() on an Err value''
      | Panic m \<Rightarrow> Panic m)"

definition wasm_lookup_commitments_from ::
  "'b affine poly_comm lookup_commitments \<Rightarrow> 'b wpc wasm_lookup_commitments" where
  "wasm_lookup_commitments_from x =
     \<lparr>wlc_sorted = map wasm_poly_comm_from (lc_sorted x),
      wlc_aggreg = wasm_poly_comm_from (lc_aggreg x),
      wlc_runtime = map_option wasm_poly_comm_from (lc_runtime x)\<rparr>"

definition lookup_commitments_from_wasm ::
  "'b wpc wasm_lookup_commitments \<Rightarrow> ('b affine poly_comm lookup_commitments, js_error) outcome" where
  "lookup_commitments_from_wasm x =
     and_then (collect poly_comm_from_wasm (wlc_sorted x)) (\<lambda>sorted.
     and_then (poly_comm_from_wasm (wlc_aggreg x)) (\<lambda>aggreg.
     and_then (collect_option poly_comm_from_wasm (wlc_runtime x)) (\<lambda>runtime.
       Ok \<lparr>lc_sorted = sorted, lc_aggreg = aggreg, lc_runtime = runtime\<rparr>)))"

definition wasm_prover_commitments_from ::
  "'b affine poly_comm prover_commitments \<Rightarrow> 'b wpc wasm_prover_commitments" where
  "wasm_prover_commitments_from x =
     \<lparr>wpr_w_comm = map wasm_poly_comm_from (prc_w_comm x),
      wpr_z_comm = wasm_poly_comm_from (prc_z_comm x),
      wpr_t_comm = wasm_poly_comm_from (prc_t_comm x),
      wpr_lookup = map_option wasm_lookup_commitments_from (prc_lookup x)\<rparr>"

definition prover_commitments_from_wasm ::
  "'b wpc wasm_prover_commitments \<Rightarrow> ('b affine poly_comm prover_commitments, js_error) outcome" where
  "prover_commitments_from_wasm x =
     and_then (array_init COLUMNS poly_comm_from_wasm (wpr_w_comm x)) (\<lambda>w_comm.
     and_then (poly_comm_from_wasm (wpr_z_comm x)) (\<lambda>z_comm.
     and_then (poly_comm_from_wasm (wpr_t_comm x)) (\<lambda>t_comm.
     and_then (collect_option lookup_commitments_from_wasm (wpr_lookup x)) (\<lambda>lookup.
       Ok \<lparr>prc_w_comm = w_comm, prc_z_comm = z_comm, prc_t_comm = t_comm, prc_lookup = lookup\<rparr>))))"

definition wasm_opening_proof_from ::
  "('b affine, 's) opening_proof \<Rightarrow> ('b wasm_g, 's) wasm_opening_proof" where
  "wasm_opening_proof_from x =
     (let pairs = map (\<lambda>(x, y). (wasm_gvesta_from x, wasm_gvesta_from y)) (op_lr x) in
      \<lparr>wop_lr_0 = map fst pairs, wop_lr_1 = map snd pairs, wop_delta = wasm_gvesta_from (op_delta x),
       wop_z1 = op_z1 x, wop_z2 = op_z2 x, wop_sg = wasm_gvesta_from (op_sg x)\<rparr>)"

definition opening_proof_from_wasm ::
  "('b wasm_g, 's) wasm_opening_proof \<Rightarrow> ('b affine, 's) opening_proof" where
  "opening_proof_from_wasm x =
     \<lparr>op_lr = map (\<lambda>(x, y). (affine_vesta_from_wasm x, affine_vesta_from_wasm y)) (zip (wop_lr_0 x) (wop_lr_1 x)),
      op_delta = affine_vesta_from_wasm (wop_delta x), op_z1 = wop_z1 x, op_z2 = wop_z2 x,
      op_sg = affine_vesta_from_wasm (wop_sg x)\<rparr>"

definition wasm_prover_proof_from ::
  "('s, 'b affine) prover_proof \<times> 's list \<Rightarrow> ('s, 'b) wasm_prover_proof" where
  "wasm_prover_proof_from = (\<lambda>(x, public).
     let pairs = map (\<lambda>r. (rc_chals r, wasm_poly_comm_from (rc_comm r))) (pp_prev_challenges x) in
     \<lparr>wpp_commitments = wasm_prover_commitments_from (pp_commitments x),
      wpp_proof = wasm_opening_proof_from (pp_proof x),
      wpp_evals = pp_evals x,
      wpp_ft_eval1 = pp_ft_eval1 x,
      wpp_public = public,
      wpp_prev_challenges_scalars = map fst pairs,
      wpp_prev_challenges_comms = map snd pairs\<rparr>)"

definition prover_proof_from_wasm ::
  "('s, 'b) wasm_prover_proof \<Rightarrow> (('s, 'b affine) prover_proof \<times> 's list, js_error) outcome" where
  "prover_proof_from_wasm x =
     and_then (prover_commitments_from_wasm (wpp_commitments x)) (\<lambda>commitments.
     and_then (collect (\<lambda>(chals, comm).
         map_ok (\<lambda>comm. \<lparr>rc_chals = chals, rc_comm = comm\<rparr>) (poly_comm_from_wasm comm))
       (zip (wpp_prev_challenges_scalars x) (wpp_prev_challenges_comms x))) (\<lambda>prev_challenges.
       Ok (\<lparr>pp_commitments = commitments, pp_proof = opening_proof_from_wasm (wpp_proof x),
            pp_evals = wpp_evals x, pp_ft_eval1 = wpp_ft_eval1 x,
            pp_prev_challenges = prev_challenges\<rparr>, wpp_public x)))"

text \<open>
  \<open>rmp_serde::to_vec(&proof).unwrap()\<close> followed by \<open>base64::encode\<close>.
\<close>

definition wasm_prover_proof_serialize ::
  "(('s, 'b affine) prover_proof \<Rightarrow> bytes option) \<Rightarrow> (bytes \<Rightarrow> string) \<Rightarrow> ('s, 'b) wasm_prover_proof \<Rightarrow>
    (string, js_error) outcome" where
  "wasm_prover_proof_serialize to_vec encode self =
     and_then (prover_proof_from_wasm self) (\<lambda>(pf, _).
     map_ok encode (expect (to_vec pf) ''called Result::unwrap() on an Err value''))"

record 's wasm_runtime_table =
  wrt_id :: i32
  wrt_data :: "'s list"

definition wasm_runtime_table_new :: "i32 \<Rightarrow> 's list \<Rightarrow> 's wasm_runtime_table" where
  "wasm_runtime_table_new table_id data = \<lparr>wrt_id = table_id, wrt_data = data\<rparr>"

definition runtime_table_from_wasm :: "'s wasm_runtime_table \<Rightarrow> 's runtime_table" where
  "runtime_table_from_wasm wasm_rt = \<lparr>rt_id = wrt_id wasm_rt, rt_data = wrt_data wasm_rt\<rparr>"

section \<open>Creating proofs\<close>

text \<open>
  The challenges of earlier proofs come as one vector; each commitment takes the next
  \<open>challenges_per_sg\<close> of them.
\<close>

definition recursion_challenges ::
  "'s list \<Rightarrow> 'g list \<Rightarrow> (('s, 'g poly_comm) recursion_challenge list, 'e) outcome" where
  "recursion_challenges prev_challenges prev_sgs =
     (if prev_challenges = [] then Ok []
      else if prev_sgs = [] then Panic ''attempt to divide by zero''
      else
        let challenges_per_sg = length prev_challenges div length prev_sgs in
        collect (\<lambda>(i, sg).
          and_then (vec_slice prev_challenges (i * challenges_per_sg) ((i + 1) * challenges_per_sg)) (\<lambda>chals.
            Ok \<lparr>rc_chals = chals, rc_comm = \<lparr>pc_elems = [sg]\<rparr>\<rparr>))
          (List.enumerate 0 prev_sgs))"

definition caml_plonk_proof_create_wasm ::
  "pool_state \<Rightarrow> ('s, 'b affine, 'poly) srs_ops \<Rightarrow> ('t, 's, 'b affine, 'l, 'a, 'x, 'y, 'vi) kimchi_prover \<Rightarrow> entropy \<Rightarrow>
    ('t, 's, 'b affine, 'l, 'a, 'x, 'y) prover_index \<Rightarrow> 's list list \<Rightarrow> 's wasm_runtime_table list \<Rightarrow> 's list \<Rightarrow> 'b wasm_g list \<Rightarrow>
    (('s, 'b) wasm_prover_proof \<times> 'b affine srs, js_error) outcome" where
  "caml_plonk_proof_create_wasm pool P R os index witness wasm_runtime_tables prev_challenges prev_sgs =
     and_then (run_in_pool pool (\<lambda>_.
       let index = index\<lparr>pi_srs := so_add_lagrange_basis P (pi_srs index) (cs_domain_d1 (pi_cs index))\<rparr> in
       and_then (recursion_challenges prev_challenges (map affine_vesta_from_wasm prev_sgs)) (\<lambda>prev.
       let rust_runtime_tables = map runtime_table_from_wasm wasm_runtime_tables in
       and_then (expect (try_into_array COLUMNS witness) ''the witness should be a column of 15 vectors'') (\<lambda>witness.
       and_then (vec_index witness 0) (\<lambda>column.
       and_then (vec_slice column 0 (cs_public (pi_cs index))) (\<lambda>public_input.
         Ok (kp_create_recursive R os witness rust_runtime_tables index prev, public_input, pi_srs index))))))) (\<lambda>(maybe_proof, public_input, srs).
     case maybe_proof of
       Ok pf \<Rightarrow> Ok (wasm_prover_proof_from (pf, public_input), srs)
     | Err err \<Rightarrow> Err (JsError err)
     | Panic m \<Rightarrow> Panic m)"

definition caml_plonk_proof_verify_wasm ::
  "pool_state \<Rightarrow> ('i \<Rightarrow> ('vi, js_error) outcome) \<Rightarrow> ('t, 's, 'b affine, 'l, 'a, 'x, 'y, 'vi) kimchi_prover \<Rightarrow> entropy \<Rightarrow> 'i \<Rightarrow>
    ('s, 'b) wasm_prover_proof \<Rightarrow> (bool, js_error) outcome" where
  "caml_plonk_proof_verify_wasm pool index_from R os index pf =
     run_in_pool pool (\<lambda>_.
       and_then (index_from index) (\<lambda>verifier_index.
       and_then (prover_proof_from_wasm pf) (\<lambda>(pf, public_input).
         Ok (kp_batch_verify R os [(verifier_index, pf, public_input)]))))"

definition caml_plonk_proof_batch_verify_wasm ::
  "pool_state \<Rightarrow> ('i \<Rightarrow> ('vi, js_error) outcome) \<Rightarrow> ('t, 's, 'b affine, 'l, 'a, 'x, 'y, 'vi) kimchi_prover \<Rightarrow> entropy \<Rightarrow> 'i list \<Rightarrow>
    ('s, 'b) wasm_prover_proof list \<Rightarrow> (bool, js_error) outcome" where
  "caml_plonk_proof_batch_verify_wasm pool index_from R os indexes proofs =
     run_in_pool pool (\<lambda>_.
       and_then (collect (\<lambda>(index, pf).
           and_then (index_from index) (\<lambda>index.
           and_then (prover_proof_from_wasm pf) (\<lambda>pf. Ok (index, pf)))) (zip indexes proofs)) (\<lambda>ts.
         Ok (kp_batch_verify R os ts)))"

definition vec_vec_poly_comm_create :: "i32 \<Rightarrow> ('b affine poly_comm list list, js_error) outcome" where
  "vec_vec_poly_comm_create n = vec_vec_create n"

definition vec_vec_poly_comm_push ::
  "'b affine poly_comm list list \<Rightarrow> 'b wpc list \<Rightarrow> ('b affine poly_comm list list, js_error) outcome" where
  "vec_vec_poly_comm_push self x = map_ok (\<lambda>cs. self @ [cs]) (collect poly_comm_from_wasm x)"

text \<open>
  The dummy proof; \<open>sizes\<close> are the lengths of the arrays of permutation and of sorted lookup
  evaluations, which are constants of kimchi.
\<close>

definition dummy_comm :: "'g \<Rightarrow> 'g poly_comm" where
  "dummy_comm g = \<lparr>pc_elems = [g, g, g]\<rparr>"

definition dummy_opening :: "'s \<Rightarrow> 'g \<Rightarrow> ('g, 's) opening_proof" where
  "dummy_opening one g =
     \<lparr>op_lr = [(g, g), (g, g), (g, g)], op_delta = g, op_z1 = one, op_z2 = one, op_sg = g\<rparr>"

definition dummy_eval :: "'s \<Rightarrow> 's point_evaluations" where
  "dummy_eval one = \<lparr>pev_zeta = [one], pev_zeta_omega = [one]\<rparr>"

definition dummy_evals :: "nat \<times> nat \<Rightarrow> 's \<Rightarrow> 's point_evaluations option \<Rightarrow> 's point_evaluations proof_evaluations" where
  "dummy_evals sizes one public =
     \<lparr>pe_public = public,
      pe_w = replicate COLUMNS (dummy_eval one),
      pe_z = dummy_eval one,
      pe_s = replicate (fst sizes) (dummy_eval one),
      pe_coefficients = replicate COLUMNS (dummy_eval one),
      pe_generic_selector = dummy_eval one,
      pe_poseidon_selector = dummy_eval one,
      pe_complete_add_selector = dummy_eval one,
      pe_mul_selector = dummy_eval one,
      pe_emul_selector = dummy_eval one,
      pe_endomul_scalar_selector = dummy_eval one,
      pe_range_check0_selector = None,
      pe_range_check1_selector = None,
      pe_foreign_field_add_selector = None,
      pe_foreign_field_mul_selector = None,
      pe_xor_selector = None,
      pe_rot_selector = None,
      pe_lookup_aggregation = None,
      pe_lookup_table = None,
      pe_lookup_sorted = replicate (snd sizes) None,
      pe_runtime_lookup_table = None,
      pe_runtime_lookup_table_selector = None,
      pe_xor_lookup_selector = None,
      pe_lookup_gate_lookup_selector = None,
      pe_range_check_lookup_selector = None,
      pe_foreign_field_mul_lookup_selector = None\<rparr>"

definition dummy_prover_proof ::
  "nat \<times> nat \<Rightarrow> 's \<Rightarrow> 'g \<Rightarrow> 's point_evaluations option \<Rightarrow> ('s, 'g) prover_proof" where
  "dummy_prover_proof sizes one g public =
     (let prev = \<lparr>rc_chals = [one, one], rc_comm = dummy_comm g\<rparr> in
      \<lparr>pp_commitments = \<lparr>prc_w_comm = replicate COLUMNS (dummy_comm g), prc_z_comm = dummy_comm g,
         prc_t_comm = dummy_comm g, prc_lookup = None\<rparr>,
       pp_proof = dummy_opening one g,
       pp_evals = dummy_evals sizes one public,
       pp_ft_eval1 = one,
       pp_prev_challenges = [prev, prev, prev]\<rparr>)"

definition caml_plonk_proof_dummy_wasm ::
  "nat \<times> nat \<Rightarrow> 's ark_field \<Rightarrow> 'b affine \<Rightarrow> ('s, 'b) wasm_prover_proof" where
  "caml_plonk_proof_dummy_wasm sizes F g =
     wasm_prover_proof_from (dummy_prover_proof sizes (ff_one F) g None, [ff_one F, ff_one F])"

definition caml_plonk_proof_deep_copy_wasm :: "('s, 'b) wasm_prover_proof \<Rightarrow> ('s, 'b) wasm_prover_proof" where
  "caml_plonk_proof_deep_copy_wasm x = x"

section \<open>The bindings for OCaml\<close>

text \<open>
  \<open>rt_from\<close> converts a runtime table from its OCaml view, \<open>pf_into\<close> and \<open>pf_from\<close> a
  proof with its public input to and from its OCaml view.
\<close>

definition caml_pasta_fp_plonk_proof_prepare ::
  "('s, 'b affine, 'poly) srs_ops \<Rightarrow> ('k, 'b, 'p) curve_ops \<Rightarrow> ('rt \<Rightarrow> 's runtime_table) \<Rightarrow>
    ('t, 's, 'b affine, 'l, 'a, 'x, 'y) prover_index \<Rightarrow> 's list list \<Rightarrow> 'rt list \<Rightarrow> 's list \<Rightarrow> 'b caml_group_affine list \<Rightarrow>
    (('t, 's, 'b affine, 'l, 'a, 'x, 'y) prover_index \<times> 's list list \<times> 's runtime_table list \<times>
      ('s, 'b affine poly_comm) recursion_challenge list \<times> 's list, ocaml_error) outcome" where
  "caml_pasta_fp_plonk_proof_prepare P V rt_from index witness runtime_tables prev_challenges prev_sgs =
     (let index = index\<lparr>pi_srs := so_add_lagrange_basis P (pi_srs index) (cs_domain_d1 (pi_cs index))\<rparr> in
      and_then (recursion_challenges prev_challenges (map (affine_vesta_from_caml V) prev_sgs)) (\<lambda>prev.
      and_then (ok_or (try_into_array COLUMNS witness) (Message ''the witness should be a column of 15 vectors'')) (\<lambda>witness.
      and_then (vec_index witness 0) (\<lambda>column.
      and_then (vec_slice column 0 (cs_public (pi_cs index))) (\<lambda>public_input.
        Ok (index, witness, map rt_from runtime_tables, prev, public_input))))))"

definition caml_pasta_fp_plonk_proof_create ::
  "('s, 'b affine, 'poly) srs_ops \<Rightarrow> ('k, 'b, 'p) curve_ops \<Rightarrow> ('t, 's, 'b affine, 'l, 'a, 'x, 'y, 'vi) kimchi_prover \<Rightarrow> entropy \<Rightarrow>
    ('rt \<Rightarrow> 's runtime_table) \<Rightarrow> (('s, 'b affine) prover_proof \<times> 's list \<Rightarrow> 'cp) \<Rightarrow>
    ('t, 's, 'b affine, 'l, 'a, 'x, 'y) prover_index \<Rightarrow> 's list list \<Rightarrow> 'rt list \<Rightarrow> 's list \<Rightarrow> 'b caml_group_affine list \<Rightarrow>
    ('cp \<times> 'b affine srs, ocaml_error) outcome" where
  "caml_pasta_fp_plonk_proof_create P V R os rt_from pf_into index witness runtime_tables prev_challenges prev_sgs =
     and_then (caml_pasta_fp_plonk_proof_prepare P V rt_from index witness runtime_tables prev_challenges prev_sgs)
       (\<lambda>(index, witness, runtime_tables, prev, public_input).
     case kp_create_recursive R os witness runtime_tables index prev of
       Ok pf \<Rightarrow> Ok (pf_into (pf, public_input), pi_srs index)
     | Err e \<Rightarrow> Err (ErrorBox e)
     | Panic m \<Rightarrow> Panic m)"

definition caml_pasta_fp_plonk_proof_verify ::
  "('t, 's, 'b affine, 'l, 'a, 'x, 'y, 'vi) kimchi_prover \<Rightarrow> entropy \<Rightarrow> ('i \<Rightarrow> ('vi, ocaml_error) outcome) \<Rightarrow>
    ('cp \<Rightarrow> (('s, 'b affine) prover_proof \<times> 's list, ocaml_error) outcome) \<Rightarrow> 'i \<Rightarrow> 'cp \<Rightarrow> (bool, ocaml_error) outcome" where
  "caml_pasta_fp_plonk_proof_verify R os index_from pf_from index pf =
     and_then (pf_from pf) (\<lambda>(pf, public_input).
     and_then (index_from index) (\<lambda>verifier_index.
       Ok (kp_batch_verify R os [(verifier_index, pf, public_input)])))"

definition caml_pasta_fp_plonk_proof_batch_verify ::
  "('t, 's, 'b affine, 'l, 'a, 'x, 'y, 'vi) kimchi_prover \<Rightarrow> entropy \<Rightarrow> ('i \<Rightarrow> ('vi, ocaml_error) outcome) \<Rightarrow>
    ('cp \<Rightarrow> (('s, 'b affine) prover_proof \<times> 's list, ocaml_error) outcome) \<Rightarrow> 'i list \<Rightarrow> 'cp list \<Rightarrow>
    (bool, ocaml_error) outcome" where
  "caml_pasta_fp_plonk_proof_batch_verify R os index_from pf_from indexes proofs =
     and_then (collect (\<lambda>(caml_index, caml_proof).
         and_then (index_from caml_index) (\<lambda>verifier_index.
         and_then (pf_from caml_proof) (\<lambda>(pf, public_input). Ok (verifier_index, pf, public_input))))
       (zip indexes proofs)) (\<lambda>ts.
       Ok (kp_batch_verify R os ts))"

definition caml_pasta_fp_plonk_proof_dummy ::
  "nat \<times> nat \<Rightarrow> 's ark_field \<Rightarrow> 'b affine \<Rightarrow> (('s, 'b affine) prover_proof \<times> 's list \<Rightarrow> 'cp) \<Rightarrow> 'cp" where
  "caml_pasta_fp_plonk_proof_dummy sizes F g pf_into =
     pf_into (dummy_prover_proof sizes (ff_one F) g (Some (dummy_eval (ff_one F))), [ff_one F, ff_one F])"

definition caml_pasta_fp_plonk_proof_deep_copy :: "'cp \<Rightarrow> 'cp" where
  "caml_pasta_fp_plonk_proof_deep_copy x = x"

definition caml_pasta_fq_plonk_proof_prepare ::
  "('s, 'b affine, 'poly) srs_ops \<Rightarrow> ('k, 'b, 'p) curve_ops \<Rightarrow> ('rt \<Rightarrow> 's runtime_table) \<Rightarrow>
    ('t, 's, 'b affine, 'l, 'a, 'x, 'y) prover_index \<Rightarrow> 's list list \<Rightarrow> 'rt list \<Rightarrow> 's list \<Rightarrow> 'b caml_group_affine list \<Rightarrow>
    (('t, 's, 'b affine, 'l, 'a, 'x, 'y) prover_index \<times> 's list list \<times> 's runtime_table list \<times>
      ('s, 'b affine poly_comm) recursion_challenge list \<times> 's list, ocaml_error) outcome" where
  "caml_pasta_fq_plonk_proof_prepare P V rt_from index witness runtime_tables prev_challenges prev_sgs =
     (let index = index\<lparr>pi_srs := so_add_lagrange_basis P (pi_srs index) (cs_domain_d1 (pi_cs index))\<rparr> in
      and_then (recursion_challenges prev_challenges (map (affine_pallas_from_caml V) prev_sgs)) (\<lambda>prev.
      and_then (expect (try_into_array COLUMNS witness) ''the witness should be a column of 15 vectors'') (\<lambda>witness.
      and_then (vec_index witness 0) (\<lambda>column.
      and_then (vec_slice column 0 (cs_public (pi_cs index))) (\<lambda>public_input.
        Ok (index, witness, map rt_from runtime_tables, prev, public_input))))))"

definition caml_pasta_fq_plonk_proof_create ::
  "('s, 'b affine, 'poly) srs_ops \<Rightarrow> ('k, 'b, 'p) curve_ops \<Rightarrow> ('t, 's, 'b affine, 'l, 'a, 'x, 'y, 'vi) kimchi_prover \<Rightarrow> entropy \<Rightarrow>
    ('rt \<Rightarrow> 's runtime_table) \<Rightarrow> (('s, 'b affine) prover_proof \<times> 's list \<Rightarrow> 'cp) \<Rightarrow>
    ('t, 's, 'b affine, 'l, 'a, 'x, 'y) prover_index \<Rightarrow> 's list list \<Rightarrow> 'rt list \<Rightarrow> 's list \<Rightarrow> 'b caml_group_affine list \<Rightarrow>
    ('cp \<times> 'b affine srs, ocaml_error) outcome" where
  "caml_pasta_fq_plonk_proof_create P V R os rt_from pf_into index witness runtime_tables prev_challenges prev_sgs =
     and_then (caml_pasta_fq_plonk_proof_prepare P V rt_from index witness runtime_tables prev_challenges prev_sgs)
       (\<lambda>(index, witness, runtime_tables, prev, public_input).
     case kp_create_recursive R os witness runtime_tables index prev of
       Ok pf \<Rightarrow> Ok (pf_into (pf, public_input), pi_srs index)
     | Err e \<Rightarrow> Err (ErrorBox e)
     | Panic m \<Rightarrow> Panic m)"

definition caml_pasta_fq_plonk_proof_verify ::
  "('t, 's, 'b affine, 'l, 'a, 'x, 'y, 'vi) kimchi_prover \<Rightarrow> entropy \<Rightarrow> ('i \<Rightarrow> ('vi, ocaml_error) outcome) \<Rightarrow>
    ('cp \<Rightarrow> (('s, 'b affine) prover_proof \<times> 's list, ocaml_error) outcome) \<Rightarrow> 'i \<Rightarrow> 'cp \<Rightarrow> (bool, ocaml_error) outcome" where
  "caml_pasta_fq_plonk_proof_verify R os index_from pf_from index pf =
     and_then (pf_from pf) (\<lambda>(pf, public_input).
     and_then (index_from index) (\<lambda>verifier_index.
       Ok (kp_batch_verify R os [(verifier_index, pf, public_input)])))"

definition caml_pasta_fq_plonk_proof_batch_verify ::
  "('t, 's, 'b affine, 'l, 'a, 'x, 'y, 'vi) kimchi_prover \<Rightarrow> entropy \<Rightarrow> ('i \<Rightarrow> ('vi, ocaml_error) outcome) \<Rightarrow>
    ('cp \<Rightarrow> (('s, 'b affine) prover_proof \<times> 's list, ocaml_error) outcome) \<Rightarrow> 'i list \<Rightarrow> 'cp list \<Rightarrow>
    (bool, ocaml_error) outcome" where
  "caml_pasta_fq_plonk_proof_batch_verify R os index_from pf_from indexes proofs =
     and_then (collect (\<lambda>(caml_index, caml_proof).
         and_then (index_from caml_index) (\<lambda>verifier_index.
         and_then (pf_from caml_proof) (\<lambda>(pf, public_input). Ok (verifier_index, pf, public_input))))
       (zip indexes proofs)) (\<lambda>ts.
       Ok (kp_batch_verify R os ts))"

definition caml_pasta_fq_plonk_proof_dummy ::
  "nat \<times> nat \<Rightarrow> 's ark_field \<Rightarrow> 'b affine \<Rightarrow> (('s, 'b affine) prover_proof \<times> 's list \<Rightarrow> 'cp) \<Rightarrow> 'cp" where
  "caml_pasta_fq_plonk_proof_dummy sizes F g pf_into =
     pf_into (dummy_prover_proof sizes (ff_one F) g (Some (dummy_eval (ff_one F))), [ff_one F, ff_one F])"

definition caml_pasta_fq_plonk_proof_deep_copy :: "'cp \<Rightarrow> 'cp" where
  "caml_pasta_fq_plonk_proof_deep_copy x = x"

definition caml_pasta_fp_plonk_proof_create_and_verify ::
  "('s, 'b affine, 'poly) srs_ops \<Rightarrow> ('k, 'b, 'p) curve_ops \<Rightarrow> ('t, 's, 'b affine, 'l, 'a, 'x, 'y, 'vi) kimchi_prover \<Rightarrow> entropy \<Rightarrow> entropy \<Rightarrow>
    ('rt \<Rightarrow> 's runtime_table) \<Rightarrow> (('s, 'b affine) prover_proof \<times> 's list \<Rightarrow> 'cp) \<Rightarrow>
    ('t, 's, 'b affine, 'l, 'a, 'x, 'y) prover_index \<Rightarrow> 's list list \<Rightarrow> 'rt list \<Rightarrow> 's list \<Rightarrow> 'b caml_group_affine list \<Rightarrow>
    ('cp \<times> 'b affine srs, ocaml_error) outcome" where
  "caml_pasta_fp_plonk_proof_create_and_verify P V R os os' rt_from pf_into index witness runtime_tables prev_challenges prev_sgs =
     and_then (caml_pasta_fp_plonk_proof_prepare P V rt_from index witness runtime_tables prev_challenges prev_sgs)
       (\<lambda>(index, witness, runtime_tables, prev, public_input).
     case kp_create_recursive R os witness runtime_tables index prev of
       Ok pf \<Rightarrow>
         (case kp_verify R os' (kp_verifier_index R index) pf public_input of
            Ok _ \<Rightarrow> Ok (pf_into (pf, public_input), pi_srs index)
          | Err e \<Rightarrow> Err (ErrorBox e)
          | Panic m \<Rightarrow> Panic m)
     | Err e \<Rightarrow> Err (ErrorBox e)
     | Panic m \<Rightarrow> Panic m)"

section \<open>Lemmas on the conversions\<close>

interpretation wasm_lookup_commitments: codec wasm_lookup_commitments_from lookup_commitments_from_wasm
  by unfold_locales
    (simp add: wasm_lookup_commitments_from_def lookup_commitments_from_wasm_def poly_comm.decode_all)

lemma opening_proof_roundtrip [simp]: "opening_proof_from_wasm (wasm_opening_proof_from p) = p"
proof -
  let ?view = "\<lambda>(x, y). (wasm_gvesta_from x, wasm_gvesta_from y)"
  have "map (\<lambda>(x, y). (affine_vesta_from_wasm x, affine_vesta_from_wasm y))
      (zip (map (fst \<circ> ?view) lr) (map (snd \<circ> ?view) lr)) = lr" for lr :: "('a affine \<times> 'a affine) list"
    by (induction lr) auto
  then show ?thesis
    by (cases p) (simp add: opening_proof_from_wasm_def wasm_opening_proof_from_def Let_def)
qed

lemma prover_commitments_roundtrip:
  "length (prc_w_comm c) = COLUMNS \<Longrightarrow> prover_commitments_from_wasm (wasm_prover_commitments_from c) = Ok c"
  by (simp add: prover_commitments_from_wasm_def wasm_prover_commitments_from_def
      array_init_codec [OF poly_comm.codec_axioms] wasm_lookup_commitments.decode_all)

lemma prev_challenges_roundtrip:
  "collect (\<lambda>(chals, comm). map_ok (\<lambda>comm. \<lparr>rc_chals = chals, rc_comm = comm\<rparr>) (poly_comm_from_wasm comm))
     (zip (map rc_chals rs) (map (\<lambda>r. wasm_poly_comm_from (rc_comm r)) rs)) = Ok rs"
  by (induction rs) auto

lemma prover_proof_roundtrip:
  "length (prc_w_comm (pp_commitments p)) = COLUMNS \<Longrightarrow>
   prover_proof_from_wasm (wasm_prover_proof_from (p, public)) = Ok (p, public)"
  by (simp add: prover_proof_from_wasm_def wasm_prover_proof_from_def Let_def prover_commitments_roundtrip
      prev_challenges_roundtrip comp_def)

section \<open>Lemmas on the recursion challenges\<close>

lemma concat_slices:
  assumes "m * k \<le> length xs"
  shows "concat (map (\<lambda>i. take k (drop (i * k) xs)) [0..<m]) = take (m * k) xs"
  using assms
proof (induction m)
  case (Suc m)
  have "take (m * k) xs @ take k (drop (m * k) xs) = take (m * k + k) xs"
    by (simp add: take_add)
  with Suc show ?case by (simp add: add.commute)
qed simp

lemma slice_chunk:
  assumes "i < n"
  shows "vec_slice xs (i * (length xs div n)) (length xs div n + i * (length xs div n)) =
    Ok (take (length xs div n) (drop (i * (length xs div n)) xs))"
proof -
  have "Suc i * (length xs div n) \<le> n * (length xs div n)" using assms by (intro mult_le_mono1) simp
  also have "\<dots> \<le> length xs" by simp
  finally show ?thesis by (simp add: vec_slice_def)
qed

lemma recursion_challenges_value:
  assumes "chals \<noteq> []" and "sgs \<noteq> []"
  defines "k \<equiv> length chals div length sgs"
  shows "recursion_challenges chals sgs =
    Ok (map (\<lambda>(i, sg). \<lparr>rc_chals = take k (drop (i * k) chals), rc_comm = \<lparr>pc_elems = [sg]\<rparr>\<rparr>) (List.enumerate 0 sgs))"
proof -
  have "collect (\<lambda>(i, sg). and_then (vec_slice chals (i * k) ((i + 1) * k)) (\<lambda>cs.
        Ok \<lparr>rc_chals = cs, rc_comm = \<lparr>pc_elems = [sg]\<rparr>\<rparr>)) ps =
      Ok (map (\<lambda>(i, sg). \<lparr>rc_chals = take k (drop (i * k) chals), rc_comm = \<lparr>pc_elems = [sg]\<rparr>\<rparr>) ps)"
    if "\<forall>(i, sg) \<in> set ps. i < length sgs" for ps :: "(nat \<times> 'b) list"
    using that by (induction ps) (auto simp: slice_chunk k_def)
  moreover have "\<forall>(i, sg) \<in> set (List.enumerate 0 sgs). i < length sgs"
    by (auto simp: in_set_enumerate_eq)
  ultimately show ?thesis using assms by (simp add: recursion_challenges_def Let_def)
qed

section \<open>What the bindings rely on\<close>

text \<open>
  A proof that the prover returns has one commitment per column of the witness, and verifying one proof is
  verifying a batch of one. Nothing is assumed of larger batches.
\<close>

locale kimchi_contract =
  fixes R :: "('t, 's, 'g, 'l, 'a, 'x, 'y, 'vi) kimchi_prover"
  assumes columns: "kp_create_recursive R os witness tables index prev = Ok pf \<Longrightarrow>
      length (prc_w_comm (pp_commitments pf)) = COLUMNS"
    and batch_single: "kp_batch_verify R os [(vi, pf, public)] \<longleftrightarrow> kp_verify R os vi pf public = Ok ()"

section \<open>Batches\<close>

text \<open>
  What a call for a batch promises when \<open>verify\<close> decides the converted batch, \<open>fi\<close> converts an
  index and \<open>fp\<close> a proof: the verdict on the pairs at the same positions, in order, when they all convert,
  and otherwise the failure of the first position that does not, of its index before its proof.
\<close>

definition batch_spec ::
  "(('vi \<times> 'p) list \<Rightarrow> bool) \<Rightarrow> ('i \<Rightarrow> ('vi, 'e) outcome) \<Rightarrow> ('cp \<Rightarrow> ('p, 'e) outcome) \<Rightarrow>
    'i list \<Rightarrow> 'cp list \<Rightarrow> (bool, 'e) outcome \<Rightarrow> bool" where
  "batch_spec verify fi fp indexes proofs r \<longleftrightarrow>
     (let n = min (length indexes) (length proofs);
          first_failure = (\<lambda>index_fails proof_fails. \<exists>i < n.
            (\<forall>j < i. is_ok (fi (indexes ! j)) \<and> is_ok (fp (proofs ! j))) \<and>
            (index_fails (fi (indexes ! i)) \<or> is_ok (fi (indexes ! i)) \<and> proof_fails (fp (proofs ! i)))) in
      (\<forall>b. r = Ok b \<longleftrightarrow> (\<exists>ts. length ts = n \<and> b = verify ts \<and>
         (\<forall>i < n. fi (indexes ! i) = Ok (fst (ts ! i)) \<and> fp (proofs ! i) = Ok (snd (ts ! i))))) \<and>
      (\<forall>e. r = Err e \<longleftrightarrow> first_failure (\<lambda>x. x = Err e) (\<lambda>x. x = Err e)) \<and>
      (\<forall>m. r = Panic m \<longleftrightarrow> first_failure (\<lambda>x. x = Panic m) (\<lambda>x. x = Panic m)))"

lemma first_with_zip:
  "first_with P Q (zip xs ys) \<longleftrightarrow>
   (\<exists>i < min (length xs) (length ys). (\<forall>j < i. P (xs ! j, ys ! j)) \<and> Q (xs ! i, ys ! i))"
proof -
  have "(\<forall>j < i. P (zip xs ys ! j)) \<and> Q (zip xs ys ! i) \<longleftrightarrow> (\<forall>j < i. P (xs ! j, ys ! j)) \<and> Q (xs ! i, ys ! i)"
    if "i < min (length xs) (length ys)" for i
    using that by simp
  then show ?thesis unfolding first_with_def length_zip by blast
qed

lemma batch_spec_collect:
  "batch_spec verify fi fp indexes proofs
     (and_then (collect (\<lambda>(i, p). and_then (fi i) (\<lambda>vi. and_then (fp p) (\<lambda>t. Ok (vi, t)))) (zip indexes proofs))
       (\<lambda>ts. Ok (verify ts)))"
proof -
  let ?f = "\<lambda>(i, p). and_then (fi i) (\<lambda>vi. and_then (fp p) (\<lambda>t. Ok (vi, t)))"
  have converts: "?f (i, p) = Ok t \<longleftrightarrow> fi i = Ok (fst t) \<and> fp p = Ok (snd t)" for i p t
    by (cases t) (auto simp: and_then_Ok_iff)
  have ok: "is_ok (?f (i, p)) \<longleftrightarrow> is_ok (fi i) \<and> is_ok (fp p)" for i p
    by (auto simp: is_ok_and_then is_ok_iff)
  have err: "?f (i, p) = Err e \<longleftrightarrow> fi i = Err e \<or> is_ok (fi i) \<and> fp p = Err e" for i p e
    by (auto simp: and_then_Err_iff is_ok_iff)
  have panic: "?f (i, p) = Panic m \<longleftrightarrow> fi i = Panic m \<or> is_ok (fi i) \<and> fp p = Panic m" for i p m
    by (auto simp: and_then_Panic_iff is_ok_iff)
  have total: "list_all2 (\<lambda>x t. ?f x = Ok t) (zip indexes proofs) ts \<longleftrightarrow>
      length ts = min (length indexes) (length proofs) \<and>
      (\<forall>i < min (length indexes) (length proofs). fi (indexes ! i) = Ok (fst (ts ! i)) \<and> fp (proofs ! i) = Ok (snd (ts ! i)))" for ts
    unfolding list_all2_conv_all_nth length_zip using converts by auto
  show ?thesis
    unfolding batch_spec_def Let_def and_then_Ok_iff and_then_Err_iff and_then_Panic_iff collect_Ok_iff total
      collect_Err_first collect_Panic_first first_with_zip ok err panic
    by auto
qed

section \<open>A reference prover\<close>

text \<open>
  It commits with the blinding generator of the reference string, and the verifier compares the public
  input with the evaluations of the proof.
\<close>

definition ref_prove ::
  "nat list list \<Rightarrow> ('t, nat, pasta_fp affine, 'l, 'a, 'x, 'y) prover_index \<Rightarrow>
    (nat, pasta_fp affine poly_comm) recursion_challenge list \<Rightarrow> (nat, pasta_fp affine) prover_proof" where
  "ref_prove witness index prev =
     (let g = srs_h (pi_srs index); p = dummy_prover_proof (6, 5) 1 g None in
      p\<lparr>pp_evals := (pp_evals p)\<lparr>pe_z := \<lparr>pev_zeta = take (cs_public (pi_cs index)) (hd witness), pev_zeta_omega = []\<rparr>\<rparr>,
        pp_prev_challenges := prev\<rparr>)"

definition ref_prover :: "'vi \<Rightarrow> (unit, nat, pasta_fp affine, unit, unit, unit, unit, 'vi) kimchi_prover" where
  "ref_prover vi = (let verify = (\<lambda>_ _ pf public. if pev_zeta (pe_z (pp_evals pf)) = public then Ok () else Err ''verify'') in
     \<lparr>kp_create_recursive = (\<lambda>os witness tables index prev. Ok (ref_prove witness index prev)),
      kp_verifier_index = (\<lambda>_. vi),
      kp_verify = verify,
      kp_batch_verify = (\<lambda>os. list_all (\<lambda>(vi, pf, public). verify os vi pf public = Ok ()))\<rparr>)"

lemma ref_prover_create [simp]: "kp_create_recursive (ref_prover vi) os witness tables index prev = Ok (ref_prove witness index prev)"
  by (simp add: ref_prover_def Let_def)

interpretation ref_prover: kimchi_contract "ref_prover vi" for vi
  by unfold_locales
    (auto simp: ref_prover_def ref_prove_def dummy_prover_proof_def Let_def list_all_iff)

definition ref_entropy :: entropy where
  "ref_entropy _ = 0"

definition ref_proof :: "(nat, pasta_fp affine) prover_proof" where
  "ref_proof = dummy_prover_proof (6, 5) 1 ref_affine None"

lemma ref_proof_columns: "length (prc_w_comm (pp_commitments ref_proof)) = COLUMNS"
  by (simp add: ref_proof_def dummy_prover_proof_def Let_def)

section \<open>Properties\<close>

text \<open>
  C19. Proofs and JavaScript. A proof with one commitment per column survives the trip to JavaScript and
  back together with its public input, and different proofs or public inputs have different
  JavaScript objects.
\<close>

theorem proof_wasm_roundtrip:
  assumes "length (prc_w_comm (pp_commitments p)) = COLUMNS"
  shows "prover_proof_from_wasm (wasm_prover_proof_from (p, public)) = Ok (p, public) \<and>
    (wasm_prover_proof_from (p, public) = wasm_prover_proof_from (p', public') \<and>
       length (prc_w_comm (pp_commitments p')) = COLUMNS \<longrightarrow> p = p' \<and> public = public')"
proof -
  note roundtrip = prover_proof_roundtrip [OF assms, of public]
  have "p = p' \<and> public = public'"
    if "wasm_prover_proof_from (p, public) = wasm_prover_proof_from (p', public')"
      "length (prc_w_comm (pp_commitments p')) = COLUMNS"
    using roundtrip prover_proof_roundtrip [OF that(2), of public'] unfolding that(1)
    by (simp only: outcome.inject prod.inject)
  with roundtrip show ?thesis by blast
qed

theorem proof_wasm_roundtrip_witness:
  "prover_proof_from_wasm (wasm_prover_proof_from (ref_proof, [1, 1])) = Ok (ref_proof, [1, 1])"
  using proof_wasm_roundtrip [of ref_proof "[1, 1]"]
  by (simp add: ref_proof_columns)

text \<open>
  C16. Recursion challenges. Without challenges nothing is passed on, whatever the commitments; with
  challenges but no commitments the call panics. Otherwise there is one entry per commitment, in
  order, with equally many challenges each; the entries are consecutive pieces of the vector, and the
  challenges that do not fill a piece for every commitment are dropped.
\<close>

theorem recursion_challenges_split:
  "(if chals = [] then recursion_challenges chals sgs = Ok []
    else if sgs = [] then recursion_challenges chals sgs = Panic ''attempt to divide by zero''
    else \<exists>prev. recursion_challenges chals sgs = Ok prev \<and>
      map rc_comm prev = map (\<lambda>sg. \<lparr>pc_elems = [sg]\<rparr>) sgs \<and>
      (\<forall>r \<in> set prev. length (rc_chals r) = length chals div length sgs) \<and>
      concat (map rc_chals prev) @ drop (length chals - length chals mod length sgs) chals = chals)"
proof (cases "chals = [] \<or> sgs = []")
  case False
  let ?k = "length chals div length sgs"
  let ?prev = "map (\<lambda>(i, sg). \<lparr>rc_chals = take ?k (drop (i * ?k) chals), rc_comm = \<lparr>pc_elems = [sg]\<rparr>\<rparr>) (List.enumerate 0 sgs)"
  have total: "length sgs * ?k = length chals - length chals mod length sgs"
    by (simp add: minus_mod_eq_mult_div)
  have comms: "map rc_comm ?prev = map (\<lambda>sg. \<lparr>pc_elems = [sg]\<rparr>) sgs"
    by (rule nth_equalityI) (auto simp: nth_enumerate_eq)
  have "map rc_chals ?prev = map (\<lambda>i. take ?k (drop (i * ?k) chals)) [0..<length sgs]"
    by (rule nth_equalityI) (auto simp: nth_enumerate_eq)
  then have pieces: "concat (map rc_chals ?prev) = take (length sgs * ?k) chals"
    by (simp only: concat_slices [OF times_div_less_eq_dividend])
  have sizes: "length (rc_chals r) = ?k" if mem: "r \<in> set ?prev" for r
  proof -
    obtain i where "i < length ?prev" and r: "r = ?prev ! i" using mem unfolding in_set_conv_nth by blast
    then have i: "i < length sgs" and chals: "rc_chals r = take ?k (drop (i * ?k) chals)"
      by (simp_all add: nth_enumerate_eq)
    from i have "Suc i * ?k \<le> length sgs * ?k" by (intro mult_le_mono1) simp
    also have "\<dots> \<le> length chals" by simp
    finally show ?thesis by (simp add: chals)
  qed
  have "recursion_challenges chals sgs = Ok ?prev" using False recursion_challenges_value by blast
  moreover have "concat (map rc_chals ?prev) @ drop (length chals - length chals mod length sgs) chals = chals"
    by (simp only: pieces total append_take_drop_id)
  ultimately show ?thesis using False comms sizes by metis
qed (auto simp: recursion_challenges_def)

theorem recursion_challenges_split_witness:
  "\<exists>prev. recursion_challenges [1, 2, 3, 4, 5 :: nat] [7, 8 :: nat] = (Ok prev :: (_, js_error) outcome) \<and>
     map rc_comm prev = [\<lparr>pc_elems = [7]\<rparr>, \<lparr>pc_elems = [8]\<rparr>] \<and> concat (map rc_chals prev) @ [5] = [1, 2, 3, 4, 5]"
  using recursion_challenges_split [of "[1, 2, 3, 4, 5 :: nat]" "[7, 8 :: nat]"] by (auto simp: mod_Suc)

text \<open>
  C10. Batches of proofs. In both bindings what is handed to the verifier is the pair of the converted index
  and the converted proof, with its public input, of every position that both vectors have, in order, and
  the call returns its verdict; when a conversion fails, the call fails as the first position that does, and
  nothing is verified. What one vector has beyond the length of the other is not looked at, so that a proof
  without an index never makes a batch fail. A batch of one answers as the call for a single proof. In
  JavaScript all this runs in the thread pool, and the call panics without one.
\<close>

theorem batch_verify_pairs:
  "batch_spec (kp_batch_verify R os) index_from pf_from indexes proofs
     (caml_pasta_fp_plonk_proof_batch_verify R os index_from pf_from indexes proofs) \<and>
   caml_pasta_fq_plonk_proof_batch_verify R os index_from pf_from indexes proofs =
     caml_pasta_fp_plonk_proof_batch_verify R os index_from pf_from indexes proofs \<and>
   (let n = min (length indexes) (length proofs) in
      caml_pasta_fp_plonk_proof_batch_verify R os index_from pf_from indexes proofs =
      caml_pasta_fp_plonk_proof_batch_verify R os index_from pf_from (take n indexes) (take n proofs)) \<and>
   (\<forall>b. caml_pasta_fp_plonk_proof_batch_verify R os index_from pf_from [i] [p] = Ok b \<longleftrightarrow>
      caml_pasta_fp_plonk_proof_verify R os index_from pf_from i p = Ok b) \<and>
   (case thread_pool pool of
      None \<Rightarrow> \<exists>m. caml_plonk_proof_batch_verify_wasm pool windex_from R os windexes wproofs = Panic m
    | Some _ \<Rightarrow>
        batch_spec (kp_batch_verify R os) windex_from prover_proof_from_wasm windexes wproofs
          (caml_plonk_proof_batch_verify_wasm pool windex_from R os windexes wproofs) \<and>
        caml_plonk_proof_batch_verify_wasm pool windex_from R os [wi] [wp] =
          caml_plonk_proof_verify_wasm pool windex_from R os wi wp)"
proof -
  have batch: "batch_spec (kp_batch_verify R os) index_from pf_from indexes proofs
      (caml_pasta_fp_plonk_proof_batch_verify R os index_from pf_from indexes proofs)"
    using batch_spec_collect [of "kp_batch_verify R os" index_from pf_from indexes proofs]
    by (simp add: caml_pasta_fp_plonk_proof_batch_verify_def split_def)
  have single: "caml_pasta_fp_plonk_proof_batch_verify R os index_from pf_from [i] [p] = Ok b \<longleftrightarrow>
      caml_pasta_fp_plonk_proof_verify R os index_from pf_from i p = Ok b" for b
    by (auto simp: caml_pasta_fp_plonk_proof_batch_verify_def caml_pasta_fp_plonk_proof_verify_def and_then_Ok_iff)
  have wasm: "case thread_pool pool of
      None \<Rightarrow> \<exists>m. caml_plonk_proof_batch_verify_wasm pool windex_from R os windexes wproofs = Panic m
    | Some _ \<Rightarrow>
        batch_spec (kp_batch_verify R os) windex_from prover_proof_from_wasm windexes wproofs
          (caml_plonk_proof_batch_verify_wasm pool windex_from R os windexes wproofs) \<and>
        caml_plonk_proof_batch_verify_wasm pool windex_from R os [wi] [wp] =
          caml_plonk_proof_verify_wasm pool windex_from R os wi wp"
    using batch_spec_collect [of "kp_batch_verify R os" windex_from prover_proof_from_wasm windexes wproofs]
    by (auto simp: caml_plonk_proof_batch_verify_wasm_def caml_plonk_proof_verify_wasm_def run_in_pool_def split_def
        and_then_assoc split: option.split)
  show ?thesis
    using batch single wasm
    by (simp add: caml_pasta_fp_plonk_proof_batch_verify_def caml_pasta_fq_plonk_proof_batch_verify_def take_zip [symmetric] Let_def)
qed

text \<open>
  Two proofs of which the second does not verify, with two indexes and with one.
\<close>

lemma ref_batches:
  "caml_pasta_fp_plonk_proof_batch_verify (ref_prover ()) ref_entropy (\<lambda>i. Ok i) (\<lambda>p. Ok p) [(), ()] [(ref_proof, [1]), (ref_proof, [2])] = Ok False \<and>
   caml_pasta_fp_plonk_proof_batch_verify (ref_prover ()) ref_entropy (\<lambda>i. Ok i) (\<lambda>p. Ok p) [()] [(ref_proof, [1]), (ref_proof, [2])] = Ok True"
  by (simp add: caml_pasta_fp_plonk_proof_batch_verify_def ref_prover_def ref_proof_def dummy_prover_proof_def dummy_evals_def dummy_eval_def Let_def)

lemma case_outcome_Ok_iff:
  "(case r of Ok x \<Rightarrow> Ok (f x) | Err e \<Rightarrow> Err (g e) | Panic m \<Rightarrow> Panic m) = Ok y \<longleftrightarrow> (\<exists>x. r = Ok x \<and> y = f x)"
  by (cases r) auto

lemma recursion_challenges_Ok:
  "(\<exists>prev. recursion_challenges chals sgs = (Ok prev :: (('a, 'b poly_comm) recursion_challenge list, 'c) outcome)) \<longleftrightarrow>
   chals = [] \<or> sgs \<noteq> []"
  using recursion_challenges_value [of chals sgs] by (auto simp: recursion_challenges_def)

lemmas proof_create_defs = caml_pasta_fp_plonk_proof_create_def caml_pasta_fq_plonk_proof_create_def
  caml_pasta_fp_plonk_proof_prepare_def caml_pasta_fq_plonk_proof_prepare_def pallas_vesta_conversions

definition prover_call ::
  "('s, 'b affine, 'poly) srs_ops \<Rightarrow> ('t, 's, 'b affine, 'l, 'a, 'x, 'y, 'vi) kimchi_prover \<Rightarrow> entropy \<Rightarrow>
    ('t, 's, 'b affine, 'l, 'a, 'x, 'y) prover_index \<Rightarrow> 's list list \<Rightarrow> 's runtime_table list \<Rightarrow>
    ('s, 'b affine poly_comm) recursion_challenge list \<Rightarrow>
    ((('s, 'b affine) prover_proof \<times> 's list) \<times> 'b affine srs, ocaml_error) outcome" where
  "prover_call P R os index witness tables prev =
     (let index' = index\<lparr>pi_srs := so_add_lagrange_basis P (pi_srs index) (cs_domain_d1 (pi_cs index))\<rparr> in
      map_ok (\<lambda>pf. ((pf, take (cs_public (pi_cs index)) (witness ! 0)), pi_srs index'))
        (map_err_with ErrorBox (kp_create_recursive R os witness tables index' prev)))"

text \<open>
  C13. Creating a proof for OCaml. Challenges without commitments panic. A witness that does not have 15
  columns is an error for Fp and a panic for Fq. A first column shorter than the public input
  panics. Otherwise the prover is called with an index whose reference string has the basis of the
  domain cached, and the result is its error or its proof with the head of the first column as the
  public input; the string after the call has the same generators and a cache that is still well
  formed.
\<close>

theorem proof_create_outcomes:
  assumes "srs_contract P" and "lagrange_cache_ok (pi_srs index)"
  shows "let create_fp = caml_pasta_fp_plonk_proof_create P V R os rt_from pf_into index witness tables chals sgs;
      create_fq = caml_pasta_fq_plonk_proof_create P V R os rt_from pf_into index witness tables chals sgs in
    if chals \<noteq> [] \<and> sgs = [] then
      create_fp = Panic ''attempt to divide by zero'' \<and> create_fq = Panic ''attempt to divide by zero''
    else if length witness \<noteq> COLUMNS then
      create_fp = Err (Message ''the witness should be a column of 15 vectors'') \<and>
      create_fq = Panic ''the witness should be a column of 15 vectors''
    else if length (witness ! 0) < cs_public (pi_cs index) then
      create_fp = Panic ''range end index out of range'' \<and> create_fq = create_fp
    else
      create_fq = create_fp \<and>
      (\<exists>prev. recursion_challenges chals (map (affine_vesta_from_caml V) sgs) = (Ok prev :: (_, ocaml_error) outcome) \<and>
        create_fp = map_ok (map_prod pf_into (\<lambda>s. s)) (prover_call P R os index witness (map rt_from tables) prev) \<and>
        (\<forall>view srs'. create_fp = Ok (view, srs') \<longrightarrow>
          srs_g srs' = srs_g (pi_srs index) \<and> srs_h srs' = srs_h (pi_srs index) \<and> lagrange_cache_ok srs' \<and>
          (\<exists>bs. srs_lagrange_bases srs' (cs_domain_d1 (pi_cs index)) = Some bs \<and> length bs = cs_domain_d1 (pi_cs index))))"
proof -
  let ?d = "cs_domain_d1 (pi_cs index)"
  note cache = srs_contract.add_lagrange_basis_ok [OF assms, of ?d] srs_contract.add_keeps_generators [OF assms(1), of "pi_srs index" ?d]
  show ?thesis
  proof (cases "chals \<noteq> [] \<and> sgs = []")
    case True
    then show ?thesis by (simp add: proof_create_defs recursion_challenges_def Let_def)
  next
    case False
    then obtain prev where prev: "recursion_challenges chals (map (affine_vesta_from_caml V) sgs) = (Ok prev :: (_, ocaml_error) outcome)"
      using recursion_challenges_Ok [of chals "map (affine_vesta_from_caml V) sgs", where 'c = ocaml_error] by auto
    show ?thesis
      using False prev cache
      by (cases "kp_create_recursive R os witness (map rt_from tables)
            (index\<lparr>pi_srs := so_add_lagrange_basis P (pi_srs index) ?d\<rparr>) prev")
        (auto simp: Let_def proof_create_defs try_into_array_def vec_slice_def vec_index_def COLUMNS_def prover_call_def)
  qed
qed

definition ref_witness :: "nat list list" where
  "ref_witness = [7, 8] # replicate 14 [0, 0]"

theorem proof_create_outcomes_witness:
  "\<exists>pf srs'. caml_pasta_fp_plonk_proof_create (ref_srs_ops ref_affine) ref_curve_ops (ref_prover ()) ref_entropy (\<lambda>t. t) (\<lambda>p. p)
     (ref_prover_index 1) ref_witness [] [1] [Infinity] = Ok ((pf, [7]), srs') \<and> lagrange_cache_ok srs'"
proof -
  have "length ref_witness = COLUMNS" "ref_witness ! 0 = [7, 8]" "cs_public (pi_cs (ref_prover_index 1)) = 1"
    by (simp_all add: ref_witness_def COLUMNS_def ref_prover_index_def ref_cs_def)
  with proof_create_outcomes [OF ref_srs.srs_contract_axioms [of ref_affine] ref_prover_index_cache [of 1],
      where V = ref_curve_ops and R = "ref_prover ()" and os = ref_entropy and rt_from = "\<lambda>t. t" and pf_into = "\<lambda>p. p"
        and witness = ref_witness and tables = "[]" and chals = "[1]" and sgs = "[Infinity]"]
  show ?thesis
    by (auto simp: Let_def prover_call_def)
qed

text \<open>
  Creating and verifying. \<open>create_and_verify\<close> returns exactly what \<open>create\<close> returns when the
  verifier accepts the new proof under the index's own verifier index, and an error when it does not.
\<close>

theorem create_and_verify_is_create_checked:
  "caml_pasta_fp_plonk_proof_create_and_verify P V R os os' rt_from pf_into index witness tables chals sgs =
   and_then (caml_pasta_fp_plonk_proof_create P V R os rt_from (\<lambda>p. p) index witness tables chals sgs) (\<lambda>((pf, public), srs').
   and_then (map_err_with ErrorBox (kp_verify R os' (kp_verifier_index R (index\<lparr>pi_srs := srs'\<rparr>)) pf public)) (\<lambda>_.
     Ok (pf_into (pf, public), srs')))"
proof (cases "caml_pasta_fp_plonk_proof_prepare P V rt_from index witness tables chals sgs")
  case (Ok x)
  then obtain witness' tables' prev public where x: "x = (index\<lparr>pi_srs := so_add_lagrange_basis P (pi_srs index) (cs_domain_d1 (pi_cs index))\<rparr>,
      witness', tables', prev, public)"
    by (auto simp: caml_pasta_fp_plonk_proof_prepare_def Let_def)
  show ?thesis
    unfolding caml_pasta_fp_plonk_proof_create_and_verify_def caml_pasta_fp_plonk_proof_create_def Ok x
    by (auto split: outcome.split)
qed (simp_all add: caml_pasta_fp_plonk_proof_create_and_verify_def caml_pasta_fp_plonk_proof_create_def)

text \<open>
  C9. A proof made in JavaScript. Verifying the object that creation returned asks kimchi about exactly
  the proof of the prover, with the head of the first column as the public input, under the
  converted verifier index; the trip through JavaScript changes nothing.
\<close>

theorem wasm_created_proof_verified:
  assumes "kimchi_contract R" and "thread_pool pool = Some k"
    and "caml_plonk_proof_create_wasm pool P R os index witness tables chals sgs = Ok (w, srs')"
    and "index_from vindex = Ok vi"
  shows "\<exists>pf prev. recursion_challenges chals (map affine_vesta_from_wasm sgs) = (Ok prev :: (_, js_error) outcome) \<and>
    kp_create_recursive R os witness (map runtime_table_from_wasm tables) (index\<lparr>pi_srs := srs'\<rparr>) prev = Ok pf \<and>
    caml_plonk_proof_verify_wasm pool index_from R os' vindex w =
      Ok (kp_verify R os' vi pf (take (cs_public (pi_cs index)) (witness ! 0)) = Ok ())"
proof -
  let ?index = "index\<lparr>pi_srs := so_add_lagrange_basis P (pi_srs index) (cs_domain_d1 (pi_cs index))\<rparr>"
  obtain prev pf where prev: "recursion_challenges chals (map affine_vesta_from_wasm sgs) = (Ok prev :: (_, js_error) outcome)"
    and pf: "kp_create_recursive R os witness (map runtime_table_from_wasm tables) ?index prev = Ok pf"
    and w: "w = wasm_prover_proof_from (pf, take (cs_public (pi_cs index)) (witness ! 0))"
    and srs: "srs' = pi_srs ?index"
    using assms(3)
    by (auto simp: caml_plonk_proof_create_wasm_def assms(2) Let_def vec_slice_def case_outcome_Ok_iff split: if_splits)
  show ?thesis
    using prev pf srs kimchi_contract.columns [OF assms(1) pf] kimchi_contract.batch_single [OF assms(1)] assms(2,4)
    by (auto simp: caml_plonk_proof_verify_wasm_def w prover_proof_roundtrip)
qed

theorem wasm_created_proof_verified_witness:
  "\<exists>w srs'. caml_plonk_proof_create_wasm ready_pool (ref_srs_ops ref_affine) (ref_prover ()) ref_entropy (ref_prover_index 1) ref_witness [] [] [] =
       Ok (w, srs') \<and>
     caml_plonk_proof_verify_wasm ready_pool (\<lambda>i. Ok i) (ref_prover ()) ref_entropy () w = Ok True"
proof -
  obtain w srs' where w: "caml_plonk_proof_create_wasm ready_pool (ref_srs_ops ref_affine) (ref_prover ()) ref_entropy (ref_prover_index 1)
      ref_witness [] [] [] = Ok (w, srs')"
    by (simp add: caml_plonk_proof_create_wasm_def ready_pool_def Let_def recursion_challenges_def try_into_array_def ref_witness_def
        COLUMNS_def vec_index_def vec_slice_def ref_prover_index_def ref_cs_def ref_prover_def)
  have pool: "thread_pool ready_pool = Some 1" by (simp add: ready_pool_def)
  show ?thesis
    using w wasm_created_proof_verified [OF ref_prover.kimchi_contract_axioms [of "()"] pool w, of "\<lambda>i. Ok i" "()" "()" ref_entropy]
    by (auto simp: ref_prover_def ref_prove_def ref_prover_index_def ref_cs_def ref_witness_def recursion_challenges_def Let_def)
qed

end
