(* ===== verification/Binding_Session.thy ===== *)
theory Binding_Session
  imports Srs_Refinement Plonk_Proof
begin

text \<open>
  Sessions of the bindings for OCaml. A reference string lives behind an \<open>Arc\<close> that its OCaml handle
  and every prover index made from it share; the calls of \<^verbatim>\<open>stubs/src/srs.rs\<close>,
  \<^verbatim>\<open>stubs/src/pasta_fp_plonk_index.rs\<close>, \<^verbatim>\<open>stubs/src/pasta_fp_plonk_proof.rs\<close>,
  \<^verbatim>\<open>stubs/src/pasta_fp_plonk_verifier_index.rs\<close> and their versions for Fq write the bases they
  compute into the shared string, also when they fail afterwards. This theory composes them over a store of
  strings and indexes and shows that the sharing cannot be observed.
\<close>

section \<open>The state\<close>

text \<open>
  Handles are positions. An index keeps the handle of its string; what it sees is the string in the store.
\<close>

record ('t, 's, 'f, 'l, 'a, 'x, 'y) session =
  se_strings :: "'f affine srs list"
  se_indexes :: "(nat \<times> ('t, 's, 'f affine, 'l, 'a, 'x, 'y) prover_index) list"
  se_files :: files

datatype pasta_field = PastaFp | PastaFq

datatype ('t, 's, 'f) session_call =
    SrsCreate isize
  | SrsRead "isize option" string
  | SrsWrite "bool option" nat string
  | SrsLagrangeCommitment nat isize isize
  | SrsAddLagrangeBasis nat isize
  | SrsCommitEvaluations nat isize "'s list"
  | SrsH nat
  | IndexCreate nat "('t, 's) circuit_gate list" isize "'s lookup_table list" "'s runtime_table_cfg list" isize
  | IndexRead "isize option" nat string
  | IndexWrite "bool option" nat string
  | IndexSizes nat
  | ProofCreate entropy nat "'s list list" "'s runtime_table list" "'s list" "'f caml_group_affine list"
  | VerifierIndexCreate nat

text \<open>
  A call answers with a handle, a value, the error it returns or its panic; a handle that OCaml never got
  has no string or index behind it.
\<close>

datatype ('e, 'v) reply = Handle nat | Value 'v | Refused 'e | Panicked string | BadHandle

datatype ('s, 'f) session_value =
    NoString
  | Finished
  | CommitmentTo "'f affine poly_comm"
  | PointAt "'f caml_group_affine"
  | SizesOf "isize list"
  | ProofOf "('s, 'f affine) prover_proof \<times> 's list"
  | VerifierIndexOf "('s, 'f affine srs, 'f affine poly_comm) caml_plonk_verifier_index"

type_synonym ('s, 'f) session_answer = "(ocaml_error, ('s, 'f) session_value) reply"

definition answer_of :: "('x \<Rightarrow> 'v) \<Rightarrow> ('x, 'e) outcome \<Rightarrow> ('e, 'v) reply" where
  "answer_of ok r = (case r of Ok x \<Rightarrow> Value (ok x) | Err e \<Rightarrow> Refused e | Panic m \<Rightarrow> Panicked m)"

lemma answer_of_and_then:
  "(\<And>x. answer_of ok (f x) = answer_of ok (f' x)) \<Longrightarrow> answer_of ok (and_then r f) = answer_of ok (and_then r f')"
  by (cases r) (simp_all add: answer_of_def)

section \<open>What a call leaves in the shared string\<close>

text \<open>
  The basis is added before anything that can fail later, except for the domain itself.
\<close>

definition lagrange_commitment_effect :: "('s, 'g, 'poly) srs_ops \<Rightarrow> 'g srs \<Rightarrow> isize \<Rightarrow> 'g srs" where
  "lagrange_commitment_effect P srs domain_size =
     (case so_domain_new P (unat domain_size) of None \<Rightarrow> srs | Some x_domain \<Rightarrow> so_add_lagrange_basis P srs x_domain)"

definition proof_create_effect ::
  "('s, 'g, 'poly) srs_ops \<Rightarrow> ('t, 's, 'g, 'l, 'a, 'x, 'y) prover_index \<Rightarrow> 'g srs" where
  "proof_create_effect P index = so_add_lagrange_basis P (pi_srs index) (cs_domain_d1 (pi_cs index))"

section \<open>The calls\<close>

text \<open>
  \<open>wr ss a s\<close> is the list of strings after the string at \<open>a\<close> became \<open>s\<close>: the bindings
  mutate it, the specification works on copies and throws them away.
\<close>

type_synonym 'g write_back = "'g srs list \<Rightarrow> nat \<Rightarrow> 'g srs \<Rightarrow> 'g srs list"

definition shared_write :: "'g write_back" where
  "shared_write ss a s = ss[a := s]"

definition private_write :: "'g write_back" where
  "private_write ss a s = ss"

definition with_string ::
  "('t, 's, 'f, 'l, 'a, 'x, 'y) session \<Rightarrow> nat \<Rightarrow>
    ('f affine srs \<Rightarrow> ('e, 'v) reply \<times> ('t, 's, 'f, 'l, 'a, 'x, 'y) session) \<Rightarrow>
    ('e, 'v) reply \<times> ('t, 's, 'f, 'l, 'a, 'x, 'y) session" where
  "with_string st a f = (if a < length (se_strings st) then f (se_strings st ! a) else (BadHandle, st))"

definition with_index ::
  "('t, 's, 'f, 'l, 'a, 'x, 'y) session \<Rightarrow> nat \<Rightarrow>
    (nat \<Rightarrow> ('t, 's, 'f affine, 'l, 'a, 'x, 'y) prover_index \<Rightarrow>
      ('e, 'v) reply \<times> ('t, 's, 'f, 'l, 'a, 'x, 'y) session) \<Rightarrow>
    ('e, 'v) reply \<times> ('t, 's, 'f, 'l, 'a, 'x, 'y) session" where
  "with_index st k f =
     (if k < length (se_indexes st)
      then case se_indexes st ! k of (a, index) \<Rightarrow> f a (index\<lparr>pi_srs := se_strings st ! a\<rparr>)
      else (BadHandle, st))"

definition new_string ::
  "('t, 's, 'f, 'l, 'a, 'x, 'y) session \<Rightarrow> 'f affine srs \<Rightarrow>
    ('e, 'v) reply \<times> ('t, 's, 'f, 'l, 'a, 'x, 'y) session" where
  "new_string st s = (Handle (length (se_strings st)), st\<lparr>se_strings := se_strings st @ [s]\<rparr>)"

definition new_index ::
  "('t, 's, 'f, 'l, 'a, 'x, 'y) session \<Rightarrow> nat \<Rightarrow> ('t, 's, 'f affine, 'l, 'a, 'x, 'y) prover_index \<Rightarrow>
    ('e, 'v) reply \<times> ('t, 's, 'f, 'l, 'a, 'x, 'y) session" where
  "new_index st a index = (Handle (length (se_indexes st)), st\<lparr>se_indexes := se_indexes st @ [(a, index)]\<rparr>)"

definition store ::
  "'f affine write_back \<Rightarrow> ('t, 's, 'f, 'l, 'a, 'x, 'y) session \<Rightarrow> nat \<Rightarrow> 'f affine srs \<Rightarrow>
    ('t, 's, 'f, 'l, 'a, 'x, 'y) session" where
  "store wr st a s = st\<lparr>se_strings := wr (se_strings st) a s\<rparr>"

definition after ::
  "('x \<Rightarrow> ('e, 'v) reply \<times> ('t, 's, 'f, 'l, 'a, 'x1, 'y) session) \<Rightarrow>
    ('t, 's, 'f, 'l, 'a, 'x1, 'y) session \<Rightarrow> ('x, 'e) outcome \<Rightarrow>
    ('e, 'v) reply \<times> ('t, 's, 'f, 'l, 'a, 'x1, 'y) session" where
  "after ok st r = (case r of Ok x \<Rightarrow> ok x | Err e \<Rightarrow> (Refused e, st) | Panic m \<Rightarrow> (Panicked m, st))"

text \<open>
  The string inside the OCaml view of a verifier index is a handle, of which OCaml sees nothing but what
  the other calls return.
\<close>

definition opaque_string ::
  "('s, 'g srs, 'c) caml_plonk_verifier_index \<Rightarrow> ('s, 'g srs, 'c) caml_plonk_verifier_index" where
  "opaque_string vi = vi\<lparr>cvi_srs := uncached (cvi_srs vi)\<rparr>"

fun session_step ::
  "'f affine write_back \<Rightarrow> pasta_field \<Rightarrow> bool \<Rightarrow> ('s, 'f affine, 'poly) srs_ops \<Rightarrow>
    ('t, 's, 'f affine, 'e, 'l, 'a, 'x, 'y) index_ops \<Rightarrow> ('k, 'f, 'p) curve_ops \<Rightarrow>
    ('t, 's, 'f affine, 'l, 'a, 'x, 'y, (u64, 's, 'e, 'f affine srs, 'f affine poly_comm, 'a, 'l, 'v) verifier_index) kimchi_prover \<Rightarrow>
    ('t, 's, 'f, 'l, 'a, 'x, 'y) session \<Rightarrow> ('t, 's, 'f) session_call \<Rightarrow>
    ('s, 'f) session_answer \<times> ('t, 's, 'f, 'l, 'a, 'x, 'y) session" where
  "session_step wr c ch P X V R st (SrsCreate depth) = new_string st (caml_srs_create P depth)"
| "session_step wr c ch P X V R st (SrsRead offset path) =
     after (\<lambda>r. case r of Some s \<Rightarrow> new_string st s | None \<Rightarrow> (Value NoString, st)) st (caml_srs_read P (se_files st) offset path)"
| "session_step wr c ch P X V R st (SrsWrite append_mode a path) =
     with_string st a (\<lambda>s.
       after (\<lambda>fs. (Value Finished, st\<lparr>se_files := fs\<rparr>)) st (caml_srs_write P (se_files st) append_mode s path))"
| "session_step wr c ch P X V R st (SrsLagrangeCommitment a domain_size i) =
     with_string st a (\<lambda>s.
       (answer_of (\<lambda>(comm, _). CommitmentTo comm) (caml_srs_lagrange_commitment P (\<lambda>comm. comm) s domain_size i),
        store wr st a (lagrange_commitment_effect P s domain_size)))"
| "session_step wr c ch P X V R st (SrsAddLagrangeBasis a log2_size) =
     with_string st a (\<lambda>s.
       after (\<lambda>s'. (Value Finished, store wr st a s')) st (caml_srs_add_lagrange_basis ch P s log2_size))"
| "session_step wr c ch P X V R st (SrsCommitEvaluations a domain_size evals) =
     with_string st a (\<lambda>s.
       (answer_of CommitmentTo (caml_srs_commit_evaluations P (\<lambda>comm. comm) s domain_size evals), st))"
| "session_step wr c ch P X V R st (SrsH a) = with_string st a (\<lambda>s. (Value (PointAt (caml_srs_h s)), st))"
| "session_step wr c ch P X V R st (IndexCreate a gates public lookup_tables runtime_tables prev_challenges) =
     with_string st a (\<lambda>s.
       after (\<lambda>(index, s'). new_index (store wr st a s') a index) st
         ((case c of PastaFp \<Rightarrow> caml_pasta_fp_plonk_index_create | PastaFq \<Rightarrow> caml_pasta_fq_plonk_index_create)
            P X (\<lambda>t. t) (\<lambda>t. t) gates public lookup_tables runtime_tables prev_challenges s))"
| "session_step wr c ch P X V R st (IndexRead offset a path) =
     with_string st a (\<lambda>s.
       after (new_index st a) st
         ((case c of PastaFp \<Rightarrow> caml_pasta_fp_plonk_index_read | PastaFq \<Rightarrow> caml_pasta_fq_plonk_index_read)
            X (se_files st) offset s path))"
| "session_step wr c ch P X V R st (IndexWrite append_mode k path) =
     with_index st k (\<lambda>a index.
       after (\<lambda>fs. (Value Finished, st\<lparr>se_files := fs\<rparr>)) st
         ((case c of PastaFp \<Rightarrow> caml_pasta_fp_plonk_index_write | PastaFq \<Rightarrow> caml_pasta_fq_plonk_index_write)
            X (se_files st) append_mode index path))"
| "session_step wr c ch P X V R st (IndexSizes k) =
     with_index st k (\<lambda>a index.
       (Value (SizesOf (case c of
          PastaFp \<Rightarrow> [caml_pasta_fp_plonk_index_public_inputs index, caml_pasta_fp_plonk_index_domain_d1_size index,
            caml_pasta_fp_plonk_index_domain_d4_size index, caml_pasta_fp_plonk_index_domain_d8_size index,
            caml_pasta_fp_plonk_index_max_degree X index]
        | PastaFq \<Rightarrow> [caml_pasta_fq_plonk_index_public_inputs index, caml_pasta_fq_plonk_index_domain_d1_size index,
            caml_pasta_fq_plonk_index_domain_d4_size index, caml_pasta_fq_plonk_index_domain_d8_size index,
            caml_pasta_fq_plonk_index_max_degree X index])), st))"
| "session_step wr c ch P X V R st (ProofCreate os k witness runtime_tables prev_challenges prev_sgs) =
     with_index st k (\<lambda>a index.
       (answer_of (\<lambda>(pf, _). ProofOf pf)
          ((case c of PastaFp \<Rightarrow> caml_pasta_fp_plonk_proof_create | PastaFq \<Rightarrow> caml_pasta_fq_plonk_proof_create)
             P V R os (\<lambda>t. t) (\<lambda>pf. pf) index witness runtime_tables prev_challenges prev_sgs),
        store wr st a (proof_create_effect P index)))"
| "session_step wr c ch P X V R st (VerifierIndexCreate k) =
     with_index st k (\<lambda>a index.
       case (case c of PastaFp \<Rightarrow> caml_pasta_fp_plonk_verifier_index_create | PastaFq \<Rightarrow> caml_pasta_fq_plonk_verifier_index_create)
           P (\<lambda>comm. comm) (\<lambda>s. kp_verifier_index R (index\<lparr>pi_srs := s\<rparr>)) (cs_domain_d1 (pi_cs index)) (pi_srs index) of
         (vi, s') \<Rightarrow> (Value (VerifierIndexOf (opaque_string vi)), store wr st a s'))"

fun session_run ::
  "'f affine write_back \<Rightarrow> pasta_field \<Rightarrow> bool \<Rightarrow> ('s, 'f affine, 'poly) srs_ops \<Rightarrow>
    ('t, 's, 'f affine, 'e, 'l, 'a, 'x, 'y) index_ops \<Rightarrow> ('k, 'f, 'p) curve_ops \<Rightarrow>
    ('t, 's, 'f affine, 'l, 'a, 'x, 'y, (u64, 's, 'e, 'f affine srs, 'f affine poly_comm, 'a, 'l, 'v) verifier_index) kimchi_prover \<Rightarrow>
    ('t, 's, 'f, 'l, 'a, 'x, 'y) session \<Rightarrow> ('t, 's, 'f) session_call list \<Rightarrow>
    ('s, 'f) session_answer list \<times> ('t, 's, 'f, 'l, 'a, 'x, 'y) session" where
  "session_run wr c ch P X V R st [] = ([], st)"
| "session_run wr c ch P X V R st (call # calls) =
     (let (x, st) = session_step wr c ch P X V R st call;
          (xs, st) = session_run wr c ch P X V R st calls
      in (x # xs, st))"


section \<open>What the bindings rely on\<close>

text \<open>
  Two strings are the same for an operation on a domain when they have the same generators and the same
  basis of that domain.
\<close>

definition same_on :: "nat \<Rightarrow> 'g srs \<Rightarrow> 'g srs \<Rightarrow> bool" where
  "same_on d s s' \<longleftrightarrow> generators s = generators s' \<and> srs_lagrange_bases s d = srs_lagrange_bases s' d"

text \<open>
  A new string has an empty cache, committing and the sizes of a string use its generators, and the binary
  formats contain neither the cache nor, for an index, the string. Kimchi reads from the
  string of an index nothing but its generators and the basis of the domain of the index.
\<close>

locale sharing_contract = lagrange_contract P basis + index_contract X
  for P :: "('s, 'f affine, 'poly) srs_ops" and basis :: "'f affine lagrange"
    and X :: "('t, 's, 'f affine, 'e, 'l, 'a, 'x, 'y) index_ops" +
  fixes R :: "('t, 's, 'f affine, 'l, 'a, 'x, 'y, 'vi) kimchi_prover"
  assumes create_uncached: "srs_lagrange_bases (so_create P n) = Map.empty"
    and read_uncached: "so_deserialize P bs = Some s \<Longrightarrow> srs_lagrange_bases s = Map.empty"
    and write_uncached: "so_serialize P (uncached s) = so_serialize P s"
    and commit_generators: "so_commit_non_hiding P (uncached s) p n = so_commit_non_hiding P s p n"
    and size_generators: "ix_max_poly_size X (uncached s) = ix_max_poly_size X s" "ix_max_degree X (uncached s) = ix_max_degree X s"
    and index_format: "ix_serialize X (index\<lparr>pi_srs := s\<rparr>) = ix_serialize X index"
    and create_reads: "same_on (cs_domain_d1 cs) s s' \<Longrightarrow>
      (ix_create X cs e s)\<lparr>pi_srs := u\<rparr> = (ix_create X cs e s')\<lparr>pi_srs := u\<rparr>"
    and digest_reads: "same_on (cs_domain_d1 (pi_cs index)) s s' \<Longrightarrow>
      (ix_compute_digest X (index\<lparr>pi_srs := s\<rparr>))\<lparr>pi_srs := u\<rparr> = (ix_compute_digest X (index\<lparr>pi_srs := s'\<rparr>))\<lparr>pi_srs := u\<rparr>"
    and prover_reads: "same_on (cs_domain_d1 (pi_cs index)) s s' \<Longrightarrow>
      kp_create_recursive R os witness tables (index\<lparr>pi_srs := s\<rparr>) prev = kp_create_recursive R os witness tables (index\<lparr>pi_srs := s'\<rparr>) prev"

text \<open>
  The verifier index of a prover index holds its string, and its other fields do not depend on the rest of
  the cache. The type of the verifier index is the one of the 64-bit bindings.
\<close>

locale session_contract = sharing_contract P basis X R
  for P :: "('s, 'f affine, 'poly) srs_ops" and basis :: "'f affine lagrange"
    and X :: "('t, 's, 'f affine, 'e, 'l, 'a, 'x, 'y) index_ops"
    and R :: "('t, 's, 'f affine, 'l, 'a, 'x, 'y,
      (u64, 's, 'e, 'f affine srs, 'f affine poly_comm, 'a, 'l, 'v) verifier_index) kimchi_prover" +
  assumes verifier_index_reads: "same_on (cs_domain_d1 (pi_cs index)) s s' \<Longrightarrow>
      (kp_verifier_index R (index\<lparr>pi_srs := s\<rparr>))\<lparr>vi_srs := u\<rparr> = (kp_verifier_index R (index\<lparr>pi_srs := s'\<rparr>))\<lparr>vi_srs := u\<rparr>"
    and verifier_index_string: "vi_srs (kp_verifier_index R index) = pi_srs index"

section \<open>The simulation\<close>

text \<open>
  Two strings simulate each other when they have the same generators and only bases of these; two sessions,
  when their strings do and their indexes differ at most in the copy of the string inside.
\<close>

definition string_sim :: "'g lagrange \<Rightarrow> 'g srs \<Rightarrow> 'g srs \<Rightarrow> bool" where
  "string_sim basis s s' \<longleftrightarrow> generators s = generators s' \<and> cache_faithful basis s \<and> cache_faithful basis s'"

definition index_sim ::
  "nat \<Rightarrow> nat \<times> ('t, 's, 'g, 'l, 'a, 'x, 'y) prover_index \<Rightarrow> nat \<times> ('t, 's, 'g, 'l, 'a, 'x, 'y) prover_index \<Rightarrow> bool" where
  "index_sim n i i' \<longleftrightarrow> fst i = fst i' \<and> fst i < n \<and> (\<forall>u. (snd i)\<lparr>pi_srs := u\<rparr> = (snd i')\<lparr>pi_srs := u\<rparr>)"

definition session_sim ::
  "'f affine lagrange \<Rightarrow> ('t, 's, 'f, 'l, 'a, 'x, 'y) session \<Rightarrow> ('t, 's, 'f, 'l, 'a, 'x, 'y) session \<Rightarrow> bool" where
  "session_sim basis st st' \<longleftrightarrow>
     list_all2 (string_sim basis) (se_strings st) (se_strings st') \<and>
     list_all2 (index_sim (length (se_strings st))) (se_indexes st) (se_indexes st') \<and>
     se_files st = se_files st'"

lemma uncached_eq: "generators s = generators s' \<Longrightarrow> uncached s = uncached s'"
  by (cases s; cases s') (simp add: generators_def uncached_def)

lemma string_sim_uncached: "string_sim basis s s' \<Longrightarrow> uncached s = uncached s'"
  by (rule uncached_eq) (simp add: string_sim_def)

lemma string_sim_swap:
  "string_sim basis s s' \<Longrightarrow> string_sim basis t t' \<Longrightarrow> generators s = generators t \<Longrightarrow> string_sim basis s t'"
  by (simp add: string_sim_def)

text \<open>
  Writing to strings that simulate each other keeps the simulation, whether the write happens or not.
\<close>

definition may_write :: "'g write_back \<Rightarrow> bool" where
  "may_write wr \<longleftrightarrow> (\<forall>ss a s. wr ss a s = ss \<or> wr ss a s = ss[a := s])"

lemma may_write [simp]: "may_write shared_write" "may_write private_write"
  by (simp_all add: may_write_def shared_write_def private_write_def)

lemma write_sim:
  assumes "list_all2 (string_sim basis) ss ss'" and "a < length ss" and "string_sim basis s s'"
    and "generators s = generators (ss ! a)" and "may_write wr" and "may_write wr'"
  shows "list_all2 (string_sim basis) (wr ss a s) (wr' ss' a s') \<and> length (wr ss a s) = length ss"
proof -
  have at: "string_sim basis (ss ! a) (ss' ! a)" using assms(1,2) by (rule list_all2_nthD)
  have "list_all2 (string_sim basis) (ss[a := s]) (ss'[a := s'])"
    using assms(1,3) by (rule list_all2_update_cong)
  moreover have "list_all2 (string_sim basis) (ss[a := s]) (ss'[a := ss' ! a])"
    using assms(1) string_sim_swap [OF assms(3) at assms(4)] by (rule list_all2_update_cong)
  moreover have "list_all2 (string_sim basis) (ss[a := ss ! a]) (ss'[a := s'])"
    using assms(1) string_sim_swap [OF at assms(3) assms(4) [symmetric]] by (rule list_all2_update_cong)
  ultimately show ?thesis
    using assms(1,5,6) unfolding may_write_def by (metis list_update_id length_list_update)
qed

definition step_sim ::
  "'f affine lagrange \<Rightarrow> ('e, 'v) reply \<times> ('t, 's, 'f, 'l, 'a, 'x, 'y) session \<Rightarrow>
    ('e, 'v) reply \<times> ('t, 's, 'f, 'l, 'a, 'x, 'y) session \<Rightarrow> bool" where
  "step_sim basis r r' \<longleftrightarrow> fst r = fst r' \<and> session_sim basis (snd r) (snd r')"

lemma with_string_sim:
  assumes "session_sim basis st st'"
    and "\<And>s s'. a < length (se_strings st) \<Longrightarrow> s = se_strings st ! a \<Longrightarrow> string_sim basis s s' \<Longrightarrow> step_sim basis (f s) (f' s')"
  shows "step_sim basis (with_string st a f) (with_string st' a f')"
proof -
  have strings: "list_all2 (string_sim basis) (se_strings st) (se_strings st')" using assms(1) by (simp add: session_sim_def)
  show ?thesis
    using list_all2_nthD [OF strings] list_all2_lengthD [OF strings] assms
    by (auto simp: with_string_def step_sim_def)
qed

lemma with_index_sim:
  assumes "session_sim basis st st'"
    and "\<And>a index s s'. a < length (se_strings st) \<Longrightarrow> s = se_strings st ! a \<Longrightarrow> string_sim basis s s' \<Longrightarrow>
      step_sim basis (f a (index\<lparr>pi_srs := s\<rparr>)) (f' a (index\<lparr>pi_srs := s'\<rparr>))"
  shows "step_sim basis (with_index st k f) (with_index st' k f')"
proof -
  have strings: "list_all2 (string_sim basis) (se_strings st) (se_strings st')"
    and indexes: "list_all2 (index_sim (length (se_strings st))) (se_indexes st) (se_indexes st')"
    using assms(1) by (simp_all add: session_sim_def)
  show ?thesis
  proof (cases "k < length (se_indexes st)")
    case True
    obtain a i where i: "se_indexes st ! k = (a, i)" by fastforce
    obtain a' i' where i': "se_indexes st' ! k = (a', i')" by fastforce
    have "index_sim (length (se_strings st)) (a, i) (a', i')" using list_all2_nthD [OF indexes True] i i' by simp
    then have "a' = a" "a < length (se_strings st)" "i'\<lparr>pi_srs := u\<rparr> = i\<lparr>pi_srs := u\<rparr>" for u
      by (simp_all add: index_sim_def)
    with True i i' list_all2_lengthD [OF indexes] assms(2) [OF _ refl list_all2_nthD [OF strings]]
    show ?thesis by (simp add: with_index_def)
  next
    case False
    then show ?thesis using assms(1) list_all2_lengthD [OF indexes] by (simp add: with_index_def step_sim_def)
  qed
qed

lemma new_string_sim: "session_sim basis st st' \<Longrightarrow> string_sim basis s s' \<Longrightarrow> step_sim basis (new_string st s) (new_string st' s')"
  by (auto simp: step_sim_def new_string_def session_sim_def index_sim_def list_all2_appendI elim!: list_all2_mono dest: list_all2_lengthD)

lemma new_index_sim:
  "session_sim basis st st' \<Longrightarrow> a < length (se_strings st) \<Longrightarrow> (\<And>u. i\<lparr>pi_srs := u\<rparr> = i'\<lparr>pi_srs := u\<rparr>) \<Longrightarrow>
   step_sim basis (new_index st a i) (new_index st' a i')"
  by (auto simp: step_sim_def new_index_def session_sim_def index_sim_def list_all2_appendI dest: list_all2_lengthD)

lemma store_sim:
  assumes "session_sim basis st st'" and "a < length (se_strings st)" and "string_sim basis s s'"
    and "generators s = generators (se_strings st ! a)" and "may_write wr" and "may_write wr'"
  shows "session_sim basis (store wr st a s) (store wr' st' a s')"
    and "length (se_strings (store wr st a s)) = length (se_strings st)"
  using assms write_sim [of basis "se_strings st" "se_strings st'" a s s' wr wr']
  by (simp_all add: session_sim_def store_def)

lemma after_sim:
  assumes "session_sim basis st st'" and "\<And>x. r = Ok x \<Longrightarrow> step_sim basis (ok x) (ok' x)"
  shows "step_sim basis (after ok st r) (after ok' st' r)"
  using assms by (cases r) (auto simp: after_def step_sim_def)

lemma after_and_then:
  assumes "session_sim basis st st'" and "\<And>x. r = Ok x \<Longrightarrow> step_sim basis (after ok st (f x)) (after ok' st' (f' x))"
  shows "step_sim basis (after ok st (and_then r f)) (after ok' st' (and_then r f'))"
  using assms by (cases r) (auto simp: after_def step_sim_def)

lemma after_Ok [simp]: "after ok st (Ok x) = ok x"
  by (simp add: after_def)

lemma step_simI: "session_sim basis st st' \<Longrightarrow> step_sim basis (x, st) (x, st')"
  by (simp add: step_sim_def)

lemma files_sim: "session_sim basis st st' \<Longrightarrow> session_sim basis (st\<lparr>se_files := fs\<rparr>) (st'\<lparr>se_files := fs\<rparr>)"
  by (simp add: session_sim_def)

lemma map_ok_and_then: "and_then r (\<lambda>x. Ok (f x)) = map_ok f r"
  by (cases r) simp_all

lemmas index_size_defs =
  caml_pasta_fp_plonk_index_public_inputs_def caml_pasta_fp_plonk_index_domain_d1_size_def
  caml_pasta_fp_plonk_index_domain_d4_size_def caml_pasta_fp_plonk_index_domain_d8_size_def
  caml_pasta_fp_plonk_index_max_degree_def
  caml_pasta_fq_plonk_index_public_inputs_def caml_pasta_fq_plonk_index_domain_d1_size_def
  caml_pasta_fq_plonk_index_domain_d4_size_def caml_pasta_fq_plonk_index_domain_d8_size_def
  caml_pasta_fq_plonk_index_max_degree_def

context sharing_contract
begin

lemma uncached_faithful [simp]: "srs_lagrange_bases s = Map.empty \<Longrightarrow> cache_faithful basis s"
  by (simp add: cache_faithful_def)

lemma add_sim:
  assumes "string_sim basis s s'"
  shows "string_sim basis (so_add_lagrange_basis P s d) (so_add_lagrange_basis P s' d)"
    and "string_sim basis (so_add_lagrange_basis P s d) s'"
    and "string_sim basis s (so_add_lagrange_basis P s' d)"
    and "same_on d (so_add_lagrange_basis P s d) (so_add_lagrange_basis P s' d)"
  using assms add_faithful [of s] add_faithful [of s']
  by (auto simp: string_sim_def same_on_def) (simp add: generators_def)+

lemma add_keeps [simp]: "generators (so_add_lagrange_basis P s d) = generators s"
  by (fact generators_add)

lemma lagrange_commitment_sim:
  assumes "string_sim basis s s'"
  shows "answer_of (\<lambda>(comm, _). CommitmentTo comm) (caml_srs_lagrange_commitment P (\<lambda>comm. comm) s n i) =
    answer_of (\<lambda>(comm, _). CommitmentTo comm) (caml_srs_lagrange_commitment P (\<lambda>comm. comm) s' n i)"
proof (cases "so_domain_new P (unat n)")
  case (Some d)
  then show ?thesis
    using add_sim(4) [OF assms, of d]
    by (cases "srs_lagrange_bases (so_add_lagrange_basis P s' d) d")
      (simp_all add: caml_srs_lagrange_commitment_def answer_of_def hash_index_def vec_index_def same_on_def Let_def)
qed (simp add: caml_srs_lagrange_commitment_def answer_of_def)

lemma srs_write_sim:
  assumes "string_sim basis s s'"
  shows "caml_srs_write P fs append_mode s path = caml_srs_write P fs append_mode s' path"
proof -
  have "so_serialize P s = so_serialize P s'"
    using write_uncached [of s] write_uncached [of s'] string_sim_uncached [OF assms] by simp
  then show ?thesis by (simp add: caml_srs_write_def)
qed

lemma commit_evaluations_sim:
  assumes "string_sim basis s s'"
  shows "caml_srs_commit_evaluations P (\<lambda>comm. comm) s n evals = caml_srs_commit_evaluations P (\<lambda>comm. comm) s' n evals"
proof -
  have "so_commit_non_hiding P s p k = so_commit_non_hiding P s' p k" for p k
    using commit_generators [of s] commit_generators [of s'] string_sim_uncached [OF assms] by metis
  then show ?thesis by (simp add: caml_srs_commit_evaluations_def)
qed

lemma sizes_sim:
  assumes "string_sim basis s s'"
  shows "ix_max_poly_size X s = ix_max_poly_size X s'" and "ix_max_degree X s = ix_max_degree X s'"
  using size_generators [of s] size_generators [of s'] string_sim_uncached [OF assms] by simp_all

lemma read_sim: "caml_srs_read P fs offset path = Ok (Some s) \<Longrightarrow> string_sim basis s s"
  by (auto simp: string_sim_def caml_srs_read_def split: option.splits intro!: uncached_faithful intro: read_uncached)

text \<open>
  An index made from two such strings differs only in the string.
\<close>

lemma finish_index_sim:
  assumes "string_sim basis s s'" and "finish_index P X s cs = (i, t)" and "finish_index P X s' cs = (i', t')"
  shows "i\<lparr>pi_srs := u\<rparr> = i'\<lparr>pi_srs := u\<rparr>" and "string_sim basis t t'" and "generators t = generators s"
proof -
  let ?t = "so_add_lagrange_basis P s (cs_domain_d1 cs)" and ?t' = "so_add_lagrange_basis P s' (cs_domain_d1 cs)"
  let ?c = "ix_create X cs (ix_endo_q X) ?t" and ?c' = "ix_create X cs (ix_endo_q X) ?t'"
  have same: "same_on (cs_domain_d1 cs) ?t ?t'" using add_sim(4) [OF assms(1)] .
  have "?c' = ?c\<lparr>pi_srs := ?t'\<rparr>"
    using create_reads [OF same, where e = "ix_endo_q X" and u = ?t'] create_srs [of cs "ix_endo_q X" ?t'] by simp
  moreover have "?c = ?c\<lparr>pi_srs := ?t\<rparr>" using create_srs [of cs "ix_endo_q X" ?t] by simp
  ultimately have "(ix_compute_digest X ?c)\<lparr>pi_srs := u\<rparr> = (ix_compute_digest X ?c')\<lparr>pi_srs := u\<rparr>"
    using digest_reads [of ?c ?t ?t' u] same create_domain [of cs "ix_endo_q X" ?t] by simp
  then show "i\<lparr>pi_srs := u\<rparr> = i'\<lparr>pi_srs := u\<rparr>" using assms(2,3) by (auto simp: finish_index_def Let_def)
  show "string_sim basis t t'" and "generators t = generators s"
    using assms(2,3) add_sim(1) [OF assms(1)] by (auto simp: finish_index_def Let_def)
qed

lemma proof_create_sim:
  assumes "string_sim basis s s'"
  shows "answer_of (\<lambda>(pf, _). ProofOf pf) (caml_pasta_fp_plonk_proof_create P V R os rt_from pf_into (index\<lparr>pi_srs := s\<rparr>) witness tables chals sgs) =
      answer_of (\<lambda>(pf, _). ProofOf pf) (caml_pasta_fp_plonk_proof_create P V R os rt_from pf_into (index\<lparr>pi_srs := s'\<rparr>) witness tables chals sgs)"
    and "answer_of (\<lambda>(pf, _). ProofOf pf) (caml_pasta_fq_plonk_proof_create P V R os rt_from pf_into (index\<lparr>pi_srs := s\<rparr>) witness tables chals sgs) =
      answer_of (\<lambda>(pf, _). ProofOf pf) (caml_pasta_fq_plonk_proof_create P V R os rt_from pf_into (index\<lparr>pi_srs := s'\<rparr>) witness tables chals sgs)"
proof -
  let ?d = "cs_domain_d1 (pi_cs index)"
  have "kp_create_recursive R os w ts (index\<lparr>pi_srs := so_add_lagrange_basis P s ?d\<rparr>) prev =
      kp_create_recursive R os w ts (index\<lparr>pi_srs := so_add_lagrange_basis P s' ?d\<rparr>) prev" for w ts prev
    using prover_reads add_sim(4) [OF assms] by blast
  then show "answer_of (\<lambda>(pf, _). ProofOf pf) (caml_pasta_fp_plonk_proof_create P V R os rt_from pf_into (index\<lparr>pi_srs := s\<rparr>) witness tables chals sgs) =
      answer_of (\<lambda>(pf, _). ProofOf pf) (caml_pasta_fp_plonk_proof_create P V R os rt_from pf_into (index\<lparr>pi_srs := s'\<rparr>) witness tables chals sgs)"
    and "answer_of (\<lambda>(pf, _). ProofOf pf) (caml_pasta_fq_plonk_proof_create P V R os rt_from pf_into (index\<lparr>pi_srs := s\<rparr>) witness tables chals sgs) =
      answer_of (\<lambda>(pf, _). ProofOf pf) (caml_pasta_fq_plonk_proof_create P V R os rt_from pf_into (index\<lparr>pi_srs := s'\<rparr>) witness tables chals sgs)"
    by (simp_all add: proof_create_defs Let_def and_then_assoc)
      (intro answer_of_and_then; simp add: answer_of_def split: outcome.splits)+
qed

lemma index_create_sim:
  assumes sim: "session_sim basis st st'" and a: "a < length (se_strings st)" and s: "s = se_strings st ! a" "string_sim basis s s'"
    and wr: "may_write wr" "may_write wr'"
  shows "step_sim basis (after (\<lambda>(index, t). new_index (store wr st a t) a index) st (map_ok (finish_index P X s) r))
    (after (\<lambda>(index, t). new_index (store wr' st' a t) a index) st' (map_ok (finish_index P X s') r))"
proof (cases r)
  case (Ok cs)
  obtain i t where fin: "finish_index P X s cs = (i, t)" by fastforce
  obtain i' t' where fin': "finish_index P X s' cs = (i', t')" by fastforce
  note facts = finish_index_sim [OF s(2) fin fin']
  have "generators t = generators (se_strings st ! a)" using facts(3) s(1) by simp
  then show ?thesis
    using store_sim [OF sim a facts(2) _ wr] facts(1) a by (simp add: Ok fin fin' new_index_sim)
qed (use sim in \<open>simp_all add: after_def step_sim_def\<close>)

lemma restore_index_sim: "(restore_index X s t)\<lparr>pi_srs := u\<rparr> = (restore_index X s' t)\<lparr>pi_srs := u\<rparr>"
  by (simp add: restore_index_def split: prod.split)

end

context session_contract
begin

lemma verifier_index_sim:
  assumes "string_sim basis s s'" and "v = kp_verifier_index R (index\<lparr>pi_srs := t\<rparr>)" and "v' = kp_verifier_index R (index\<lparr>pi_srs := t'\<rparr>)"
    and "t = so_add_lagrange_basis P s (cs_domain_d1 (pi_cs index))" and "t' = so_add_lagrange_basis P s' (cs_domain_d1 (pi_cs index))"
  shows "opaque_string (caml_pasta_fp_plonk_verifier_index_from pc_into v) = opaque_string (caml_pasta_fp_plonk_verifier_index_from pc_into v')"
    and "opaque_string (caml_pasta_fq_plonk_verifier_index_from pc_into v) = opaque_string (caml_pasta_fq_plonk_verifier_index_from pc_into v')"
proof -
  have u: "uncached (vi_srs v) = uncached (vi_srs v')"
    using string_sim_uncached [OF add_sim(1) [OF assms(1)]] by (simp add: assms(2-5) verifier_index_string)
  have eq: "v\<lparr>vi_srs := uncached (vi_srs v)\<rparr> = v'\<lparr>vi_srs := uncached (vi_srs v')\<rparr>"
    using verifier_index_reads [OF add_sim(4) [OF assms(1)]] u by (simp add: assms(2-5))
  have view: "opaque_string (caml_pasta_fp_plonk_verifier_index_from pc_into v) =
      caml_pasta_fp_plonk_verifier_index_from pc_into (v\<lparr>vi_srs := uncached (vi_srs v)\<rparr>)"
    and view': "opaque_string (caml_pasta_fq_plonk_verifier_index_from pc_into v) =
      caml_pasta_fq_plonk_verifier_index_from pc_into (v\<lparr>vi_srs := uncached (vi_srs v)\<rparr>)" for v
    by (simp_all add: opaque_string_def caml_pasta_fp_plonk_verifier_index_from_def caml_pasta_fq_plonk_verifier_index_from_def)
  show "opaque_string (caml_pasta_fp_plonk_verifier_index_from pc_into v) = opaque_string (caml_pasta_fp_plonk_verifier_index_from pc_into v')"
    and "opaque_string (caml_pasta_fq_plonk_verifier_index_from pc_into v) = opaque_string (caml_pasta_fq_plonk_verifier_index_from pc_into v')"
    unfolding view view' eq by (rule refl)+
qed

lemma step_refines:
  assumes sim: "session_sim basis st st'" and wr: "may_write wr" "may_write wr'"
  shows "step_sim basis (session_step wr c ch P X V R st call) (session_step wr' c ch P X V R st' call)"
proof (cases call)
  case (SrsCreate depth)
  have "string_sim basis (caml_srs_create P depth) (caml_srs_create P depth)"
    by (simp add: string_sim_def caml_srs_create_def create_uncached)
  with SrsCreate sim show ?thesis by (simp add: new_string_sim)
next
  case (SrsRead offset path)
  show ?thesis
    using sim read_sim by (auto simp: SrsRead session_sim_def [of _ st st'] intro!: after_sim new_string_sim step_simI split: option.split)
next
  case (SrsWrite mode a path)
  have "se_files st' = se_files st" using sim by (simp add: session_sim_def)
  then show ?thesis
    using sim srs_write_sim by (auto simp: SrsWrite intro!: with_string_sim after_sim step_simI files_sim)
next
  case (SrsLagrangeCommitment a n i)
  show ?thesis
    unfolding SrsLagrangeCommitment session_step.simps
  proof (rule with_string_sim [OF sim])
    fix s s' assume a: "a < length (se_strings st)" and s: "s = se_strings st ! a" "string_sim basis s s'"
    have "string_sim basis (lagrange_commitment_effect P s n) (lagrange_commitment_effect P s' n)"
      and "generators (lagrange_commitment_effect P s n) = generators (se_strings st ! a)"
      using s add_sim(1) by (auto simp: lagrange_commitment_effect_def split: option.split)
    with store_sim(1) [OF sim a _ _ wr] lagrange_commitment_sim [OF s(2), of n i]
    show "step_sim basis (answer_of (\<lambda>(comm, _). CommitmentTo comm) (caml_srs_lagrange_commitment P (\<lambda>comm. comm) s n i),
        store wr st a (lagrange_commitment_effect P s n))
      (answer_of (\<lambda>(comm, _). CommitmentTo comm) (caml_srs_lagrange_commitment P (\<lambda>comm. comm) s' n i),
        store wr' st' a (lagrange_commitment_effect P s' n))"
      by (simp add: step_sim_def)
  qed
next
  case (SrsAddLagrangeBasis a k)
  then show ?thesis
    using sim wr
    by (auto simp: caml_srs_add_lagrange_basis_def intro!: with_string_sim after_and_then step_simI store_sim(1) add_sim(1))
next
  case (SrsCommitEvaluations a n evals)
  then show ?thesis
    using sim commit_evaluations_sim by (auto intro!: with_string_sim step_simI)
next
  case (SrsH a)
  then show ?thesis
    using sim by (auto simp: caml_srs_h_def string_sim_def generators_def intro!: with_string_sim step_simI)
next
  case (IndexCreate a gates public lookups runtimes prev)
  show ?thesis
    unfolding IndexCreate session_step.simps
  proof (rule with_string_sim [OF sim], goal_cases)
    case (1 s s')
    note create = index_create_sim [OF sim 1 wr]
    show ?case
      using create sizes_sim(1) [OF 1(3)]
      by (cases c) (simp_all add: caml_pasta_fp_plonk_index_create_def caml_pasta_fq_plonk_index_create_def Let_def map_ok_and_then)
  qed
next
  case (IndexRead offset a path)
  have "se_files st' = se_files st" using sim by (simp add: session_sim_def)
  then show ?thesis
    using sim restore_index_sim
    by (cases c) (auto simp: IndexRead caml_pasta_fp_plonk_index_read_def caml_pasta_fq_plonk_index_read_def
        intro!: with_string_sim after_and_then new_index_sim)
next
  case (IndexWrite mode k path)
  have "se_files st' = se_files st" using sim by (simp add: session_sim_def)
  then show ?thesis
    using sim
    by (cases c) (auto simp: IndexWrite caml_pasta_fp_plonk_index_write_def caml_pasta_fq_plonk_index_write_def index_format
        intro!: with_index_sim after_sim step_simI files_sim)
next
  case (IndexSizes k)
  show ?thesis
    unfolding IndexSizes session_step.simps
  proof (rule with_index_sim [OF sim], goal_cases)
    case (1 a index s s')
    show ?case
      using sim sizes_sim(2) [OF 1(3)]
      by (cases c) (auto simp: index_size_defs intro!: step_simI)
  qed
next
  case (ProofCreate os k witness tables chals sgs)
  show ?thesis
    unfolding ProofCreate session_step.simps
  proof (rule with_index_sim [OF sim], goal_cases)
    case (1 a index s s')
    have "session_sim basis (store wr st a (proof_create_effect P (index\<lparr>pi_srs := s\<rparr>)))
        (store wr' st' a (proof_create_effect P (index\<lparr>pi_srs := s'\<rparr>)))"
      using 1 add_sim(1) by (auto simp: proof_create_effect_def intro!: store_sim(1) [OF sim _ _ _ wr])
    then show ?case
      using proof_create_sim [OF 1(3)] by (cases c) (simp_all add: step_sim_def)
  qed
next
  case (VerifierIndexCreate k)
  show ?thesis
    unfolding VerifierIndexCreate session_step.simps
  proof (rule with_index_sim [OF sim], goal_cases)
    case (1 a index s s')
    have "session_sim basis (store wr st a (so_add_lagrange_basis P s d)) (store wr' st' a (so_add_lagrange_basis P s' d))" for d
      using 1 add_sim(1) by (auto intro!: store_sim(1) [OF sim _ _ _ wr])
    then show ?case
      using verifier_index_sim [OF 1(3) refl refl refl refl, where pc_into = "\<lambda>comm. comm"]
      by (cases c) (simp_all add: step_sim_def Let_def caml_pasta_fp_plonk_verifier_index_create_def caml_pasta_fq_plonk_verifier_index_create_def)
  qed
qed

lemma run_refines:
  assumes "session_sim basis st st'" and "may_write wr" and "may_write wr'"
  shows "fst (session_run wr c ch P X V R st calls) = fst (session_run wr' c ch P X V R st' calls) \<and>
    session_sim basis (snd (session_run wr c ch P X V R st calls)) (snd (session_run wr' c ch P X V R st' calls))"
  using assms(1)
proof (induction calls arbitrary: st st')
  case (Cons call calls)
  have "step_sim basis (session_step wr c ch P X V R st call) (session_step wr' c ch P X V R st' call)"
    using step_refines [OF Cons.prems assms(2,3)] .
  then show ?case
    using Cons.IH [of "snd (session_step wr c ch P X V R st call)" "snd (session_step wr' c ch P X V R st' call)"]
    by (auto simp: step_sim_def split: prod.split)
qed simp

end

text \<open>
  On copies no call changes a string that exists.
\<close>

definition keeps_strings ::
  "('t, 's, 'f, 'l, 'a, 'x, 'y) session \<Rightarrow> ('t, 's, 'f, 'l, 'a, 'x, 'y) session \<Rightarrow> bool" where
  "keeps_strings st st' \<longleftrightarrow> (\<exists>more. se_strings st' = se_strings st @ more)"

lemma keeps_strings_simps [simp]:
  "keeps_strings st st" "keeps_strings st (store private_write st a s)" "keeps_strings st (st\<lparr>se_files := fs\<rparr>)"
  "keeps_strings st (snd (new_string st s))" "keeps_strings st (snd (new_index (store private_write st a s) b i))"
  "keeps_strings st (snd (new_index st b i))"
  by (simp_all add: keeps_strings_def store_def private_write_def new_string_def new_index_def)

lemma private_step_keeps: "keeps_strings st (snd (session_step private_write c ch P X V R st call))"
  by (cases call) (auto simp: with_string_def with_index_def after_def split: outcome.split option.split prod.split)

lemma private_run_keeps: "keeps_strings st (snd (session_run private_write c ch P X V R st calls))"
proof (induction calls arbitrary: st)
  case (Cons call calls)
  have "keeps_strings st (snd (session_step private_write c ch P X V R st call))" by (rule private_step_keeps)
  with Cons.IH [of "snd (session_step private_write c ch P X V R st call)"] show ?case
    by (auto simp: keeps_strings_def split: prod.split)
qed simp

section \<open>Properties\<close>

definition session_ok :: "'f affine lagrange \<Rightarrow> ('t, 's, 'f, 'l, 'a, 'x, 'y) session \<Rightarrow> bool" where
  "session_ok basis st \<longleftrightarrow> list_all (cache_faithful basis) (se_strings st) \<and>
     list_all (\<lambda>(a, _). a < length (se_strings st)) (se_indexes st)"

lemma session_ok_sim: "session_ok basis st \<longleftrightarrow> session_sim basis st st"
  by (auto simp: session_ok_def session_sim_def string_sim_def index_sim_def list_all2_same list_all_iff)

lemma session_sim_left: "session_sim basis st st' \<Longrightarrow> session_ok basis st"
  by (auto simp: session_ok_def session_sim_def string_sim_def index_sim_def list_all_length list_all2_conv_all_nth split: prod.splits)

text \<open>
  C6. Sharing is invisible. A session of calls in which reference strings are shared between their handles
  and the indexes made from them, every call leaves the bases it computed in the shared string (also one
  that fails or panics later), and indexes and strings are written to files and read back, gives call
  by call the answers of a session in which every call works on a copy of the string and nothing is
  ever mutated. The files agree, the generators of every string stay what they were, and every basis in a
  cache remains the one of the string's own generators.
\<close>

theorem session_refines:
  assumes "session_contract P basis X R" and "session_ok basis st"
  shows "let (answers, shared) = session_run shared_write c ch P X V R st calls;
      (spec_answers, copied) = session_run private_write c ch P X V R st calls
    in answers = spec_answers \<and> se_files shared = se_files copied \<and> session_ok basis shared \<and>
      (\<exists>more. se_strings copied = se_strings st @ more \<and> map generators (se_strings shared) = map generators (se_strings copied))"
proof -
  let ?shared = "session_run shared_write c ch P X V R st calls" and ?copied = "session_run private_write c ch P X V R st calls"
  have sim: "session_sim basis st st" using assms(2) by (simp add: session_ok_sim)
  have run: "fst ?shared = fst ?copied" "session_sim basis (snd ?shared) (snd ?copied)"
    using session_contract.run_refines [OF assms(1) sim may_write(1,2), of c ch V calls] by blast+
  then have "map generators (se_strings (snd ?shared)) = map generators (se_strings (snd ?copied))"
    and "se_files (snd ?shared) = se_files (snd ?copied)"
    by (auto simp: session_sim_def string_sim_def list_all2_conv_all_nth intro!: nth_equalityI)
  with run session_sim_left [OF run(2)] private_run_keeps [of st c ch P X V R calls] show ?thesis
    by (auto simp: keeps_strings_def split: prod.split)
qed

text \<open>
  A prover whose verifier indexes hold the string of the prover index.
\<close>

definition session_prover ::
  "('w, nat, unit, pasta_fp affine srs, pasta_fp affine poly_comm, unit, unit, 'v) verifier_index \<Rightarrow>
    (unit, nat, pasta_fp affine, unit, unit, unit, unit,
      ('w, nat, unit, pasta_fp affine srs, pasta_fp affine poly_comm, unit, unit, 'v) verifier_index) kimchi_prover" where
  "session_prover vi = (ref_prover vi)\<lparr>kp_verifier_index := (\<lambda>index. vi\<lparr>vi_srs := pi_srs index\<rparr>)\<rparr>"

interpretation ref_session: session_contract "ref_srs_ops ref_affine" "\<lambda>gs h d. replicate d \<lparr>pc_elems = [h]\<rparr>" ref_builder
    "session_prover vi" for vi
  by unfold_locales
    (auto simp: ref_srs_ops_def ref_builder_def session_prover_def ref_prover_def ref_prove_def same_on_def generators_def
      Let_def uncached_def split: if_splits)

definition empty_session :: "(unit, nat, pasta_fp, unit, unit, unit, unit) session" where
  "empty_session = \<lparr>se_strings = [], se_indexes = [], se_files = Map.empty\<rparr>"

theorem session_refines_witness:
  "\<forall>vi. \<exists>pf. fst (session_run shared_write PastaFp True (ref_srs_ops ref_affine) ref_builder ref_curve_ops (session_prover vi) empty_session
       [SrsCreate 4, IndexCreate 0 [] 1 [] [] 0, SrsLagrangeCommitment 0 4 9, ProofCreate ref_entropy 0 ref_witness [] [] [], SrsH 1]) =
     [Handle 0, Handle 0, Panicked ''index out of bounds'', Value (ProofOf pf), BadHandle]"
proof
  fix vi :: "(u64, nat, unit, pasta_fp affine srs, pasta_fp affine poly_comm, unit, unit, 'v) verifier_index"
  let ?calls = "[SrsCreate 4, IndexCreate 0 [] 1 [] [] 0, SrsLagrangeCommitment 0 4 9, ProofCreate ref_entropy 0 ref_witness [] [] [], SrsH 1]"
  have ok: "session_ok (\<lambda>gs h d. replicate d \<lparr>pc_elems = [h]\<rparr>) empty_session"
    by (simp add: session_ok_def empty_session_def)
  have "\<exists>pf. fst (session_run private_write PastaFp True (ref_srs_ops ref_affine) ref_builder ref_curve_ops (session_prover vi) empty_session ?calls) =
     [Handle 0, Handle 0, Panicked ''index out of bounds'', Value (ProofOf pf), BadHandle]"
    by (simp add: empty_session_def new_string_def with_string_def with_index_def after_def answer_of_def new_index_def store_def
        private_write_def caml_srs_create_def caml_pasta_fp_plonk_index_create_def finish_index_def caml_srs_lagrange_commitment_def
        hash_index_def vec_index_def proof_create_defs try_into_array_def vec_slice_def ref_witness_def COLUMNS_def
        ref_srs_ops_def ref_builder_def ref_cs_def session_prover_def ref_prover_def recursion_challenges_def Let_def)
  with session_refines [OF ref_session.session_contract_axioms [of vi] ok, where c = PastaFp and ch = True and V = ref_curve_ops and calls = ?calls]
  show "\<exists>pf. fst (session_run shared_write PastaFp True (ref_srs_ops ref_affine) ref_builder ref_curve_ops (session_prover vi) empty_session ?calls) =
     [Handle 0, Handle 0, Panicked ''index out of bounds'', Value (ProofOf pf), BadHandle]"
    by (auto split: prod.splits)
qed

end
