(* ===== verification/Wasm_Session.thy ===== *)
theory Wasm_Session
  imports Binding_Session
begin

text \<open>
  Sessions of the bindings for JavaScript. As for OCaml, reference strings are shared between their
  handles and the indexes made from them, and the calls of \<^verbatim>\<open>wasm/src/srs.rs\<close>,
  \<^verbatim>\<open>wasm/src/pasta_fp_plonk_index.rs\<close>, \<^verbatim>\<open>wasm/src/plonk_proof.rs\<close> and
  \<^verbatim>\<open>wasm/src/plonk_verifier_index.rs\<close> leave bases in them. Two calls show JavaScript what is
  cached, and one installs a basis; the specification keeps the set of cached sizes for them, and nothing
  else. Every call meets the thread pool in a state of its own.
\<close>

section \<open>The calls\<close>

text \<open>
  What is left of a string when the part that changes it runs in the pool.
\<close>

definition kept :: "'g srs \<Rightarrow> ('g srs, js_error) outcome \<Rightarrow> 'g srs" where
  "kept srs r = (case r of Ok srs' \<Rightarrow> srs' | _ \<Rightarrow> srs)"

definition lagrange_commitment_effect_wasm :: "pool_state \<Rightarrow> ('s, 'g, 'poly) srs_ops \<Rightarrow> 'g srs \<Rightarrow> i32 \<Rightarrow> 'g srs" where
  "lagrange_commitment_effect_wasm pool P srs domain_size =
     (case so_domain_new P (unat domain_size) of
        None \<Rightarrow> srs
      | Some x_domain \<Rightarrow> kept srs (run_in_pool pool (\<lambda>_. Ok (so_add_lagrange_basis P srs x_domain))))"

definition get_lagrange_basis_effect :: "pool_state \<Rightarrow> ('s, 'g, 'poly) srs_ops \<Rightarrow> 'g srs \<Rightarrow> i32 \<Rightarrow> 'g srs" where
  "get_lagrange_basis_effect pool P srs domain_size =
     kept srs (run_in_pool pool (\<lambda>_.
       and_then (expect (so_domain_new P (unat domain_size)) ''invalid domain size'') (\<lambda>domain.
         Ok (so_add_lagrange_basis P srs domain))))"

text \<open>
  How the module was built: with or without overflow checks, and against which standard library.
\<close>

record js_build =
  jb_overflow_checks :: bool
  jb_fs :: std_fs

definition proof_create_effect_wasm ::
  "pool_state \<Rightarrow> ('s, 'g, 'poly) srs_ops \<Rightarrow> ('t, 's, 'g, 'l, 'a, 'x, 'y) prover_index \<Rightarrow> 'g srs" where
  "proof_create_effect_wasm pool P index =
     kept (pi_srs index) (run_in_pool pool (\<lambda>_. Ok (so_add_lagrange_basis P (pi_srs index) (cs_domain_d1 (pi_cs index)))))"

datatype ('t, 's, 'f) js_session_call =
    JsCreate i32
  | JsCreateParallel i32
  | JsSet "'f wasm_g list"
  | JsRead "i32 option" string
  | JsWrite "bool option" nat string
  | JsGet nat
  | JsH nat
  | JsLagrangeCommitment nat i32 i32
  | JsMaybeLagrangeCommitment nat i32 i32
  | JsAddLagrangeBasis nat i32
  | JsSetLagrangeBasis nat i32 "'f wpc list"
  | JsGetLagrangeBasis nat i32
  | JsCommitEvaluations nat i32 "'s list"
  | JsBPolyCommitment nat "'s list"
  | JsIndexCreate nat "('t, 's) circuit_gate list" i32 "'s wasm_fp_lookup_table list" "'s wasm_fp_runtime_table_cfg list" i32
  | JsIndexDecode bytes nat
  | JsIndexEncode nat
  | JsIndexSizes nat
  | JsProofCreate entropy nat "'s list list" "'s wasm_runtime_table list" "'s list" "'f wasm_g list"
  | JsVerifierIndexCreate nat

datatype ('s, 'f) js_value =
    JsNone
  | JsDone
  | JsPoint "'f wasm_g"
  | JsPoints "'f wasm_g list"
  | JsCommitment "'f wpc"
  | JsMaybe "'f wpc option"
  | JsBasis "'f wpc list"
  | JsBytes bytes
  | JsSizes "i32 list"
  | JsProof "('s, 'f) wasm_prover_proof"
  | JsVerifierIndex nat "('s, 'f affine srs, 'f wpc) wasm_plonk_verifier_index"

type_synonym ('s, 'f) js_answer = "(js_error, ('s, 'f) js_value) reply"

text \<open>
  The string inside a verifier index is one more handle, the number beside it.
\<close>

definition opaque_string_wasm ::
  "('s, 'g srs, 'c) wasm_plonk_verifier_index \<Rightarrow> ('s, 'g srs, 'c) wasm_plonk_verifier_index" where
  "opaque_string_wasm vi = vi\<lparr>wvi_srs := uncached (wvi_srs vi)\<rparr>"

fun js_step ::
  "'f affine write_back \<Rightarrow> js_build \<Rightarrow> ('s, 'f affine, 'poly) srs_ops \<Rightarrow>
    ('t, 's, 'f affine, 'e, 'l, 'a, 'x, 'y) index_ops \<Rightarrow> ('s, 'f affine, 'p) commitment_ops \<Rightarrow>
    ('t, 's, 'f affine, 'l, 'a, 'x, 'y, (u32, 's, 'e, 'f affine srs, 'f affine poly_comm, 'a, 'l, 'v) verifier_index) kimchi_prover \<Rightarrow>
    ('t, 's, 'f, 'l, 'a, 'x, 'y) session \<Rightarrow> pool_state \<Rightarrow> ('t, 's, 'f) js_session_call \<Rightarrow>
    ('s, 'f) js_answer \<times> ('t, 's, 'f, 'l, 'a, 'x, 'y) session" where
  "js_step wr ch P X C R st pool (JsCreate depth) = new_string st (caml_srs_create_wasm P depth)"
| "js_step wr ch P X C R st pool (JsCreateParallel depth) = after (new_string st) st (caml_fp_srs_create_parallel pool P depth)"
| "js_step wr ch P X C R st pool (JsSet h_and_gs) = after (new_string st) st (caml_fp_srs_set h_and_gs)"
| "js_step wr ch P X C R st pool (JsRead offset path) =
     after (\<lambda>r. case r of Some s \<Rightarrow> new_string st s | None \<Rightarrow> (Value JsNone, st)) st (caml_srs_read_wasm (jb_fs ch) P (se_files st) offset path)"
| "js_step wr ch P X C R st pool (JsWrite append_mode a path) =
     with_string st a (\<lambda>s.
       after (\<lambda>fs. (Value JsDone, st\<lparr>se_files := fs\<rparr>)) st (caml_srs_write_wasm (jb_fs ch) P (se_files st) append_mode s path))"
| "js_step wr ch P X C R st pool (JsGet a) = with_string st a (\<lambda>s. (Value (JsPoints (caml_fp_srs_get s)), st))"
| "js_step wr ch P X C R st pool (JsH a) = with_string st a (\<lambda>s. (Value (JsPoint (caml_srs_h_wasm s)), st))"
| "js_step wr ch P X C R st pool (JsLagrangeCommitment a domain_size i) =
     with_string st a (\<lambda>s.
       (answer_of (\<lambda>(comm, _). JsCommitment comm) (caml_srs_lagrange_commitment_wasm pool P s domain_size i),
        store wr st a (lagrange_commitment_effect_wasm pool P s domain_size)))"
| "js_step wr ch P X C R st pool (JsMaybeLagrangeCommitment a domain_size i) =
     with_string st a (\<lambda>s. (answer_of JsMaybe (caml_fp_srs_maybe_lagrange_commitment s domain_size i), st))"
| "js_step wr ch P X C R st pool (JsAddLagrangeBasis a log2_size) =
     with_string st a (\<lambda>s.
       after (\<lambda>s'. (Value JsDone, store wr st a s')) st (caml_srs_add_lagrange_basis_wasm pool (jb_overflow_checks ch) P s log2_size))"
| "js_step wr ch P X C R st pool (JsSetLagrangeBasis a domain_size input_bases) =
     with_string st a (\<lambda>s.
       after (\<lambda>s'. (Value JsDone, store wr st a s')) st (caml_fp_srs_set_lagrange_basis s domain_size input_bases))"
| "js_step wr ch P X C R st pool (JsGetLagrangeBasis a domain_size) =
     with_string st a (\<lambda>s.
       (answer_of (\<lambda>(bases, _). JsBasis bases) (caml_fp_srs_get_lagrange_basis pool P s domain_size),
        store wr st a (get_lagrange_basis_effect pool P s domain_size)))"
| "js_step wr ch P X C R st pool (JsCommitEvaluations a domain_size evals) =
     with_string st a (\<lambda>s. (answer_of JsCommitment (caml_srs_commit_evaluations_wasm P s domain_size evals), st))"
| "js_step wr ch P X C R st pool (JsBPolyCommitment a chals) =
     with_string st a (\<lambda>s. (answer_of JsCommitment (caml_srs_b_poly_commitment_wasm pool C P s chals), st))"
| "js_step wr ch P X C R st pool (JsIndexCreate a gates public lookup_tables runtime_table_cfgs prev_challenges) =
     with_string st a (\<lambda>s.
       after (\<lambda>(index, s'). new_index (store wr st a s') a index) st
         (caml_pasta_fp_plonk_index_create_wasm pool P X gates public lookup_tables runtime_table_cfgs prev_challenges s))"
| "js_step wr ch P X C R st pool (JsIndexDecode bytes a) =
     with_string st a (\<lambda>s. after (new_index st a) st (caml_pasta_fp_plonk_index_decode_wasm X bytes s))"
| "js_step wr ch P X C R st pool (JsIndexEncode k) =
     with_index st k (\<lambda>a index. (answer_of JsBytes (caml_pasta_fp_plonk_index_encode_wasm X index), st))"
| "js_step wr ch P X C R st pool (JsIndexSizes k) =
     with_index st k (\<lambda>a index.
       (Value (JsSizes
          [caml_pasta_fp_plonk_index_public_inputs_wasm index, caml_pasta_fp_plonk_index_domain_d1_size_wasm index,
           caml_pasta_fp_plonk_index_domain_d4_size_wasm index, caml_pasta_fp_plonk_index_domain_d8_size_wasm index,
           caml_pasta_fp_plonk_index_max_degree_wasm X index]), st))"
| "js_step wr ch P X C R st pool (JsProofCreate os k witness runtime_tables prev_challenges prev_sgs) =
     with_index st k (\<lambda>a index.
       (answer_of (\<lambda>(pf, _). JsProof pf)
          (caml_plonk_proof_create_wasm pool P R os index witness runtime_tables prev_challenges prev_sgs),
        store wr st a (proof_create_effect_wasm pool P index)))"
| "js_step wr ch P X C R st pool (JsVerifierIndexCreate k) =
     with_index st k (\<lambda>a index.
       case caml_plonk_verifier_index_create_wasm P (\<lambda>s. kp_verifier_index R (index\<lparr>pi_srs := s\<rparr>))
           (cs_domain_d1 (pi_cs index)) (pi_srs index) of
         (vi, s') \<Rightarrow> (Value (JsVerifierIndex a (opaque_string_wasm vi)), store wr st a s'))"

fun js_run ::
  "'f affine write_back \<Rightarrow> js_build \<Rightarrow> ('s, 'f affine, 'poly) srs_ops \<Rightarrow>
    ('t, 's, 'f affine, 'e, 'l, 'a, 'x, 'y) index_ops \<Rightarrow> ('s, 'f affine, 'p) commitment_ops \<Rightarrow>
    ('t, 's, 'f affine, 'l, 'a, 'x, 'y, (u32, 's, 'e, 'f affine srs, 'f affine poly_comm, 'a, 'l, 'v) verifier_index) kimchi_prover \<Rightarrow>
    ('t, 's, 'f, 'l, 'a, 'x, 'y) session \<Rightarrow> (pool_state \<times> ('t, 's, 'f) js_session_call) list \<Rightarrow>
    ('s, 'f) js_answer list \<times> ('t, 's, 'f, 'l, 'a, 'x, 'y) session" where
  "js_run wr ch P X C R st [] = ([], st)"
| "js_run wr ch P X C R st ((pool, call) # calls) =
     (let (x, st) = js_step wr ch P X C R st pool call;
          (xs, st) = js_run wr ch P X C R st calls
      in (x # xs, st))"

section \<open>The specification\<close>

text \<open>
  Which basis a call adds, as the handle of the string and the size of the domain.
\<close>

definition domain_key :: "('s, 'g, 'poly) srs_ops \<Rightarrow> nat \<Rightarrow> nat \<Rightarrow> (nat \<times> nat) set" where
  "domain_key P a n = (case so_domain_new P n of None \<Rightarrow> {} | Some d \<Rightarrow> {(a, d)})"

definition index_key ::
  "('t, 's, 'f, 'l, 'a, 'x, 'y) session \<Rightarrow> nat \<Rightarrow> (nat \<times> nat) set" where
  "index_key st k =
     (if k < length (se_indexes st) then case se_indexes st ! k of (a, index) \<Rightarrow> {(a, cs_domain_d1 (pi_cs index))} else {})"

fun js_caches ::
  "js_build \<Rightarrow> ('s, 'f affine, 'poly) srs_ops \<Rightarrow> ('t, 's, 'f affine, 'e, 'l, 'a, 'x, 'y) index_ops \<Rightarrow>
    ('t, 's, 'f, 'l, 'a, 'x, 'y) session \<Rightarrow> pool_state \<Rightarrow> ('t, 's, 'f) js_session_call \<Rightarrow> (nat \<times> nat) set" where
  "js_caches ch P X st pool (JsLagrangeCommitment a n i) =
     (if a < length (se_strings st) \<and> thread_pool pool \<noteq> None then domain_key P a (unat n) else {})"
| "js_caches ch P X st pool (JsGetLagrangeBasis a n) =
     (if a < length (se_strings st) \<and> thread_pool pool \<noteq> None then domain_key P a (unat n) else {})"
| "js_caches ch P X st pool (JsAddLagrangeBasis a k) =
     (if a < length (se_strings st) \<and> thread_pool pool \<noteq> None
      then case (shl_one (jb_overflow_checks ch) 32 (uint k) :: (nat, js_error) outcome) of Ok n \<Rightarrow> domain_key P a n | _ \<Rightarrow> {} else {})"
| "js_caches ch P X st pool (JsSetLagrangeBasis a n bs) =
     (if a < length (se_strings st)
      then case (collect poly_comm_from_wasm bs :: ('f affine poly_comm list, js_error) outcome) of Ok _ \<Rightarrow> {(a, unat n)} | _ \<Rightarrow> {} else {})"
| "js_caches ch P X st pool (JsIndexCreate a gates public lookups runtimes prev) =
     (if a < length (se_strings st) \<and> thread_pool pool \<noteq> None
      then case ix_build X (copy_gates gates) (unat public) (unat prev) None (map lookup_table_from_wasm_fp lookups)
             (runtime_option (map runtime_table_cfg_from_wasm_fp runtimes)) of
          Ok cs \<Rightarrow> {(a, cs_domain_d1 cs)} | _ \<Rightarrow> {} else {})"
| "js_caches ch P X st pool (JsProofCreate os k witness tables chals sgs) =
     (if thread_pool pool \<noteq> None then index_key st k else {})"
| "js_caches ch P X st pool (JsVerifierIndexCreate k) = index_key st k"
| "js_caches ch P X st pool call = {}"

text \<open>
  Two calls are answered from the set of cached sizes, all others on a copy of the string without cache.
\<close>

fun js_spec_step ::
  "'f affine lagrange \<Rightarrow> js_build \<Rightarrow> ('s, 'f affine, 'poly) srs_ops \<Rightarrow>
    ('t, 's, 'f affine, 'e, 'l, 'a, 'x, 'y) index_ops \<Rightarrow> ('s, 'f affine, 'p) commitment_ops \<Rightarrow>
    ('t, 's, 'f affine, 'l, 'a, 'x, 'y, (u32, 's, 'e, 'f affine srs, 'f affine poly_comm, 'a, 'l, 'v) verifier_index) kimchi_prover \<Rightarrow>
    (nat \<times> nat) set \<Rightarrow> ('t, 's, 'f, 'l, 'a, 'x, 'y) session \<Rightarrow> pool_state \<Rightarrow> ('t, 's, 'f) js_session_call \<Rightarrow>
    ('s, 'f) js_answer \<times> ('t, 's, 'f, 'l, 'a, 'x, 'y) session" where
  "js_spec_step basis ch P X C R known st pool (JsMaybeLagrangeCommitment a n i) =
     with_string st a (\<lambda>s.
       (answer_of JsMaybe
          (if (a, unat n) \<in> known
           then map_ok (\<lambda>c. Some (wasm_poly_comm_from c)) (vec_index (basis (srs_g s) (srs_h s) (unat n)) (unat i))
           else Ok None), st))"
| "js_spec_step basis ch P X C R known st pool (JsGetLagrangeBasis a n) =
     with_string st a (\<lambda>s.
       (answer_of JsBasis
          (and_then (run_in_pool pool (\<lambda>_. expect (so_domain_new P (unat n)) ''invalid domain size'')) (\<lambda>d.
             if unat n = d \<or> (a, unat n) \<in> known
             then Ok (map wasm_poly_comm_from (basis (srs_g s) (srs_h s) (unat n)))
             else Panic ''no entry found for key'')), st))"
| "js_spec_step basis ch P X C R known st pool call = js_step private_write ch P X C R st pool call"

fun js_spec_run ::
  "'f affine lagrange \<Rightarrow> js_build \<Rightarrow> ('s, 'f affine, 'poly) srs_ops \<Rightarrow>
    ('t, 's, 'f affine, 'e, 'l, 'a, 'x, 'y) index_ops \<Rightarrow> ('s, 'f affine, 'p) commitment_ops \<Rightarrow>
    ('t, 's, 'f affine, 'l, 'a, 'x, 'y, (u32, 's, 'e, 'f affine srs, 'f affine poly_comm, 'a, 'l, 'v) verifier_index) kimchi_prover \<Rightarrow>
    (nat \<times> nat) set \<Rightarrow> ('t, 's, 'f, 'l, 'a, 'x, 'y) session \<Rightarrow> (pool_state \<times> ('t, 's, 'f) js_session_call) list \<Rightarrow>
    ('s, 'f) js_answer list \<times> (nat \<times> nat) set \<times> ('t, 's, 'f, 'l, 'a, 'x, 'y) session" where
  "js_spec_run basis ch P X C R known st [] = ([], known, st)"
| "js_spec_run basis ch P X C R known st ((pool, call) # calls) =
     (let (x, st') = js_spec_step basis ch P X C R known st pool call;
          (xs, known', st'') = js_spec_run basis ch P X C R (known \<union> js_caches ch P X st pool call) st' calls
      in (x # xs, known', st''))"

text \<open>
  JavaScript is honest when the bases it installs are those of the string it installs them in.
\<close>

fun honest_call ::
  "'f affine lagrange \<Rightarrow> ('t, 's, 'f, 'l, 'a, 'x, 'y) session \<Rightarrow> ('t, 's, 'f) js_session_call \<Rightarrow> bool" where
  "honest_call basis st (JsSetLagrangeBasis a n bs) =
     (if a < length (se_strings st)
      then case (collect poly_comm_from_wasm bs :: ('f affine poly_comm list, js_error) outcome) of
          Ok bases \<Rightarrow> bases = basis (srs_g (se_strings st ! a)) (srs_h (se_strings st ! a)) (unat n)
        | _ \<Rightarrow> True
      else True)"
| "honest_call basis st call = True"

fun honest_run ::
  "'f affine lagrange \<Rightarrow> js_build \<Rightarrow> ('s, 'f affine, 'poly) srs_ops \<Rightarrow>
    ('t, 's, 'f affine, 'e, 'l, 'a, 'x, 'y) index_ops \<Rightarrow> ('s, 'f affine, 'p) commitment_ops \<Rightarrow>
    ('t, 's, 'f affine, 'l, 'a, 'x, 'y, (u32, 's, 'e, 'f affine srs, 'f affine poly_comm, 'a, 'l, 'v) verifier_index) kimchi_prover \<Rightarrow>
    (nat \<times> nat) set \<Rightarrow> ('t, 's, 'f, 'l, 'a, 'x, 'y) session \<Rightarrow> (pool_state \<times> ('t, 's, 'f) js_session_call) list \<Rightarrow> bool" where
  "honest_run basis ch P X C R known st [] = True"
| "honest_run basis ch P X C R known st ((pool, call) # calls) =
     (honest_call basis st call \<and>
      honest_run basis ch P X C R (known \<union> js_caches ch P X st pool call)
        (snd (js_spec_step basis ch P X C R known st pool call)) calls)"

section \<open>What is cached\<close>

text \<open>
  The sizes of the cached bases of every string.
\<close>

definition tracks :: "(nat \<times> nat) set \<Rightarrow> 'g srs list \<Rightarrow> bool" where
  "tracks known ss \<longleftrightarrow> (\<forall>a d. (a, d) \<in> known \<longleftrightarrow> a < length ss \<and> d \<in> dom (srs_lagrange_bases (ss ! a)))"

lemma tracks_update:
  assumes "tracks known ss" and "dom (srs_lagrange_bases s) = ds \<union> dom (srs_lagrange_bases (ss ! a))" and "a < length ss"
  shows "tracks (known \<union> Pair a ` ds) (ss[a := s])"
  using assms by (auto simp: tracks_def nth_list_update)

lemma tracks_new: "tracks known ss \<Longrightarrow> srs_lagrange_bases s = Map.empty \<Longrightarrow> tracks known (ss @ [s])"
  by (auto simp: tracks_def nth_append less_Suc_eq)

lemma tracks_store:
  assumes "tracks known (se_strings st)" and "dom (srs_lagrange_bases s) = ds \<union> dom (srs_lagrange_bases (se_strings st ! a))"
    and "a < length (se_strings st)"
  shows "tracks (known \<union> Pair a ` ds) (se_strings (store shared_write st a s))"
  using tracks_update [OF assms] by (simp add: store_def shared_write_def)

section \<open>What the bindings rely on\<close>

text \<open>
  As for OCaml, with the 32-bit verifier index; a string created in parallel has an empty cache, too.
\<close>

locale js_session_contract = sharing_contract P basis X R
  for P :: "('s, 'f affine, 'poly) srs_ops" and basis :: "'f affine lagrange"
    and X :: "('t, 's, 'f affine, 'e, 'l, 'a, 'x, 'y) index_ops"
    and R :: "('t, 's, 'f affine, 'l, 'a, 'x, 'y,
      (u32, 's, 'e, 'f affine srs, 'f affine poly_comm, 'a, 'l, 'v) verifier_index) kimchi_prover" +
  assumes create_parallel_uncached: "srs_lagrange_bases (so_create_parallel P n) = Map.empty"
    and verifier_index_reads_wasm: "same_on (cs_domain_d1 (pi_cs index)) s s' \<Longrightarrow>
      (kp_verifier_index R (index\<lparr>pi_srs := s\<rparr>))\<lparr>vi_srs := u\<rparr> = (kp_verifier_index R (index\<lparr>pi_srs := s'\<rparr>))\<lparr>vi_srs := u\<rparr>"

text \<open>
  A job without a pool leaves the string as it was.
\<close>

lemma kept_run [simp]:
  "kept s (run_in_pool pool (\<lambda>_. Ok s')) = (if thread_pool pool = None then s else s')"
  "kept s (run_in_pool pool (\<lambda>_. and_then (expect r m) f)) =
     (if thread_pool pool = None then s else case r of None \<Rightarrow> s | Some d \<Rightarrow> kept s (f d))"
  by (cases "thread_pool pool"; cases r; simp add: kept_def run_in_pool_def)+

lemma kept_Ok [simp]: "kept s (Ok s') = s'"
  by (simp add: kept_def)

lemma new_strings [simp]: "se_strings (snd (new_index st a i)) = se_strings st"
  "se_strings (snd (new_string st s)) = se_strings st @ [s]"
  by (simp_all add: new_index_def new_string_def)

lemmas index_size_wasm_defs =
  caml_pasta_fp_plonk_index_public_inputs_wasm_def caml_pasta_fp_plonk_index_domain_d1_size_wasm_def
  caml_pasta_fp_plonk_index_domain_d4_size_wasm_def caml_pasta_fp_plonk_index_domain_d8_size_wasm_def
  caml_pasta_fp_plonk_index_max_degree_wasm_def

lemma step_sim_pair: "x = x' \<Longrightarrow> session_sim basis st st' \<Longrightarrow> step_sim basis (x, st) (x', st')"
  by (simp add: step_sim_def)

lemma map_ok_comp: "map_ok f (map_ok g r) = map_ok (\<lambda>x. f (g x)) r"
  by (cases r) simp_all

lemma session_sim_valid: "session_sim basis st st' \<Longrightarrow> list_all (\<lambda>(a, _). a < length (se_strings st)) (se_indexes st)"
  by (auto simp: session_sim_def index_sim_def list_all_length list_all2_conv_all_nth split: prod.splits)

lemma same_constraints:
  assumes "index_sim n i i'"
  shows "fst i = fst i'" and "pi_cs (snd i) = pi_cs (snd i')"
proof -
  show "fst i = fst i'" using assms by (simp add: index_sim_def)
  have "pi_cs ((snd i)\<lparr>pi_srs := undefined\<rparr>) = pi_cs ((snd i')\<lparr>pi_srs := undefined\<rparr>)"
    using assms unfolding index_sim_def by metis
  then show "pi_cs (snd i) = pi_cs (snd i')" by simp
qed

lemma index_key_sim:
  assumes "session_sim basis st st'"
  shows "index_key st k = index_key st' k"
proof -
  have indexes: "list_all2 (index_sim (length (se_strings st))) (se_indexes st) (se_indexes st')"
    using assms by (simp add: session_sim_def)
  show ?thesis
    using same_constraints [OF list_all2_nthD [OF indexes, of k]] list_all2_lengthD [OF indexes]
    by (cases "se_indexes st ! k"; cases "se_indexes st' ! k") (simp add: index_key_def)
qed

lemma js_caches_sim:
  assumes "session_sim basis st st'"
  shows "js_caches ch P X st pool call = js_caches ch P X st' pool call"
proof -
  have "length (se_strings st) = length (se_strings st')"
    using assms by (auto simp: session_sim_def dest: list_all2_lengthD)
  then show ?thesis by (cases call) (simp_all add: index_key_sim [OF assms])
qed

context js_session_contract
begin

lemma dom_add: "dom (srs_lagrange_bases (so_add_lagrange_basis P s d)) = {d} \<union> dom (srs_lagrange_bases s)"
proof -
  have "\<exists>bs. srs_lagrange_bases (so_add_lagrange_basis P s d) d = Some bs"
    using add_provides [of s d] add_keeps_bases [of s d _ d] by (cases "srs_lagrange_bases s d") auto
  moreover have "srs_lagrange_bases (so_add_lagrange_basis P s d) d' = srs_lagrange_bases s d'" if "d' \<noteq> d" for d'
    using add_other [OF that] .
  ultimately show ?thesis by (auto simp: dom_def) (metis option.distinct(1))+
qed

lemma tracks_add:
  assumes "tracks known (se_strings st)" and "a < length (se_strings st)" and "s = se_strings st ! a"
  shows "tracks (insert (a, d) known) (se_strings (store shared_write st a (so_add_lagrange_basis P s d)))"
  using tracks_store [OF assms(1) _ assms(2), where ds = "{d}"] by (simp add: assms(3) dom_add)

lemma tracks_same:
  assumes "tracks known (se_strings st)" and "s = se_strings st ! a"
  shows "tracks known (se_strings (store shared_write st a s))"
  using assms by (simp add: store_def shared_write_def)

lemma step_tracks:
  assumes tracks: "tracks known (se_strings st)" and valid: "list_all (\<lambda>(a, _). a < length (se_strings st)) (se_indexes st)"
  shows "tracks (known \<union> js_caches ch P X st pool call) (se_strings (snd (js_step shared_write ch P X C R st pool call)))"
proof (cases call)
  case (JsCreate depth)
  then show ?thesis using tracks by (simp add: caml_srs_create_wasm_def create_uncached tracks_new)
next
  case (JsCreateParallel depth)
  then show ?thesis using tracks
    by (cases "thread_pool pool") (simp_all add: caml_fp_srs_create_parallel_def run_in_pool_def after_def create_parallel_uncached tracks_new)
next
  case (JsSet pts)
  then show ?thesis using tracks
    by (auto simp: caml_fp_srs_set_def after_def tracks_new split: list.split)
next
  case (JsRead offset path)
  then show ?thesis using tracks
    by (auto simp: caml_srs_read_wasm_def after_def intro!: tracks_new dest: read_uncached split: outcome.split option.splits)
next
  case (JsLagrangeCommitment a n i)
  then show ?thesis using tracks_add [OF tracks] tracks
    by (auto simp: with_string_def lagrange_commitment_effect_wasm_def domain_key_def tracks_same split: option.split)
next
  case (JsGetLagrangeBasis a n)
  then show ?thesis using tracks_add [OF tracks] tracks
    by (auto simp: with_string_def get_lagrange_basis_effect_def domain_key_def tracks_same split: option.split)
next
  case (JsAddLagrangeBasis a k)
  then show ?thesis using tracks_add [OF tracks] tracks
    by (cases "thread_pool pool"; cases "shl_one (jb_overflow_checks ch) 32 (uint k) :: (nat, js_error) outcome")
      (auto simp: with_string_def caml_srs_add_lagrange_basis_wasm_def run_in_pool_def after_def domain_key_def split: option.split)
next
  case (JsSetLagrangeBasis a n bs)
  then show ?thesis
    using tracks tracks_store [OF tracks, where ds = "{unat n}" and a = a]
    by (cases "collect poly_comm_from_wasm bs :: ('f affine poly_comm list, js_error) outcome")
      (auto simp: with_string_def caml_fp_srs_set_lagrange_basis_def after_def)
next
  case (JsIndexCreate a gates public lookups runtimes prev)
  then show ?thesis
    using tracks_add [OF tracks] tracks
    by (cases "thread_pool pool"; cases "ix_build X (copy_gates gates) (unat public) (unat prev) None (map lookup_table_from_wasm_fp lookups)
          (runtime_option (map runtime_table_cfg_from_wasm_fp runtimes))")
      (auto simp: with_string_def caml_pasta_fp_plonk_index_create_wasm_def run_in_pool_def after_def finish_index_def Let_def)
next
  case (JsProofCreate os k witness tables chals sgs)
  then show ?thesis
    using tracks_add [OF tracks] tracks valid
    by (cases "se_indexes st ! k")
      (auto simp: with_index_def index_key_def proof_create_effect_wasm_def tracks_same list_all_length)
next
  case (JsVerifierIndexCreate k)
  then show ?thesis
    using tracks_add [OF tracks] tracks valid
    by (cases "se_indexes st ! k")
      (auto simp: with_index_def index_key_def caml_plonk_verifier_index_create_wasm_def Let_def list_all_length)
qed (use tracks in \<open>auto simp: with_string_def with_index_def after_def split: outcome.split prod.split\<close>)

lemma store_add_sim:
  assumes "session_sim basis st st'" and "a < length (se_strings st)" and "s = se_strings st ! a" and "string_sim basis s s'"
  shows "session_sim basis (store shared_write st a (so_add_lagrange_basis P s d)) (store private_write st' a (so_add_lagrange_basis P s' d))"
    and "session_sim basis (store shared_write st a s) (store private_write st' a s')"
  using assms add_sim(1) by (auto intro!: store_sim(1) [OF assms(1)])

lemma write_wasm_sim:
  assumes "string_sim basis s s'"
  shows "caml_srs_write_wasm D P fs append_mode s path = caml_srs_write_wasm D P fs append_mode s' path"
proof -
  have "so_serialize P s = so_serialize P s'"
    using write_uncached [of s] write_uncached [of s'] string_sim_uncached [OF assms] by simp
  then show ?thesis by (simp add: caml_srs_write_wasm_def)
qed

lemma commit_sim:
  assumes "string_sim basis s s'"
  shows "so_commit_non_hiding P s p k = so_commit_non_hiding P s' p k"
  using commit_generators [of s] commit_generators [of s'] string_sim_uncached [OF assms] by metis

lemma lagrange_commitment_wasm_sim:
  assumes "string_sim basis s s'"
  shows "answer_of (\<lambda>(comm, _). JsCommitment comm) (caml_srs_lagrange_commitment_wasm pool P s n i) =
    answer_of (\<lambda>(comm, _). JsCommitment comm) (caml_srs_lagrange_commitment_wasm pool P s' n i)"
proof (cases "so_domain_new P (unat n)")
  case (Some d)
  then show ?thesis
    using add_sim(4) [OF assms, of d]
    by (cases "srs_lagrange_bases (so_add_lagrange_basis P s' d) d"; cases "thread_pool pool")
      (simp_all add: caml_srs_lagrange_commitment_wasm_def answer_of_def hash_index_def vec_index_def same_on_def run_in_pool_def)
qed (simp add: caml_srs_lagrange_commitment_wasm_def answer_of_def)

lemma proof_create_wasm_sim:
  assumes "string_sim basis s s'"
  shows "answer_of (\<lambda>(pf, _). JsProof pf) (caml_plonk_proof_create_wasm pool P R os (index\<lparr>pi_srs := s\<rparr>) witness tables chals sgs) =
    answer_of (\<lambda>(pf, _). JsProof pf) (caml_plonk_proof_create_wasm pool P R os (index\<lparr>pi_srs := s'\<rparr>) witness tables chals sgs)"
proof -
  let ?d = "cs_domain_d1 (pi_cs index)"
  have "kp_create_recursive R os w ts (index\<lparr>pi_srs := so_add_lagrange_basis P s ?d\<rparr>) prev =
      kp_create_recursive R os w ts (index\<lparr>pi_srs := so_add_lagrange_basis P s' ?d\<rparr>) prev" for w ts prev
    using prover_reads add_sim(4) [OF assms] by blast
  then show ?thesis
    by (cases "thread_pool pool"; simp add: caml_plonk_proof_create_wasm_def run_in_pool_def Let_def and_then_assoc)
      (intro answer_of_and_then; simp add: answer_of_def split: outcome.splits)+
qed

lemma verifier_index_wasm_sim:
  assumes "string_sim basis s s'" and "t = so_add_lagrange_basis P s (cs_domain_d1 (pi_cs index))"
    and "t' = so_add_lagrange_basis P s' (cs_domain_d1 (pi_cs index))"
  shows "opaque_string_wasm (to_wasm t (kp_verifier_index R (index\<lparr>pi_srs := t\<rparr>))) =
    opaque_string_wasm (to_wasm t' (kp_verifier_index R (index\<lparr>pi_srs := t'\<rparr>)))"
proof -
  have u: "uncached t = uncached t'" using string_sim_uncached [OF add_sim(1) [OF assms(1)]] by (simp add: assms(2,3))
  have view: "opaque_string_wasm (to_wasm r v) = to_wasm (uncached r) (v\<lparr>vi_srs := w\<rparr>)" for r w
      and v :: "(u32, 's, 'e, 'f affine srs, 'f affine poly_comm, 'a, 'l, 'v) verifier_index"
    by (simp add: opaque_string_wasm_def to_wasm_def)
  show ?thesis
    unfolding view [where w = t]
    using verifier_index_reads_wasm [OF add_sim(4) [OF assms(1)]] u by (simp add: assms(2,3))
qed

text \<open>
  What is cached is the basis of the string, in both sessions.
\<close>

lemma known_basis:
  assumes "session_sim basis st st'" and "tracks known (se_strings st)" and "a < length (se_strings st)" and "s = se_strings st ! a"
    and "string_sim basis s s'"
  shows "srs_lagrange_bases s n = (if (a, n) \<in> known then Some (basis (srs_g s') (srs_h s') n) else None)"
  using assms by (auto simp: tracks_def string_sim_def cache_faithful_def generators_def domIff)

lemma get_lagrange_basis_sim:
  assumes "string_sim basis s s'" and "srs_lagrange_bases s (unat n) = (if k then Some (basis (srs_g s') (srs_h s') (unat n)) else None)"
  shows "answer_of (\<lambda>(bases, _). JsBasis bases) (caml_fp_srs_get_lagrange_basis pool P s n) =
    answer_of JsBasis
      (and_then (run_in_pool pool (\<lambda>_. expect (so_domain_new P (unat n)) ''invalid domain size'')) (\<lambda>d.
         if unat n = d \<or> k then Ok (map wasm_poly_comm_from (basis (srs_g s') (srs_h s') (unat n)))
         else Panic ''no entry found for key''))"
proof -
  have s: "cache_faithful basis s" "srs_g s' = srs_g s" "srs_h s' = srs_h s"
    using assms(1) by (auto simp: string_sim_def generators_def)
  have "srs_lagrange_bases (so_add_lagrange_basis P s d) (unat n) =
      (if unat n = d \<or> k then Some (basis (srs_g s') (srs_h s') (unat n)) else None)" for d
    using add_faithful(2) [OF s(1), of d] add_other [of "unat n" d s] assms(2) s(2,3) by (cases "unat n = d") auto
  then show ?thesis
    by (cases "thread_pool pool"; cases "so_domain_new P (unat n)")
      (simp_all add: caml_fp_srs_get_lagrange_basis_def run_in_pool_def answer_of_def hash_index_def)
qed

lemma set_basis_sim:
  assumes sim: "session_sim basis st st'" and honest: "honest_call basis st' (JsSetLagrangeBasis a n bs)"
  shows "step_sim basis (js_step shared_write ch P X C R st pool (JsSetLagrangeBasis a n bs))
    (js_step private_write ch P X C R st' pool (JsSetLagrangeBasis a n bs))"
  unfolding js_step.simps
proof (rule with_string_sim [OF sim], goal_cases)
  case (1 s s')
  have len: "length (se_strings st') = length (se_strings st)" and s': "string_sim basis s (se_strings st' ! a)"
    using sim 1 list_all2_lengthD list_all2_nthD by (fastforce simp: session_sim_def)+
  show ?case
  proof (cases "collect poly_comm_from_wasm bs :: ('f affine poly_comm list, js_error) outcome")
    case (Ok bases)
    have "bases = basis (srs_g s) (srs_h s) (unat n)"
      using honest 1(1) len Ok s' by (simp add: string_sim_def generators_def)
    then have "string_sim basis (s\<lparr>srs_lagrange_bases := (srs_lagrange_bases s)(unat n \<mapsto> bases)\<rparr>) (se_strings st' ! a)"
      and gen: "generators (s\<lparr>srs_lagrange_bases := (srs_lagrange_bases s)(unat n \<mapsto> bases)\<rparr>) = generators (se_strings st ! a)"
      using s' 1(2) by (auto simp: string_sim_def generators_def cache_faithful_def)
    from store_sim(1) [OF sim 1(1) this may_write]
    show ?thesis using Ok
      by (simp add: caml_fp_srs_set_lagrange_basis_def step_sim_def store_def private_write_def)
  qed (use sim in \<open>simp_all add: caml_fp_srs_set_lagrange_basis_def after_def step_sim_def\<close>)
qed

lemma step_sim_js:
  assumes sim: "session_sim basis st st'" and tracks: "tracks known (se_strings st)" and honest: "honest_call basis st' call"
  shows "step_sim basis (js_step shared_write ch P X C R st pool call) (js_spec_step basis ch P X C R known st' pool call)"
proof (cases call)
  case (JsCreate depth)
  have "string_sim basis (caml_srs_create_wasm P depth) (caml_srs_create_wasm P depth)"
    by (simp add: string_sim_def caml_srs_create_wasm_def create_uncached)
  with JsCreate sim show ?thesis by (simp add: new_string_sim)
next
  case (JsCreateParallel depth)
  have "string_sim basis s s" if "caml_fp_srs_create_parallel pool P depth = Ok s" for s
    using that by (cases "thread_pool pool")
      (auto simp: caml_fp_srs_create_parallel_def run_in_pool_def string_sim_def create_parallel_uncached)
  with JsCreateParallel sim show ?thesis by (auto intro!: after_sim new_string_sim)
next
  case (JsSet pts)
  have "string_sim basis s s" if "caml_fp_srs_set pts = Ok s" for s
    using that by (auto simp: caml_fp_srs_set_def string_sim_def split: list.splits)
  with JsSet sim show ?thesis by (auto intro!: after_sim new_string_sim)
next
  case (JsRead offset path)
  have files: "se_files st' = se_files st" using sim by (simp add: session_sim_def)
  have "string_sim basis s s" if "caml_srs_read_wasm D P fs offset path = Ok (Some s)" for s D fs
    using that by (auto simp: string_sim_def caml_srs_read_wasm_def split: option.splits intro!: uncached_faithful intro: read_uncached)
  then show ?thesis
    using sim files by (auto simp: JsRead intro!: after_sim new_string_sim step_simI split: option.split)
next
  case (JsWrite mode a path)
  have "se_files st' = se_files st" using sim by (simp add: session_sim_def)
  then show ?thesis
    using sim write_wasm_sim by (auto simp: JsWrite intro!: with_string_sim after_sim step_simI files_sim)
next
  case (JsGet a)
  then show ?thesis
    using sim by (auto simp: caml_fp_srs_get_def string_sim_def generators_def intro!: with_string_sim step_simI)
next
  case (JsH a)
  then show ?thesis
    using sim by (auto simp: caml_srs_h_wasm_def string_sim_def generators_def intro!: with_string_sim step_simI)
next
  case (JsLagrangeCommitment a n i)
  then show ?thesis
    using lagrange_commitment_wasm_sim store_add_sim [OF sim]
    by (auto simp: lagrange_commitment_effect_wasm_def split: option.split intro!: with_string_sim [OF sim] step_sim_pair)
next
  case (JsMaybeLagrangeCommitment a n i)
  then show ?thesis
    using known_basis [OF sim tracks] sim
    by (auto simp: caml_fp_srs_maybe_lagrange_commitment_def map_ok_comp intro!: with_string_sim [OF sim] step_sim_pair)
next
  case (JsAddLagrangeBasis a k)
  then show ?thesis
    using store_add_sim(1) [OF sim] sim
    by (cases "thread_pool pool")
      (auto simp: caml_srs_add_lagrange_basis_wasm_def run_in_pool_def intro!: with_string_sim after_and_then step_simI after_sim)
next
  case (JsSetLagrangeBasis a n bs)
  then show ?thesis using set_basis_sim [OF sim] honest by simp
next
  case (JsGetLagrangeBasis a n)
  have "private_write ss b s = ss" for ss b and s :: "'f affine srs" by (simp add: private_write_def)
  then have same: "store private_write st' b s = st'" for b s by (simp add: store_def)
  show ?thesis
    unfolding JsGetLagrangeBasis js_step.simps js_spec_step.simps
  proof (rule with_string_sim [OF sim], goal_cases)
    case (1 s s')
    have "session_sim basis (store shared_write st a (get_lagrange_basis_effect pool P s n)) st'"
      using store_add_sim [OF sim 1] by (auto simp: get_lagrange_basis_effect_def same split: option.split)
    with get_lagrange_basis_sim [OF 1(3) known_basis [OF sim tracks 1]] show ?case by (rule step_sim_pair)
  qed
next
  case (JsCommitEvaluations a n evals)
  then show ?thesis
    using sim commit_sim by (auto simp: caml_srs_commit_evaluations_wasm_def intro!: with_string_sim step_simI)
next
  case (JsBPolyCommitment a chals)
  then show ?thesis
    using sim commit_sim by (auto simp: caml_srs_b_poly_commitment_wasm_def Let_def intro!: with_string_sim step_simI)
next
  case (JsIndexCreate a gates public lookups runtimes prev)
  show ?thesis
    unfolding JsIndexCreate js_step.simps js_spec_step.simps
  proof (rule with_string_sim [OF sim], goal_cases)
    case (1 s s')
    show ?case
      using index_create_sim [OF sim 1 may_write] sim
      by (cases "thread_pool pool")
        (simp_all add: caml_pasta_fp_plonk_index_create_wasm_def run_in_pool_def Let_def map_ok_and_then after_def step_sim_def)
  qed
next
  case (JsIndexDecode bs a)
  then show ?thesis
    using sim restore_index_sim
    by (auto simp: caml_pasta_fp_plonk_index_decode_wasm_def intro!: with_string_sim after_and_then new_index_sim)
next
  case (JsIndexEncode k)
  then show ?thesis
    using sim by (auto simp: caml_pasta_fp_plonk_index_encode_wasm_def index_format intro!: with_index_sim step_simI)
next
  case (JsIndexSizes k)
  show ?thesis
    unfolding JsIndexSizes js_step.simps js_spec_step.simps
  proof (rule with_index_sim [OF sim], goal_cases)
    case (1 a index s s')
    show ?case
      using sim sizes_sim(2) [OF 1(3)] by (auto simp: index_size_wasm_defs intro!: step_simI)
  qed
next
  case (JsProofCreate os k witness tables chals sgs)
  then show ?thesis
    using proof_create_wasm_sim store_add_sim [OF sim]
    by (auto simp: proof_create_effect_wasm_def intro!: with_index_sim [OF sim] step_sim_pair)
next
  case (JsVerifierIndexCreate k)
  then show ?thesis
    using verifier_index_wasm_sim [OF _ refl refl] store_add_sim(1) [OF sim]
    by (auto simp: caml_plonk_verifier_index_create_wasm_def Let_def intro!: with_index_sim [OF sim] step_sim_pair)
qed

lemma run_refines_js:
  assumes "session_sim basis st st'" and "tracks known (se_strings st)" and "honest_run basis ch P X C R known st' calls"
    and "js_run shared_write ch P X C R st calls = (xs, shared)" and "js_spec_run basis ch P X C R known st' calls = (ys, known', copied)"
  shows "xs = ys \<and> session_sim basis shared copied \<and> tracks known' (se_strings shared)"
  using assms
proof (induction calls arbitrary: st st' known xs ys)
  case (Cons pc calls)
  obtain pool call where pc: "pc = (pool, call)" by fastforce
  let ?r = "js_step shared_write ch P X C R st pool call" and ?r' = "js_spec_step basis ch P X C R known st' pool call"
  have sim: "step_sim basis ?r ?r'"
    using Cons.prems(3) by (intro step_sim_js [OF Cons.prems(1,2)]) (simp add: pc)
  have "tracks (known \<union> js_caches ch P X st' pool call) (se_strings (snd ?r))"
    using step_tracks [OF Cons.prems(2) session_sim_valid [OF Cons.prems(1)]] js_caches_sim [OF Cons.prems(1), of ch P X pool call] by metis
  with sim Cons.prems(3-5) show ?case
    using Cons.IH [of "snd ?r" "snd ?r'"] by (auto simp: pc step_sim_def split: prod.splits)
qed simp

end

section \<open>Properties\<close>

text \<open>
  The string with exactly the bases of the given sizes.
\<close>

definition cached_string :: "'g lagrange \<Rightarrow> (nat \<times> nat) set \<Rightarrow> nat \<Rightarrow> 'g srs \<Rightarrow> 'g srs" where
  "cached_string basis known a s =
     s\<lparr>srs_lagrange_bases := (\<lambda>d. if (a, d) \<in> known then Some (basis (srs_g s) (srs_h s) d) else None)\<rparr>"

lemma tracked_string:
  assumes "string_sim basis (ss ! a) s'" and "tracks known ss" and "a < length ss"
  shows "ss ! a = cached_string basis known a s'"
proof -
  have "srs_lagrange_bases (ss ! a) = (\<lambda>d. if (a, d) \<in> known then Some (basis (srs_g s') (srs_h s') d) else None)"
    using assms by (fastforce simp: tracks_def string_sim_def cache_faithful_def generators_def domIff)
  with assms(1) show ?thesis
    by (intro srs.equality) (simp_all add: cached_string_def string_sim_def generators_def)
qed

text \<open>
  C7. What JavaScript can see of the sharing. In a session of calls on reference strings, indexes, proofs and
  verifier indexes in which JavaScript installs only bases that belong to the string, every answer
  is that of a specification that computes on copies without a cache and remembers nothing but which sizes
  have been asked for: only \<open>maybe_lagrange_commitment\<close> and \<open>get_lagrange_basis\<close> depend on that set. Calls
  that fail or panic after the basis was added count, calls that find no thread pool do not. At the end each
  string is its generators with exactly the bases of the remembered sizes.
\<close>

theorem js_session_refines:
  assumes "js_session_contract P basis X R" and "se_strings st = []" and "se_indexes st = []"
    and "honest_run basis ch P X C R {} st calls"
  shows "let (answers, shared) = js_run shared_write ch P X C R st calls;
      (spec_answers, known, copied) = js_spec_run basis ch P X C R {} st calls
    in answers = spec_answers \<and> se_files shared = se_files copied \<and>
      se_strings shared = map (\<lambda>a. cached_string basis known a (se_strings copied ! a)) [0..<length (se_strings copied)]"
proof -
  obtain xs shared where run: "js_run shared_write ch P X C R st calls = (xs, shared)" by fastforce
  obtain ys known copied where spec: "js_spec_run basis ch P X C R {} st calls = (ys, known, copied)" by (cases rule: prod_cases3)
  have "session_sim basis st st" and "tracks {} (se_strings st)" using assms(2,3) by (simp_all add: session_sim_def tracks_def)
  from js_session_contract.run_refines_js [OF assms(1) this assms(4) run spec]
  have eq: "xs = ys" and sim: "session_sim basis shared copied" and tracks: "tracks known (se_strings shared)" by blast+
  have strings: "list_all2 (string_sim basis) (se_strings shared) (se_strings copied)" using sim by (simp add: session_sim_def)
  have "se_strings shared = map (\<lambda>a. cached_string basis known a (se_strings copied ! a)) [0..<length (se_strings copied)]"
    using list_all2_lengthD [OF strings] tracked_string [OF list_all2_nthD [OF strings] tracks]
    by (intro nth_equalityI) simp_all
  with eq sim show ?thesis by (simp add: run spec session_sim_def)
qed

interpretation ref_js_session: js_session_contract "ref_srs_ops ref_affine" "\<lambda>gs h d. replicate d \<lparr>pc_elems = [h]\<rparr>" ref_builder
    "session_prover vi" for vi
  by unfold_locales
    (auto simp: ref_srs_ops_def ref_builder_def session_prover_def ref_prover_def ref_prove_def same_on_def generators_def
      Let_def uncached_def split: if_splits)

definition ref_basis_element :: "pasta_fp wpc" where
  "ref_basis_element = wasm_poly_comm_from \<lparr>pc_elems = [ref_affine]\<rparr>"

definition ref_js_build :: js_build where
  "ref_js_build = \<lparr>jb_overflow_checks = True, jb_fs = wasm32_fs\<rparr>"

definition ref_js_calls :: "(pool_state \<times> ('t, nat, pasta_fp) js_session_call) list" where
  "ref_js_calls =
     [(ready_pool, JsCreate 4), (ready_pool, JsMaybeLagrangeCommitment 0 4 0), (initial_pool, JsLagrangeCommitment 0 4 0),
      (ready_pool, JsLagrangeCommitment 0 4 9), (ready_pool, JsMaybeLagrangeCommitment 0 4 1),
      (ready_pool, JsGetLagrangeBasis 0 3), (ready_pool, JsSet [wasm_gvesta_from ref_affine, wasm_gvesta_from ref_affine]),
      (ready_pool, JsSetLagrangeBasis 1 2 [ref_basis_element, ref_basis_element]), (ready_pool, JsMaybeLagrangeCommitment 1 2 1)]"

lemmas ref_js_defs =
  ref_js_calls_def ref_basis_element_def ready_pool_def initial_pool_def run_in_pool_def
  new_string_def with_string_def after_def answer_of_def store_def private_write_def
  caml_srs_create_wasm_def caml_srs_lagrange_commitment_wasm_def caml_fp_srs_set_def caml_fp_srs_set_lagrange_basis_def
  hash_index_def vec_index_def domain_key_def ref_srs_ops_def empty_session_def

definition ref_js_answers :: "(nat, pasta_fp) js_answer list" where
  "ref_js_answers =
     [Handle 0, Value (JsMaybe None), Panicked ''called Option::unwrap() on a None value'', Panicked ''index out of bounds'',
      Value (JsMaybe (Some ref_basis_element)), Panicked ''no entry found for key'', Handle 1, Value JsDone,
      Value (JsMaybe (Some ref_basis_element))]"

lemma ref_js_honest:
  "honest_run (\<lambda>gs h d. replicate d \<lparr>pc_elems = [h]\<rparr>) ref_js_build (ref_srs_ops ref_affine) ref_builder C (session_prover vi) {}
     empty_session ref_js_calls"
proof -
  have "replicate 2 x = [x, x]" for x :: "pasta_fp affine poly_comm" by (simp add: numeral_2_eq_2)
  then show ?thesis by (simp add: ref_js_defs)
qed

lemma ref_js_spec_answers:
  "fst (js_spec_run (\<lambda>gs h d. replicate d \<lparr>pc_elems = [h]\<rparr>) ref_js_build (ref_srs_ops ref_affine) ref_builder C (session_prover vi) {}
     empty_session ref_js_calls) = ref_js_answers"
  by (simp add: ref_js_defs ref_js_answers_def Let_def)

theorem js_session_refines_witness:
  "\<forall>vi C. fst (js_run shared_write ref_js_build (ref_srs_ops ref_affine) ref_builder C (session_prover vi) empty_session ref_js_calls) =
     ref_js_answers"
proof (intro allI)
  fix vi :: "(u32, nat, unit, pasta_fp affine srs, pasta_fp affine poly_comm, unit, unit, 'v) verifier_index"
    and C :: "(nat, pasta_fp affine, 'p) commitment_ops"
  show "fst (js_run shared_write ref_js_build (ref_srs_ops ref_affine) ref_builder C (session_prover vi) empty_session ref_js_calls) =
     ref_js_answers"
    using js_session_refines [OF ref_js_session.js_session_contract_axioms [of vi] _ _ ref_js_honest [of C vi]]
      ref_js_spec_answers [of C vi]
    by (auto simp: empty_session_def split: prod.splits)
qed

end
