(* ===== verification/Wasm_Session_Fq.thy ===== *)
theory Wasm_Session_Fq
  imports Wasm_Session
begin

text \<open>
  Sessions of the bindings for JavaScript over the second curve. The module \<open>fq\<close> of
  \<^verbatim>\<open>wasm/src/srs.rs\<close> and the file \<^verbatim>\<open>wasm/src/pasta_fq_plonk_index.rs\<close> repeat the calls of
  the first curve by hand, not through a macro; here the two copies are shown to agree step by
  step, so the specification of the first holds for both.
\<close>

section \<open>The calls\<close>

text \<open>
  JavaScript builds the tables of a call from an identifier and the data, with the constructors
  of the module at hand.
\<close>

definition fq_lookup_table :: "'s wasm_fp_lookup_table \<Rightarrow> 's wasm_fq_lookup_table" where
  "fq_lookup_table t = wasm_fq_lookup_table_new (wlt_fp_id t) (wlt_fp_data t)"

definition fq_runtime_table_cfg :: "'s wasm_fp_runtime_table_cfg \<Rightarrow> 's wasm_fq_runtime_table_cfg" where
  "fq_runtime_table_cfg t = wasm_fq_runtime_table_cfg_new (wrc_fp_id t) (wrc_fp_first_column t)"

fun js_step_fq ::
  "'f affine write_back \<Rightarrow> js_build \<Rightarrow> ('s, 'f affine, 'poly) srs_ops \<Rightarrow>
    ('t, 's, 'f affine, 'e, 'l, 'a, 'x, 'y) index_ops \<Rightarrow> ('s, 'f affine, 'p) commitment_ops \<Rightarrow>
    ('t, 's, 'f affine, 'l, 'a, 'x, 'y, (u32, 's, 'e, 'f affine srs, 'f affine poly_comm, 'a, 'l, 'v) verifier_index) kimchi_prover \<Rightarrow>
    ('t, 's, 'f, 'l, 'a, 'x, 'y) session \<Rightarrow> pool_state \<Rightarrow> ('t, 's, 'f) js_session_call \<Rightarrow>
    ('s, 'f) js_answer \<times> ('t, 's, 'f, 'l, 'a, 'x, 'y) session" where
  "js_step_fq wr ch P X C R st pool (JsCreate depth) = new_string st (caml_srs_create_wasm P depth)"
| "js_step_fq wr ch P X C R st pool (JsCreateParallel depth) = after (new_string st) st (caml_fq_srs_create_parallel pool P depth)"
| "js_step_fq wr ch P X C R st pool (JsSet h_and_gs) = after (new_string st) st (caml_fq_srs_set h_and_gs)"
| "js_step_fq wr ch P X C R st pool (JsRead offset path) =
     after (\<lambda>r. case r of Some s \<Rightarrow> new_string st s | None \<Rightarrow> (Value JsNone, st)) st (caml_srs_read_wasm (jb_fs ch) P (se_files st) offset path)"
| "js_step_fq wr ch P X C R st pool (JsWrite append_mode a path) =
     with_string st a (\<lambda>s.
       after (\<lambda>fs. (Value JsDone, st\<lparr>se_files := fs\<rparr>)) st (caml_srs_write_wasm (jb_fs ch) P (se_files st) append_mode s path))"
| "js_step_fq wr ch P X C R st pool (JsGet a) = with_string st a (\<lambda>s. (Value (JsPoints (caml_fq_srs_get s)), st))"
| "js_step_fq wr ch P X C R st pool (JsH a) = with_string st a (\<lambda>s. (Value (JsPoint (caml_srs_h_wasm s)), st))"
| "js_step_fq wr ch P X C R st pool (JsLagrangeCommitment a domain_size i) =
     with_string st a (\<lambda>s.
       (answer_of (\<lambda>(comm, _). JsCommitment comm) (caml_srs_lagrange_commitment_wasm pool P s domain_size i),
        store wr st a (lagrange_commitment_effect_wasm pool P s domain_size)))"
| "js_step_fq wr ch P X C R st pool (JsMaybeLagrangeCommitment a domain_size i) =
     with_string st a (\<lambda>s. (answer_of JsMaybe (caml_fq_srs_maybe_lagrange_commitment s domain_size i), st))"
| "js_step_fq wr ch P X C R st pool (JsAddLagrangeBasis a log2_size) =
     with_string st a (\<lambda>s.
       after (\<lambda>s'. (Value JsDone, store wr st a s')) st (caml_srs_add_lagrange_basis_wasm pool (jb_overflow_checks ch) P s log2_size))"
| "js_step_fq wr ch P X C R st pool (JsSetLagrangeBasis a domain_size input_bases) =
     with_string st a (\<lambda>s.
       after (\<lambda>s'. (Value JsDone, store wr st a s')) st (caml_fq_srs_set_lagrange_basis s domain_size input_bases))"
| "js_step_fq wr ch P X C R st pool (JsGetLagrangeBasis a domain_size) =
     with_string st a (\<lambda>s.
       (answer_of (\<lambda>(bases, _). JsBasis bases) (caml_fq_srs_get_lagrange_basis pool P s domain_size),
        store wr st a (get_lagrange_basis_effect pool P s domain_size)))"
| "js_step_fq wr ch P X C R st pool (JsCommitEvaluations a domain_size evals) =
     with_string st a (\<lambda>s. (answer_of JsCommitment (caml_srs_commit_evaluations_wasm P s domain_size evals), st))"
| "js_step_fq wr ch P X C R st pool (JsBPolyCommitment a chals) =
     with_string st a (\<lambda>s. (answer_of JsCommitment (caml_srs_b_poly_commitment_wasm pool C P s chals), st))"
| "js_step_fq wr ch P X C R st pool (JsIndexCreate a gates public lookup_tables runtime_table_cfgs prev_challenges) =
     with_string st a (\<lambda>s.
       after (\<lambda>(index, s'). new_index (store wr st a s') a index) st
         (caml_pasta_fq_plonk_index_create_wasm pool P X gates public (map fq_lookup_table lookup_tables)
            (map fq_runtime_table_cfg runtime_table_cfgs) prev_challenges s))"
| "js_step_fq wr ch P X C R st pool (JsIndexDecode bytes a) =
     with_string st a (\<lambda>s. after (new_index st a) st (caml_pasta_fq_plonk_index_decode_wasm X bytes s))"
| "js_step_fq wr ch P X C R st pool (JsIndexEncode k) =
     with_index st k (\<lambda>a index. (answer_of JsBytes (caml_pasta_fq_plonk_index_encode_wasm X index), st))"
| "js_step_fq wr ch P X C R st pool (JsIndexSizes k) =
     with_index st k (\<lambda>a index.
       (Value (JsSizes
          [caml_pasta_fq_plonk_index_public_inputs_wasm index, caml_pasta_fq_plonk_index_domain_d1_size_wasm index,
           caml_pasta_fq_plonk_index_domain_d4_size_wasm index, caml_pasta_fq_plonk_index_domain_d8_size_wasm index,
           caml_pasta_fq_plonk_index_max_degree_wasm X index]), st))"
| "js_step_fq wr ch P X C R st pool (JsProofCreate os k witness runtime_tables prev_challenges prev_sgs) =
     with_index st k (\<lambda>a index.
       (answer_of (\<lambda>(pf, _). JsProof pf)
          (caml_plonk_proof_create_wasm pool P R os index witness runtime_tables prev_challenges prev_sgs),
        store wr st a (proof_create_effect_wasm pool P index)))"
| "js_step_fq wr ch P X C R st pool (JsVerifierIndexCreate k) =
     with_index st k (\<lambda>a index.
       case caml_plonk_verifier_index_create_wasm P (\<lambda>s. kp_verifier_index R (index\<lparr>pi_srs := s\<rparr>))
           (cs_domain_d1 (pi_cs index)) (pi_srs index) of
         (vi, s') \<Rightarrow> (Value (JsVerifierIndex a (opaque_string_wasm vi)), store wr st a s'))"

fun js_run_fq ::
  "'f affine write_back \<Rightarrow> js_build \<Rightarrow> ('s, 'f affine, 'poly) srs_ops \<Rightarrow>
    ('t, 's, 'f affine, 'e, 'l, 'a, 'x, 'y) index_ops \<Rightarrow> ('s, 'f affine, 'p) commitment_ops \<Rightarrow>
    ('t, 's, 'f affine, 'l, 'a, 'x, 'y, (u32, 's, 'e, 'f affine srs, 'f affine poly_comm, 'a, 'l, 'v) verifier_index) kimchi_prover \<Rightarrow>
    ('t, 's, 'f, 'l, 'a, 'x, 'y) session \<Rightarrow> (pool_state \<times> ('t, 's, 'f) js_session_call) list \<Rightarrow>
    ('s, 'f) js_answer list \<times> ('t, 's, 'f, 'l, 'a, 'x, 'y) session" where
  "js_run_fq wr ch P X C R st [] = ([], st)"
| "js_run_fq wr ch P X C R st ((pool, call) # calls) =
     (let (x, st) = js_step_fq wr ch P X C R st pool call;
          (xs, st) = js_run_fq wr ch P X C R st calls
      in (x # xs, st))"

section \<open>The two copies agree\<close>

text \<open>
  The copies name their own module in the texts of their errors, which is the only difference.
\<close>

fun untexted :: "js_error \<Rightarrow> js_error" where
  "untexted (JsValue _) = JsValue []"
| "untexted (JsError _) = JsError []"

definition same_texts_apart :: "('s, 'f) js_answer \<times> 'st \<Rightarrow> ('s, 'f) js_answer \<times> 'st \<Rightarrow> bool" where
  "same_texts_apart r r' \<longleftrightarrow>
     map_reply untexted (\<lambda>v. v) (fst r) = map_reply untexted (\<lambda>v. v) (fst r') \<and> snd r = snd r'"

lemma fq_srs_calls:
  "caml_fq_srs_create_parallel = caml_fp_srs_create_parallel" "caml_fq_srs_get = caml_fp_srs_get"
  "caml_fq_srs_set = caml_fp_srs_set"
  "caml_fq_srs_maybe_lagrange_commitment = caml_fp_srs_maybe_lagrange_commitment"
  "caml_fq_srs_set_lagrange_basis = caml_fp_srs_set_lagrange_basis"
  "caml_fq_srs_get_lagrange_basis = caml_fp_srs_get_lagrange_basis"
  by (simp_all add: fun_eq_iff caml_fq_srs_create_parallel_def caml_fp_srs_create_parallel_def
      caml_fq_srs_get_def caml_fp_srs_get_def caml_fq_srs_set_def caml_fp_srs_set_def
      caml_fq_srs_maybe_lagrange_commitment_def caml_fp_srs_maybe_lagrange_commitment_def
      caml_fq_srs_set_lagrange_basis_def caml_fp_srs_set_lagrange_basis_def
      caml_fq_srs_get_lagrange_basis_def caml_fp_srs_get_lagrange_basis_def)

lemma fq_index_sizes:
  "caml_pasta_fq_plonk_index_public_inputs_wasm = caml_pasta_fp_plonk_index_public_inputs_wasm"
  "caml_pasta_fq_plonk_index_domain_d1_size_wasm = caml_pasta_fp_plonk_index_domain_d1_size_wasm"
  "caml_pasta_fq_plonk_index_domain_d4_size_wasm = caml_pasta_fp_plonk_index_domain_d4_size_wasm"
  "caml_pasta_fq_plonk_index_domain_d8_size_wasm = caml_pasta_fp_plonk_index_domain_d8_size_wasm"
  "caml_pasta_fq_plonk_index_max_degree_wasm = caml_pasta_fp_plonk_index_max_degree_wasm"
  by (simp_all add: fun_eq_iff caml_pasta_fq_plonk_index_public_inputs_wasm_def
      caml_pasta_fp_plonk_index_public_inputs_wasm_def caml_pasta_fq_plonk_index_domain_d1_size_wasm_def
      caml_pasta_fp_plonk_index_domain_d1_size_wasm_def caml_pasta_fq_plonk_index_domain_d4_size_wasm_def
      caml_pasta_fp_plonk_index_domain_d4_size_wasm_def caml_pasta_fq_plonk_index_domain_d8_size_wasm_def
      caml_pasta_fp_plonk_index_domain_d8_size_wasm_def caml_pasta_fq_plonk_index_max_degree_wasm_def
      caml_pasta_fp_plonk_index_max_degree_wasm_def)

lemma fq_tables:
  "lookup_table_from_wasm_fq (fq_lookup_table t) = lookup_table_from_wasm_fp t"
  "runtime_table_cfg_from_wasm_fq (fq_runtime_table_cfg c) = runtime_table_cfg_from_wasm_fp c"
  by (simp_all add: lookup_table_from_wasm_fq_def lookup_table_from_wasm_fp_def fq_lookup_table_def
      wasm_fq_lookup_table_new_def runtime_table_cfg_from_wasm_fq_def runtime_table_cfg_from_wasm_fp_def
      fq_runtime_table_cfg_def wasm_fq_runtime_table_cfg_new_def)

text \<open>
  Where the two copies of a call name their module, their results are equal once the texts of the
  errors are dropped.
\<close>

lemma untexted_join:
  "map_err_with untexted (and_then (map_err_with (\<lambda>e. JsError (t e)) r) k) =
    map_err_with untexted (and_then (map_err_with (\<lambda>e. JsError (t' e)) r) k)"
  by (cases r) simp_all

lemma untexted_pool:
  "map_err_with untexted (f ()) = map_err_with untexted (f' ()) \<Longrightarrow>
    map_err_with untexted (run_in_pool pool f) = map_err_with untexted (run_in_pool pool f')"
  by (cases "thread_pool pool") (simp_all add: run_in_pool_def)

lemma fq_index_create:
  "map_err_with untexted (caml_pasta_fq_plonk_index_create_wasm pool P X gates public
      (map fq_lookup_table lookups) (map fq_runtime_table_cfg runtimes) prev s) =
    map_err_with untexted (caml_pasta_fp_plonk_index_create_wasm pool P X gates public lookups runtimes prev s)"
  unfolding caml_pasta_fq_plonk_index_create_wasm_def caml_pasta_fp_plonk_index_create_wasm_def Let_def
    map_map comp_def fq_tables
  by (intro untexted_pool untexted_join)

lemma fq_index_decode:
  "map_err_with untexted (caml_pasta_fq_plonk_index_decode_wasm X bs s) =
    map_err_with untexted (caml_pasta_fp_plonk_index_decode_wasm X bs s)"
  unfolding caml_pasta_fq_plonk_index_decode_wasm_def caml_pasta_fp_plonk_index_decode_wasm_def
  by (rule untexted_join)

lemma fq_index_encode:
  "map_err_with untexted (caml_pasta_fq_plonk_index_encode_wasm X index) =
    map_err_with untexted (caml_pasta_fp_plonk_index_encode_wasm X index)"
  by (cases "ix_serialize X index")
    (simp_all add: caml_pasta_fq_plonk_index_encode_wasm_def caml_pasta_fp_plonk_index_encode_wasm_def)

lemma same_refl [simp]: "same_texts_apart r r"
  by (simp add: same_texts_apart_def)

lemma same_with_string:
  "(\<And>s. same_texts_apart (f s) (f' s)) \<Longrightarrow> same_texts_apart (with_string st a f) (with_string st a f')"
  by (simp add: with_string_def)

lemma same_with_index:
  "(\<And>a index. same_texts_apart (f a index) (f' a index)) \<Longrightarrow> same_texts_apart (with_index st k f) (with_index st k f')"
  by (simp add: with_index_def split: prod.split)

lemma same_after:
  "map_err_with untexted r = map_err_with untexted r' \<Longrightarrow> same_texts_apart (after k st r) (after k st r')"
  by (cases r; cases r') (auto simp: after_def same_texts_apart_def)

lemma same_answer_of:
  "map_err_with untexted r = map_err_with untexted r' \<Longrightarrow>
    same_texts_apart (answer_of ok r, st) (answer_of ok r', st)"
  by (cases r; cases r') (auto simp: answer_of_def same_texts_apart_def)

lemmas same_intros = same_with_string same_with_index same_after same_answer_of
  fq_index_create fq_index_decode fq_index_encode

lemma step_fq: "same_texts_apart (js_step_fq wr ch P X C R st pool call) (js_step wr ch P X C R st pool call)"
proof (cases call)
  case (JsIndexCreate a gates public lookups runtimes prev)
  then show ?thesis by (auto intro: same_intros)
next
  case (JsIndexDecode bs a)
  then show ?thesis by (auto intro: same_intros)
next
  case (JsIndexEncode k)
  then show ?thesis by (auto intro: same_intros)
qed (simp_all add: fq_srs_calls fq_index_sizes)

lemma run_fq:
  "map (map_reply untexted (\<lambda>v. v)) (fst (js_run_fq wr ch P X C R st calls)) =
     map (map_reply untexted (\<lambda>v. v)) (fst (js_run wr ch P X C R st calls)) \<and>
   snd (js_run_fq wr ch P X C R st calls) = snd (js_run wr ch P X C R st calls)"
proof (induction calls arbitrary: st)
  case (Cons pc calls)
  obtain pool call where pc: "pc = (pool, call)" by fastforce
  have "map_reply untexted (\<lambda>v. v) (fst (js_step_fq wr ch P X C R st pool call)) =
      map_reply untexted (\<lambda>v. v) (fst (js_step wr ch P X C R st pool call))"
    and "snd (js_step_fq wr ch P X C R st pool call) = snd (js_step wr ch P X C R st pool call)"
    using step_fq [of wr ch P X C R st pool call] by (simp_all add: same_texts_apart_def)
  then show ?case
    using Cons.IH [of "snd (js_step wr ch P X C R st pool call)"]
    by (simp add: pc Let_def case_prod_unfold)
qed simp

section \<open>Properties\<close>

text \<open>
  C8. A session over the second curve. Under the contract of the first, its answers are, but for the
  texts of errors, those of the same specification; it leaves the same files, and each string
  with exactly the bases of the remembered sizes.
\<close>

theorem js_session_fq_refines:
  assumes "js_session_contract P basis X R" and "se_strings st = []" and "se_indexes st = []"
    and "honest_run basis ch P X C R {} st calls"
  shows "let (answers, shared) = js_run_fq shared_write ch P X C R st calls;
      (spec_answers, known, copied) = js_spec_run basis ch P X C R {} st calls
    in map (map_reply untexted (\<lambda>v. v)) answers = map (map_reply untexted (\<lambda>v. v)) spec_answers \<and>
      se_files shared = se_files copied \<and>
      (\<forall>a<length (se_strings shared). se_strings shared ! a = cached_string basis known a (se_strings copied ! a))"
proof -
  obtain xs shared where fp: "js_run shared_write ch P X C R st calls = (xs, shared)" by fastforce
  obtain zs where fq: "js_run_fq shared_write ch P X C R st calls = (zs, shared)"
    and same: "map (map_reply untexted (\<lambda>v. v)) zs = map (map_reply untexted (\<lambda>v. v)) xs"
    using run_fq [of shared_write ch P X C R st calls] by (metis fp fst_conv prod.collapse snd_conv)
  obtain ys known copied where spec: "js_spec_run basis ch P X C R {} st calls = (ys, known, copied)" by (cases rule: prod_cases3)
  have "session_sim basis st st" and "tracks {} (se_strings st)" using assms(2,3) by (simp_all add: session_sim_def tracks_def)
  from js_session_contract.run_refines_js [OF assms(1) this assms(4) fp spec]
  have eq: "xs = ys" and sim: "session_sim basis shared copied" and tracks: "tracks known (se_strings shared)" by blast+
  have strings: "list_all2 (string_sim basis) (se_strings shared) (se_strings copied)" using sim by (simp add: session_sim_def)
  with eq same sim tracks show ?thesis
    by (auto simp: fq spec session_sim_def dest: list_all2_nthD intro: tracked_string)
qed

theorem js_session_fq_refines_witness:
  "\<forall>vi C. map (map_reply untexted (\<lambda>v. v))
     (fst (js_run_fq shared_write ref_js_build (ref_srs_ops ref_affine) ref_builder C (session_prover vi) empty_session ref_js_calls)) =
     map (map_reply untexted (\<lambda>v. v)) ref_js_answers"
proof (intro allI)
  fix vi :: "(u32, nat, unit, pasta_fp affine srs, pasta_fp affine poly_comm, unit, unit, 'v) verifier_index"
    and C :: "(nat, pasta_fp affine, 'p) commitment_ops"
  show "map (map_reply untexted (\<lambda>v. v))
     (fst (js_run_fq shared_write ref_js_build (ref_srs_ops ref_affine) ref_builder C (session_prover vi) empty_session ref_js_calls)) =
     map (map_reply untexted (\<lambda>v. v)) ref_js_answers"
    using js_session_fq_refines [OF ref_js_session.js_session_contract_axioms [of vi] _ _ ref_js_honest [of C vi]]
      ref_js_spec_answers [of C vi]
    by (auto simp: empty_session_def split: prod.splits)
qed

end
