(* ===== verification/Oracles.thy ===== *)
theory Oracles
  imports Plonk_Proof
begin

text \<open>
  The random oracles of a proof: \<^verbatim>\<open>stubs/src/oracles.rs\<close> and
  \<^verbatim>\<open>wasm/src/oracles.rs\<close> (suffix \<open>_wasm\<close>; both are one macro, expanded for both fields).
  The sponge, the oracles of kimchi, the multi-scalar multiplication and the masking of polynomial
  commitments are parameters. The random oracles of kimchi are a record of this theory because the
  JavaScript bindings take them apart; for OCaml their view belongs to kimchi.
\<close>

section \<open>Oracles\<close>

datatype 's scalar_challenge = ScalarChallenge (challenge: 's)

record 's random_oracles =
  ro_joint_combiner :: "('s scalar_challenge \<times> 's) option"
  ro_beta :: 's
  ro_gamma :: 's
  ro_alpha_chal :: "'s scalar_challenge"
  ro_alpha :: 's
  ro_zeta :: 's
  ro_v :: 's
  ro_u :: 's
  ro_zeta_chal :: "'s scalar_challenge"
  ro_v_chal :: "'s scalar_challenge"
  ro_u_chal :: "'s scalar_challenge"

record ('s, 'sp) oracles_result =
  or_fq_sponge :: 'sp
  or_combined_inner_product :: 's
  or_public_evals :: "'s list list"
  or_digest :: 's
  or_oracles :: "'s random_oracles"

text \<open>
  \<open>PolyComm::multi_scalar_mul\<close>, \<open>srs.mask_custom\<close> (the commitment of its result),
  \<open>proof.oracles\<close>, \<open>absorb_fr\<close>, \<open>shift_scalar\<close>, \<open>proof.proof.prechallenges\<close> and
  \<open>RandomOracles::default()\<close>.
\<close>

record ('s, 'g, 'vi, 'sp) oracle_ops =
  oo_multi_scalar_mul :: "'g poly_comm list \<Rightarrow> 's list \<Rightarrow> 'g poly_comm"
  oo_mask_custom :: "'g srs \<Rightarrow> 'g poly_comm \<Rightarrow> 's poly_comm \<Rightarrow> 'g poly_comm option"
  oo_oracles :: "('s, 'g) prover_proof \<Rightarrow> 'vi \<Rightarrow> 'g poly_comm \<Rightarrow> 's list option \<Rightarrow> (('s, 'sp) oracles_result, string) outcome"
  oo_absorb_fr :: "'sp \<Rightarrow> 's list \<Rightarrow> 'sp"
  oo_shift_scalar :: "'s \<Rightarrow> 's"
  oo_prechallenges :: "('g, 's) opening_proof \<Rightarrow> 'sp \<Rightarrow> 's scalar_challenge list"
  oo_default :: "'s random_oracles"

text \<open>
  The commitment to the public input: the bases at the positions of the public input times its negation,
  masked with the blinding generator once.
\<close>

definition public_comm ::
  "'s ark_field \<Rightarrow> ('s, 'g, 'vi, 'sp) oracle_ops \<Rightarrow> 'g srs \<Rightarrow> 'g poly_comm list \<Rightarrow> 's list \<Rightarrow> ('g poly_comm, 'e) outcome" where
  "public_comm F Q srs lgr_comm public =
     (let p_comm = oo_multi_scalar_mul Q lgr_comm (map (ff_neg F) public) in
      expect (oo_mask_custom Q srs p_comm \<lparr>pc_elems = map (\<lambda>_. ff_one F) (pc_elems p_comm)\<rparr>)
        ''called Result::unwrap() on an Err value'')"

text \<open>
  What follows the oracles of kimchi: the combined inner product is absorbed before the challenges of the
  opening are drawn.
\<close>

definition opening_prechallenges ::
  "('s, 'g, 'vi, 'sp) oracle_ops \<Rightarrow> ('s, 'g) prover_proof \<Rightarrow> ('s, 'sp) oracles_result \<Rightarrow> 's list" where
  "opening_prechallenges Q pf r =
     (let sponge = oo_absorb_fr Q (or_fq_sponge r) [oo_shift_scalar Q (or_combined_inner_product r)]
      in map challenge (oo_prechallenges Q (pp_proof pf) sponge))"

section \<open>The bindings for OCaml\<close>

record ('o, 's) caml_oracles =
  co_o :: 'o
  co_p_eval :: "'s \<times> 's"
  co_opening_prechallenges :: "'s list"
  co_digest_before_evaluations :: 's

text \<open>
  \<open>CamlProverProof\<close> has the public input as a field, and \<open>CamlProofWithPublic\<close> adds the
  evaluations of the public input.
\<close>

record ('s, 'r) caml_prover_proof =
  cpp_public :: "'s list"
  cpp_rest :: 'r

record ('s, 'r) caml_proof_with_public =
  cpw_public_evals :: "'s point_evaluations option"
  cpw_proof :: "('s, 'r) caml_prover_proof"

definition oracles_create ::
  "'s ark_field \<Rightarrow> ('s, 'g, (u64, 'f, 'e, 'g srs, 'g poly_comm, 'a, 'l, 'v) verifier_index, 'sp) oracle_ops \<Rightarrow>
    ('i \<Rightarrow> ((u64, 'f, 'e, 'g srs, 'g poly_comm, 'a, 'l, 'v) verifier_index, ocaml_error) outcome) \<Rightarrow>
    ('c \<Rightarrow> ('g poly_comm, ocaml_error) outcome) \<Rightarrow>
    (('s, 'r) caml_proof_with_public \<Rightarrow> (('s, 'g) prover_proof \<times> 's list, ocaml_error) outcome) \<Rightarrow>
    ('s random_oracles \<Rightarrow> 'o) \<Rightarrow>
    'c list \<Rightarrow> 'i \<Rightarrow> ('s, 'r) caml_proof_with_public \<Rightarrow> (('o, 's) caml_oracles, ocaml_error) outcome" where
  "oracles_create F Q index_from pc_from pf_from o_into lgr_comm index pf =
     and_then (index_from index) (\<lambda>index.
     and_then (collect pc_from (take (length (cpp_public (cpw_proof pf))) lgr_comm)) (\<lambda>lgr_comm.
     and_then (public_comm F Q (vi_srs index) lgr_comm (cpp_public (cpw_proof pf))) (\<lambda>p_comm.
     and_then (pf_from pf) (\<lambda>(pf, public_input).
     and_then (map_err_with ErrorBox (oo_oracles Q pf index p_comm (Some public_input))) (\<lambda>r.
     let opening_prechallenges = opening_prechallenges Q pf r in
     and_then (vec_index (or_public_evals r) 0) (\<lambda>evals0.
     and_then (vec_index evals0 0) (\<lambda>p_eval0.
     and_then (vec_index (or_public_evals r) 1) (\<lambda>evals1.
     and_then (vec_index evals1 0) (\<lambda>p_eval1.
       Ok \<lparr>co_o = o_into (or_oracles r),
           co_p_eval = (p_eval0, p_eval1),
           co_opening_prechallenges = opening_prechallenges,
           co_digest_before_evaluations = or_digest r\<rparr>)))))))))"

definition oracles_create_no_public ::
  "'s ark_field \<Rightarrow> ('s, 'g, (u64, 'f, 'e, 'g srs, 'g poly_comm, 'a, 'l, 'v) verifier_index, 'sp) oracle_ops \<Rightarrow>
    ('i \<Rightarrow> ((u64, 'f, 'e, 'g srs, 'g poly_comm, 'a, 'l, 'v) verifier_index, ocaml_error) outcome) \<Rightarrow>
    ('c \<Rightarrow> ('g poly_comm, ocaml_error) outcome) \<Rightarrow>
    (('s, 'r) caml_proof_with_public \<Rightarrow> (('s, 'g) prover_proof \<times> 's list, ocaml_error) outcome) \<Rightarrow>
    ('s random_oracles \<Rightarrow> 'o) \<Rightarrow>
    'c list \<Rightarrow> 'i \<Rightarrow> ('s, 'r) caml_prover_proof \<Rightarrow> (('o, 's) caml_oracles, ocaml_error) outcome" where
  "oracles_create_no_public F Q index_from pc_from pf_from o_into lgr_comm index pf =
     (let pf = \<lparr>cpw_public_evals = None, cpw_proof = pf\<rparr> in
     and_then (index_from index) (\<lambda>index.
     and_then (collect pc_from (take (length (cpp_public (cpw_proof pf))) lgr_comm)) (\<lambda>lgr_comm.
     and_then (public_comm F Q (vi_srs index) lgr_comm (cpp_public (cpw_proof pf))) (\<lambda>p_comm.
     and_then (pf_from pf) (\<lambda>(pf, public_input).
     and_then (map_err_with ErrorBox (oo_oracles Q pf index p_comm (Some public_input))) (\<lambda>r.
     let opening_prechallenges = opening_prechallenges Q pf r in
     and_then (vec_index (or_public_evals r) 0) (\<lambda>evals0.
     and_then (vec_index evals0 0) (\<lambda>p_eval0.
     and_then (vec_index (or_public_evals r) 1) (\<lambda>evals1.
     and_then (vec_index evals1 0) (\<lambda>p_eval1.
       Ok \<lparr>co_o = o_into (or_oracles r),
           co_p_eval = (p_eval0, p_eval1),
           co_opening_prechallenges = opening_prechallenges,
           co_digest_before_evaluations = or_digest r\<rparr>))))))))))"

definition oracles_dummy :: "('s, 'g, 'vi, 'sp) oracle_ops \<Rightarrow> ('s random_oracles \<Rightarrow> 'o) \<Rightarrow> 'o" where
  "oracles_dummy Q o_into = o_into (oo_default Q)"

definition oracles_deep_copy :: "'o \<Rightarrow> 'o" where
  "oracles_deep_copy x = x"

section \<open>The bindings for JavaScript\<close>

record 's wasm_random_oracles =
  wro_joint_combiner_chal :: "'s option"
  wro_joint_combiner :: "'s option"
  wro_beta :: 's
  wro_gamma :: 's
  wro_alpha_chal :: 's
  wro_alpha :: 's
  wro_zeta :: 's
  wro_v :: 's
  wro_u :: 's
  wro_zeta_chal :: 's
  wro_v_chal :: 's
  wro_u_chal :: 's

definition wasm_random_oracles_new ::
  "'s option \<Rightarrow> 's option \<Rightarrow> 's \<Rightarrow> 's \<Rightarrow> 's \<Rightarrow> 's \<Rightarrow> 's \<Rightarrow> 's \<Rightarrow> 's \<Rightarrow> 's \<Rightarrow> 's \<Rightarrow> 's \<Rightarrow> 's wasm_random_oracles" where
  "wasm_random_oracles_new joint_combiner_chal joint_combiner beta gamma alpha_chal alpha zeta v u zeta_chal v_chal u_chal =
     \<lparr>wro_joint_combiner_chal = joint_combiner_chal, wro_joint_combiner = joint_combiner, wro_beta = beta,
      wro_gamma = gamma, wro_alpha_chal = alpha_chal, wro_alpha = alpha, wro_zeta = zeta, wro_v = v, wro_u = u,
      wro_zeta_chal = zeta_chal, wro_v_chal = v_chal, wro_u_chal = u_chal\<rparr>"

definition wasm_random_oracles_from :: "'s random_oracles \<Rightarrow> 's wasm_random_oracles" where
  "wasm_random_oracles_from ro =
     \<lparr>wro_joint_combiner_chal = map_option (\<lambda>x. challenge (fst x)) (ro_joint_combiner ro),
      wro_joint_combiner = map_option snd (ro_joint_combiner ro),
      wro_beta = ro_beta ro,
      wro_gamma = ro_gamma ro,
      wro_alpha_chal = challenge (ro_alpha_chal ro),
      wro_alpha = ro_alpha ro,
      wro_zeta = ro_zeta ro,
      wro_v = ro_v ro,
      wro_u = ro_u ro,
      wro_zeta_chal = challenge (ro_zeta_chal ro),
      wro_v_chal = challenge (ro_v_chal ro),
      wro_u_chal = challenge (ro_u_chal ro)\<rparr>"

definition random_oracles_from_wasm :: "'s wasm_random_oracles \<Rightarrow> 's random_oracles" where
  "random_oracles_from_wasm self =
     (let joint_combiner =
        (case (wro_joint_combiner_chal self, wro_joint_combiner self) of
           (Some joint_combiner_chal, Some joint_combiner) \<Rightarrow> Some (ScalarChallenge joint_combiner_chal, joint_combiner)
         | _ \<Rightarrow> None)
      in \<lparr>ro_joint_combiner = joint_combiner,
          ro_beta = wro_beta self,
          ro_gamma = wro_gamma self,
          ro_alpha_chal = ScalarChallenge (wro_alpha_chal self),
          ro_alpha = wro_alpha self,
          ro_zeta = wro_zeta self,
          ro_v = wro_v self,
          ro_u = wro_u self,
          ro_zeta_chal = ScalarChallenge (wro_zeta_chal self),
          ro_v_chal = ScalarChallenge (wro_v_chal self),
          ro_u_chal = ScalarChallenge (wro_u_chal self)\<rparr>)"

record 's wasm_oracles =
  wo_o :: "'s wasm_random_oracles"
  wo_p_eval0 :: 's
  wo_p_eval1 :: 's
  wo_opening_prechallenges :: "'s list"
  wo_digest_before_evaluations :: 's

definition wasm_oracles_new ::
  "'s wasm_random_oracles \<Rightarrow> 's \<Rightarrow> 's \<Rightarrow> 's list \<Rightarrow> 's \<Rightarrow> 's wasm_oracles" where
  "wasm_oracles_new oracles p_eval0 p_eval1 prechallenges digest_before_evaluations =
     \<lparr>wo_o = oracles, wo_p_eval0 = p_eval0, wo_p_eval1 = p_eval1, wo_opening_prechallenges = prechallenges,
      wo_digest_before_evaluations = digest_before_evaluations\<rparr>"

definition wasm_oracles_get_opening_prechallenges :: "'s wasm_oracles \<Rightarrow> 's list" where
  "wasm_oracles_get_opening_prechallenges self = wo_opening_prechallenges self"

definition wasm_oracles_set_opening_prechallenges :: "'s wasm_oracles \<Rightarrow> 's list \<Rightarrow> 's wasm_oracles" where
  "wasm_oracles_set_opening_prechallenges self x = self\<lparr>wo_opening_prechallenges := x\<rparr>"

definition oracles_create_wasm ::
  "pool_state \<Rightarrow> 's ark_field \<Rightarrow>
    ('s, 'b affine, (u32, 'f, 'e, 'b affine srs, 'b affine poly_comm, 'a, 'l, 'v) verifier_index, 'sp) oracle_ops \<Rightarrow>
    ('i \<Rightarrow> ((u32, 'f, 'e, 'b affine srs, 'b affine poly_comm, 'a, 'l, 'v) verifier_index, js_error) outcome) \<Rightarrow>
    'b wpc list \<Rightarrow> 'i \<Rightarrow> ('s, 'b) wasm_prover_proof \<Rightarrow> ('s wasm_oracles, js_error) outcome" where
  "oracles_create_wasm pool F Q index_from lgr_comm index pf =
     and_then (run_in_pool pool (\<lambda>_.
       and_then (index_from index) (\<lambda>index.
       and_then (collect poly_comm_from_wasm (take (length (wpp_public pf)) lgr_comm)) (\<lambda>lgr_comm.
       and_then (public_comm F Q (vi_srs index) lgr_comm (wpp_public pf)) (\<lambda>p_comm.
       and_then (prover_proof_from_wasm pf) (\<lambda>(pf, public_input).
       and_then (map_err_with (\<lambda>e. JsError (''oracles_create: '' @ e)) (oo_oracles Q pf index p_comm (Some public_input))) (\<lambda>r.
         Ok (or_oracles r, or_public_evals r, opening_prechallenges Q pf r, or_digest r)))))))) (\<lambda>(oracles, p_eval, prechallenges, digest).
     and_then (vec_index p_eval 0) (\<lambda>evals0.
     and_then (vec_index evals0 0) (\<lambda>p_eval0.
     and_then (vec_index p_eval 1) (\<lambda>evals1.
     and_then (vec_index evals1 0) (\<lambda>p_eval1.
       Ok \<lparr>wo_o = wasm_random_oracles_from oracles,
           wo_p_eval0 = p_eval0,
           wo_p_eval1 = p_eval1,
           wo_opening_prechallenges = prechallenges,
           wo_digest_before_evaluations = digest\<rparr>)))))"

definition oracles_dummy_wasm :: "'s ark_field \<Rightarrow> ('s, 'g, 'vi, 'sp) oracle_ops \<Rightarrow> 's wasm_oracles" where
  "oracles_dummy_wasm F Q =
     \<lparr>wo_o = wasm_random_oracles_from (oo_default Q),
      wo_p_eval0 = ff_zero F,
      wo_p_eval1 = ff_zero F,
      wo_opening_prechallenges = [],
      wo_digest_before_evaluations = ff_zero F\<rparr>"

definition oracles_deep_copy_wasm :: "('s, 'b) wasm_prover_proof \<Rightarrow> ('s, 'b) wasm_prover_proof" where
  "oracles_deep_copy_wasm x = x"

section \<open>What the bindings rely on\<close>

text \<open>
  For commitments of one element, \<open>multi_scalar_mul\<close> commits to the scalars and masking adds the
  multiple of the blinding generator to each element.
\<close>

locale oracle_contract = commitment_contract F C proj
  for F :: "'s ark_field" and C :: "('s, 'g, 'p :: ab_group_add) commitment_ops" and proj :: "'g \<Rightarrow> 'p" +
  fixes Q :: "('s, 'g, 'vi, 'sp) oracle_ops"
  assumes multi_scalar_mul: "bases \<noteq> [] \<Longrightarrow> length ss = length bases \<Longrightarrow>
      \<exists>g. oo_multi_scalar_mul Q (map (\<lambda>b. \<lparr>pc_elems = [b]\<rparr>) bases) ss = \<lparr>pc_elems = [g]\<rparr> \<and> proj g = dot F proj ss bases"
    and mask_custom: "length (pc_elems c) = length (pc_elems blinders) \<Longrightarrow>
      \<exists>m. oo_mask_custom Q srs c blinders = Some m \<and>
        map proj (pc_elems m) = map2 (\<lambda>g b. proj g + smul F b (proj (srs_h srs))) (pc_elems c) (pc_elems blinders)"
begin

lemma smul_neg: "smul F (ff_neg F a) P = - smul F a P" for P :: 'p
proof -
  have "times_nat (ff_order F - ff_value F a) P + times_nat (ff_value F a) P = times_nat (ff_order F) P"
    using value_bound [of a] by (simp add: times_nat_add [symmetric])
  then show ?thesis
    by (simp add: smul_def value_neg times_nat_mod [OF group_order] group_order eq_neg_iff_add_eq_0)
qed

lemma dot_neg: "dot F proj (map (ff_neg F) ss) gs = - dot F proj ss gs"
proof (induction ss arbitrary: gs)
  case (Cons s ss)
  then show ?case by (cases gs) (auto simp: smul_neg)
qed simp

lemma dot_take: "dot F proj ss (take (length ss) gs) = dot F proj ss gs"
proof (induction ss arbitrary: gs)
  case (Cons s ss)
  then show ?case by (cases gs) auto
qed simp

lemma public_comm_value:
  assumes "public \<noteq> []" and "length public \<le> length bases"
  shows "\<exists>g. public_comm F Q srs (map (\<lambda>b. \<lparr>pc_elems = [b]\<rparr>) (take (length public) bases)) public = Ok \<lparr>pc_elems = [g]\<rparr> \<and>
    proj g = proj (srs_h srs) - dot F proj public bases"
proof -
  let ?bases = "take (length public) bases"
  have "?bases \<noteq> []" using assms by auto
  with assms obtain g where g: "oo_multi_scalar_mul Q (map (\<lambda>b. \<lparr>pc_elems = [b]\<rparr>) ?bases) (map (ff_neg F) public) = \<lparr>pc_elems = [g]\<rparr>"
    and proj_g: "proj g = - dot F proj public bases"
    using multi_scalar_mul [of ?bases "map (ff_neg F) public"] by (auto simp: dot_neg dot_take)
  obtain m where m: "oo_mask_custom Q srs \<lparr>pc_elems = [g]\<rparr> \<lparr>pc_elems = [ff_one F]\<rparr> = Some m"
    and "map proj (pc_elems m) = [proj g + proj (srs_h srs)]"
    using mask_custom [of "\<lparr>pc_elems = [g]\<rparr>" "\<lparr>pc_elems = [ff_one F]\<rparr>" srs] by auto
  then obtain h where "m = \<lparr>pc_elems = [h]\<rparr>" "proj h = proj g + proj (srs_h srs)"
    by (cases m) auto
  then show ?thesis using g m proj_g by (auto simp: public_comm_def Let_def)
qed

end

text \<open>
  The values that both bindings return, from the answer of kimchi.
\<close>

definition oracle_values ::
  "('s, 'g, 'vi, 'sp) oracle_ops \<Rightarrow> ('s, 'g) prover_proof \<Rightarrow> ('s, 'sp) oracles_result \<Rightarrow>
    ('s random_oracles \<times> 's \<times> 's \<times> 's list \<times> 's) option" where
  "oracle_values Q pf r =
     (case or_public_evals r of
        (p0 # _) # (p1 # _) # _ \<Rightarrow> Some (or_oracles r, p0, p1, opening_prechallenges Q pf r, or_digest r)
      | _ \<Rightarrow> None)"

section \<open>Reference operations\<close>

definition ref_oracles :: "pasta_fp random_oracles" where
  "ref_oracles = (let z = ff_zero ref_fp in
     \<lparr>ro_joint_combiner = Some (ScalarChallenge z, z), ro_beta = z, ro_gamma = z, ro_alpha_chal = ScalarChallenge z, ro_alpha = z,
      ro_zeta = z, ro_v = z, ro_u = z, ro_zeta_chal = ScalarChallenge z, ro_v_chal = ScalarChallenge z, ro_u_chal = ScalarChallenge z\<rparr>)"

text \<open>
  The points of the reference curve as affine points: their first coordinate.
\<close>

definition ref_affine_of :: "pasta_fp \<Rightarrow> pasta_fp affine" where
  "ref_affine_of x = \<lparr>af_x = x, af_y = x, af_infinity = False\<rparr>"

definition ref_affine_curve :: "(pasta_fp, pasta_fp affine, pasta_fp) commitment_ops" where
  "ref_affine_curve = \<lparr>
     cc_msm = (\<lambda>gs bs. cc_msm ref_curve (map af_x gs) bs),
     cc_zero = cc_zero ref_curve, cc_into_affine = ref_affine_of,
     cc_b_poly_coefficients = cc_b_poly_coefficients ref_curve, cc_batch_inversion = cc_batch_inversion ref_curve\<rparr>"

lemma ref_affine_curve_contract: "commitment_contract ref_fp ref_affine_curve af_x"
proof (intro commitment_contract.intro commitment_contract_axioms.intro)
  show "ark_field_contract ref_fp" by (rule ref_fp_contract)
  show "cc_msm ref_affine_curve gs bs = (\<Sum>(g, b) \<leftarrow> zip gs bs. times_nat (bigint_value b) (af_x g))" for gs bs
    by (simp add: ref_affine_curve_def curve.msm zip_map1 comp_def case_prod_unfold)
qed (simp_all add: ref_affine_curve_def ref_affine_of_def curve.group_order curve.zero curve.b_poly_length
    curve.batch_inversion_length)

definition ref_oracle_ops :: "(pasta_fp, pasta_fp affine, 'vi, unit) oracle_ops" where
  "ref_oracle_ops = \<lparr>
     oo_multi_scalar_mul = (\<lambda>comms ss. \<lparr>pc_elems = [ref_affine_of (dot ref_fp af_x ss (map (\<lambda>c. hd (pc_elems c)) comms))]\<rparr>),
     oo_mask_custom = (\<lambda>srs c b. Some \<lparr>pc_elems = map2 (\<lambda>g b. ref_affine_of (af_x g + smul ref_fp b (af_x (srs_h srs)))) (pc_elems c) (pc_elems b)\<rparr>),
     oo_oracles = (\<lambda>pf vi c public. Ok \<lparr>or_fq_sponge = (), or_combined_inner_product = ff_zero ref_fp,
        or_public_evals = [[ff_one ref_fp], [ff_zero ref_fp]], or_digest = af_x (hd (pc_elems c)), or_oracles = ref_oracles\<rparr>),
     oo_absorb_fr = (\<lambda>sp xs. sp), oo_shift_scalar = (\<lambda>x. x), oo_prechallenges = (\<lambda>_ _. []), oo_default = ref_oracles\<rparr>"

interpretation ref_oracle: oracle_contract ref_fp ref_affine_curve af_x ref_oracle_ops
  by (rule oracle_contract.intro [OF ref_affine_curve_contract])
    (unfold_locales, auto simp: ref_oracle_ops_def ref_affine_of_def comp_def split_beta)

section \<open>Properties\<close>

text \<open>
  Random oracles and JavaScript. The oracles of a proof survive the trip to JavaScript and back. A
  JavaScript object is recovered from its oracles exactly when it has both parts of the joint combiner or
  neither; with only one of them both are lost.
\<close>

theorem random_oracles_wasm_roundtrip:
  "random_oracles_from_wasm (wasm_random_oracles_from ro) = ro \<and>
   (wasm_random_oracles_from (random_oracles_from_wasm w) = w \<longleftrightarrow>
      (wro_joint_combiner_chal w = None \<longleftrightarrow> wro_joint_combiner w = None)) \<and>
   wasm_random_oracles_from (random_oracles_from_wasm w) =
     (if wro_joint_combiner_chal w = None \<or> wro_joint_combiner w = None
      then w\<lparr>wro_joint_combiner_chal := None, wro_joint_combiner := None\<rparr> else w)"
  by (cases ro; cases w; cases "ro_joint_combiner ro"; cases "wro_joint_combiner_chal w"; cases "wro_joint_combiner w")
    (auto simp: random_oracles_from_wasm_def wasm_random_oracles_from_def Let_def)

text \<open>
  C15. The public input of the oracles. In both bindings kimchi is asked for the oracles of the proof with
  its public input and with one commitment: the blinding generator minus the sum of the bases at the
  positions of the public input, each times its element. Bases beyond the public input do not
  matter. The answer is returned unchanged, with the first evaluation of the public input at each of the two
  points; an answer without these panics, and an error is passed on. Without evaluations
  of the public input the call for OCaml is the same call on a proof that has none.
\<close>

theorem oracles_public_commitment:
  assumes "oracle_contract F C proj Q" and "oracle_contract F C proj Qw"
    and "public \<noteq> []" and "length public \<le> length bases" and "length (prc_w_comm (pp_commitments p)) = COLUMNS"
    and "index_from index = Ok vi" and "pf_from pf = Ok (p, public)" and "cpp_public (cpw_proof pf) = public"
    and "\<And>b. pc_from (pc_into b) = Ok b"
    and "thread_pool pool = Some k" and "windex_from windex = Ok wvi"
  shows "(\<exists>g. proj g = proj (srs_h (vi_srs vi)) - dot F proj public bases \<and>
      oracles_create F Q index_from pc_from pf_from o_into (map (\<lambda>b. pc_into \<lparr>pc_elems = [b]\<rparr>) bases) index pf =
        and_then (map_err_with ErrorBox (oo_oracles Q p vi \<lparr>pc_elems = [g]\<rparr> (Some public))) (\<lambda>r.
        map_ok (\<lambda>(ro, p0, p1, chals, digest). \<lparr>co_o = o_into ro, co_p_eval = (p0, p1), co_opening_prechallenges = chals,
            co_digest_before_evaluations = digest\<rparr>)
          (expect (oracle_values Q p r) ''index out of bounds''))) \<and>
    (\<exists>g. proj g = proj (srs_h (vi_srs wvi)) - dot F proj public bases \<and>
      oracles_create_wasm pool F Qw windex_from (map (\<lambda>b. wasm_poly_comm_from \<lparr>pc_elems = [b]\<rparr>) bases) windex
          (wasm_prover_proof_from (p, public)) =
        and_then (map_err_with (\<lambda>e. JsError (''oracles_create: '' @ e)) (oo_oracles Qw p wvi \<lparr>pc_elems = [g]\<rparr> (Some public))) (\<lambda>r.
        map_ok (\<lambda>(ro, p0, p1, chals, digest). \<lparr>wo_o = wasm_random_oracles_from ro, wo_p_eval0 = p0, wo_p_eval1 = p1,
            wo_opening_prechallenges = chals, wo_digest_before_evaluations = digest\<rparr>)
          (expect (oracle_values Qw p r) ''index out of bounds''))) \<and>
    oracles_create_no_public F Q index_from pc_from pf_from o_into comms index (cpw_proof pf) =
      oracles_create F Q index_from pc_from pf_from o_into comms index (pf\<lparr>cpw_public_evals := None\<rparr>)"
    (is "?ocaml \<and> ?wasm \<and> ?no_public")
proof (intro conjI)
  show ?no_public by (cases pf) (simp add: oracles_create_no_public_def oracles_create_def)
  let ?comms = "map (\<lambda>b. \<lparr>pc_elems = [b]\<rparr>) (take (length public) bases)"
  obtain g where "proj g = proj (srs_h (vi_srs vi)) - dot F proj public bases"
    and "public_comm F Q (vi_srs vi) ?comms public = (Ok \<lparr>pc_elems = [g]\<rparr> :: (_, ocaml_error) outcome)"
    using oracle_contract.public_comm_value [OF assms(1,3,4)] by blast
  moreover have "collect pc_from (map (\<lambda>b. pc_into \<lparr>pc_elems = [b]\<rparr>) xs) = Ok (map (\<lambda>b. \<lparr>pc_elems = [b]\<rparr>) xs)" for xs
    by (induction xs) (auto simp: assms(9))
  ultimately show ?ocaml
    using assms(6-8)
    by (intro exI [of _ g] conjI, simp, cases "oo_oracles Q p vi \<lparr>pc_elems = [g]\<rparr> (Some public)")
      (auto simp: oracles_create_def take_map oracle_values_def vec_index_def Let_def split: list.splits)
  obtain g where "proj g = proj (srs_h (vi_srs wvi)) - dot F proj public bases"
    and "public_comm F Qw (vi_srs wvi) ?comms public = (Ok \<lparr>pc_elems = [g]\<rparr> :: (_, js_error) outcome)"
    using oracle_contract.public_comm_value [OF assms(2-4)] by blast
  moreover have "collect poly_comm_from_wasm (map (\<lambda>b. wasm_poly_comm_from \<lparr>pc_elems = [b]\<rparr>) (take (length public) bases)) = Ok ?comms"
    using poly_comm.decode_list [of ?comms] by (simp add: comp_def)
  moreover have "wpp_public (wasm_prover_proof_from (p, public)) = public" by (simp add: wasm_prover_proof_from_def Let_def)
  ultimately show ?wasm
    using assms(10,11) prover_proof_roundtrip [OF assms(5), of public]
    by (intro exI [of _ g] conjI, simp, cases "oo_oracles Qw p wvi \<lparr>pc_elems = [g]\<rparr> (Some public)")
      (auto simp: oracles_create_wasm_def take_map oracle_values_def vec_index_def Let_def split: list.splits)
qed

definition ref_oracle_index :: "(('u :: zero), nat, nat, pasta_fp affine srs, pasta_fp affine poly_comm, nat, nat, nat) verifier_index" where
  "ref_oracle_index = (let c = \<lparr>pc_elems = []\<rparr> in
     \<lparr>vi_domain = \<lparr>dom_log_size_of_group = 1, dom_group_gen = 1\<rparr>,
      vi_max_poly_size = 0, vi_public = 0, vi_prev_challenges = 0, vi_powers_of_alpha = 0, vi_srs = ref_string, vi_zk_rows = 3,
      vi_sigma_comm = [], vi_coefficients_comm = [],
      vi_generic_comm = c, vi_psm_comm = c, vi_complete_add_comm = c, vi_mul_comm = c, vi_emul_comm = c, vi_endomul_scalar_comm = c,
      vi_xor_comm = None, vi_range_check0_comm = None, vi_range_check1_comm = None, vi_foreign_field_add_comm = None,
      vi_foreign_field_mul_comm = None, vi_rot_comm = None,
      vi_shift = [], vi_permutation_vanishing_polynomial_m = 0, vi_w = 0, vi_endo = 0,
      vi_lookup_index = None, vi_linearization = 0\<rparr>)"

definition ref_oracle_proof :: "(pasta_fp, pasta_fp affine) prover_proof" where
  "ref_oracle_proof = dummy_prover_proof (6, 5) (ff_one ref_fp) ref_affine None"

theorem oracles_public_commitment_witness:
  "\<exists>r. oracles_create_wasm ready_pool ref_fp ref_oracle_ops (\<lambda>_. Ok ref_oracle_index)
     (map (\<lambda>b. wasm_poly_comm_from \<lparr>pc_elems = [b]\<rparr>) [ref_affine, ref_affine]) ()
     (wasm_prover_proof_from (ref_oracle_proof, [ff_one ref_fp])) = Ok r \<and> wo_p_eval0 r = ff_one ref_fp \<and>
     wo_digest_before_evaluations r = af_x ref_affine - dot ref_fp af_x [ff_one ref_fp] [ref_affine, ref_affine]"
proof -
  have "length (prc_w_comm (pp_commitments ref_oracle_proof)) = COLUMNS"
    by (simp add: ref_oracle_proof_def dummy_prover_proof_def Let_def)
  moreover have "srs_h (vi_srs (ref_oracle_index :: (u32, nat, nat, pasta_fp affine srs, pasta_fp affine poly_comm, nat, nat, nat) verifier_index)) = ref_affine"
    by (simp add: ref_oracle_index_def ref_string_def Let_def)
  ultimately show ?thesis
    using oracles_public_commitment [OF ref_oracle.oracle_contract_axioms ref_oracle.oracle_contract_axioms,
        where public = "[ff_one ref_fp]" and bases = "[ref_affine, ref_affine]" and p = ref_oracle_proof and pool = ready_pool and k = 1
          and index_from = "\<lambda>_ :: unit. Ok ref_oracle_index" and index = "()" and vi = ref_oracle_index
          and pf_from = "\<lambda>_. Ok (ref_oracle_proof, [ff_one ref_fp])"
          and pf = "\<lparr>cpw_public_evals = None, cpw_proof = \<lparr>cpp_public = [ff_one ref_fp], cpp_rest = ()\<rparr>\<rparr>"
          and pc_from = "\<lambda>c. Ok c" and pc_into = "\<lambda>c. c" and o_into = "\<lambda>r. r"
          and windex_from = "\<lambda>_. Ok ref_oracle_index" and windex = "()" and wvi = ref_oracle_index and comms = "[]"]
    by (auto simp: ready_pool_def ref_oracle_ops_def oracle_values_def)
qed

end
