(* ===== verification/Plonk_Examples.thy ===== *)
theory Plonk_Examples
  imports Plonk_Proof
begin

text \<open>
  The example circuits of \<^verbatim>\<open>stubs/src/pasta_fp_plonk_proof.rs\<close>: each builds a circuit and a
  witness, creates an index and proves it. The lookup example is written out cell by cell in the
  source and here; the others call gadgets of kimchi, which are parameters, as are the random
  generator and the conversions of big integers. A failure of the constraint system or of the prover
  is unwrapped and so a panic. As for \<open>create\<close>, the reference string after the call is part of
  the result.
\<close>

section \<open>Gadgets of kimchi\<close>

datatype 'f generic_gate_spec = GConst 'f | GPub

datatype ff_ops = FFAdd | FFSub

datatype rot_mode = RotLeft | RotRight

text \<open>
  Gates: \<open>Wire::for_row\<close>, \<open>GateType::Lookup\<close>, \<open>CircuitGate::zero\<close>,
  \<open>create_generic_gadget\<close>, the \<open>connect\<close> functions and the gadgets that extend a circuit (with the
  next row, where they take and update it).
\<close>

record ('t, 'f) gate_gadgets =
  gg_for_row :: "nat \<Rightarrow> gate_wires"
  gg_lookup :: 't
  gg_zero :: "gate_wires \<Rightarrow> ('t, 'f) circuit_gate"
  gg_generic :: "gate_wires \<Rightarrow> 'f generic_gate_spec \<Rightarrow> 'f generic_gate_spec option \<Rightarrow> ('t, 'f) circuit_gate"
  gg_connect_cell_pair :: "('t, 'f) circuit_gate list \<Rightarrow> nat \<times> nat \<Rightarrow> nat \<times> nat \<Rightarrow> ('t, 'f) circuit_gate list"
  gg_connect_64bit :: "('t, 'f) circuit_gate list \<Rightarrow> nat \<Rightarrow> nat \<Rightarrow> ('t, 'f) circuit_gate list"
  gg_connect_ffadd_range_checks :: "('t, 'f) circuit_gate list \<Rightarrow> nat \<Rightarrow> nat option \<Rightarrow> nat option \<Rightarrow> nat \<Rightarrow> ('t, 'f) circuit_gate list"
  gg_create_multi_range_check :: "nat \<Rightarrow> nat \<times> ('t, 'f) circuit_gate list"
  gg_create_foreign_field_mul :: "nat \<Rightarrow> nat \<Rightarrow> nat \<times> ('t, 'f) circuit_gate list"
  gg_extend_range_check :: "nat \<times> ('t, 'f) circuit_gate list \<Rightarrow> nat \<times> ('t, 'f) circuit_gate list"
  gg_extend_multi_range_check :: "nat \<times> ('t, 'f) circuit_gate list \<Rightarrow> nat \<times> ('t, 'f) circuit_gate list"
  gg_extend_compact_multi_range_check :: "nat \<times> ('t, 'f) circuit_gate list \<Rightarrow> nat \<times> ('t, 'f) circuit_gate list"
  gg_extend_high_bounds :: "nat \<Rightarrow> nat \<times> ('t, 'f) circuit_gate list \<Rightarrow> nat \<times> ('t, 'f) circuit_gate list"
  gg_extend_chain_ffadd :: "nat \<Rightarrow> ff_ops list \<Rightarrow> nat \<Rightarrow> nat \<times> ('t, 'f) circuit_gate list \<Rightarrow> nat \<times> ('t, 'f) circuit_gate list"
  gg_extend_xor_gadget :: "nat \<Rightarrow> ('t, 'f) circuit_gate list \<Rightarrow> ('t, 'f) circuit_gate list"
  gg_extend_rot :: "nat \<Rightarrow> rot_mode \<Rightarrow> nat \<Rightarrow> ('t, 'f) circuit_gate list \<Rightarrow> ('t, 'f) circuit_gate list"

text \<open>
  Witnesses and the checks collected for them (\<open>'e\<close>), big integers and the random generator (\<open>'r\<close>).
\<close>

record ('f, 'e, 'r) witness_gadgets =
  wg_create_multi :: "'f \<Rightarrow> 'f \<Rightarrow> 'f \<Rightarrow> 'f list list"
  wg_extend_multi :: "'f list list \<Rightarrow> 'f \<Rightarrow> 'f \<Rightarrow> 'f \<Rightarrow> 'f list list"
  wg_extend_single :: "'f list list \<Rightarrow> 'f \<Rightarrow> 'f list list"
  wg_create_chain :: "nat list \<Rightarrow> ff_ops list \<Rightarrow> nat \<Rightarrow> 'f list list"
  wg_extend_xor_witness :: "'f list list \<Rightarrow> 'f \<Rightarrow> 'f \<Rightarrow> nat \<Rightarrow> 'f list list"
  wg_extend_rot :: "'f list list \<Rightarrow> u64 \<Rightarrow> nat \<Rightarrow> rot_mode \<Rightarrow> 'f list list"
  wg_foreign_field_mul :: "nat \<Rightarrow> nat \<Rightarrow> nat \<Rightarrow> 'f list list \<times> 'e"
  wg_extend_compact_multi_range_checks :: "'e \<times> 'f list list \<Rightarrow> 'e \<times> 'f list list"
  wg_extend_multi_range_checks :: "'e \<times> 'f list list \<Rightarrow> 'e \<times> 'f list list"
  wg_extend_high_bounds_computation :: "nat \<Rightarrow> 'e \<times> 'f list list \<Rightarrow> 'e \<times> 'f list list"
  wg_extend_limb_checks :: "'e \<times> 'f list list \<Rightarrow> 'e \<times> 'f list list"
  wg_add_high_bound_computation :: "'e \<Rightarrow> 'f \<Rightarrow> 'e"
  wg_add_multi_range_check :: "'e \<Rightarrow> 'f list \<Rightarrow> 'e"
  wg_add_limb_check :: "'e \<Rightarrow> 'f \<Rightarrow> 'e"
  wg_compute_high_bound :: "nat \<Rightarrow> nat \<Rightarrow> 'f"
  wg_to_field_limbs :: "nat \<Rightarrow> 'f list"
  wg_to_field :: "nat \<Rightarrow> 'f option"
  wg_from_u128 :: "128 word \<Rightarrow> 'f"
  wg_two_to_limb :: nat
  wg_rng_from_seed :: "bytes \<Rightarrow> 'r"
  wg_gen_biguint_range :: "'r \<Rightarrow> nat \<Rightarrow> nat \<Rightarrow> nat \<times> 'r"

section \<open>Common steps\<close>

text \<open>
  \<open>.unwrap()\<close> of a result.
\<close>

fun unwrap :: "('x, string) outcome \<Rightarrow> ('x, 'z) outcome" where
  "unwrap (Ok x) = Ok x"
| "unwrap (Err m) = Panic ''called Result::unwrap() on an Err value''"
| "unwrap (Panic m) = Panic m"

text \<open>
  \<open>for _ in 0..(1 << 13) { gates.push(CircuitGate::zero(Wire::for_row(row))); row += 1; }\<close>, and the
  same with \<open>gates.len()\<close> as the row.
\<close>

definition pad_from :: "('t, 'f) gate_gadgets \<Rightarrow> nat \<times> ('t, 'f) circuit_gate list \<Rightarrow> nat \<times> ('t, 'f) circuit_gate list" where
  "pad_from G = fold (\<lambda>_ (row, gates). (row + 1, gates @ [gg_zero G (gg_for_row G row)])) [0..<2 ^ 13]"

definition pad :: "('t, 'f) gate_gadgets \<Rightarrow> ('t, 'f) circuit_gate list \<Rightarrow> ('t, 'f) circuit_gate list" where
  "pad G = fold (\<lambda>_ gates. gates @ [gg_zero G (gg_for_row G (length gates))]) [0..<2 ^ 13]"

text \<open>
  \<open>cols[c][r] = v\<close> and \<open>cols[c][r]\<close>; an assignment out of range panics.
\<close>

definition set_cell :: "'f list list \<Rightarrow> nat \<Rightarrow> nat \<Rightarrow> 'f \<Rightarrow> ('f list list, 'z) outcome" where
  "set_cell cols c r v =
     and_then (vec_index cols c) (\<lambda>col.
       if r < length col then Ok (cols[c := col[r := v]]) else Panic ''index out of bounds'')"

definition get_cell :: "'f list list \<Rightarrow> nat \<Rightarrow> nat \<Rightarrow> ('f, 'z) outcome" where
  "get_cell cols c r = and_then (vec_index cols c) (\<lambda>col. vec_index col r)"

text \<open>
  From the constraint system on, all examples are the same: the basis of the domain is cached, the index
  is created, the cells of the public input (the given rows of the first column) are read and the proof is
  made without recursion.
\<close>

definition example_proof ::
  "('f, 'g, 'poly) srs_ops \<Rightarrow> ('t, 'f, 'g, 'en, 'l, 'a, 'x, 'y) index_ops \<Rightarrow> ('t, 'f, 'g, 'l, 'a, 'x, 'y, 'vi) kimchi_prover \<Rightarrow> entropy \<Rightarrow>
    'g srs \<Rightarrow> (('t, 'f, 'x) constraint_system, string) outcome \<Rightarrow> 'f list list \<Rightarrow> 'f runtime_table list \<Rightarrow> nat list \<Rightarrow>
    (('t, 'f, 'g, 'l, 'a, 'x, 'y) prover_index \<times> 'f list \<times> ('f, 'g) prover_proof \<times> 'g srs, ocaml_error) outcome" where
  "example_proof P X R os srs built witness runtime_tables rows =
     and_then (unwrap built) (\<lambda>cs.
     let srs = so_add_lagrange_basis P srs (cs_domain_d1 cs);
         index = ix_create X cs (ix_endo_q X) srs in
     and_then (collect (get_cell witness 0) rows) (\<lambda>public_input.
     and_then (unwrap (kp_create_recursive R os witness runtime_tables index [])) (\<lambda>pf.
       Ok (index, public_input, pf, srs))))"

fun for_each :: "('i \<Rightarrow> 's \<Rightarrow> ('s, 'z) outcome) \<Rightarrow> 'i list \<Rightarrow> 's \<Rightarrow> ('s, 'z) outcome" where
  "for_each body [] s = Ok s"
| "for_each body (i # is) s = and_then (body i s) (for_each body is)"

section \<open>Lookups in runtime tables\<close>

definition num_gates :: nat where
  "num_gates = 1000"

definition num_tables :: nat where
  "num_tables = 5"

definition lookup_fixed_tables :: "'f ark_field \<Rightarrow> 'f lookup_table list" where
  "lookup_fixed_tables F = [\<lparr>lt_id = 0, lt_data = [map (ff_from_u64 F) [0, 0, 0, 0, 0]]\<rparr>]"

definition lookup_first_column :: "'f ark_field \<Rightarrow> 'f list" where
  "lookup_first_column F = map (ff_from_u64 F) [8, 9, 8, 7, 1]"

definition lookup_runtime_tables_setup :: "'f ark_field \<Rightarrow> 'f runtime_table_cfg list" where
  "lookup_runtime_tables_setup F =
     map (\<lambda>table_id. \<lparr>rtc_id = word_of_nat table_id, rtc_first_column = lookup_first_column F\<rparr>) [0..<num_tables]"

definition lookup_runtime_tables :: "'f ark_field \<Rightarrow> 'f runtime_table list" where
  "lookup_runtime_tables F =
     (let data = map (ff_from_u64 F) [0, 2, 3, 4, 5]
      in map (\<lambda>cfg. \<lparr>rt_id = rtc_id cfg, rt_data = data\<rparr>) (lookup_runtime_tables_setup F))"

definition lookup_gates :: "('t, 'f) gate_gadgets \<Rightarrow> ('t, 'f) circuit_gate list" where
  "lookup_gates G = map (\<lambda>row. \<lparr>cg_typ = gg_lookup G, cg_wires = gg_for_row G row, cg_coeffs = []\<rparr>) [0..<num_gates]"

text \<open>
  One query: the chunk of two columns after the table id takes an index and its value.
\<close>

definition lookup_chunk :: "'f ark_field \<Rightarrow> nat \<Rightarrow> nat \<Rightarrow> 'f list list \<Rightarrow> ('f list list, 'z) outcome" where
  "lookup_chunk F row chunk_id cols =
     (let first = 1 + 2 * chunk_id; second = 2 + 2 * chunk_id in
      if (row + chunk_id) mod 2 = 0
      then and_then (set_cell cols first row (ff_from_u64 F 9)) (\<lambda>cols. set_cell cols second row (ff_from_u64 F 2))
      else and_then (set_cell cols first row (ff_from_u64 F 8)) (\<lambda>cols. set_cell cols second row (ff_from_u64 F 3)))"

definition lookup_row :: "'f ark_field \<Rightarrow> nat \<Rightarrow> 'f list list \<Rightarrow> ('f list list, 'z) outcome" where
  "lookup_row F row cols =
     and_then (set_cell cols 0 row (ff_from_u64 F (word_of_nat (row mod num_tables))))
       (for_each (lookup_chunk F row) [0..<3])"

definition lookup_witness :: "'f ark_field \<Rightarrow> ('f list list, 'z) outcome" where
  "lookup_witness F =
     for_each (lookup_row F) [0..<num_gates] (replicate COLUMNS (replicate num_gates (ff_zero F)))"

definition caml_pasta_fp_plonk_proof_example_with_lookup ::
  "('f, 'g, 'poly) srs_ops \<Rightarrow> ('t, 'f, 'g, 'en, 'l, 'a, 'x, 'y) index_ops \<Rightarrow> ('t, 'f, 'g, 'l, 'a, 'x, 'y, 'vi) kimchi_prover \<Rightarrow> entropy \<Rightarrow>
    ('t, 'f) gate_gadgets \<Rightarrow> 'f ark_field \<Rightarrow> (('f, 'g) prover_proof \<times> 'f list \<Rightarrow> 'cp) \<Rightarrow> 'g srs \<Rightarrow>
    ((('t, 'f, 'g, 'l, 'a, 'x, 'y) prover_index \<times> 'f \<times> 'cp) \<times> 'g srs, ocaml_error) outcome" where
  "caml_pasta_fp_plonk_proof_example_with_lookup P X R os G F pf_into srs =
     and_then (lookup_witness F) (\<lambda>witness.
     let num_public_inputs = 1;
         built = ix_build X (lookup_gates G) num_public_inputs 0 None (lookup_fixed_tables F) (Some (lookup_runtime_tables_setup F)) in
     and_then (example_proof P X R os srs built witness (lookup_runtime_tables F) [0]) (\<lambda>(index, public_input, pf, srs).
       Ok ((index, public_input ! 0, pf_into (pf, [public_input ! 0])), srs)))"

section \<open>Foreign field multiplication\<close>

definition foreign_field_mul_circuit ::
  "('t, 'f) gate_gadgets \<Rightarrow> ('f, 'e, 'r) witness_gadgets \<Rightarrow> nat \<Rightarrow>
    (('t, 'f) circuit_gate list \<times> 'f list list, 'z) outcome" where
  "foreign_field_mul_circuit G W foreign_field_modulus =
     (let connect = (\<lambda>a b (row, gates). (row, gg_connect_cell_pair G gates a b));
          circuit = gg_create_foreign_field_mul G 0 foreign_field_modulus;
          rng = wg_rng_from_seed W (replicate 32 2);
          (left_input, rng) = wg_gen_biguint_range W rng 0 foreign_field_modulus;
          (right_input, rng) = wg_gen_biguint_range W rng 0 foreign_field_modulus;
          (witness, external_checks) = wg_foreign_field_mul W left_input right_input foreign_field_modulus;
          circuit = gg_extend_compact_multi_range_check G circuit;
          circuit = connect (1, 0) (4, 1) circuit;
          circuit = connect (1, 1) (2, 0) circuit;
          checks = wg_extend_compact_multi_range_checks W (external_checks, witness);
          circuit = gg_extend_high_bounds G foreign_field_modulus circuit;
          circuit = connect (6, 0) (1, 1) circuit;
          checks = wg_extend_high_bounds_computation W foreign_field_modulus checks;
          circuit = gg_extend_multi_range_check G circuit;
          circuit = connect (1, 2) (7, 0) circuit;
          circuit = connect (1, 3) (8, 0) circuit;
          circuit = connect (1, 4) (9, 0) circuit;
          circuit = gg_extend_multi_range_check G circuit;
          circuit = connect (1, 5) (11, 0) circuit;
          circuit = connect (0, 6) (12, 0) circuit;
          circuit = connect (1, 6) (13, 0) circuit;
          (external_checks, witness) = wg_extend_multi_range_checks W checks;
          left_limbs = wg_to_field_limbs W left_input;
          right_limbs = wg_to_field_limbs W right_input in
      and_then (vec_index left_limbs 2) (\<lambda>left2.
      and_then (vec_index right_limbs 2) (\<lambda>right2.
      let external_checks = wg_add_high_bound_computation W external_checks left2;
          external_checks = wg_add_high_bound_computation W external_checks right2;
          circuit = gg_extend_high_bounds G foreign_field_modulus circuit;
          circuit = connect (15, 0) (0, 2) circuit;
          circuit = connect (15, 3) (0, 5) circuit;
          (external_checks, witness) = wg_extend_high_bounds_computation W foreign_field_modulus (external_checks, witness);
          external_checks = wg_add_multi_range_check W external_checks left_limbs;
          circuit = gg_extend_multi_range_check G circuit;
          circuit = connect (0, 0) (16, 0) circuit;
          circuit = connect (0, 1) (17, 0) circuit;
          circuit = connect (0, 2) (18, 0) circuit;
          external_checks = wg_add_multi_range_check W external_checks right_limbs;
          circuit = gg_extend_multi_range_check G circuit;
          circuit = connect (0, 3) (20, 0) circuit;
          circuit = connect (0, 4) (21, 0) circuit;
          circuit = connect (0, 5) (22, 0) circuit;
          (external_checks, witness) = wg_extend_multi_range_checks W (external_checks, witness);
          circuit = gg_extend_multi_range_check G circuit;
          circuit = connect (6, 2) (24, 0) circuit;
          left_hi_bound = wg_compute_high_bound W left_input foreign_field_modulus;
          right_hi_bound = wg_compute_high_bound W right_input foreign_field_modulus;
          external_checks = wg_add_limb_check W external_checks left_hi_bound;
          external_checks = wg_add_limb_check W external_checks right_hi_bound;
          circuit = connect (15, 2) (25, 0) circuit;
          circuit = connect (15, 5) (26, 0) circuit;
          (external_checks, witness) = wg_extend_limb_checks W (external_checks, witness)
      in Ok (snd (pad_from G circuit), witness))))"

text \<open>
  \<open>modulus\<close> is \<open>Fq::modulus_biguint()\<close>.
\<close>

definition caml_pasta_fp_plonk_proof_example_with_foreign_field_mul ::
  "('f, 'g, 'poly) srs_ops \<Rightarrow> ('t, 'f, 'g, 'en, 'l, 'a, 'x, 'y) index_ops \<Rightarrow> ('t, 'f, 'g, 'l, 'a, 'x, 'y, 'vi) kimchi_prover \<Rightarrow> entropy \<Rightarrow>
    ('t, 'f) gate_gadgets \<Rightarrow> nat \<Rightarrow> ('f, 'e, 'r) witness_gadgets \<Rightarrow> (('f, 'g) prover_proof \<times> 'f list \<Rightarrow> 'cp) \<Rightarrow> 'g srs \<Rightarrow>
    ((('t, 'f, 'g, 'l, 'a, 'x, 'y) prover_index \<times> 'cp) \<times> 'g srs, ocaml_error) outcome" where
  "caml_pasta_fp_plonk_proof_example_with_foreign_field_mul P X R os G modulus W pf_into srs =
     and_then (foreign_field_mul_circuit G W modulus) (\<lambda>(gates, witness).
     let built = ix_build X gates 0 0 None [] None in
     and_then (example_proof P X R os srs built witness [] []) (\<lambda>(index, _, pf, srs).
       Ok ((index, pf_into (pf, [])), srs)))"

section \<open>Range checks\<close>

definition random_limb :: "('f, 'e, 'r) witness_gadgets \<Rightarrow> 'r \<Rightarrow> ('f \<times> 'r, 'z) outcome" where
  "random_limb W rng =
     (let (n, rng) = wg_gen_biguint_range W rng 0 (wg_two_to_limb W) in
      map_ok (\<lambda>f. (f, rng)) (expect (wg_to_field W n) ''failed to convert to field''))"

definition caml_pasta_fp_plonk_proof_example_with_range_check ::
  "('f, 'g, 'poly) srs_ops \<Rightarrow> ('t, 'f, 'g, 'en, 'l, 'a, 'x, 'y) index_ops \<Rightarrow> ('t, 'f, 'g, 'l, 'a, 'x, 'y, 'vi) kimchi_prover \<Rightarrow> entropy \<Rightarrow>
    ('t, 'f) gate_gadgets \<Rightarrow> ('f, 'e, 'r) witness_gadgets \<Rightarrow> (('f, 'g) prover_proof \<times> 'f list \<Rightarrow> 'cp) \<Rightarrow> 'g srs \<Rightarrow>
    ((('t, 'f, 'g, 'l, 'a, 'x, 'y) prover_index \<times> 'cp) \<times> 'g srs, ocaml_error) outcome" where
  "caml_pasta_fp_plonk_proof_example_with_range_check P X R os G W pf_into srs =
     (let rng = wg_rng_from_seed W (replicate 32 255);
          circuit = gg_create_multi_range_check G 0 in
      and_then (random_limb W rng) (\<lambda>(f0, rng).
      and_then (random_limb W rng) (\<lambda>(f1, rng).
      and_then (random_limb W rng) (\<lambda>(f2, rng).
      let witness = wg_create_multi W f0 f1 f2;
          (next_row, gates) = pad_from G circuit;
          built = ix_build X gates 0 0 None [] None in
      and_then (example_proof P X R os srs built witness [] []) (\<lambda>(index, _, pf, srs).
        Ok ((index, pf_into (pf, [])), srs))))))"

definition range_check0_gates :: "'f ark_field \<Rightarrow> ('t, 'f) gate_gadgets \<Rightarrow> ('t, 'f) circuit_gate list" where
  "range_check0_gates F G =
     (let gates = [gg_generic G (gg_for_row G 0) (GConst (ff_zero F)) None];
          (row, gates) = gg_extend_range_check G (1, gates);
          gates = pad G gates
      in gg_connect_64bit G gates 0 1)"

definition caml_pasta_fp_plonk_proof_example_with_range_check0 ::
  "('f, 'g, 'poly) srs_ops \<Rightarrow> ('t, 'f, 'g, 'en, 'l, 'a, 'x, 'y) index_ops \<Rightarrow> ('t, 'f, 'g, 'l, 'a, 'x, 'y, 'vi) kimchi_prover \<Rightarrow> entropy \<Rightarrow>
    ('t, 'f) gate_gadgets \<Rightarrow> 'f ark_field \<Rightarrow> ('f, 'e, 'r) witness_gadgets \<Rightarrow> (('f, 'g) prover_proof \<times> 'f list \<Rightarrow> 'cp) \<Rightarrow> 'g srs \<Rightarrow>
    ((('t, 'f, 'g, 'l, 'a, 'x, 'y) prover_index \<times> 'cp) \<times> 'g srs, ocaml_error) outcome" where
  "caml_pasta_fp_plonk_proof_example_with_range_check0 P X R os G F W pf_into srs =
     (let gates = range_check0_gates F G;
          witness = wg_extend_single W (replicate COLUMNS [ff_zero F]) (wg_from_u128 W (2 ^ 64 - 1));
          built = ix_build X gates 0 0 None [] None in
      and_then (example_proof P X R os srs built witness [] []) (\<lambda>(index, _, pf, srs).
        Ok ((index, pf_into (pf, [])), srs)))"

section \<open>Foreign field addition\<close>

definition ffadd_modulus_bytes :: bytes where
  "ffadd_modulus_bytes =
     [0xFF, 0xFF, 0xFF, 0xFF, 0xFF, 0xFF, 0xFF, 0xFF, 0xFF, 0xFF, 0xFE, 0xFF, 0xFF, 0xFF, 0xFF,
      0xFF, 0xFF, 0xFF, 0xFF, 0xFF, 0xFF, 0xFF, 0xFF, 0xFF, 0xFF, 0xFF, 0xFF, 0xFE, 0xFF, 0xFF,
      0xFC, 0x2F]"

text \<open>
  \<open>BigUint::from_bytes_be\<close>.
\<close>

definition ffadd_modulus :: nat where
  "ffadd_modulus = le_value (rev ffadd_modulus_bytes)"

definition ffadd_gates :: "('t, 'f) gate_gadgets \<Rightarrow> ('t, 'f) circuit_gate list" where
  "ffadd_gates G =
     (let gates = [gg_generic G (gg_for_row G 0) GPub None];
          circuit = gg_extend_chain_ffadd G 0 [FFAdd] ffadd_modulus (1, gates);
          (curr_row, gates) = fold (\<lambda>_. gg_extend_multi_range_check G) [0..<4] circuit;
          gates = gg_connect_ffadd_range_checks G gates 1 (Some 4) (Some 8) 12;
          gates = gg_connect_ffadd_range_checks G gates 2 None None 16
      in snd (pad_from G (curr_row, gates)))"

definition extend_columns :: "'f list list \<Rightarrow> 'f list list \<Rightarrow> ('f list list, 'z) outcome" where
  "extend_columns add_witness =
     for_each (\<lambda>col witness.
       and_then (vec_index witness col) (\<lambda>xs.
       and_then (vec_index add_witness col) (\<lambda>ys. Ok (witness[col := xs @ ys])))) [0..<COLUMNS]"

definition extend_multi_at ::
  "('f, 'e, 'r) witness_gadgets \<Rightarrow> nat \<Rightarrow> nat \<Rightarrow> 'f list list \<Rightarrow> ('f list list, 'z) outcome" where
  "extend_multi_at W col row witness =
     and_then (get_cell witness col row) (\<lambda>v0.
     and_then (get_cell witness (col + 1) row) (\<lambda>v1.
     and_then (get_cell witness (col + 2) row) (\<lambda>v2.
       Ok (wg_extend_multi W witness v0 v1 v2))))"

definition ffadd_witness :: "'f ark_field \<Rightarrow> ('f, 'e, 'r) witness_gadgets \<Rightarrow> ('f list list, 'z) outcome" where
  "ffadd_witness F W =
     and_then (set_cell (replicate COLUMNS [ff_zero F]) 0 0 (ff_one F)) (\<lambda>witness.
     let left = ffadd_modulus - 1;
         right = ffadd_modulus - 1;
         add_witness = wg_create_chain W [left, right] [FFAdd] ffadd_modulus in
     and_then (extend_columns add_witness witness) (\<lambda>witness.
     and_then (extend_multi_at W 0 1 witness) (\<lambda>witness.
     and_then (extend_multi_at W 3 1 witness) (\<lambda>witness.
     and_then (extend_multi_at W 0 2 witness) (\<lambda>witness.
       extend_multi_at W 0 3 witness)))))"

definition caml_pasta_fp_plonk_proof_example_with_ffadd ::
  "('f, 'g, 'poly) srs_ops \<Rightarrow> ('t, 'f, 'g, 'en, 'l, 'a, 'x, 'y) index_ops \<Rightarrow> ('t, 'f, 'g, 'l, 'a, 'x, 'y, 'vi) kimchi_prover \<Rightarrow> entropy \<Rightarrow>
    ('t, 'f) gate_gadgets \<Rightarrow> 'f ark_field \<Rightarrow> ('f, 'e, 'r) witness_gadgets \<Rightarrow> (('f, 'g) prover_proof \<times> 'f list \<Rightarrow> 'cp) \<Rightarrow> 'g srs \<Rightarrow>
    ((('t, 'f, 'g, 'l, 'a, 'x, 'y) prover_index \<times> 'f \<times> 'cp) \<times> 'g srs, ocaml_error) outcome" where
  "caml_pasta_fp_plonk_proof_example_with_ffadd P X R os G F W pf_into srs =
     and_then (ffadd_witness F W) (\<lambda>witness.
     let num_public_inputs = 1;
         built = ix_build X (ffadd_gates G) num_public_inputs 0 None [] None in
     and_then (example_proof P X R os srs built witness [] [0]) (\<lambda>(index, public_input, pf, srs).
       Ok ((index, public_input ! 0, pf_into (pf, [public_input ! 0])), srs)))"

section \<open>Exclusive or and rotation\<close>

definition public_gates :: "('t, 'f) gate_gadgets \<Rightarrow> nat \<Rightarrow> ('t, 'f) circuit_gate list" where
  "public_gates G num_public_inputs = map (\<lambda>row. gg_generic G (gg_for_row G row) GPub None) [0..<num_public_inputs]"

definition xor_gates :: "('t, 'f) gate_gadgets \<Rightarrow> ('t, 'f) circuit_gate list" where
  "xor_gates G =
     (let gates = public_gates G 2;
          gates = gg_extend_xor_gadget G 128 gates;
          gates = gg_connect_cell_pair G gates (0, 0) (2, 0);
          gates = gg_connect_cell_pair G gates (1, 0) (2, 1)
      in pad G gates)"

definition xor_witness :: "'f ark_field \<Rightarrow> ('f, 'e, 'r) witness_gadgets \<Rightarrow> ('f list list, 'z) outcome" where
  "xor_witness F W =
     (let input1 = 0xDC811727DAF22EC15927D6AA275F406B;
          input2 = 0xA4F4417AF072DF9016A1EAB458DA80D1 in
      and_then (set_cell (replicate COLUMNS [ff_zero F, ff_zero F]) 0 0 (wg_from_u128 W input1)) (\<lambda>cols.
      and_then (set_cell cols 0 1 (wg_from_u128 W input2)) (\<lambda>cols.
        Ok (wg_extend_xor_witness W cols (wg_from_u128 W input1) (wg_from_u128 W input2) 128))))"

definition caml_pasta_fp_plonk_proof_example_with_xor ::
  "('f, 'g, 'poly) srs_ops \<Rightarrow> ('t, 'f, 'g, 'en, 'l, 'a, 'x, 'y) index_ops \<Rightarrow> ('t, 'f, 'g, 'l, 'a, 'x, 'y, 'vi) kimchi_prover \<Rightarrow> entropy \<Rightarrow>
    ('t, 'f) gate_gadgets \<Rightarrow> 'f ark_field \<Rightarrow> ('f, 'e, 'r) witness_gadgets \<Rightarrow> (('f, 'g) prover_proof \<times> 'f list \<Rightarrow> 'cp) \<Rightarrow> 'g srs \<Rightarrow>
    ((('t, 'f, 'g, 'l, 'a, 'x, 'y) prover_index \<times> ('f \<times> 'f) \<times> 'cp) \<times> 'g srs, ocaml_error) outcome" where
  "caml_pasta_fp_plonk_proof_example_with_xor P X R os G F W pf_into srs =
     and_then (xor_witness F W) (\<lambda>witness.
     let num_public_inputs = 2;
         built = ix_build X (xor_gates G) num_public_inputs 0 None [] None in
     and_then (example_proof P X R os srs built witness [] [0, 1]) (\<lambda>(index, public_input, pf, srs).
       Ok ((index, (public_input ! 0, public_input ! 1), pf_into (pf, [public_input ! 0, public_input ! 1])), srs)))"

definition rot_gates :: "('t, 'f) gate_gadgets \<Rightarrow> ('t, 'f) circuit_gate list" where
  "rot_gates G =
     (let gates = public_gates G 2;
          gates = gg_extend_rot G 32 RotLeft 1 gates;
          gates = gg_connect_cell_pair G gates (0, 0) (2, 0)
      in pad G gates)"

definition rot_witness :: "'f ark_field \<Rightarrow> ('f, 'e, 'r) witness_gadgets \<Rightarrow> ('f list list, 'z) outcome" where
  "rot_witness F W =
     (let input = 0xDC811727DAF22EC1 in
      and_then (set_cell (replicate COLUMNS [ff_zero F, ff_zero F]) 0 0 (ff_from_u64 F input)) (\<lambda>cols.
        Ok (wg_extend_rot W cols input 32 RotLeft)))"

definition caml_pasta_fp_plonk_proof_example_with_rot ::
  "('f, 'g, 'poly) srs_ops \<Rightarrow> ('t, 'f, 'g, 'en, 'l, 'a, 'x, 'y) index_ops \<Rightarrow> ('t, 'f, 'g, 'l, 'a, 'x, 'y, 'vi) kimchi_prover \<Rightarrow> entropy \<Rightarrow>
    ('t, 'f) gate_gadgets \<Rightarrow> 'f ark_field \<Rightarrow> ('f, 'e, 'r) witness_gadgets \<Rightarrow> (('f, 'g) prover_proof \<times> 'f list \<Rightarrow> 'cp) \<Rightarrow> 'g srs \<Rightarrow>
    ((('t, 'f, 'g, 'l, 'a, 'x, 'y) prover_index \<times> ('f \<times> 'f) \<times> 'cp) \<times> 'g srs, ocaml_error) outcome" where
  "caml_pasta_fp_plonk_proof_example_with_rot P X R os G F W pf_into srs =
     and_then (rot_witness F W) (\<lambda>witness.
     let num_public_inputs = 2;
         built = ix_build X (rot_gates G) num_public_inputs 0 None [] None in
     and_then (example_proof P X R os srs built witness [] [0, 1]) (\<lambda>(index, public_input, pf, srs).
       Ok ((index, (public_input ! 0, public_input ! 1), pf_into (pf, [public_input ! 0, public_input ! 1])), srs)))"

section \<open>Grids of cells\<close>

text \<open>
  A witness as a function of column and row: \<open>cells n cols f\<close> holds for columns of \<open>n\<close> rows with
  the contents \<open>f\<close>.
\<close>

definition cells :: "nat \<Rightarrow> 'f list list \<Rightarrow> (nat \<Rightarrow> nat \<Rightarrow> 'f) \<Rightarrow> bool" where
  "cells n cols f \<longleftrightarrow> length cols = COLUMNS \<and> (\<forall>c < COLUMNS. length (cols ! c) = n \<and> (\<forall>r < n. cols ! c ! r = f c r))"

lemma cells_replicate: "cells n (replicate COLUMNS (replicate n v)) (\<lambda>_ _. v)"
  by (simp add: cells_def)

lemma cells_cong: "cells n cols f \<Longrightarrow> (\<And>c r. c < COLUMNS \<Longrightarrow> r < n \<Longrightarrow> f c r = g c r) \<Longrightarrow> cells n cols g"
  by (simp add: cells_def)

lemma set_cell_cells:
  assumes "cells n cols f" and "c < COLUMNS" and "r < n"
  shows "\<exists>cols'. set_cell cols c r v = Ok cols' \<and> cells n cols' (\<lambda>c' r'. if c' = c \<and> r' = r then v else f c' r')"
  using assms by (auto simp: cells_def set_cell_def vec_index_def nth_list_update)

lemma get_cell_cells: "cells n cols f \<Longrightarrow> c < COLUMNS \<Longrightarrow> r < n \<Longrightarrow> get_cell cols c r = Ok (f c r)"
  by (simp add: cells_def get_cell_def vec_index_def)

lemma for_each_append: "for_each body (is @ js) s = and_then (for_each body is s) (for_each body js)"
proof (induction "is" arbitrary: s)
  case (Cons i "is")
  then show ?case by (cases "body i s") simp_all
qed simp

lemma for_each_upto:
  assumes "Inv 0 s" and "\<And>i s. i < m \<Longrightarrow> Inv i s \<Longrightarrow> \<exists>s'. body i s = Ok s' \<and> Inv (Suc i) s'"
  shows "\<exists>s'. for_each body [0..<m] s = Ok s' \<and> Inv m s'"
  using assms
proof (induction m)
  case (Suc m)
  then obtain s' where "for_each body [0..<m] s = Ok s'" "Inv m s'" by auto
  moreover from this(2) Suc.prems(2) obtain s'' where "body m s' = Ok s''" "Inv (Suc m) s''" by blast
  ultimately show ?case by (simp add: for_each_append)
qed simp

section \<open>The witness of the lookup example\<close>

definition lookup_query :: "'f ark_field \<Rightarrow> nat \<Rightarrow> nat \<Rightarrow> 'f \<times> 'f" where
  "lookup_query F row chunk_id =
     (if (row + chunk_id) mod 2 = 0 then (ff_from_u64 F 9, ff_from_u64 F 2) else (ff_from_u64 F 8, ff_from_u64 F 3))"

definition lookup_cell :: "'f ark_field \<Rightarrow> nat \<Rightarrow> nat \<Rightarrow> 'f" where
  "lookup_cell F c row =
     (if c = 0 then ff_from_u64 F (word_of_nat (row mod num_tables))
      else if c < 7 then (if odd c then fst else snd) (lookup_query F row ((c - 1) div 2))
      else ff_zero F)"

lemma lookup_chunk_cells:
  assumes "cells n cols f" and "k < 3" and "row < n"
  shows "\<exists>cols'. lookup_chunk F row k cols = (Ok cols' :: (_, 'z) outcome) \<and>
    cells n cols' (\<lambda>c r. if r = row \<and> c = 1 + 2 * k then fst (lookup_query F row k)
      else if r = row \<and> c = 2 + 2 * k then snd (lookup_query F row k) else f c r)"
proof -
  let ?q = "lookup_query F row k"
  have bound: "1 + 2 * k < COLUMNS" "2 + 2 * k < COLUMNS" using assms(2) by (simp_all add: COLUMNS_def)
  have chunk: "(lookup_chunk F row k cols :: (_, 'z) outcome) =
      and_then (set_cell cols (1 + 2 * k) row (fst ?q)) (\<lambda>cols. set_cell cols (2 + 2 * k) row (snd ?q))"
    by (simp add: lookup_chunk_def lookup_query_def Let_def)
  obtain cols1 where 1: "set_cell cols (1 + 2 * k) row (fst ?q) = (Ok cols1 :: (_, 'z) outcome)"
    and cells1: "cells n cols1 (\<lambda>c' r'. if c' = 1 + 2 * k \<and> r' = row then fst ?q else f c' r')"
    using set_cell_cells [OF assms(1) bound(1) assms(3)] by blast
  obtain cols2 where 2: "set_cell cols1 (2 + 2 * k) row (snd ?q) = (Ok cols2 :: (_, 'z) outcome)"
    and cells2: "cells n cols2 (\<lambda>c' r'. if c' = 2 + 2 * k \<and> r' = row then snd ?q
      else if c' = 1 + 2 * k \<and> r' = row then fst ?q else f c' r')"
    using set_cell_cells [OF cells1 bound(2) assms(3)] by blast
  have "cells n cols2 (\<lambda>c r. if r = row \<and> c = 1 + 2 * k then fst ?q else if r = row \<and> c = 2 + 2 * k then snd ?q else f c r)"
    using cells2 by (rule cells_cong) auto
  moreover have "lookup_chunk F row k cols = (Ok cols2 :: (_, 'z) outcome)" by (simp only: chunk 1 2 and_then.simps)
  ultimately show ?thesis by blast
qed

lemma lookup_row_cells:
  assumes "cells n cols f" and "row < n" and "\<And>c. c < COLUMNS \<Longrightarrow> f c row = ff_zero F"
  shows "\<exists>cols'. lookup_row F row cols = (Ok cols' :: (_, 'z) outcome) \<and> cells n cols' (\<lambda>c r. if r = row then lookup_cell F c row else f c r)"
proof -
  let ?inv = "\<lambda>k cols. cells n cols (\<lambda>c r. if r = row \<and> c < 1 + 2 * k then lookup_cell F c row else f c r)"
  have zero: "0 < COLUMNS" by (simp add: COLUMNS_def)
  obtain cols0 where 0: "set_cell cols 0 row (ff_from_u64 F (word_of_nat (row mod num_tables))) = (Ok cols0 :: (_, 'z) outcome)"
    and cells0: "cells n cols0 (\<lambda>c' r'. if c' = 0 \<and> r' = row then ff_from_u64 F (word_of_nat (row mod num_tables)) else f c' r')"
    using set_cell_cells [OF assms(1) zero assms(2)] by blast
  have "?inv 0 cols0" using cells0 by (rule cells_cong) (auto simp: lookup_cell_def)
  moreover have "\<exists>cols'. lookup_chunk F row k cols = (Ok cols' :: (_, 'z) outcome) \<and> ?inv (Suc k) cols'" if k: "k < 3" and inv: "?inv k cols" for k cols
  proof -
    obtain cols' where ok: "lookup_chunk F row k cols = (Ok cols' :: (_, 'z) outcome)"
      and cells': "cells n cols' (\<lambda>c r. if r = row \<and> c = 1 + 2 * k then fst (lookup_query F row k)
        else if r = row \<and> c = 2 + 2 * k then snd (lookup_query F row k)
        else if r = row \<and> c < 1 + 2 * k then lookup_cell F c row else f c r)"
      using lookup_chunk_cells [OF inv k assms(2)] by blast
    have "?inv (Suc k) cols'" using cells' by (rule cells_cong) (use k in \<open>auto simp: lookup_cell_def\<close>)
    with ok show ?thesis by blast
  qed
  ultimately obtain cols' where "for_each (lookup_chunk F row) [0..<3] cols0 = (Ok cols' :: (_, 'z) outcome)" and "?inv 3 cols'"
    using for_each_upto [of ?inv cols0 3 "lookup_chunk F row"] by blast
  moreover from this(2) have "cells n cols' (\<lambda>c r. if r = row then lookup_cell F c row else f c r)"
    by (rule cells_cong) (use assms(3) in \<open>auto simp: lookup_cell_def\<close>)
  ultimately show ?thesis using 0 by (auto simp: lookup_row_def)
qed

lemma lookup_witness_cells: "\<exists>cols. lookup_witness F = (Ok cols :: (_, 'z) outcome) \<and> cells num_gates cols (lookup_cell F)"
proof -
  let ?inv = "\<lambda>k cols. cells num_gates cols (\<lambda>c r. if r < k then lookup_cell F c r else ff_zero F)"
  have "?inv 0 (replicate COLUMNS (replicate num_gates (ff_zero F)))"
    using cells_replicate by (rule cells_cong) simp
  moreover have "\<exists>cols'. lookup_row F k cols = (Ok cols' :: (_, 'z) outcome) \<and> ?inv (Suc k) cols'" if k: "k < num_gates" and inv: "?inv k cols" for k cols
  proof -
    obtain cols' where ok: "lookup_row F k cols = (Ok cols' :: (_, 'z) outcome)"
      and cells': "cells num_gates cols' (\<lambda>c r. if r = k then lookup_cell F c k else if r < k then lookup_cell F c r else ff_zero F)"
      using lookup_row_cells [OF inv k] by auto
    have "?inv (Suc k) cols'" using cells' by (rule cells_cong) (auto simp: less_Suc_eq)
    with ok show ?thesis by blast
  qed
  ultimately obtain cols where "lookup_witness F = (Ok cols :: (_, 'z) outcome)" and "?inv num_gates cols"
    using for_each_upto [of ?inv _ num_gates "lookup_row F"] unfolding lookup_witness_def by blast
  moreover from this(2) have "cells num_gates cols (lookup_cell F)" by (rule cells_cong) simp
  ultimately show ?thesis by blast
qed

section \<open>Properties\<close>

text \<open>
  The lookup example. Its witness has 15 columns of 1000 rows. Every row names one of the five runtime
  tables that are passed to the prover and that the constraint system was built with, its three queries
  are entries of that table, and the remaining columns are zero; the public input is the table id of
  the first row, which is zero.
\<close>

theorem lookup_example_queries:
  "\<exists>cols. lookup_witness F = (Ok cols :: (_, ocaml_error) outcome) \<and> length cols = COLUMNS \<and> get_cell cols 0 0 = (Ok (ff_from_u64 F 0) :: (_, ocaml_error) outcome) \<and>
     (\<forall>c < COLUMNS. length (cols ! c) = num_gates) \<and>
     (\<forall>row < num_gates. \<exists>cfg table. cfg \<in> set (lookup_runtime_tables_setup F) \<and> table \<in> set (lookup_runtime_tables F) \<and>
        rtc_id cfg = rt_id table \<and> cols ! 0 ! row = ff_from_u64 F (ucast (rt_id table)) \<and>
        (\<forall>k < 3. (cols ! (1 + 2 * k) ! row, cols ! (2 + 2 * k) ! row) \<in> set (zip (rtc_first_column cfg) (rt_data table))) \<and>
        (\<forall>c < COLUMNS. 7 \<le> c \<longrightarrow> cols ! c ! row = ff_zero F))"
proof -
  obtain cols where ok: "lookup_witness F = (Ok cols :: (_, ocaml_error) outcome)" and cells: "cells num_gates cols (lookup_cell F)"
    using lookup_witness_cells by blast
  have public: "get_cell cols 0 0 = (Ok (ff_from_u64 F 0) :: (_, ocaml_error) outcome)"
    using get_cell_cells [OF cells, of 0 0] by (simp add: lookup_cell_def COLUMNS_def num_gates_def)
  have row: "\<exists>cfg table. cfg \<in> set (lookup_runtime_tables_setup F) \<and> table \<in> set (lookup_runtime_tables F) \<and>
        rtc_id cfg = rt_id table \<and> cols ! 0 ! row = ff_from_u64 F (ucast (rt_id table)) \<and>
        (\<forall>k < 3. (cols ! (1 + 2 * k) ! row, cols ! (2 + 2 * k) ! row) \<in> set (zip (rtc_first_column cfg) (rt_data table))) \<and>
        (\<forall>c < COLUMNS. 7 \<le> c \<longrightarrow> cols ! c ! row = ff_zero F)" if "row < num_gates" for row
  proof -
    let ?cfg = "\<lparr>rtc_id = word_of_nat (row mod num_tables), rtc_first_column = lookup_first_column F\<rparr>"
    let ?table = "\<lparr>rt_id = word_of_nat (row mod num_tables), rt_data = map (ff_from_u64 F) [0, 2, 3, 4, 5]\<rparr>"
    have id: "ucast (word_of_nat (row mod num_tables) :: i32) = (word_of_nat (row mod num_tables) :: u64)"
      by (simp add: num_tables_def word_unat_eq_iff unsigned_ucast_eq unat_of_nat take_bit_nat_eq_self_iff)
    have cell: "cols ! c ! row = lookup_cell F c row" if "c < COLUMNS" for c
      using cells that \<open>row < num_gates\<close> by (simp add: cells_def)
    have query: "(cols ! (1 + 2 * k) ! row, cols ! (2 + 2 * k) ! row) = lookup_query F row k" if "k < 3" for k
      using that cell [of "1 + 2 * k"] cell [of "2 + 2 * k"] by (simp add: lookup_cell_def COLUMNS_def)
    have "lookup_query F row k \<in> set (zip (rtc_first_column ?cfg) (rt_data ?table))" for k
      by (simp add: lookup_query_def lookup_first_column_def)
    moreover have "?cfg \<in> set (lookup_runtime_tables_setup F)"
      by (simp add: lookup_runtime_tables_setup_def image_iff) (rule bexI [of _ "row mod num_tables"], simp_all add: num_tables_def)
    moreover from this have "?table \<in> set (lookup_runtime_tables F)"
      by (force simp: lookup_runtime_tables_def Let_def)
    ultimately show ?thesis
      using query cell id by (intro exI [of _ ?cfg] exI [of _ ?table]) (simp add: lookup_cell_def COLUMNS_def)
  qed
  show ?thesis using ok public row cells by (auto simp: cells_def)
qed

theorem lookup_example_queries_witness:
  "\<exists>cols. lookup_witness ref_fp = (Ok cols :: (_, ocaml_error) outcome) \<and> cols ! 14 ! 999 = ff_zero ref_fp"
proof -
  obtain cols where cols: "lookup_witness ref_fp = (Ok cols :: (_, ocaml_error) outcome)"
    and rows: "\<And>row c. row < num_gates \<Longrightarrow> c < COLUMNS \<Longrightarrow> 7 \<le> c \<Longrightarrow> cols ! c ! row = ff_zero ref_fp"
    using lookup_example_queries [of ref_fp] by blast
  show ?thesis using cols rows [of 999 14] by (simp add: num_gates_def COLUMNS_def)
qed

text \<open>
  Padding. The two loops that fill a circuit up to the size its domain needs append the same 8192 zero
  gates, wired to their own rows, when the row counter of the first one is the number of gates.
\<close>

theorem padding_loops_agree:
  "snd (pad_from G (row, gates)) = gates @ map (\<lambda>r. gg_zero G (gg_for_row G r)) [row..<row + 2 ^ 13] \<and>
   pad G gates = snd (pad_from G (length gates, gates))"
proof -
  have counted: "fold (\<lambda>_ (row, gates). (row + 1, gates @ [gg_zero G (gg_for_row G row)])) [0..<n] (row, gates) =
      (row + n, gates @ map (\<lambda>r. gg_zero G (gg_for_row G r)) [row..<row + n])" for n row gates
    by (induction n) simp_all
  moreover have "fold (\<lambda>_ gates. gates @ [gg_zero G (gg_for_row G (length gates))]) [0..<n] gates =
      gates @ map (\<lambda>r. gg_zero G (gg_for_row G r)) [length gates..<length gates + n]" for n gates
    by (induction n) simp_all
  ultimately show ?thesis unfolding pad_from_def pad_def by (simp only: snd_conv)
qed

end
