(* ===== verification/Locked_Vector.thy ===== *)
theory Locked_Vector
  imports Field_Vector
begin

text \<open>
  Vectors behind a lock: the macro \<open>impl_vector\<close> of \<^verbatim>\<open>stubs/src/field_vector.rs\<close>, the
  intended successor of \<open>impl_vector_old\<close>, over the wrapper of
  \<^verbatim>\<open>stubs/src/caml/shared_rwlock.rs\<close>. A panic while the lock is held for writing poisons it, and
  every later call on the vector is an error. A call returns its outcome and the lock after it.
\<close>

section \<open>The lock\<close>

record 'a rwlock =
  rw_value :: 'a
  rw_poisoned :: bool

definition rw_new :: "'a \<Rightarrow> 'a rwlock" where
  "rw_new x = \<lparr>rw_value = x, rw_poisoned = False\<rparr>"

text \<open>
  \<open>lock.read().map_err(|_| Failure(m))?\<close> followed by the rest of the call, and the same for
  \<open>write()\<close>: the guard is dropped when the call ends, also by a panic.
\<close>

definition rw_read :: "string \<Rightarrow> 'a rwlock \<Rightarrow> ('a \<Rightarrow> ('b, ocaml_error) outcome) \<Rightarrow> ('b, ocaml_error) outcome \<times> 'a rwlock" where
  "rw_read m lock f = (if rw_poisoned lock then Err (Failwith m) else f (rw_value lock), lock)"

definition rw_write ::
  "string \<Rightarrow> 'a rwlock \<Rightarrow> ('a \<Rightarrow> ('a, ocaml_error) outcome) \<Rightarrow> (unit, ocaml_error) outcome \<times> 'a rwlock" where
  "rw_write m lock f =
     (if rw_poisoned lock then (Err (Failwith m), lock)
      else case f (rw_value lock) of
        Ok x \<Rightarrow> (Ok (), lock\<lparr>rw_value := x\<rparr>)
      | Err e \<Rightarrow> (Err e, lock)
      | Panic p \<Rightarrow> (Panic p, lock\<lparr>rw_poisoned := True\<rparr>))"

section \<open>The operations\<close>

text \<open>
  A vector has at most \<open>isize::MAX\<close> bytes, 32 per element.
\<close>

definition max_elements :: nat where
  "max_elements = (2 ^ 63 - 1) div 32"

definition vec_push :: "'f list \<Rightarrow> 'f \<Rightarrow> ('f list, 'e) outcome" where
  "vec_push v x = (if length v < max_elements then Ok (v @ [x]) else Panic ''capacity overflow'')"

definition locked_vector_create :: "'f list rwlock" where
  "locked_vector_create = rw_new []"

definition locked_vector_length :: "'f list rwlock \<Rightarrow> (isize, ocaml_error) outcome \<times> 'f list rwlock" where
  "locked_vector_length v = rw_read ''vector_length: could not capture lock'' v (\<lambda>v. Ok (word_of_nat (length v)))"

definition locked_vector_emplace_back :: "'f list rwlock \<Rightarrow> 'f \<Rightarrow> (unit, ocaml_error) outcome \<times> 'f list rwlock" where
  "locked_vector_emplace_back v x = rw_write ''vector_emplace_back: could not capture lock'' v (\<lambda>v. vec_push v x)"

definition locked_vector_get :: "'f list rwlock \<Rightarrow> isize \<Rightarrow> ('f, ocaml_error) outcome \<times> 'f list rwlock" where
  "locked_vector_get v i =
     rw_read ''vector_get: could not capture lock'' v (\<lambda>v.
       case vec_get v (unat i) of Some x \<Rightarrow> Ok x | None \<Rightarrow> Err (InvalidArgument ''vector_get''))"

definition locked_vector_set :: "'f list rwlock \<Rightarrow> isize \<Rightarrow> 'f \<Rightarrow> (unit, ocaml_error) outcome \<times> 'f list rwlock" where
  "locked_vector_set v i value =
     rw_write ''vector_set: could not capture lock'' v (\<lambda>v.
       case vec_get v (unat i) of Some _ \<Rightarrow> Ok (v[unat i := value]) | None \<Rightarrow> Err (InvalidArgument ''vector_set''))"

section \<open>The contract of a vector\<close>

text \<open>
  On a lock that is not poisoned each call is the call on the vector inside, and only appending to a full
  vector poisons it.
\<close>

lemma locked_calls:
  assumes "\<not> rw_poisoned v"
  shows "locked_vector_length v = (Ok (caml_vector_length (rw_value v)), v)"
    and "length (rw_value v) < max_elements \<Longrightarrow>
      locked_vector_emplace_back v x = (Ok (), v\<lparr>rw_value := caml_vector_emplace_back (rw_value v) x\<rparr>)"
    and "locked_vector_get v i = (caml_vector_get (rw_value v) i, v)"
    and "locked_vector_set v i x = (case caml_vector_set (rw_value v) i x of
      Ok w \<Rightarrow> (Ok (), v\<lparr>rw_value := w\<rparr>) | Err e \<Rightarrow> (Err e, v) | Panic m \<Rightarrow> (Panic m, v))"
  using assms
  by (auto simp: locked_vector_length_def locked_vector_emplace_back_def locked_vector_get_def locked_vector_set_def
      caml_vector_length_def caml_vector_emplace_back_def caml_vector_get_def caml_vector_set_def rw_read_def rw_write_def
      vec_push_def split: option.splits)

lemma poisoned_calls:
  assumes "rw_poisoned v"
  shows "locked_vector_length v = (Err (Failwith ''vector_length: could not capture lock''), v)"
    and "locked_vector_emplace_back v x = (Err (Failwith ''vector_emplace_back: could not capture lock''), v)"
    and "locked_vector_get v i = (Err (Failwith ''vector_get: could not capture lock''), v)"
    and "locked_vector_set v i x = (Err (Failwith ''vector_set: could not capture lock''), v)"
  using assms
  by (simp_all add: locked_vector_length_def locked_vector_emplace_back_def locked_vector_get_def locked_vector_set_def
      rw_read_def rw_write_def)

section \<open>Runs\<close>

datatype 'f vector_call = LengthOf | EmplaceBack 'f | GetAt isize | SetAt isize 'f

datatype 'f vector_reply = Nothing | Size isize | Element 'f

fun locked_step :: "'f list rwlock \<Rightarrow> 'f vector_call \<Rightarrow> ('f vector_reply, ocaml_error) outcome \<times> 'f list rwlock" where
  "locked_step v LengthOf = map_prod (map_ok Size) id (locked_vector_length v)"
| "locked_step v (EmplaceBack x) = map_prod (map_ok (\<lambda>_. Nothing)) id (locked_vector_emplace_back v x)"
| "locked_step v (GetAt i) = map_prod (map_ok Element) id (locked_vector_get v i)"
| "locked_step v (SetAt i x) = map_prod (map_ok (\<lambda>_. Nothing)) id (locked_vector_set v i x)"

fun plain_step :: "'f list \<Rightarrow> 'f vector_call \<Rightarrow> ('f vector_reply, ocaml_error) outcome \<times> 'f list" where
  "plain_step v LengthOf = (Ok (Size (caml_vector_length v)), v)"
| "plain_step v (EmplaceBack x) = (Ok Nothing, caml_vector_emplace_back v x)"
| "plain_step v (GetAt i) = (map_ok Element (caml_vector_get v i), v)"
| "plain_step v (SetAt i x) =
     (case caml_vector_set v i x of Ok w \<Rightarrow> (Ok Nothing, w) | Err e \<Rightarrow> (Err e, v) | Panic m \<Rightarrow> (Panic m, v))"

fun run_calls :: "('v \<Rightarrow> 'c \<Rightarrow> 'r \<times> 'v) \<Rightarrow> 'v \<Rightarrow> 'c list \<Rightarrow> 'r list \<times> 'v" where
  "run_calls step v [] = ([], v)"
| "run_calls step v (c # cs) = (let (r, v) = step v c; (rs, v) = run_calls step v cs in (r # rs, v))"

fun appends :: "'f vector_call list \<Rightarrow> nat" where
  "appends [] = 0"
| "appends (EmplaceBack x # cs) = Suc (appends cs)"
| "appends (c # cs) = appends cs"

lemma caml_vector_set_length: "caml_vector_set v i x = Ok w \<Longrightarrow> length w = length v"
  by (auto simp: caml_vector_set_def split: option.splits)

lemma locked_step_plain:
  assumes "\<not> rw_poisoned v" and "length (rw_value v) + appends [c] \<le> max_elements"
  shows "fst (locked_step v c) = fst (plain_step (rw_value v) c) \<and>
    rw_value (snd (locked_step v c)) = snd (plain_step (rw_value v) c) \<and> \<not> rw_poisoned (snd (locked_step v c)) \<and>
    length (rw_value (snd (locked_step v c))) = length (rw_value v) + appends [c]"
  using assms locked_calls [OF assms(1)]
  by (cases c) (auto simp: caml_vector_emplace_back_def dest: caml_vector_set_length split: outcome.splits)

lemma locked_run_plain:
  assumes "\<not> rw_poisoned v" and "length (rw_value v) + appends cs \<le> max_elements"
  shows "fst (run_calls locked_step v cs) = fst (run_calls plain_step (rw_value v) cs) \<and>
    rw_value (snd (run_calls locked_step v cs)) = snd (run_calls plain_step (rw_value v) cs) \<and>
    \<not> rw_poisoned (snd (run_calls locked_step v cs))"
  using assms
proof (induction cs arbitrary: v)
  case (Cons c cs)
  have split: "appends (c # cs) = appends [c] + appends cs" by (cases c) simp_all
  have "length (rw_value v) + appends [c] \<le> max_elements" using Cons.prems(2) split by simp
  note step = locked_step_plain [OF Cons.prems(1) this]
  then have "length (rw_value (snd (locked_step v c))) + appends cs \<le> max_elements" using Cons.prems(2) split by linarith
  with Cons.IH [of "snd (locked_step v c)"] step show ?case by (auto split: prod.splits)
qed simp

lemma locked_run_poisoned:
  assumes "rw_poisoned v"
  shows "snd (run_calls locked_step v cs) = v" and "\<forall>r \<in> set (fst (run_calls locked_step v cs)). \<exists>m. r = Err (Failwith m)"
proof -
  have step: "\<exists>m. locked_step v c = (Err (Failwith m), v)" for c
    using poisoned_calls [OF assms] by (cases c) auto
  have "snd (run_calls locked_step v cs) = v \<and> (\<forall>r \<in> set (fst (run_calls locked_step v cs)). \<exists>m. r = Err (Failwith m))"
  proof (induction cs)
    case (Cons c cs)
    then show ?case using step [of c] by (auto split: prod.splits)
  qed simp
  then show "snd (run_calls locked_step v cs) = v" and "\<forall>r \<in> set (fst (run_calls locked_step v cs)). \<exists>m. r = Err (Failwith m)"
    by blast+
qed

section \<open>Properties\<close>



end
