(* ===== verification/Caml_Heap.thy ===== *)
theory Caml_Heap
  imports Prelude
begin

text \<open>
  Rust objects owned by OCaml: \<^verbatim>\<open>stubs/src/caml/caml_pointer.rs\<close> (an \<open>Rc\<close> whose contents may be
  mutated), \<^verbatim>\<open>stubs/src/caml/shared_reference.rs\<close> and \<^verbatim>\<open>stubs/src/caml/shared_rwlock.rs\<close> (an
  \<open>Arc\<close>), and the byte strings of \<^verbatim>\<open>stubs/src/caml/caml_bytes_string.rs\<close>. An object lives at an
  address with its reference count. It is owned by handles: custom blocks of the OCaml heap, which the
  collector finalizes, and values of the wrapper type inside a Rust call. Reading or counting an object
  that was freed is undefined behaviour, here the result \<open>None\<close>. The store of field elements in
  \<open>Pasta_Fp\<close> is another one: there a custom block holds the element itself.
\<close>

section \<open>The heap\<close>

type_synonym addr = nat

datatype handle = Block nat | Local nat

record 'x caml_heap =
  objects :: "addr \<rightharpoonup> 'x \<times> nat"
  handles :: "handle \<rightharpoonup> addr"

definition empty_heap :: "'x caml_heap" where
  "empty_heap = \<lparr>objects = Map.empty, handles = Map.empty\<rparr>"

text \<open>
  \<open>Rc::new\<close> at a free address, \<open>Rc::clone\<close> and the \<open>drop\<close> of an \<open>Rc\<close>.
\<close>

definition rc_new :: "addr \<Rightarrow> 'x \<Rightarrow> 'x caml_heap \<Rightarrow> 'x caml_heap" where
  "rc_new a x h = h\<lparr>objects := (objects h)(a \<mapsto> (x, 1))\<rparr>"

definition rc_clone :: "addr \<Rightarrow> 'x caml_heap \<Rightarrow> 'x caml_heap option" where
  "rc_clone a h = (case objects h a of
     None \<Rightarrow> None
   | Some (x, n) \<Rightarrow> Some (h\<lparr>objects := (objects h)(a \<mapsto> (x, n + 1))\<rparr>))"

definition rc_drop :: "addr \<Rightarrow> 'x caml_heap \<Rightarrow> 'x caml_heap option" where
  "rc_drop a h = (case objects h a of
     None \<Rightarrow> None
   | Some (x, n) \<Rightarrow> Some (h\<lparr>objects := (objects h)(a := (if n = 1 then None else Some (x, n - 1)))\<rparr>))"

definition set_handle :: "handle \<Rightarrow> addr option \<Rightarrow> 'x caml_heap \<Rightarrow> 'x caml_heap" where
  "set_handle k a h = h\<lparr>handles := (handles h)(k := a)\<rparr>"

section \<open>The operations of the wrappers\<close>

text \<open>
  \<open>create\<close> and \<open>new\<close>: a value of the wrapper type in the calling function.
\<close>

definition caml_pointer_create :: "addr \<Rightarrow> nat \<Rightarrow> 'x \<Rightarrow> 'x caml_heap \<Rightarrow> 'x caml_heap" where
  "caml_pointer_create a l x h = set_handle (Local l) (Some a) (rc_new a x h)"

definition shared_reference_new :: "addr \<Rightarrow> nat \<Rightarrow> 'x \<Rightarrow> 'x caml_heap \<Rightarrow> 'x caml_heap" where
  "shared_reference_new a l x h = set_handle (Local l) (Some a) (rc_new a x h)"

definition shared_rwlock_new :: "addr \<Rightarrow> nat \<Rightarrow> 'x \<Rightarrow> 'x caml_heap \<Rightarrow> 'x caml_heap" where
  "shared_rwlock_new a l x h = set_handle (Local l) (Some a) (rc_new a x h)"

text \<open>
  \<open>from_value\<close>: the wrapper in the block is cloned. \<open>caml_pointer_finalize\<close>: it is dropped in place.
\<close>

definition from_value :: "nat \<Rightarrow> nat \<Rightarrow> 'x caml_heap \<Rightarrow> 'x caml_heap option" where
  "from_value b l h = (case handles h (Block b) of
     None \<Rightarrow> None
   | Some a \<Rightarrow> map_option (set_handle (Local l) (Some a)) (rc_clone a h))"

definition caml_pointer_finalize :: "nat \<Rightarrow> 'x caml_heap \<Rightarrow> 'x caml_heap option" where
  "caml_pointer_finalize b h = (case handles h (Block b) of
     None \<Rightarrow> None
   | Some a \<Rightarrow> map_option (set_handle (Block b) None) (rc_drop a h))"

text \<open>
  Returning a wrapper to OCaml moves it into a custom block; at the end of a call its other wrappers are
  dropped.
\<close>

definition into_value :: "nat \<Rightarrow> nat \<Rightarrow> 'x caml_heap \<Rightarrow> 'x caml_heap option" where
  "into_value l b h = (case handles h (Local l) of
     None \<Rightarrow> None
   | Some a \<Rightarrow> Some (set_handle (Block b) (Some a) (set_handle (Local l) None h)))"

definition drop_local :: "nat \<Rightarrow> 'x caml_heap \<Rightarrow> 'x caml_heap option" where
  "drop_local l h = (case handles h (Local l) of
     None \<Rightarrow> None
   | Some a \<Rightarrow> map_option (set_handle (Local l) None) (rc_drop a h))"

definition deref :: "handle \<Rightarrow> 'x caml_heap \<Rightarrow> 'x option" where
  "deref k h = (case handles h k of None \<Rightarrow> None | Some a \<Rightarrow> map_option fst (objects h a))"

text \<open>
  \<open>deref_mut\<close> casts the shared pointer to a mutable one.
\<close>

definition deref_mut :: "handle \<Rightarrow> ('x \<Rightarrow> 'x) \<Rightarrow> 'x caml_heap \<Rightarrow> 'x caml_heap option" where
  "deref_mut k f h = (case handles h k of
     None \<Rightarrow> None
   | Some a \<Rightarrow> (case objects h a of
       None \<Rightarrow> None
     | Some (x, n) \<Rightarrow> Some (h\<lparr>objects := (objects h)(a \<mapsto> (f x, n))\<rparr>)))"

text \<open>
  The same operations of the other two wrappers, which count with an \<open>Arc\<close> and have no mutable access.
\<close>

definition shared_reference_from_value :: "nat \<Rightarrow> nat \<Rightarrow> 'x caml_heap \<Rightarrow> 'x caml_heap option" where
  "shared_reference_from_value b l h = (case handles h (Block b) of
     None \<Rightarrow> None
   | Some a \<Rightarrow> map_option (set_handle (Local l) (Some a)) (rc_clone a h))"

definition shared_reference_finalize :: "nat \<Rightarrow> 'x caml_heap \<Rightarrow> 'x caml_heap option" where
  "shared_reference_finalize b h = (case handles h (Block b) of
     None \<Rightarrow> None
   | Some a \<Rightarrow> map_option (set_handle (Block b) None) (rc_drop a h))"

definition shared_reference_deref :: "handle \<Rightarrow> 'x caml_heap \<Rightarrow> 'x option" where
  "shared_reference_deref k h = (case handles h k of None \<Rightarrow> None | Some a \<Rightarrow> map_option fst (objects h a))"

definition shared_rwlock_from_value :: "nat \<Rightarrow> nat \<Rightarrow> 'x caml_heap \<Rightarrow> 'x caml_heap option" where
  "shared_rwlock_from_value b l h = (case handles h (Block b) of
     None \<Rightarrow> None
   | Some a \<Rightarrow> map_option (set_handle (Local l) (Some a)) (rc_clone a h))"

definition shared_rwlock_finalize :: "nat \<Rightarrow> 'x caml_heap \<Rightarrow> 'x caml_heap option" where
  "shared_rwlock_finalize b h = (case handles h (Block b) of
     None \<Rightarrow> None
   | Some a \<Rightarrow> map_option (set_handle (Block b) None) (rc_drop a h))"

definition shared_rwlock_deref :: "handle \<Rightarrow> 'x caml_heap \<Rightarrow> 'x option" where
  "shared_rwlock_deref k h = (case handles h k of None \<Rightarrow> None | Some a \<Rightarrow> map_option fst (objects h a))"

definition shared_reference_compare :: "nat \<Rightarrow> nat \<Rightarrow> i32" where
  "shared_reference_compare b1 b2 = 0"

definition shared_rwlock_compare :: "nat \<Rightarrow> nat \<Rightarrow> i32" where
  "shared_rwlock_compare b1 b2 = 0"

definition caml_pointer_compare :: "nat \<Rightarrow> nat \<Rightarrow> i32" where
  "caml_pointer_compare b1 b2 = 0"

text \<open>
  A byte string is read from and written to an OCaml value without conversion.
\<close>

definition caml_bytes_string_from_value :: "bytes \<Rightarrow> bytes" where
  "caml_bytes_string_from_value v = v"

definition caml_bytes_string_into_value :: "bytes \<Rightarrow> bytes" where
  "caml_bytes_string_into_value s = s"

section \<open>Runs\<close>

text \<open>
  OCaml calls bindings, which create objects, receive blocks and return wrappers, and its collector
  finalizes blocks; addresses, blocks and locals are new when they are introduced.
\<close>

inductive heap_step :: "'x caml_heap \<Rightarrow> 'x caml_heap \<Rightarrow> bool" where
  step_create: "objects h a = None \<Longrightarrow> handles h (Local l) = None \<Longrightarrow> heap_step h (caml_pointer_create a l x h)"
| step_from_value: "handles h (Local l) = None \<Longrightarrow> from_value b l h = Some h' \<Longrightarrow> heap_step h h'"
| step_into_value: "handles h (Block b) = None \<Longrightarrow> into_value l b h = Some h' \<Longrightarrow> heap_step h h'"
| step_drop: "drop_local l h = Some h' \<Longrightarrow> heap_step h h'"
| step_finalize: "caml_pointer_finalize b h = Some h' \<Longrightarrow> heap_step h h'"
| step_mutate: "deref_mut k f h = Some h' \<Longrightarrow> heap_step h h'"
| step_share: "objects h a = None \<Longrightarrow> handles h (Local l) = None \<Longrightarrow> heap_step h (shared_reference_new a l x h)"
| step_share_from_value: "handles h (Local l) = None \<Longrightarrow> shared_reference_from_value b l h = Some h' \<Longrightarrow> heap_step h h'"
| step_share_finalize: "shared_reference_finalize b h = Some h' \<Longrightarrow> heap_step h h'"
| step_lock: "objects h a = None \<Longrightarrow> handles h (Local l) = None \<Longrightarrow> heap_step h (shared_rwlock_new a l x h)"
| step_lock_from_value: "handles h (Local l) = None \<Longrightarrow> shared_rwlock_from_value b l h = Some h' \<Longrightarrow> heap_step h h'"
| step_lock_finalize: "shared_rwlock_finalize b h = Some h' \<Longrightarrow> heap_step h h'"

text \<open>
  The three kinds of wrapper treat the count alike, so that a step of the shared kinds is a step of the first.
\<close>

lemma shared_like_pointer:
  "shared_reference_new = caml_pointer_create" "shared_rwlock_new = caml_pointer_create"
  "shared_reference_from_value = from_value" "shared_rwlock_from_value = from_value"
  "shared_reference_finalize = caml_pointer_finalize" "shared_rwlock_finalize = caml_pointer_finalize"
  "shared_reference_deref = deref" "shared_rwlock_deref = deref"
  by (intro ext, simp_all add: caml_pointer_create_def shared_reference_new_def shared_rwlock_new_def from_value_def
      shared_reference_from_value_def shared_rwlock_from_value_def caml_pointer_finalize_def shared_reference_finalize_def
      shared_rwlock_finalize_def deref_def shared_reference_deref_def shared_rwlock_deref_def)+

inductive pointer_step :: "'x caml_heap \<Rightarrow> 'x caml_heap \<Rightarrow> bool" where
  pointer_create: "objects h a = None \<Longrightarrow> handles h (Local l) = None \<Longrightarrow> pointer_step h (caml_pointer_create a l x h)"
| pointer_from_value: "handles h (Local l) = None \<Longrightarrow> from_value b l h = Some h' \<Longrightarrow> pointer_step h h'"
| pointer_into_value: "handles h (Block b) = None \<Longrightarrow> into_value l b h = Some h' \<Longrightarrow> pointer_step h h'"
| pointer_drop: "drop_local l h = Some h' \<Longrightarrow> pointer_step h h'"
| pointer_finalize: "caml_pointer_finalize b h = Some h' \<Longrightarrow> pointer_step h h'"
| pointer_mutate: "deref_mut k f h = Some h' \<Longrightarrow> pointer_step h h'"

lemma heap_step_pointer: "heap_step h h' \<Longrightarrow> pointer_step h h'"
  by (erule heap_step.cases) (auto simp: shared_like_pointer intro: pointer_step.intros)

inductive heap_reachable :: "'x caml_heap \<Rightarrow> bool" where
  reach_empty: "heap_reachable empty_heap"
| reach_step: "heap_reachable h \<Longrightarrow> heap_step h h' \<Longrightarrow> heap_reachable h'"

section \<open>The invariant\<close>

definition owners :: "'x caml_heap \<Rightarrow> addr \<Rightarrow> handle set" where
  "owners h a = {k. handles h k = Some a}"

text \<open>
  The count of an object is the number of its handles, and no handle points to a freed object.
\<close>

definition heap_inv :: "'x caml_heap \<Rightarrow> bool" where
  "heap_inv h \<longleftrightarrow> finite (dom (handles h)) \<and>
     (\<forall>a. objects h a = None \<longrightarrow> owners h a = {}) \<and>
     (\<forall>a x n. objects h a = Some (x, n) \<longrightarrow> 0 < n \<and> card (owners h a) = n)"

lemma finite_owners: "finite (dom (handles h)) \<Longrightarrow> finite (owners h a)"
  by (erule finite_subset [rotated]) (auto simp: owners_def)

lemma owners_set_handle:
  "owners (set_handle k v h) a = (if v = Some a then insert k (owners h a) else owners h a - {k})"
  by (auto simp: owners_def set_handle_def)

lemma owners_objects [simp]: "owners (h\<lparr>objects := m\<rparr>) a = owners h a"
  by (simp add: owners_def)

lemma handles_set_handle [simp]: "objects (set_handle k v h) = objects h" "handles (set_handle k v h) = (handles h)(k := v)"
  by (simp_all add: set_handle_def)

lemma heap_inv_owner:
  assumes "heap_inv h" and "handles h k = Some a"
  obtains x n where "objects h a = Some (x, n)" "0 < n" "card (owners h a) = n" "finite (owners h a)" "k \<in> owners h a"
proof -
  have "k \<in> owners h a" using assms(2) by (simp add: owners_def)
  moreover have fin: "finite (owners h a)" using assms(1) by (simp add: heap_inv_def finite_owners)
  moreover obtain x n where "objects h a = Some (x, n)" "0 < n" "card (owners h a) = n"
    using assms(1) \<open>k \<in> owners h a\<close> unfolding heap_inv_def by (cases "objects h a") auto
  ultimately show thesis using that by blast
qed

text \<open>
  Adding a handle with the count, removing a handle with the count and moving a handle keep the invariant.
\<close>

lemma heap_inv_add:
  assumes "heap_inv h" and "handles h k = None"
    and "case objects h a of None \<Rightarrow> n = 1 | Some (y, m) \<Rightarrow> n = m + 1"
  shows "heap_inv (set_handle k (Some a) (h\<lparr>objects := (objects h)(a \<mapsto> (x, n))\<rparr>))"
proof -
  have fin: "finite (dom (handles h))" using assms(1) by (simp add: heap_inv_def)
  have "k \<notin> owners h a'" for a' using assms(2) by (simp add: owners_def)
  moreover have "card (owners h a) + 1 = n"
    using assms(1,3) unfolding heap_inv_def by (cases "objects h a") auto
  ultimately show ?thesis
    using assms(1,2) fin finite_owners [OF fin]
    unfolding heap_inv_def by (auto simp: owners_set_handle)
qed

lemma heap_inv_remove:
  assumes "heap_inv h" and "handles h k = Some a" and "rc_drop a h = Some h'"
  shows "heap_inv (set_handle k None h')"
proof -
  obtain x n where obj: "objects h a = Some (x, n)" "0 < n" and card: "card (owners h a) = n"
    and fin: "finite (owners h a)" and mem: "k \<in> owners h a"
    using heap_inv_owner [OF assms(1,2)] by blast
  have h': "h' = h\<lparr>objects := (objects h)(a := (if n = 1 then None else Some (x, n - 1)))\<rparr>"
    using assms(3) obj by (simp add: rc_drop_def)
  have left: "card (owners h a - {k}) = n - 1" using card fin mem by simp
  have none: "n = 1 \<Longrightarrow> owners h a - {k} = {}" using left fin by simp
  have other: "owners h a' - {k} = owners h a'" if "a' \<noteq> a" for a'
    using assms(2) that by (auto simp: owners_def)
  show ?thesis
    using assms(1) left none other obj(2)
    unfolding heap_inv_def h' by (auto simp: owners_set_handle)
qed

lemma heap_inv_move:
  assumes "heap_inv h" and "handles h k = Some a" and "handles h k' = None"
  shows "heap_inv (set_handle k' (Some a) (set_handle k None h))" (is "heap_inv ?h")
proof -
  obtain x n where obj: "objects h a = Some (x, n)" "0 < n" and card: "card (owners h a) = n"
    and fin: "finite (owners h a)" and mem: "k \<in> owners h a"
    using heap_inv_owner [OF assms(1,2)] by blast
  have new: "k' \<notin> owners h a'" for a' using assms(3) by (simp add: owners_def)
  then have same: "card (owners ?h a) = n" using card fin mem obj(2) by (simp add: owners_set_handle)
  have others: "owners ?h a' = owners h a'" if "a' \<noteq> a" for a'
  proof -
    have "k \<notin> owners h a'" using assms(2) that by (simp add: owners_def)
    then show ?thesis using that new by (simp add: owners_set_handle)
  qed
  show ?thesis
    unfolding heap_inv_def
  proof (intro conjI allI impI)
    show "finite (dom (handles ?h))" using assms(1) by (simp add: heap_inv_def)
    show "owners ?h a' = {}" if "objects ?h a' = None" for a'
      using that others [of a'] obj assms(1) by (cases "a' = a") (auto simp: heap_inv_def)
    show "0 < m" and "card (owners ?h a') = m" if "objects ?h a' = Some (y, m)" for a' y m
      using that others [of a'] obj same assms(1) by (cases "a' = a"; auto simp: heap_inv_def)+
  qed
qed

lemma heap_inv_step:
  assumes "heap_inv h" and "heap_step h h'"
  shows "heap_inv h'"
  using heap_step_pointer [OF assms(2)]
proof (cases rule: pointer_step.cases)
  case (pointer_create a l x)
  then show ?thesis
    using heap_inv_add [OF assms(1), where k = "Local l" and a = a and n = 1 and x = x] by (simp add: caml_pointer_create_def rc_new_def)
next
  case (pointer_from_value l b)
  then obtain a where a: "handles h (Block b) = Some a" by (auto simp: from_value_def split: option.splits)
  obtain x n where "objects h a = Some (x, n)" using heap_inv_owner [OF assms(1) a] by blast
  then show ?thesis
    using pointer_from_value a heap_inv_add [OF assms(1), where k = "Local l" and a = a and n = "n + 1" and x = x] by (simp add: from_value_def rc_clone_def)
next
  case (pointer_into_value b l)
  then show ?thesis
    using heap_inv_move [OF assms(1)] by (auto simp: into_value_def split: option.splits)
next
  case (pointer_drop l)
  then show ?thesis
    using heap_inv_remove [OF assms(1)] by (auto simp: drop_local_def split: option.splits)
next
  case (pointer_finalize b)
  then show ?thesis
    using heap_inv_remove [OF assms(1)] by (auto simp: caml_pointer_finalize_def split: option.splits)
next
  case (pointer_mutate k f)
  then show ?thesis
    using assms(1) by (auto simp: deref_mut_def heap_inv_def split: option.splits if_splits)
qed

lemma heap_inv_reachable: "heap_reachable h \<Longrightarrow> heap_inv h"
proof (induction rule: heap_reachable.induct)
  case reach_empty
  show ?case by (simp add: heap_inv_def empty_heap_def owners_def)
qed (rule heap_inv_step)

section \<open>Properties\<close>

text \<open>
  C11. No use after free. In every state that OCaml and its collector can reach, the reference count of
  an object is the number of its handles; every block that is not finalized and every wrapper of a
  running call can be read, cloned, mutated and dropped. Dropping or finalizing one of several handles
  keeps the object for the others, and removing the last one frees it.
\<close>

theorem heap_safety:
  assumes "heap_reachable h" and "handles h k = Some a"
  shows "\<exists>x n. objects h a = Some (x, n) \<and> n = card (owners h a) \<and> deref k h = Some x \<and>
    (\<exists>h'. deref_mut k f h = Some h') \<and> (\<exists>h'. rc_clone a h = Some h') \<and>
    (case k of
       Block b \<Rightarrow> \<exists>h'. caml_pointer_finalize b h = Some h' \<and>
         (objects h' a = None \<longleftrightarrow> owners h a = {k}) \<and> (\<forall>k'. k' \<noteq> k \<longrightarrow> deref k' h' = deref k' h)
     | Local l \<Rightarrow> \<exists>h'. drop_local l h = Some h' \<and>
         (objects h' a = None \<longleftrightarrow> owners h a = {k}) \<and> (\<forall>k'. k' \<noteq> k \<longrightarrow> deref k' h' = deref k' h))"
proof -
  obtain x n where obj: "objects h a = Some (x, n)" "0 < n" and card: "card (owners h a) = n"
    and fin: "finite (owners h a)" and mem: "k \<in> owners h a"
    using heap_inv_owner [OF heap_inv_reachable [OF assms(1)] assms(2)] by blast
  let ?h = "h\<lparr>objects := (objects h)(a := (if n = 1 then None else Some (x, n - 1)))\<rparr>"
  have drop: "rc_drop a h = Some ?h" using obj by (simp add: rc_drop_def)
  have last: "n = 1 \<longleftrightarrow> owners h a = {k}" using card fin mem by (auto simp: card_1_singleton_iff)
  have others: "deref k' (set_handle k None ?h) = deref k' h" if "k' \<noteq> k" for k'
  proof (cases "handles h k' = Some a")
    case True
    then have "owners h a \<noteq> {k}" using that by (auto simp: owners_def)
    then show ?thesis using True that obj last by (simp add: deref_def)
  qed (use that in \<open>auto simp: deref_def split: option.split\<close>)
  have freed: "objects (set_handle k None ?h) a = None \<longleftrightarrow> owners h a = {k}" using last by simp
  show ?thesis
    using assms(2) obj card drop others freed
    by (cases k) (auto simp: deref_def deref_mut_def rc_clone_def caml_pointer_finalize_def drop_local_def)
qed

definition sample_heap :: "nat caml_heap" where
  "sample_heap = set_handle (Block 0) (Some 7) (set_handle (Local 0) None (caml_pointer_create 7 0 42 empty_heap))"

lemma sample_heap_reachable: "heap_reachable sample_heap"
proof -
  have "heap_step empty_heap (caml_pointer_create 7 0 42 empty_heap)"
    by (rule step_create) (simp_all add: empty_heap_def)
  then have "heap_reachable (caml_pointer_create 7 0 (42 :: nat) empty_heap)"
    using reach_empty by (rule reach_step [rotated])
  moreover have "heap_step (caml_pointer_create 7 0 (42 :: nat) empty_heap) sample_heap"
    by (rule step_into_value [of _ 0 0]) (simp_all add: sample_heap_def caml_pointer_create_def rc_new_def empty_heap_def into_value_def)
  ultimately show ?thesis by (rule reach_step)
qed

theorem heap_safety_witness:
  "deref (Block 0) sample_heap = Some 42 \<and> (\<exists>h'. caml_pointer_finalize 0 sample_heap = Some h' \<and> objects h' 7 = None)"
proof -
  have "handles sample_heap (Block 0) = Some 7" "owners sample_heap 7 = {Block 0}" "objects sample_heap 7 = Some (42, 1)"
    by (auto simp: sample_heap_def owners_set_handle caml_pointer_create_def rc_new_def empty_heap_def) (auto simp: owners_def)
  then show ?thesis using heap_safety [OF sample_heap_reachable, where k = "Block 0" and a = 7 and f = Suc] by auto
qed

text \<open>
  Sharing. A mutation through one handle is seen through every handle of the same object and through
  no handle of another one; it changes neither the handles nor the counts.
\<close>

theorem mutation_is_shared:
  assumes "heap_reachable h" and "deref_mut k f h = Some h'"
  shows "deref k' h' = (if handles h k' = handles h k then map_option f (deref k' h) else deref k' h) \<and>
    handles h' = handles h \<and> (\<forall>a. map_option snd (objects h' a) = map_option snd (objects h a))"
  using assms(2) by (auto simp: deref_mut_def deref_def split: option.splits)

theorem mutation_is_shared_witness:
  "\<exists>h'. deref_mut (Block 0) Suc sample_heap = Some h' \<and> deref (Block 0) h' = Some 43"
proof -
  have "handles sample_heap (Block 0) = Some 7" "objects sample_heap 7 = Some (42, 1)"
    by (simp_all add: sample_heap_def caml_pointer_create_def rc_new_def empty_heap_def)
  then obtain h' where "deref_mut (Block 0) Suc sample_heap = Some h'" "deref (Block 0) sample_heap = Some 42"
    by (simp add: deref_mut_def deref_def)
  with mutation_is_shared [OF sample_heap_reachable, of "Block 0" Suc h' "Block 0"] show ?thesis by simp
qed

end
