(* ===== verification/Custom_Blocks.thy ===== *)
theory Custom_Blocks
  imports Pasta_Fp
begin

text \<open>
  Values that live in the OCaml heap: a field element, a 256-bit integer or a projective point is stored in
  a custom block itself (\<^verbatim>\<open>stubs/src/arkworks/pasta_fp.rs\<close> and its siblings), \<open>from_value\<close> copies
  it out, and the collector runs the finalizer, which drops the value in place. Gate vectors, prover
  indexes and the parameters of the hash are held the same way but only reached through pointers. Reading
  a block that was finalized is undefined behaviour, here the result \<open>None\<close>.
\<close>

section \<open>Blocks\<close>

record 'v block_heap =
  contents :: "'v store"
  live :: "nat set"

definition block_new :: "nat \<Rightarrow> 'v \<Rightarrow> 'v block_heap \<Rightarrow> 'v block_heap" where
  "block_new b v h = h\<lparr>contents := (contents h)(b := v), live := insert b (live h)\<rparr>"

definition block_read :: "nat \<Rightarrow> 'v block_heap \<Rightarrow> 'v option" where
  "block_read b h = (if b \<in> live h then Some (contents h b) else None)"

definition block_drop :: "nat \<Rightarrow> 'v block_heap \<Rightarrow> 'v block_heap option" where
  "block_drop b h = (if b \<in> live h then Some (h\<lparr>live := live h - {b}\<rparr>) else None)"

text \<open>
  The operations of the types: \<open>from_value\<close> copies the contents of the block, the finalizer drops it, and
  \<open>custom!\<close> registers the type, so that returning a value allocates a block for it.
\<close>

definition caml_fp_from_value :: "nat \<Rightarrow> 'f block_heap \<Rightarrow> 'f option" where
  "caml_fp_from_value v h = block_read v h"

definition caml_fp_finalize :: "nat \<Rightarrow> 'f block_heap \<Rightarrow> 'f block_heap option" where
  "caml_fp_finalize v h = block_drop v h"

definition caml_fp_custom :: "nat \<Rightarrow> 'f \<Rightarrow> 'f block_heap \<Rightarrow> 'f block_heap" where
  "caml_fp_custom b x h = block_new b x h"

definition caml_fq_from_value :: "nat \<Rightarrow> 'f block_heap \<Rightarrow> 'f option" where
  "caml_fq_from_value v h = block_read v h"

definition caml_fq_finalize :: "nat \<Rightarrow> 'f block_heap \<Rightarrow> 'f block_heap option" where
  "caml_fq_finalize v h = block_drop v h"

definition caml_bigint_256_from_value :: "nat \<Rightarrow> bigint256 block_heap \<Rightarrow> bigint256 option" where
  "caml_bigint_256_from_value v h = block_read v h"

definition caml_bigint_256_finalize :: "nat \<Rightarrow> bigint256 block_heap \<Rightarrow> bigint256 block_heap option" where
  "caml_bigint_256_finalize v h = block_drop v h"

definition group_projective_pallas_from_value :: "nat \<Rightarrow> 'p block_heap \<Rightarrow> 'p option" where
  "group_projective_pallas_from_value v h = block_read v h"

definition group_projective_pallas_finalize :: "nat \<Rightarrow> 'p block_heap \<Rightarrow> 'p block_heap option" where
  "group_projective_pallas_finalize v h = block_drop v h"

definition group_projective_vesta_from_value :: "nat \<Rightarrow> 'p block_heap \<Rightarrow> 'p option" where
  "group_projective_vesta_from_value v h = block_read v h"

definition group_projective_vesta_finalize :: "nat \<Rightarrow> 'p block_heap \<Rightarrow> 'p block_heap option" where
  "group_projective_vesta_finalize v h = block_drop v h"

definition caml_pasta_fp_plonk_gate_vector_finalize :: "nat \<Rightarrow> 'v block_heap \<Rightarrow> 'v block_heap option" where
  "caml_pasta_fp_plonk_gate_vector_finalize v h = block_drop v h"

definition caml_pasta_fq_plonk_gate_vector_finalize :: "nat \<Rightarrow> 'v block_heap \<Rightarrow> 'v block_heap option" where
  "caml_pasta_fq_plonk_gate_vector_finalize v h = block_drop v h"

definition caml_pasta_fp_plonk_index_finalize :: "nat \<Rightarrow> 'v block_heap \<Rightarrow> 'v block_heap option" where
  "caml_pasta_fp_plonk_index_finalize v h = block_drop v h"

definition caml_pasta_fq_plonk_index_finalize :: "nat \<Rightarrow> 'v block_heap \<Rightarrow> 'v block_heap option" where
  "caml_pasta_fq_plonk_index_finalize v h = block_drop v h"

definition caml_pasta_fp_poseidon_params_finalize :: "nat \<Rightarrow> 'v block_heap \<Rightarrow> 'v block_heap option" where
  "caml_pasta_fp_poseidon_params_finalize v h = block_drop v h"

definition caml_pasta_fq_poseidon_params_finalize :: "nat \<Rightarrow> 'v block_heap \<Rightarrow> 'v block_heap option" where
  "caml_pasta_fq_poseidon_params_finalize v h = block_drop v h"

section \<open>Programs over field elements\<close>

text \<open>
  A program of OCaml that calls the bindings of \<open>Fp\<close>. A variable holds a pointer to a block; two
  variables may hold the same one.
\<close>

type_synonym var = nat

datatype fp_instr =
    FpOfInt var isize
  | FpOfString var string
  | FpAdd var var var
  | FpSub var var var
  | FpMul var var var
  | FpDiv var var var
  | FpNegate var var
  | FpSquare var var
  | FpInv var var
  | FpSqrt var var
  | FpDeepCopy var var
  | FpCopy var var
  | FpMutAdd var var
  | FpMutSub var var
  | FpMutMul var var
  | FpMutSquare var
  | FpToString var
  | FpEqual var var
  | FpCompare var var
  | FpPolymorphicCompare var var
  | Alias var var
  | Forget var

datatype fp_reply =
    Done
  | Absent
  | Text string
  | Truth bool
  | Sign isize
  | CompareSign i32
  | Raises ocaml_error
  | Panics string
  | Unbound

record 'f fp_machine =
  memory :: "'f block_heap"
  vars :: "var \<rightharpoonup> nat"

definition pointer :: "'f fp_machine \<Rightarrow> var \<Rightarrow> (nat \<Rightarrow> (fp_reply \<times> 'f fp_machine) option) \<Rightarrow> (fp_reply \<times> 'f fp_machine) option" where
  "pointer m x k = (case vars m x of None \<Rightarrow> Some (Unbound, m) | Some b \<Rightarrow> if b \<in> live (memory m) then k b else None)"

definition as_ref :: "'f fp_machine \<Rightarrow> var \<Rightarrow> ('f \<Rightarrow> (fp_reply \<times> 'f fp_machine) option) \<Rightarrow> (fp_reply \<times> 'f fp_machine) option" where
  "as_ref m x k = pointer m x (\<lambda>b. k (contents (memory m) b))"

definition returns :: "'f fp_machine \<Rightarrow> var \<Rightarrow> nat \<Rightarrow> 'f \<Rightarrow> (fp_reply \<times> 'f fp_machine) option" where
  "returns m x b v = Some (Done, m\<lparr>memory := caml_fp_custom b v (memory m), vars := (vars m)(x \<mapsto> b)\<rparr>)"

definition returns_outcome :: "'f fp_machine \<Rightarrow> var \<Rightarrow> nat \<Rightarrow> ('f, ocaml_error) outcome \<Rightarrow> (fp_reply \<times> 'f fp_machine) option" where
  "returns_outcome m x b r =
     (case r of Ok v \<Rightarrow> returns m x b v | Err e \<Rightarrow> Some (Raises e, m) | Panic p \<Rightarrow> Some (Panics p, m))"

definition returns_option :: "'f fp_machine \<Rightarrow> var \<Rightarrow> nat \<Rightarrow> 'f option \<Rightarrow> (fp_reply \<times> 'f fp_machine) option" where
  "returns_option m x b r = (case r of Some v \<Rightarrow> returns m x b v | None \<Rightarrow> Some (Absent, m))"

definition writes :: "'f fp_machine \<Rightarrow> ('f store \<Rightarrow> 'f store) \<Rightarrow> (fp_reply \<times> 'f fp_machine) option" where
  "writes m f = Some (Done, m\<lparr>memory := (memory m)\<lparr>contents := f (contents (memory m))\<rparr>\<rparr>)"

text \<open>
  One call; \<open>b\<close> is the address of the block for its result.
\<close>

fun fp_exec ::
  "num_bigint \<Rightarrow> ark_bigint \<Rightarrow> 'f ark_field \<Rightarrow> 'f fp_machine \<Rightarrow> nat \<Rightarrow> fp_instr \<Rightarrow> (fp_reply \<times> 'f fp_machine) option" where
  "fp_exec N A F m b (FpOfInt x i) = returns m x b (caml_pasta_fp_of_int F i)"
| "fp_exec N A F m b (FpOfString x s) = returns_outcome m x b (caml_pasta_fp_of_string N A F s)"
| "fp_exec N A F m b (FpAdd x y z) = as_ref m y (\<lambda>u. as_ref m z (\<lambda>v. returns m x b (caml_pasta_fp_add F u v)))"
| "fp_exec N A F m b (FpSub x y z) = as_ref m y (\<lambda>u. as_ref m z (\<lambda>v. returns m x b (caml_pasta_fp_sub F u v)))"
| "fp_exec N A F m b (FpMul x y z) = as_ref m y (\<lambda>u. as_ref m z (\<lambda>v. returns m x b (caml_pasta_fp_mul F u v)))"
| "fp_exec N A F m b (FpDiv x y z) = as_ref m y (\<lambda>u. as_ref m z (\<lambda>v. returns_outcome m x b (caml_pasta_fp_div F u v)))"
| "fp_exec N A F m b (FpNegate x y) = as_ref m y (\<lambda>u. returns m x b (caml_pasta_fp_negate F u))"
| "fp_exec N A F m b (FpSquare x y) = as_ref m y (\<lambda>u. returns m x b (caml_pasta_fp_square F u))"
| "fp_exec N A F m b (FpInv x y) = as_ref m y (\<lambda>u. returns_option m x b (caml_pasta_fp_inv F u))"
| "fp_exec N A F m b (FpSqrt x y) = as_ref m y (\<lambda>u. returns_option m x b (caml_pasta_fp_sqrt F u))"
| "fp_exec N A F m b (FpDeepCopy x y) =
     (case vars m y of
        None \<Rightarrow> Some (Unbound, m)
      | Some c \<Rightarrow> (case caml_fp_from_value c (memory m) of
          None \<Rightarrow> None
        | Some u \<Rightarrow> returns m x b (caml_pasta_fp_deep_copy u)))"
| "fp_exec N A F m b (FpCopy x y) = pointer m x (\<lambda>p. pointer m y (\<lambda>q. writes m (caml_pasta_fp_copy p q)))"
| "fp_exec N A F m b (FpMutAdd x y) = pointer m x (\<lambda>p. pointer m y (\<lambda>q. writes m (caml_pasta_fp_mut_add F p q)))"
| "fp_exec N A F m b (FpMutSub x y) = pointer m x (\<lambda>p. pointer m y (\<lambda>q. writes m (caml_pasta_fp_mut_sub F p q)))"
| "fp_exec N A F m b (FpMutMul x y) = pointer m x (\<lambda>p. pointer m y (\<lambda>q. writes m (caml_pasta_fp_mut_mul F p q)))"
| "fp_exec N A F m b (FpMutSquare x) = pointer m x (\<lambda>p. writes m (caml_pasta_fp_mut_square F p))"
| "fp_exec N A F m b (FpToString x) = as_ref m x (\<lambda>u. Some (Text (caml_pasta_fp_to_string N A F u), m))"
| "fp_exec N A F m b (FpEqual x y) = as_ref m x (\<lambda>u. as_ref m y (\<lambda>v. Some (Truth (caml_pasta_fp_equal u v), m)))"
| "fp_exec N A F m b (FpCompare x y) = as_ref m x (\<lambda>u. as_ref m y (\<lambda>v. Some (Sign (caml_pasta_fp_compare A F u v), m)))"
| "fp_exec N A F m b (FpPolymorphicCompare x y) =
     as_ref m x (\<lambda>u. as_ref m y (\<lambda>v. Some (CompareSign (ocaml_compare_fp A F u v), m)))"
| "fp_exec N A F m b (Alias x y) = pointer m y (\<lambda>p. Some (Done, m\<lparr>vars := (vars m)(x \<mapsto> p)\<rparr>))"
| "fp_exec N A F m b (Forget x) = Some (Done, m\<lparr>vars := (vars m)(x := None)\<rparr>)"

text \<open>
  A run interleaves the calls of the program with collections. OCaml allocates a block where none is live
  and collects blocks that no variable holds.
\<close>

datatype fp_event = Call fp_instr nat | Collect nat

fun fp_run ::
  "num_bigint \<Rightarrow> ark_bigint \<Rightarrow> 'f ark_field \<Rightarrow> 'f fp_machine \<Rightarrow> fp_event list \<Rightarrow> (fp_reply list \<times> 'f fp_machine) option" where
  "fp_run N A F m [] = Some ([], m)"
| "fp_run N A F m (Call i b # es) =
     (case fp_exec N A F m b i of
        None \<Rightarrow> None
      | Some (r, m) \<Rightarrow> map_option (\<lambda>(rs, m). (r # rs, m)) (fp_run N A F m es))"
| "fp_run N A F m (Collect b # es) =
     (case caml_fp_finalize b (memory m) of
        None \<Rightarrow> None
      | Some h \<Rightarrow> fp_run N A F (m\<lparr>memory := h\<rparr>) es)"

fun ocaml_schedule :: "num_bigint \<Rightarrow> ark_bigint \<Rightarrow> 'f ark_field \<Rightarrow> 'f fp_machine \<Rightarrow> fp_event list \<Rightarrow> bool" where
  "ocaml_schedule N A F m [] = True"
| "ocaml_schedule N A F m (Call i b # es) =
     (b \<notin> live (memory m) \<and>
      (case fp_exec N A F m b i of None \<Rightarrow> True | Some (r, m) \<Rightarrow> ocaml_schedule N A F m es))"
| "ocaml_schedule N A F m (Collect b # es) =
     (b \<in> live (memory m) \<and> b \<notin> ran (vars m) \<and>
      (case caml_fp_finalize b (memory m) of None \<Rightarrow> True | Some h \<Rightarrow> ocaml_schedule N A F (m\<lparr>memory := h\<rparr>) es))"

fun calls_of :: "fp_event list \<Rightarrow> fp_instr list" where
  "calls_of [] = []"
| "calls_of (Call i b # es) = i # calls_of es"
| "calls_of (Collect b # es) = calls_of es"

section \<open>The specification\<close>

text \<open>
  Elements in cells that are never reclaimed, and the operations of the field.
\<close>

record 'f fp_cells =
  cells :: "'f list"
  names :: "var \<rightharpoonup> nat"

definition cell :: "'f fp_cells \<Rightarrow> var \<Rightarrow> (nat \<Rightarrow> fp_reply \<times> 'f fp_cells) \<Rightarrow> fp_reply \<times> 'f fp_cells" where
  "cell s x k = (case names s x of None \<Rightarrow> (Unbound, s) | Some c \<Rightarrow> k c)"

definition value_of :: "'f fp_cells \<Rightarrow> var \<Rightarrow> ('f \<Rightarrow> fp_reply \<times> 'f fp_cells) \<Rightarrow> fp_reply \<times> 'f fp_cells" where
  "value_of s x k = cell s x (\<lambda>c. k (cells s ! c))"

definition binds :: "'f fp_cells \<Rightarrow> var \<Rightarrow> 'f \<Rightarrow> fp_reply \<times> 'f fp_cells" where
  "binds s x v = (Done, s\<lparr>cells := cells s @ [v], names := (names s)(x \<mapsto> length (cells s))\<rparr>)"

definition binds_outcome :: "'f fp_cells \<Rightarrow> var \<Rightarrow> ('f, ocaml_error) outcome \<Rightarrow> fp_reply \<times> 'f fp_cells" where
  "binds_outcome s x r = (case r of Ok v \<Rightarrow> binds s x v | Err e \<Rightarrow> (Raises e, s) | Panic p \<Rightarrow> (Panics p, s))"

definition binds_option :: "'f fp_cells \<Rightarrow> var \<Rightarrow> 'f option \<Rightarrow> fp_reply \<times> 'f fp_cells" where
  "binds_option s x r = (case r of Some v \<Rightarrow> binds s x v | None \<Rightarrow> (Absent, s))"

definition assigns :: "'f fp_cells \<Rightarrow> nat \<Rightarrow> 'f \<Rightarrow> fp_reply \<times> 'f fp_cells" where
  "assigns s c v = (Done, s\<lparr>cells := (cells s)[c := v]\<rparr>)"

fun fp_spec_exec ::
  "num_bigint \<Rightarrow> ark_bigint \<Rightarrow> 'f ark_field \<Rightarrow> 'f fp_cells \<Rightarrow> fp_instr \<Rightarrow> fp_reply \<times> 'f fp_cells" where
  "fp_spec_exec N A F s (FpOfInt x i) = binds s x (ff_from_u64 F i)"
| "fp_spec_exec N A F s (FpOfString x t) = binds_outcome s x (caml_pasta_fp_of_string N A F t)"
| "fp_spec_exec N A F s (FpAdd x y z) = value_of s y (\<lambda>u. value_of s z (\<lambda>v. binds s x (ff_add F u v)))"
| "fp_spec_exec N A F s (FpSub x y z) = value_of s y (\<lambda>u. value_of s z (\<lambda>v. binds s x (ff_sub F u v)))"
| "fp_spec_exec N A F s (FpMul x y z) = value_of s y (\<lambda>u. value_of s z (\<lambda>v. binds s x (ff_mul F u v)))"
| "fp_spec_exec N A F s (FpDiv x y z) = value_of s y (\<lambda>u. value_of s z (\<lambda>v.
     binds_outcome s x (expect (ff_div F u v) ''called Option::unwrap() on a None value'')))"
| "fp_spec_exec N A F s (FpNegate x y) = value_of s y (\<lambda>u. binds s x (ff_neg F u))"
| "fp_spec_exec N A F s (FpSquare x y) = value_of s y (\<lambda>u. binds s x (ff_square F u))"
| "fp_spec_exec N A F s (FpInv x y) = value_of s y (\<lambda>u. binds_option s x (ff_inverse F u))"
| "fp_spec_exec N A F s (FpSqrt x y) = value_of s y (\<lambda>u. binds_option s x (ff_sqrt F u))"
| "fp_spec_exec N A F s (FpDeepCopy x y) = value_of s y (\<lambda>u. binds s x u)"
| "fp_spec_exec N A F s (FpCopy x y) = cell s x (\<lambda>c. value_of s y (\<lambda>v. assigns s c v))"
| "fp_spec_exec N A F s (FpMutAdd x y) = cell s x (\<lambda>c. value_of s y (\<lambda>v. assigns s c (ff_add F (cells s ! c) v)))"
| "fp_spec_exec N A F s (FpMutSub x y) = cell s x (\<lambda>c. value_of s y (\<lambda>v. assigns s c (ff_sub F (cells s ! c) v)))"
| "fp_spec_exec N A F s (FpMutMul x y) = cell s x (\<lambda>c. value_of s y (\<lambda>v. assigns s c (ff_mul F (cells s ! c) v)))"
| "fp_spec_exec N A F s (FpMutSquare x) = cell s x (\<lambda>c. assigns s c (ff_square F (cells s ! c)))"
| "fp_spec_exec N A F s (FpToString x) = value_of s x (\<lambda>u. (Text (caml_pasta_fp_to_string N A F u), s))"
| "fp_spec_exec N A F s (FpEqual x y) = value_of s x (\<lambda>u. value_of s y (\<lambda>v. (Truth (u = v), s)))"
| "fp_spec_exec N A F s (FpCompare x y) = value_of s x (\<lambda>u. value_of s y (\<lambda>v. (Sign (caml_pasta_fp_compare A F u v), s)))"
| "fp_spec_exec N A F s (FpPolymorphicCompare x y) =
     value_of s x (\<lambda>u. value_of s y (\<lambda>v. (CompareSign (ocaml_compare_fp A F u v), s)))"
| "fp_spec_exec N A F s (Alias x y) = cell s y (\<lambda>c. (Done, s\<lparr>names := (names s)(x \<mapsto> c)\<rparr>))"
| "fp_spec_exec N A F s (Forget x) = (Done, s\<lparr>names := (names s)(x := None)\<rparr>)"

fun fp_spec_run ::
  "num_bigint \<Rightarrow> ark_bigint \<Rightarrow> 'f ark_field \<Rightarrow> 'f fp_cells \<Rightarrow> fp_instr list \<Rightarrow> fp_reply list" where
  "fp_spec_run N A F s [] = []"
| "fp_spec_run N A F s (i # is) = (case fp_spec_exec N A F s i of (r, s) \<Rightarrow> r # fp_spec_run N A F s is)"

section \<open>The simulation\<close>

text \<open>
  Block and cell of a variable have the same value, and two variables share a block when they share a cell.
\<close>

definition held :: "'f fp_machine \<Rightarrow> 'f fp_cells \<Rightarrow> bool" where
  "held m s \<longleftrightarrow>
     (\<forall>x. vars m x = None \<longleftrightarrow> names s x = None) \<and>
     (\<forall>x b c. vars m x = Some b \<and> names s x = Some c \<longrightarrow>
        b \<in> live (memory m) \<and> c < length (cells s) \<and> contents (memory m) b = cells s ! c) \<and>
     (\<forall>x y b b' c c'. vars m x = Some b \<and> names s x = Some c \<and> vars m y = Some b' \<and> names s y = Some c' \<longrightarrow> (b = b' \<longleftrightarrow> c = c'))"

definition agree :: "(fp_reply \<times> 'f fp_machine) option \<Rightarrow> fp_reply \<times> 'f fp_cells \<Rightarrow> bool" where
  "agree r r' \<longleftrightarrow> (\<exists>m. r = Some (fst r', m) \<and> held m (snd r'))"

lemma held_None: "held m s \<Longrightarrow> vars m x = None \<longleftrightarrow> names s x = None"
  by (simp add: held_def)

lemma held_value:
  "held m s \<Longrightarrow> vars m x = Some b \<Longrightarrow> names s x = Some c \<Longrightarrow>
   b \<in> live (memory m) \<and> c < length (cells s) \<and> contents (memory m) b = cells s ! c"
  by (simp add: held_def)

lemma held_share:
  "held m s \<Longrightarrow> vars m x = Some b \<Longrightarrow> names s x = Some c \<Longrightarrow> vars m y = Some b' \<Longrightarrow> names s y = Some c' \<Longrightarrow> b = b' \<longleftrightarrow> c = c'"
  unfolding held_def by blast

lemma heldI:
  assumes "\<And>x. vars m x = None \<longleftrightarrow> names s x = None"
    and "\<And>x b c. vars m x = Some b \<Longrightarrow> names s x = Some c \<Longrightarrow>
      b \<in> live (memory m) \<and> c < length (cells s) \<and> contents (memory m) b = cells s ! c"
    and "\<And>x y b b' c c'. vars m x = Some b \<Longrightarrow> names s x = Some c \<Longrightarrow> vars m y = Some b' \<Longrightarrow> names s y = Some c' \<Longrightarrow> b = b' \<longleftrightarrow> c = c'"
  shows "held m s"
  unfolding held_def using assms by blast

lemma held_bound:
  assumes "held m s" and "names s x = Some c"
  obtains b where "vars m x = Some b" "b \<in> live (memory m)" "c < length (cells s)" "contents (memory m) b = cells s ! c"
  using held_None [OF assms(1), of x] held_value [OF assms(1) _ assms(2)] assms(2) by (cases "vars m x") auto

lemma agree_same: "held m s \<Longrightarrow> agree (Some (r, m)) (r, s)"
  by (simp add: agree_def)

lemma pointer_agree:
  assumes "held m s" and "\<And>b c. vars m x = Some b \<Longrightarrow> names s x = Some c \<Longrightarrow> agree (k b) (k' c)"
  shows "agree (pointer m x k) (cell s x k')"
proof (cases "vars m x")
  case None
  then have "names s x = None" using assms(1) by (simp add: held_def)
  with None assms(1) show ?thesis by (simp add: pointer_def cell_def agree_same)
next
  case (Some b)
  then obtain c where c: "names s x = Some c" using held_None [OF assms(1), of x] by (cases "names s x") auto
  with Some held_value [OF assms(1) Some c] assms(2) [OF Some c] show ?thesis by (simp add: pointer_def cell_def)
qed

lemma as_ref_agree:
  assumes "held m s" and "\<And>v. agree (k v) (k' v)"
  shows "agree (as_ref m x k) (value_of s x k')"
  unfolding as_ref_def value_of_def
proof (rule pointer_agree [OF assms(1)])
  fix b c assume "vars m x = Some b" and "names s x = Some c"
  with held_value [OF assms(1)] have "contents (memory m) b = cells s ! c" by blast
  with assms(2) show "agree (k (contents (memory m) b)) (k' (cells s ! c))" by simp
qed

lemma held_new:
  assumes "held m s" and "b \<notin> live (memory m)"
  shows "held (m\<lparr>memory := block_new b v (memory m), vars := (vars m)(x \<mapsto> b)\<rparr>)
    (s\<lparr>cells := cells s @ [v], names := (names s)(x \<mapsto> length (cells s))\<rparr>)"
proof (rule heldI, goal_cases)
  case (1 y)
  then show ?case using held_None [OF assms(1), of y] by simp
next
  case (2 y b' c)
  then show ?case
  proof (cases "y = x")
    case False
    with 2 have y: "vars m y = Some b'" "names s y = Some c" by simp_all
    with assms(2) held_value [OF assms(1) y] show ?thesis by (auto simp: block_new_def nth_append)
  qed (auto simp: block_new_def)
next
  case (3 y z b1 b2 c1 c2)
  have old: "b' \<noteq> b \<and> c' \<noteq> length (cells s)" if "vars m w = Some b'" "names s w = Some c'" for w b' c'
    using held_value [OF assms(1) that] assms(2) by auto
  from 3 held_share [OF assms(1), of y b1 c1 z b2 c2] old [of y b1 c1] old [of z b2 c2]
  show ?case by (cases "y = x"; cases "z = x") auto
qed

lemma returns_agree: "held m s \<Longrightarrow> b \<notin> live (memory m) \<Longrightarrow> agree (returns m x b v) (binds s x v)"
  using held_new [where v = v and x = x] by (simp add: agree_def returns_def binds_def caml_fp_custom_def)

lemma returns_outcome_agree:
  "held m s \<Longrightarrow> b \<notin> live (memory m) \<Longrightarrow> agree (returns_outcome m x b r) (binds_outcome s x r)"
  by (cases r) (simp_all add: returns_outcome_def binds_outcome_def returns_agree agree_same)

lemma returns_option_agree:
  "held m s \<Longrightarrow> b \<notin> live (memory m) \<Longrightarrow> agree (returns_option m x b r) (binds_option s x r)"
  by (cases r) (simp_all add: returns_option_def binds_option_def returns_agree agree_same)

lemma writes_agree:
  assumes "held m s" and "vars m x = Some b" and "names s x = Some c" and "f = (\<lambda>st. st(b := g st))"
    and "v = g (contents (memory m))"
  shows "agree (writes m f) (assigns s c v)"
proof -
  let ?m = "m\<lparr>memory := (memory m)\<lparr>contents := (contents (memory m))(b := v)\<rparr>\<rparr>" and ?s = "s\<lparr>cells := (cells s)[c := v]\<rparr>"
  have "held ?m ?s"
  proof (rule heldI, goal_cases)
    case (1 y)
    then show ?case using held_None [OF assms(1), of y] by simp
  next
    case (2 y b' c')
    then have y: "vars m y = Some b'" "names s y = Some c'" by simp_all
    have "b' = b \<longleftrightarrow> c' = c" using held_share [OF assms(1) y assms(2,3)] .
    with held_value [OF assms(1) y] show ?case by (auto simp: nth_list_update)
  next
    case (3 y z b1 b2 c1 c2)
    then show ?case using held_share [OF assms(1), of y b1 c1 z b2 c2] by simp
  qed
  then show ?thesis by (simp add: agree_def writes_def assigns_def assms(4,5))
qed

lemma held_alias:
  assumes "held m s" and "vars m y = Some b" and "names s y = Some c"
  shows "held (m\<lparr>vars := (vars m)(x \<mapsto> b)\<rparr>) (s\<lparr>names := (names s)(x \<mapsto> c)\<rparr>)"
proof (rule heldI, goal_cases)
  case (1 z)
  then show ?case using held_None [OF assms(1), of z] by simp
next
  case (2 z b' c')
  then show ?case using held_value [OF assms(1)] assms(2,3) by (auto split: if_splits)
next
  case (3 z w b1 b2 c1 c2)
  then show ?case
    using held_share [OF assms(1), of z b1 c1 w b2 c2] held_share [OF assms, of z b1 c1] held_share [OF assms, of w b2 c2]
    by (auto split: if_splits)
qed

lemma held_forget: "held m s \<Longrightarrow> held (m\<lparr>vars := (vars m)(x := None)\<rparr>) (s\<lparr>names := (names s)(x := None)\<rparr>)"
  by (rule heldI) (auto simp: held_None held_value held_share split: if_splits dest: held_share)

lemma held_collect:
  assumes "held m s" and "b \<notin> ran (vars m)"
  shows "held (m\<lparr>memory := (memory m)\<lparr>live := live (memory m) - {b}\<rparr>\<rparr>) s"
proof (rule heldI, goal_cases)
  case (2 y b' c)
  then have "b' \<noteq> b" using assms(2) by (auto simp: ran_def)
  with 2 held_value [OF assms(1), of y b' c] show ?case by simp
qed (use held_None [OF assms(1)] held_share [OF assms(1)] in simp_all)

lemma held_contents:
  "held m s \<Longrightarrow> vars m x = Some b \<Longrightarrow> names s x = Some c \<Longrightarrow> contents (memory m) b = cells s ! c"
  by (simp add: held_value)

lemma exec_agree:
  assumes held: "held m s" and fresh: "b \<notin> live (memory m)"
  shows "agree (fp_exec N A F m b i) (fp_spec_exec N A F s i)"
proof (cases i)
  case (FpDeepCopy x y)
  have "fp_exec N A F m b i = as_ref m y (\<lambda>u. returns m x b u)"
    by (simp add: FpDeepCopy as_ref_def pointer_def caml_fp_from_value_def block_read_def caml_pasta_fp_deep_copy_def split: option.split)
  then show ?thesis by (simp add: FpDeepCopy as_ref_agree [OF held] returns_agree [OF held fresh])
next
  case (Alias x y)
  then show ?thesis by (auto intro!: pointer_agree [OF held] agree_same held_alias [OF held])
next
  case (Forget x)
  then show ?thesis by (simp add: agree_same held_forget [OF held])
qed (auto simp: caml_pasta_fp_of_int_def caml_pasta_fp_add_def caml_pasta_fp_sub_def caml_pasta_fp_mul_def caml_pasta_fp_div_def
    caml_pasta_fp_negate_def caml_pasta_fp_square_def caml_pasta_fp_inv_def caml_pasta_fp_sqrt_def caml_pasta_fp_equal_def
    value_of_def [of s _ "\<lambda>v. assigns s _ (_ v)"] value_of_def [of s _ "assigns s _"] fp_store_defs held_contents [OF held]
    intro!: as_ref_agree [OF held] returns_agree [OF held fresh] returns_outcome_agree [OF held fresh]
      returns_option_agree [OF held fresh] agree_same [OF held] pointer_agree [OF held] writes_agree [OF held])

lemma run_agree:
  assumes "held m s" and "ocaml_schedule N A F m es"
  shows "\<exists>m'. fp_run N A F m es = Some (fp_spec_run N A F s (calls_of es), m') \<and> ran (vars m') \<subseteq> live (memory m')"
  using assms
proof (induction es arbitrary: m s)
  case Nil
  have "ran (vars m) \<subseteq> live (memory m)"
    using held_None [OF Nil(1)] held_value [OF Nil(1)] unfolding ran_def by (auto, metis not_Some_eq)
  then show ?case by simp
next
  case (Cons e es)
  show ?case
  proof (cases e)
    case (Call i b)
    obtain r s' where spec: "fp_spec_exec N A F s i = (r, s')" by fastforce
    from Cons.prems Call have "agree (fp_exec N A F m b i) (r, s')" using exec_agree [of m s b N A F i] spec by simp
    then obtain m' where "fp_exec N A F m b i = Some (r, m')" "held m' s'" by (auto simp: agree_def)
    with Cons.IH [of m' s'] Cons.prems(2) Call spec show ?thesis by auto
  next
    case (Collect b)
    let ?m = "m\<lparr>memory := (memory m)\<lparr>live := live (memory m) - {b}\<rparr>\<rparr>"
    from Cons.prems(2) Collect have b: "b \<in> live (memory m)" "b \<notin> ran (vars m)" by simp_all
    with Cons.IH [OF held_collect [OF Cons.prems(1) b(2)]] Cons.prems(2) Collect show ?thesis
      by (simp add: caml_fp_finalize_def block_drop_def)
  qed
qed

section \<open>Properties\<close>

definition empty_machine :: "'f store \<Rightarrow> 'f fp_machine" where
  "empty_machine garbage = \<lparr>memory = \<lparr>contents = garbage, live = {}\<rparr>, vars = Map.empty\<rparr>"

definition no_cells :: "'f fp_cells" where
  "no_cells = \<lparr>cells = [], names = Map.empty\<rparr>"

text \<open>
  C12. The collector is invisible. Take any program over field elements, with calls that allocate, calls that
  write through a pointer and variables that share a block, run with collections wherever OCaml may make
  them and blocks allocated again at addresses that were collected. No call reads a block that was finalized,
  every reply is that of the specification, in which cells are never reclaimed and the operations are those
  of the field, and at the end every variable holds a live block.
\<close>

theorem fp_programs_refine:
  assumes "ocaml_schedule N A F (empty_machine garbage) es"
  shows "\<exists>m. fp_run N A F (empty_machine garbage) es = Some (fp_spec_run N A F no_cells (calls_of es), m) \<and>
    ran (vars m) \<subseteq> live (memory m)"
proof -
  have "held (empty_machine garbage) no_cells" by (rule heldI) (simp_all add: empty_machine_def no_cells_def)
  then show ?thesis using assms by (rule run_agree)
qed

text \<open>
  The block at address 0 is written through one of two variables, collected and allocated again.
\<close>

definition sample_schedule :: "fp_event list" where
  "sample_schedule =
     [Call (FpOfInt 0 0) 0, Call (Alias 1 0) 9, Call (FpOfInt 2 1) 1, Call (FpCopy 1 2) 9, Call (FpDeepCopy 3 0) 2,
      Call (Forget 0) 9, Call (Forget 1) 9, Collect 0, Call (FpNegate 4 2) 0, Call (FpEqual 3 2) 9, Call (FpEqual 0 2) 9]"

lemmas block_defs =
  empty_machine_def pointer_def as_ref_def returns_def writes_def caml_fp_custom_def caml_fp_from_value_def caml_fp_finalize_def
  block_new_def block_read_def block_drop_def fp_store_defs

theorem fp_programs_refine_witness:
  "\<exists>m. fp_run ref_num_bigint ref_ark_bigint ref_fp (empty_machine (\<lambda>_. ff_zero ref_fp)) sample_schedule =
     Some ([Done, Done, Done, Done, Done, Done, Done, Done, Truth True, Unbound], m)"
proof -
  let ?m = "empty_machine (\<lambda>_. ff_zero ref_fp)"
  have "ocaml_schedule ref_num_bigint ref_ark_bigint ref_fp ?m sample_schedule"
    by (simp add: sample_schedule_def block_defs)
  moreover have "fp_spec_run ref_num_bigint ref_ark_bigint ref_fp no_cells (calls_of sample_schedule) =
      [Done, Done, Done, Done, Done, Done, Done, Done, Truth True, Unbound]"
    by (simp add: sample_schedule_def no_cells_def cell_def value_of_def binds_def assigns_def)
  ultimately show ?thesis using fp_programs_refine [of ref_num_bigint ref_ark_bigint ref_fp "\<lambda>_. ff_zero ref_fp" sample_schedule] by auto
qed

end
