(* ===== verification/Binding_Decls.thy ===== *)
theory Binding_Decls
  imports Prelude
begin

text \<open>
  The declarations of the bindings, \<^verbatim>\<open>stubs/src/main.rs\<close>: a program that writes three OCaml
  files with the types and functions that the crate exports. The declarations are data here, one
  definition per module; how \<^verbatim>\<open>ocaml_gen\<close> prints a declaration and remembers the types it has seen
  is a parameter. Type parameters are the fake generics \<open>T1\<close>, \<open>T2\<close>, \<open>T3\<close>.
\<close>

section \<open>Declarations\<close>

text \<open>
  \<open>decl_type!(rust => name)\<close>, \<open>decl_type_alias!(name => rust)\<close>, \<open>decl_func!(rust => name)\<close> and
  \<open>decl_module!(name, block)\<close>.
\<close>

datatype decl =
    DType string string
  | DAlias string string
  | DFunc string string
  | DModule string "decl list"

definition types_verifier_index_lookup_module :: "decl list" where
  "types_verifier_index_lookup_module = [
      DType ''CamlLookupsUsed'' ''lookups_used'',
      DType ''CamlLookupInfo'' ''lookup_info'',
      DType ''CamlLookupSelectors<T1>'' ''lookup_selectors'',
      DType ''CamlLookupVerifierIndex<T1>'' ''t'']"

definition types_verifier_index_module :: "decl list" where
  "types_verifier_index_module = [
      DModule ''Lookup'' types_verifier_index_lookup_module,
      DType ''CamlPlonkDomain<T1>'' ''domain'',
      DType ''CamlPlonkVerificationEvals<T1>'' ''verification_evals'',
      DType ''CamlPlonkVerifierIndex<T1, T2, T3>'' ''verifier_index'']"

definition generate_types_bindings :: "decl list" where
  "generate_types_bindings = [
      DType ''CamlGroupAffine<T1>'' ''or_infinity'',
      DType ''CamlScalarChallenge<T1>'' ''scalar_challenge'',
      DType ''CamlRandomOracles<T1>'' ''random_oracles'',
      DType ''PointEvaluations<T1>'' ''point_evaluations'',
      DType ''CamlProofEvaluations<T1>'' ''proof_evaluations'',
      DType ''CamlPolyComm<T1>'' ''poly_comm'',
      DType ''CamlRecursionChallenge<T1, T2>'' ''recursion_challenge'',
      DType ''CamlOpeningProof<T1, T2>'' ''opening_proof'',
      DType ''CamlLookupCommitments<T1>'' ''lookup_commitments'',
      DType ''CamlRuntimeTableCfg<T1>'' ''runtime_table_cfg'',
      DType ''CamlLookupTable<T1>'' ''lookup_table'',
      DType ''CamlRuntimeTable<T1>'' ''runtime_table'',
      DType ''CamlProverCommitments<T1>'' ''prover_commitments'',
      DType ''CamlProverProof<T1, T2>'' ''prover_proof'',
      DType ''CamlProofWithPublic<T1, T2>'' ''proof_with_public'',
      DType ''CamlWire'' ''wire'',
      DType ''GateType'' ''gate_type'',
      DType ''LookupPattern'' ''lookup_pattern'',
      DType ''LookupPatterns'' ''lookup_patterns'',
      DType ''LookupFeatures'' ''lookup_features'',
      DType ''FeatureFlag'' ''feature_flag'',
      DType ''CamlCircuitGate<T1>'' ''circuit_gate'',
      DType ''CurrOrNext'' ''curr_or_next'',
      DType ''CamlOracles<T1>'' ''oracles'',
      DModule ''VerifierIndex'' types_verifier_index_module]"

definition big_int256_module :: "decl list" where
  "big_int256_module = [
      DType ''CamlBigInteger256'' ''t'',
      DFunc ''caml_bigint_256_of_numeral'' ''of_numeral'',
      DFunc ''caml_bigint_256_of_decimal_string'' ''of_decimal_string'',
      DFunc ''caml_bigint_256_num_limbs'' ''num_limbs'',
      DFunc ''caml_bigint_256_bytes_per_limb'' ''bytes_per_limb'',
      DFunc ''caml_bigint_256_div'' ''div'',
      DFunc ''caml_bigint_256_compare'' ''compare'',
      DFunc ''caml_bigint_256_print'' ''print'',
      DFunc ''caml_bigint_256_to_string'' ''to_string'',
      DFunc ''caml_bigint_256_test_bit'' ''test_bit'',
      DFunc ''caml_bigint_256_to_bytes'' ''to_bytes'',
      DFunc ''caml_bigint_256_of_bytes'' ''of_bytes'',
      DFunc ''caml_bigint_256_deep_copy'' ''deep_copy'']"

definition fp_module :: "decl list" where
  "fp_module = [
      DType ''CamlFp'' ''t'',
      DFunc ''caml_pasta_fp_size_in_bits'' ''size_in_bits'',
      DFunc ''caml_pasta_fp_size'' ''size'',
      DFunc ''caml_pasta_fp_add'' ''add'',
      DFunc ''caml_pasta_fp_sub'' ''sub'',
      DFunc ''caml_pasta_fp_negate'' ''negate'',
      DFunc ''caml_pasta_fp_mul'' ''mul'',
      DFunc ''caml_pasta_fp_div'' ''div'',
      DFunc ''caml_pasta_fp_inv'' ''inv'',
      DFunc ''caml_pasta_fp_square'' ''square'',
      DFunc ''caml_pasta_fp_is_square'' ''is_square'',
      DFunc ''caml_pasta_fp_sqrt'' ''sqrt'',
      DFunc ''caml_pasta_fp_of_int'' ''of_int'',
      DFunc ''caml_pasta_fp_to_string'' ''to_string'',
      DFunc ''caml_pasta_fp_of_string'' ''of_string'',
      DFunc ''caml_pasta_fp_print'' ''print'',
      DFunc ''caml_pasta_fp_print_rust'' ''print_rust'',
      DFunc ''caml_pasta_fp_copy'' ''copy'',
      DFunc ''caml_pasta_fp_mut_add'' ''mut_add'',
      DFunc ''caml_pasta_fp_mut_sub'' ''mut_sub'',
      DFunc ''caml_pasta_fp_mut_mul'' ''mut_mul'',
      DFunc ''caml_pasta_fp_mut_square'' ''mut_square'',
      DFunc ''caml_pasta_fp_compare'' ''compare'',
      DFunc ''caml_pasta_fp_equal'' ''equal'',
      DFunc ''caml_pasta_fp_random'' ''random'',
      DFunc ''caml_pasta_fp_rng'' ''rng'',
      DFunc ''caml_pasta_fp_to_bigint'' ''to_bigint'',
      DFunc ''caml_pasta_fp_of_bigint'' ''of_bigint'',
      DFunc ''caml_pasta_fp_two_adic_root_of_unity'' ''two_adic_root_of_unity'',
      DFunc ''caml_pasta_fp_domain_generator'' ''domain_generator'',
      DFunc ''caml_pasta_fp_to_bytes'' ''to_bytes'',
      DFunc ''caml_pasta_fp_of_bytes'' ''of_bytes'',
      DFunc ''caml_pasta_fp_deep_copy'' ''deep_copy'']"

definition fq_module :: "decl list" where
  "fq_module = [
      DType ''CamlFq'' ''t'',
      DFunc ''caml_pasta_fq_size_in_bits'' ''size_in_bits'',
      DFunc ''caml_pasta_fq_size'' ''size'',
      DFunc ''caml_pasta_fq_add'' ''add'',
      DFunc ''caml_pasta_fq_sub'' ''sub'',
      DFunc ''caml_pasta_fq_negate'' ''negate'',
      DFunc ''caml_pasta_fq_mul'' ''mul'',
      DFunc ''caml_pasta_fq_div'' ''div'',
      DFunc ''caml_pasta_fq_inv'' ''inv'',
      DFunc ''caml_pasta_fq_square'' ''square'',
      DFunc ''caml_pasta_fq_is_square'' ''is_square'',
      DFunc ''caml_pasta_fq_sqrt'' ''sqrt'',
      DFunc ''caml_pasta_fq_of_int'' ''of_int'',
      DFunc ''caml_pasta_fq_to_string'' ''to_string'',
      DFunc ''caml_pasta_fq_of_string'' ''of_string'',
      DFunc ''caml_pasta_fq_print'' ''print'',
      DFunc ''caml_pasta_fq_print_rust'' ''print_rust'',
      DFunc ''caml_pasta_fq_copy'' ''copy'',
      DFunc ''caml_pasta_fq_mut_add'' ''mut_add'',
      DFunc ''caml_pasta_fq_mut_sub'' ''mut_sub'',
      DFunc ''caml_pasta_fq_mut_mul'' ''mut_mul'',
      DFunc ''caml_pasta_fq_mut_square'' ''mut_square'',
      DFunc ''caml_pasta_fq_compare'' ''compare'',
      DFunc ''caml_pasta_fq_equal'' ''equal'',
      DFunc ''caml_pasta_fq_random'' ''random'',
      DFunc ''caml_pasta_fq_rng'' ''rng'',
      DFunc ''caml_pasta_fq_to_bigint'' ''to_bigint'',
      DFunc ''caml_pasta_fq_of_bigint'' ''of_bigint'',
      DFunc ''caml_pasta_fq_two_adic_root_of_unity'' ''two_adic_root_of_unity'',
      DFunc ''caml_pasta_fq_domain_generator'' ''domain_generator'',
      DFunc ''caml_pasta_fq_to_bytes'' ''to_bytes'',
      DFunc ''caml_pasta_fq_of_bytes'' ''of_bytes'',
      DFunc ''caml_pasta_fq_deep_copy'' ''deep_copy'']"

definition vesta_base_field_module :: "decl list" where
  "vesta_base_field_module = [
      DAlias ''t'' ''CamlFq'']"

definition vesta_scalar_field_module :: "decl list" where
  "vesta_scalar_field_module = [
      DAlias ''t'' ''CamlFp'']"

definition vesta_affine_module :: "decl list" where
  "vesta_affine_module = [
      DAlias ''t'' ''CamlGroupAffine<CamlFq>'']"

definition vesta_module :: "decl list" where
  "vesta_module = [
      DModule ''BaseField'' vesta_base_field_module,
      DModule ''ScalarField'' vesta_scalar_field_module,
      DModule ''Affine'' vesta_affine_module,
      DType ''CamlGroupProjectiveVesta'' ''t'',
      DFunc ''caml_vesta_one'' ''one'',
      DFunc ''caml_vesta_add'' ''add'',
      DFunc ''caml_vesta_sub'' ''sub'',
      DFunc ''caml_vesta_negate'' ''negate'',
      DFunc ''caml_vesta_double'' ''double'',
      DFunc ''caml_vesta_scale'' ''scale'',
      DFunc ''caml_vesta_random'' ''random'',
      DFunc ''caml_vesta_rng'' ''rng'',
      DFunc ''caml_vesta_endo_base'' ''endo_base'',
      DFunc ''caml_vesta_endo_scalar'' ''endo_scalar'',
      DFunc ''caml_vesta_to_affine'' ''to_affine'',
      DFunc ''caml_vesta_of_affine'' ''of_affine'',
      DFunc ''caml_vesta_of_affine_coordinates'' ''of_affine_coordinates'',
      DFunc ''caml_vesta_affine_deep_copy'' ''deep_copy'']"

definition pallas_base_field_module :: "decl list" where
  "pallas_base_field_module = [
      DAlias ''t'' ''CamlFp'']"

definition pallas_scalar_field_module :: "decl list" where
  "pallas_scalar_field_module = [
      DAlias ''t'' ''CamlFq'']"

definition pallas_affine_module :: "decl list" where
  "pallas_affine_module = [
      DAlias ''t'' ''CamlGroupAffine<CamlFp>'']"

definition pallas_module :: "decl list" where
  "pallas_module = [
      DModule ''BaseField'' pallas_base_field_module,
      DModule ''ScalarField'' pallas_scalar_field_module,
      DModule ''Affine'' pallas_affine_module,
      DType ''CamlGroupProjectivePallas'' ''t'',
      DFunc ''caml_pallas_one'' ''one'',
      DFunc ''caml_pallas_add'' ''add'',
      DFunc ''caml_pallas_sub'' ''sub'',
      DFunc ''caml_pallas_negate'' ''negate'',
      DFunc ''caml_pallas_double'' ''double'',
      DFunc ''caml_pallas_scale'' ''scale'',
      DFunc ''caml_pallas_random'' ''random'',
      DFunc ''caml_pallas_rng'' ''rng'',
      DFunc ''caml_pallas_endo_base'' ''endo_base'',
      DFunc ''caml_pallas_endo_scalar'' ''endo_scalar'',
      DFunc ''caml_pallas_to_affine'' ''to_affine'',
      DFunc ''caml_pallas_of_affine'' ''of_affine'',
      DFunc ''caml_pallas_of_affine_coordinates'' ''of_affine_coordinates'',
      DFunc ''caml_pallas_affine_deep_copy'' ''deep_copy'']"

definition generate_pasta_bindings :: "decl list" where
  "generate_pasta_bindings = [
      DModule ''BigInt256'' big_int256_module,
      DModule ''Fp'' fp_module,
      DModule ''Fq'' fq_module,
      DModule ''Vesta'' vesta_module,
      DModule ''Pallas'' pallas_module]"

definition field_vectors_fp_module :: "decl list" where
  "field_vectors_fp_module = [
      DType ''CamlFpVector'' ''t'',
      DAlias ''elt'' ''CamlFp'',
      DFunc ''caml_fp_vector_create'' ''create'',
      DFunc ''caml_fp_vector_length'' ''length'',
      DFunc ''caml_fp_vector_emplace_back'' ''emplace_back'',
      DFunc ''caml_fp_vector_get'' ''get'',
      DFunc ''caml_fp_vector_set'' ''set'']"

definition field_vectors_fq_module :: "decl list" where
  "field_vectors_fq_module = [
      DType ''CamlFqVector'' ''t'',
      DAlias ''elt'' ''CamlFq'',
      DFunc ''caml_fq_vector_create'' ''create'',
      DFunc ''caml_fq_vector_length'' ''length'',
      DFunc ''caml_fq_vector_emplace_back'' ''emplace_back'',
      DFunc ''caml_fq_vector_get'' ''get'',
      DFunc ''caml_fq_vector_set'' ''set'']"

definition field_vectors_module :: "decl list" where
  "field_vectors_module = [
      DModule ''Fp'' field_vectors_fp_module,
      DModule ''Fq'' field_vectors_fq_module]"

definition protocol_gates_vector_fp_module :: "decl list" where
  "protocol_gates_vector_fp_module = [
      DType ''CamlPastaFpPlonkGateVector'' ''t'',
      DAlias ''elt'' ''CamlCircuitGate<CamlFp>'',
      DFunc ''caml_pasta_fp_plonk_gate_vector_create'' ''create'',
      DFunc ''caml_pasta_fp_plonk_gate_vector_add'' ''add'',
      DFunc ''caml_pasta_fp_plonk_gate_vector_get'' ''get'',
      DFunc ''caml_pasta_fp_plonk_gate_vector_len'' ''len'',
      DFunc ''caml_pasta_fp_plonk_gate_vector_wrap'' ''wrap'',
      DFunc ''caml_pasta_fp_plonk_gate_vector_digest'' ''digest'',
      DFunc ''caml_pasta_fp_plonk_circuit_serialize'' ''to_json'']"

definition protocol_gates_vector_fq_module :: "decl list" where
  "protocol_gates_vector_fq_module = [
      DType ''CamlPastaFqPlonkGateVector'' ''t'',
      DAlias ''elt'' ''CamlCircuitGate<CamlFq>'',
      DFunc ''caml_pasta_fq_plonk_gate_vector_create'' ''create'',
      DFunc ''caml_pasta_fq_plonk_gate_vector_add'' ''add'',
      DFunc ''caml_pasta_fq_plonk_gate_vector_get'' ''get'',
      DFunc ''caml_pasta_fq_plonk_gate_vector_len'' ''len'',
      DFunc ''caml_pasta_fq_plonk_gate_vector_wrap'' ''wrap'',
      DFunc ''caml_pasta_fq_plonk_gate_vector_digest'' ''digest'',
      DFunc ''caml_pasta_fq_plonk_circuit_serialize'' ''to_json'']"

definition protocol_gates_vector_module :: "decl list" where
  "protocol_gates_vector_module = [
      DModule ''Fp'' protocol_gates_vector_fp_module,
      DModule ''Fq'' protocol_gates_vector_fq_module]"

definition protocol_gates_module :: "decl list" where
  "protocol_gates_module = [
      DModule ''Vector'' protocol_gates_vector_module]"

definition protocol_srs_fp_poly_comm_module :: "decl list" where
  "protocol_srs_fp_poly_comm_module = [
      DAlias ''t'' ''CamlPolyComm<CamlGroupAffine<CamlFp>>'']"

definition protocol_srs_fp_module :: "decl list" where
  "protocol_srs_fp_module = [
      DType ''CamlFpSrs'' ''t'',
      DModule ''Poly_comm'' protocol_srs_fp_poly_comm_module,
      DFunc ''caml_fp_srs_create'' ''create'',
      DFunc ''caml_fp_srs_write'' ''write'',
      DFunc ''caml_fp_srs_read'' ''read'',
      DFunc ''caml_fp_srs_lagrange_commitment'' ''lagrange_commitment'',
      DFunc ''caml_fp_srs_add_lagrange_basis'' ''add_lagrange_basis'',
      DFunc ''caml_fp_srs_commit_evaluations'' ''commit_evaluations'',
      DFunc ''caml_fp_srs_b_poly_commitment'' ''b_poly_commitment'',
      DFunc ''caml_fp_srs_batch_accumulator_check'' ''batch_accumulator_check'',
      DFunc ''caml_fp_srs_batch_accumulator_generate'' ''batch_accumulator_generate'',
      DFunc ''caml_fp_srs_h'' ''urs_h'']"

definition protocol_srs_fq_module :: "decl list" where
  "protocol_srs_fq_module = [
      DType ''CamlFqSrs'' ''t'',
      DFunc ''caml_fq_srs_create'' ''create'',
      DFunc ''caml_fq_srs_write'' ''write'',
      DFunc ''caml_fq_srs_read'' ''read'',
      DFunc ''caml_fq_srs_lagrange_commitment'' ''lagrange_commitment'',
      DFunc ''caml_fq_srs_add_lagrange_basis'' ''add_lagrange_basis'',
      DFunc ''caml_fq_srs_commit_evaluations'' ''commit_evaluations'',
      DFunc ''caml_fq_srs_b_poly_commitment'' ''b_poly_commitment'',
      DFunc ''caml_fq_srs_batch_accumulator_check'' ''batch_accumulator_check'',
      DFunc ''caml_fq_srs_batch_accumulator_generate'' ''batch_accumulator_generate'',
      DFunc ''caml_fq_srs_h'' ''urs_h'']"

definition protocol_srs_module :: "decl list" where
  "protocol_srs_module = [
      DModule ''Fp'' protocol_srs_fp_module,
      DModule ''Fq'' protocol_srs_fq_module]"

definition protocol_index_fp_module :: "decl list" where
  "protocol_index_fp_module = [
      DType ''CamlPastaFpPlonkIndex'' ''t'',
      DFunc ''caml_pasta_fp_plonk_index_create'' ''create'',
      DFunc ''caml_pasta_fp_plonk_index_max_degree'' ''max_degree'',
      DFunc ''caml_pasta_fp_plonk_index_public_inputs'' ''public_inputs'',
      DFunc ''caml_pasta_fp_plonk_index_domain_d1_size'' ''domain_d1_size'',
      DFunc ''caml_pasta_fp_plonk_index_domain_d4_size'' ''domain_d4_size'',
      DFunc ''caml_pasta_fp_plonk_index_domain_d8_size'' ''domain_d8_size'',
      DFunc ''caml_pasta_fp_plonk_index_read'' ''read'',
      DFunc ''caml_pasta_fp_plonk_index_write'' ''write'']"

definition protocol_index_fq_module :: "decl list" where
  "protocol_index_fq_module = [
      DType ''CamlPastaFqPlonkIndex'' ''t'',
      DFunc ''caml_pasta_fq_plonk_index_create'' ''create'',
      DFunc ''caml_pasta_fq_plonk_index_max_degree'' ''max_degree'',
      DFunc ''caml_pasta_fq_plonk_index_public_inputs'' ''public_inputs'',
      DFunc ''caml_pasta_fq_plonk_index_domain_d1_size'' ''domain_d1_size'',
      DFunc ''caml_pasta_fq_plonk_index_domain_d4_size'' ''domain_d4_size'',
      DFunc ''caml_pasta_fq_plonk_index_domain_d8_size'' ''domain_d8_size'',
      DFunc ''caml_pasta_fq_plonk_index_read'' ''read'',
      DFunc ''caml_pasta_fq_plonk_index_write'' ''write'']"

definition protocol_index_module :: "decl list" where
  "protocol_index_module = [
      DModule ''Fp'' protocol_index_fp_module,
      DModule ''Fq'' protocol_index_fq_module]"

definition protocol_verifier_index_fp_module :: "decl list" where
  "protocol_verifier_index_fp_module = [
      DAlias ''t'' ''CamlPlonkVerifierIndex<CamlFp, CamlFpSrs, CamlPolyComm<CamlGVesta>>'',
      DFunc ''caml_pasta_fp_plonk_verifier_index_create'' ''create'',
      DFunc ''caml_pasta_fp_plonk_verifier_index_read'' ''read'',
      DFunc ''caml_pasta_fp_plonk_verifier_index_write'' ''write'',
      DFunc ''caml_pasta_fp_plonk_verifier_index_shifts'' ''shifts'',
      DFunc ''caml_pasta_fp_plonk_verifier_index_dummy'' ''dummy'',
      DFunc ''caml_pasta_fp_plonk_verifier_index_deep_copy'' ''deep_copy'']"

definition protocol_verifier_index_fq_module :: "decl list" where
  "protocol_verifier_index_fq_module = [
      DAlias ''t'' ''CamlPlonkVerifierIndex<CamlFq, CamlFqSrs, CamlPolyComm<CamlGPallas>>'',
      DFunc ''caml_pasta_fq_plonk_verifier_index_create'' ''create'',
      DFunc ''caml_pasta_fq_plonk_verifier_index_read'' ''read'',
      DFunc ''caml_pasta_fq_plonk_verifier_index_write'' ''write'',
      DFunc ''caml_pasta_fq_plonk_verifier_index_shifts'' ''shifts'',
      DFunc ''caml_pasta_fq_plonk_verifier_index_dummy'' ''dummy'',
      DFunc ''caml_pasta_fq_plonk_verifier_index_deep_copy'' ''deep_copy'']"

definition protocol_verifier_index_module :: "decl list" where
  "protocol_verifier_index_module = [
      DModule ''Fp'' protocol_verifier_index_fp_module,
      DModule ''Fq'' protocol_verifier_index_fq_module]"

definition protocol_oracles_fp_module :: "decl list" where
  "protocol_oracles_fp_module = [
      DAlias ''t'' ''CamlOracles<CamlFp>'',
      DFunc ''fp_oracles_create_no_public'' ''create'',
      DFunc ''fp_oracles_create'' ''create_with_public_evals'',
      DFunc ''fp_oracles_dummy'' ''dummy'',
      DFunc ''fp_oracles_deep_copy'' ''deep_copy'']"

definition protocol_oracles_fq_module :: "decl list" where
  "protocol_oracles_fq_module = [
      DAlias ''t'' ''CamlOracles<CamlFq>'',
      DFunc ''fq_oracles_create_no_public'' ''create'',
      DFunc ''fq_oracles_create'' ''create_with_public_evals'',
      DFunc ''fq_oracles_dummy'' ''dummy'',
      DFunc ''fq_oracles_deep_copy'' ''deep_copy'']"

definition protocol_oracles_module :: "decl list" where
  "protocol_oracles_module = [
      DModule ''Fp'' protocol_oracles_fp_module,
      DModule ''Fq'' protocol_oracles_fq_module]"

definition protocol_proof_fp_module :: "decl list" where
  "protocol_proof_fp_module = [
      DFunc ''caml_pasta_fp_plonk_proof_create'' ''create'',
      DFunc ''caml_pasta_fp_plonk_proof_create_and_verify'' ''create_and_verify'',
      DFunc ''caml_pasta_fp_plonk_proof_example_with_lookup'' ''example_with_lookup'',
      DFunc ''caml_pasta_fp_plonk_proof_example_with_ffadd'' ''example_with_ffadd'',
      DFunc ''caml_pasta_fp_plonk_proof_example_with_xor'' ''example_with_xor'',
      DFunc ''caml_pasta_fp_plonk_proof_example_with_rot'' ''example_with_rot'',
      DFunc ''caml_pasta_fp_plonk_proof_example_with_foreign_field_mul'' ''example_with_foreign_field_mul'',
      DFunc ''caml_pasta_fp_plonk_proof_example_with_range_check'' ''example_with_range_check'',
      DFunc ''caml_pasta_fp_plonk_proof_example_with_range_check0'' ''example_with_range_check0'',
      DFunc ''caml_pasta_fp_plonk_proof_verify'' ''verify'',
      DFunc ''caml_pasta_fp_plonk_proof_batch_verify'' ''batch_verify'',
      DFunc ''caml_pasta_fp_plonk_proof_dummy'' ''dummy'',
      DFunc ''caml_pasta_fp_plonk_proof_deep_copy'' ''deep_copy'']"

definition protocol_proof_fq_module :: "decl list" where
  "protocol_proof_fq_module = [
      DFunc ''caml_pasta_fq_plonk_proof_create'' ''create'',
      DFunc ''caml_pasta_fq_plonk_proof_verify'' ''verify'',
      DFunc ''caml_pasta_fq_plonk_proof_batch_verify'' ''batch_verify'',
      DFunc ''caml_pasta_fq_plonk_proof_dummy'' ''dummy'',
      DFunc ''caml_pasta_fq_plonk_proof_deep_copy'' ''deep_copy'']"

definition protocol_proof_module :: "decl list" where
  "protocol_proof_module = [
      DModule ''Fp'' protocol_proof_fp_module,
      DModule ''Fq'' protocol_proof_fq_module]"

definition protocol_module :: "decl list" where
  "protocol_module = [
      DModule ''Gates'' protocol_gates_module,
      DModule ''SRS'' protocol_srs_module,
      DModule ''Index'' protocol_index_module,
      DModule ''VerifierIndex'' protocol_verifier_index_module,
      DModule ''Oracles'' protocol_oracles_module,
      DModule ''Proof'' protocol_proof_module]"

definition generate_kimchi_bindings :: "decl list" where
  "generate_kimchi_bindings = [
      DModule ''FieldVectors'' field_vectors_module,
      DModule ''Protocol'' protocol_module]"

section \<open>The program\<close>

text \<open>
  \<^verbatim>\<open>ocaml_gen\<close>: the text of a declaration and the environment after it; opening and closing a module
  print a line and change the current module, which \<open>new_module\<close> and \<open>parent\<close> do alone.
\<close>

record 'env ocaml_gen =
  og_default :: 'env
  og_type :: "string \<Rightarrow> string \<Rightarrow> 'env \<Rightarrow> string \<times> 'env"
  og_alias :: "string \<Rightarrow> string \<Rightarrow> 'env \<Rightarrow> string \<times> 'env"
  og_func :: "string \<Rightarrow> string \<Rightarrow> 'env \<Rightarrow> string \<times> 'env"
  og_open :: "string \<Rightarrow> 'env \<Rightarrow> string \<times> 'env"
  og_close :: "'env \<Rightarrow> string \<times> 'env"
  og_new_module :: "string \<Rightarrow> 'env \<Rightarrow> 'env"
  og_parent :: "'env \<Rightarrow> 'env"

fun emit :: "'env ocaml_gen \<Rightarrow> decl \<Rightarrow> 'env \<Rightarrow> string \<times> 'env"
and emit_all :: "'env ocaml_gen \<Rightarrow> decl list \<Rightarrow> 'env \<Rightarrow> string \<times> 'env" where
  "emit E (DType rust name) env = og_type E rust name env"
| "emit E (DAlias name rust) env = og_alias E name rust env"
| "emit E (DFunc rust name) env = og_func E rust name env"
| "emit E (DModule name block) env =
     (let (opened, env) = og_open E name env;
          (body, env) = emit_all E block env;
          (closed, env) = og_close E env
      in (opened @ body @ closed, env))"
| "emit_all E [] env = ([], env)"
| "emit_all E (d # ds) env =
     (let (x, env) = emit E d env; (xs, env) = emit_all E ds env in (x @ xs, env))"

definition header :: string where
  "header = ''(* This file is generated automatically with ocaml_gen. *)'' @ [CHR 0x0A]"

text \<open>
  One section of the program: into the file that the argument names, or as a module to the standard
  output. \<open>can_create\<close> tells whether \<open>File::create\<close> succeeds; it truncates an existing file.
\<close>

definition write_section ::
  "'env ocaml_gen \<Rightarrow> (string \<Rightarrow> bool) \<Rightarrow> string list \<Rightarrow> nat \<Rightarrow> string \<Rightarrow> decl list \<Rightarrow>
    'env \<times> (string \<rightharpoonup> string) \<times> string \<Rightarrow> ('env \<times> (string \<rightharpoonup> string) \<times> string, unit) outcome" where
  "write_section E can_create args i name decls = (\<lambda>(env, fs, out).
     case vec_get args i of
       Some path \<Rightarrow>
         if can_create path
         then let env = og_new_module E name env;
                  (body, env) = emit_all E decls env;
                  env = og_parent E env
              in Ok (env, fs(path \<mapsto> header @ body), out)
         else Panic ''could not create output file''
     | None \<Rightarrow>
         let (body, env) = emit E (DModule name decls) env
         in Ok (env, fs, out @ header @ body))"

definition main_program ::
  "'env ocaml_gen \<Rightarrow> (string \<Rightarrow> bool) \<Rightarrow> string list \<Rightarrow> (string \<rightharpoonup> string) \<Rightarrow> ((string \<rightharpoonup> string) \<times> string, unit) outcome" where
  "main_program E can_create args fs =
     and_then (write_section E can_create args 1 ''Kimchi_types'' generate_types_bindings (og_default E, fs, [])) (\<lambda>s.
     and_then (write_section E can_create args 2 ''Pasta_bindings'' generate_pasta_bindings s) (\<lambda>s.
     and_then (write_section E can_create args 3 ''Kimchi_bindings'' generate_kimchi_bindings s) (\<lambda>(env, fs, out).
       Ok (fs, out))))"

section \<open>What the program relies on\<close>

text \<open>
  Printing the first or the last line of a module changes the environment as \<open>new_module\<close> and
  \<open>parent\<close> do.
\<close>

locale ocaml_gen_contract =
  fixes E :: "'env ocaml_gen"
  assumes open_module: "snd (og_open E name env) = og_new_module E name env"
    and close_module: "snd (og_close E env) = og_parent E env"
begin

text \<open>
  A section has a text and an environment after it that do not depend on where it goes.
\<close>

definition section_texts :: "string \<Rightarrow> decl list \<Rightarrow> 'env \<Rightarrow> string \<times> string \<times> string" where
  "section_texts name decls env =
     (let (body, env') = emit_all E decls (og_new_module E name env)
      in (fst (og_open E name env), body, fst (og_close E env')))"

definition section_env :: "string \<Rightarrow> decl list \<Rightarrow> 'env \<Rightarrow> 'env" where
  "section_env name decls env = og_parent E (snd (emit_all E decls (og_new_module E name env)))"

lemma write_section_texts:
  "write_section E (\<lambda>_. True) args i name decls (env, fs, out) =
     (let (opened, body, closed) = section_texts name decls env in
      if i < length args then Ok (section_env name decls env, fs(args ! i \<mapsto> header @ body), out)
      else Ok (section_env name decls env, fs, out @ header @ opened @ body @ closed))"
proof -
  obtain opened where "og_open E name env = (opened, og_new_module E name env)"
    using open_module [of name env] by (cases "og_open E name env") auto
  moreover obtain body env' where "emit_all E decls (og_new_module E name env) = (body, env')" by fastforce
  moreover obtain closed where "og_close E env' = (closed, og_parent E env')"
    using close_module [of env'] by (cases "og_close E env'") auto
  ultimately show ?thesis
    by (simp add: write_section_def section_texts_def section_env_def vec_get_def Let_def)
qed

end

definition ref_gen :: "string list ocaml_gen" where
  "ref_gen = \<lparr>og_default = [], og_type = (\<lambda>r n env. (''type '' @ n, env)), og_alias = (\<lambda>n r env. (''type '' @ n, env)),
     og_func = (\<lambda>r n env. (''external '' @ n, env)), og_open = (\<lambda>n env. (''module '' @ n, n # env)),
     og_close = (\<lambda>env. (''end'', tl env)), og_new_module = (\<lambda>n env. n # env), og_parent = tl\<rparr>"

interpretation ref_gen: ocaml_gen_contract ref_gen
  by unfold_locales (simp_all add: ref_gen_def)

section \<open>Properties\<close>

text \<open>
  Where the declarations go. There are three sections with fixed texts, whatever the arguments. A
  section whose argument is given becomes the contents of that file after the header, later sections
  overwriting earlier ones with the same path; the others are printed as modules, in order, each after
  the header.
\<close>

theorem main_program_outputs:
  assumes "ocaml_gen_contract E"
  shows "\<exists>secs :: (string \<times> string \<times> string) list. length secs = 3 \<and> (\<forall>args fs. main_program E (\<lambda>_. True) args fs =
    Ok (fold (\<lambda>(i, (_, body, _)) fs. if i < length args then fs(args ! i \<mapsto> header @ body) else fs) (List.enumerate 1 secs) fs,
        concat (map (\<lambda>(i, (opened, body, closed)). if i < length args then [] else header @ opened @ body @ closed)
          (List.enumerate 1 secs))))"
proof -
  let ?T = "ocaml_gen_contract.section_texts E" and ?E = "ocaml_gen_contract.section_env E"
  let ?n1 = "''Kimchi_types''" and ?n2 = "''Pasta_bindings''" and ?n3 = "''Kimchi_bindings''"
  let ?d1 = generate_types_bindings and ?d2 = generate_pasta_bindings and ?d3 = generate_kimchi_bindings
  let ?e1 = "?E ?n1 ?d1 (og_default E)"
  let ?e2 = "?E ?n2 ?d2 ?e1"
  let ?secs = "[?T ?n1 ?d1 (og_default E), ?T ?n2 ?d2 ?e1, ?T ?n3 ?d3 ?e2]"
  have "main_program E (\<lambda>_. True) args fs =
    Ok (fold (\<lambda>(i, (_, body, _)) fs. if i < length args then fs(args ! i \<mapsto> header @ body) else fs) (List.enumerate 1 ?secs) fs,
        concat (map (\<lambda>(i, (opened, body, closed)). if i < length args then [] else header @ opened @ body @ closed)
          (List.enumerate 1 ?secs)))" for args fs
    unfolding main_program_def
    by (simp add: ocaml_gen_contract.write_section_texts [OF assms] split_beta Let_def numeral_eq_Suc)
  then show ?thesis by (intro exI [of _ ?secs]) simp
qed

theorem main_program_outputs_witness:
  "\<exists>body out. main_program ref_gen (\<lambda>_. True) [''gen'', ''kimchi_types.ml''] Map.empty =
     Ok ([''kimchi_types.ml'' \<mapsto> header @ body], out)"
proof -
  obtain s1 s2 s3 where "\<And>args fs. main_program ref_gen (\<lambda>_. True) args fs =
      Ok (fold (\<lambda>(i, (_, body, _)) fs. if i < length args then fs(args ! i \<mapsto> header @ body) else fs) (List.enumerate 1 [s1, s2, s3]) fs,
          concat (map (\<lambda>(i, (opened, body, closed)). if i < length args then [] else header @ opened @ body @ closed)
            (List.enumerate 1 [s1, s2, s3])))"
    using main_program_outputs [OF ref_gen.ocaml_gen_contract_axioms]
    by (auto simp: length_Suc_conv numeral_eq_Suc)
  from this [of "[''gen'', ''kimchi_types.ml'']" Map.empty] show ?thesis by (auto simp: split_beta)
qed

end
