(* ===== verification/Floats.thy ===== *)
theory Floats
  imports Complex_Main Prelude
begin

text \<open>
  Floating-point numbers of the language, as far as the sources use them: \<open>f64\<close> and
  \<open>f32\<close> values in the canonical form of IEEE 754 (sign, significand, exponent), conversion
  from integers, subtraction, division, rounding to the nearest value with ties to even, and the
  saturating casts \<open>x as u8\<close>, \<open>x as i32\<close> and so on. JavaScript numbers are the
  same \<open>f64\<close> values.
\<close>

section \<open>Values\<close>

datatype float_value =
    NotANumber
  | Infinity bool
  | Finite bool nat int

type_synonym f64 = float_value
type_synonym f32 = float_value

section \<open>Rounding\<close>

fun bits :: "nat \<Rightarrow> nat" where
  "bits n = (if n = 0 then 0 else Suc (bits (n div 2)))"

declare bits.simps [simp del]

text \<open>
  The exponent of the leading bit of the positive fraction \<open>n / d\<close>.
\<close>

definition at_least_power :: "nat \<Rightarrow> nat \<Rightarrow> int \<Rightarrow> bool" where
  "at_least_power n d k \<longleftrightarrow> (if 0 \<le> k then d * 2 ^ nat k \<le> n else d \<le> n * 2 ^ nat (- k))"

definition leading_exponent :: "nat \<Rightarrow> nat \<Rightarrow> int" where
  "leading_exponent n d =
     (let k = int (bits n) - int (bits d) in if at_least_power n d k then k else k - 1)"

definition round_half_even :: "nat \<Rightarrow> nat \<Rightarrow> nat" where
  "round_half_even a b =
     (let q = a div b; r = a mod b in
      if 2 * r < b \<or> (2 * r = b \<and> even q) then q else q + 1)"

text \<open>
  The format with \<open>p\<close> bits of precision, least exponent \<open>emin\<close> and values below
  \<open>2 ^ emax\<close>.
\<close>

definition scaled_round :: "nat \<Rightarrow> nat \<Rightarrow> int \<Rightarrow> nat" where
  "scaled_round n d q =
     (if 0 \<le> q then round_half_even n (d * 2 ^ nat q) else round_half_even (n * 2 ^ nat (- q)) d)"

definition pack :: "nat \<Rightarrow> int \<Rightarrow> bool \<Rightarrow> nat \<Rightarrow> int \<Rightarrow> float_value" where
  "pack p emax s m q =
     (let (m', q') = (if m = 2 ^ p then (2 ^ (p - 1), q + 1) else (m, q)) in
      if emax - int p < q' then Infinity s else Finite s m' q')"

definition round_float :: "nat \<Rightarrow> int \<Rightarrow> int \<Rightarrow> bool \<Rightarrow> nat \<Rightarrow> nat \<Rightarrow> float_value" where
  "round_float p emin emax s n d =
     (if n = 0 then Finite s 0 emin
      else let q = max (leading_exponent n d - (int p - 1)) emin in
        pack p emax s (scaled_round n d q) q)"

definition round_f64 :: "bool \<Rightarrow> nat \<Rightarrow> nat \<Rightarrow> f64" where
  "round_f64 s n d = round_float 53 (- 1074) 1024 s n d"

definition round_f32 :: "bool \<Rightarrow> nat \<Rightarrow> nat \<Rightarrow> f32" where
  "round_f32 s n d = round_float 24 (- 149) 128 s n d"

section \<open>Conversions and arithmetic\<close>

definition numer :: "nat \<Rightarrow> int \<Rightarrow> nat" where
  "numer m e = (if 0 \<le> e then m * 2 ^ nat e else m)"

definition denom :: "int \<Rightarrow> nat" where
  "denom e = (if 0 \<le> e then 1 else 2 ^ nat (- e))"

definition f64_of_int :: "int \<Rightarrow> f64" where
  "f64_of_int i = round_f64 (i < 0) (nat \<bar>i\<bar>) 1"

fun f64_of_f32 :: "f32 \<Rightarrow> f64" where
  "f64_of_f32 (Finite s m e) = round_f64 s (numer m e) (denom e)"
| "f64_of_f32 x = x"

fun f32_of_f64 :: "f64 \<Rightarrow> f32" where
  "f32_of_f64 (Finite s m e) = round_f32 s (numer m e) (denom e)"
| "f32_of_f64 x = x"

text \<open>
  Differences are taken exactly, with the common exponent \<open>min e f\<close>, and then rounded; an
  exact zero is positive unless both operands are zeros with the signs of \<open>-0 - 0\<close>.
\<close>

definition signed_at :: "bool \<Rightarrow> nat \<Rightarrow> int \<Rightarrow> int \<Rightarrow> int" where
  "signed_at s m e k = (if s then - 1 else 1) * int (m * 2 ^ nat (e - k))"

fun f64_sub :: "f64 \<Rightarrow> f64 \<Rightarrow> f64" where
  "f64_sub (Finite s m e) (Finite t n f) =
     (let k = min e f; z = signed_at s m e k - signed_at t n f k in
      if z = 0 then Finite (s \<and> \<not> t \<and> m = 0) 0 (- 1074)
      else round_f64 (z < 0) (numer (nat \<bar>z\<bar>) k) (denom k))"
| "f64_sub (Finite s m e) (Infinity t) = Infinity (\<not> t)"
| "f64_sub (Infinity s) (Finite t n f) = Infinity s"
| "f64_sub (Infinity s) (Infinity t) = (if s = t then NotANumber else Infinity s)"
| "f64_sub _ _ = NotANumber"

fun f64_div :: "f64 \<Rightarrow> f64 \<Rightarrow> f64" where
  "f64_div (Finite s m e) (Finite t n f) =
     (if n = 0 then (if m = 0 then NotANumber else Infinity (s \<noteq> t))
      else round_f64 (s \<noteq> t) (numer m e * denom f) (numer n f * denom e))"
| "f64_div (Finite s m e) (Infinity t) = Finite (s \<noteq> t) 0 (- 1074)"
| "f64_div (Infinity s) (Finite t n f) = Infinity (s \<noteq> t)"
| "f64_div _ _ = NotANumber"

text \<open>
  \<open>x as T\<close> for an integer type: truncation towards zero, saturating, with 0 for a value that
  is not a number.
\<close>

definition clamp :: "int \<Rightarrow> int \<Rightarrow> int \<Rightarrow> int" where
  "clamp lo hi i = max lo (min hi i)"

fun cast_int :: "int \<Rightarrow> int \<Rightarrow> f64 \<Rightarrow> int" where
  "cast_int lo hi NotANumber = 0"
| "cast_int lo hi (Infinity s) = (if s then lo else hi)"
| "cast_int lo hi (Finite s m e) =
     clamp lo hi ((if s then - 1 else 1) * int (numer m e div denom e))"

definition cast_unsigned :: "f64 \<Rightarrow> 'a::len word" where
  "cast_unsigned x = word_of_int (cast_int 0 (2 ^ LENGTH('a) - 1) x)"

definition cast_signed :: "f64 \<Rightarrow> 'a::len word" where
  "cast_signed x =
     word_of_int (cast_int (- (2 ^ (LENGTH('a) - 1))) (2 ^ (LENGTH('a) - 1) - 1) x)"

text \<open>
  The canonical \<open>f32\<close> values: the ones the type has.
\<close>

fun canonical :: "nat \<Rightarrow> int \<Rightarrow> int \<Rightarrow> float_value \<Rightarrow> bool" where
  "canonical p emin emax (Finite s m e) \<longleftrightarrow>
     m < 2 ^ p \<and> emin \<le> e \<and> e \<le> emax - int p \<and> (e = emin \<or> 2 ^ (p - 1) \<le> m)"
| "canonical p emin emax x \<longleftrightarrow> True"

definition is_f32 :: "f32 \<Rightarrow> bool" where
  "is_f32 x = canonical 24 (- 149) 128 x"

definition is_f64 :: "f64 \<Rightarrow> bool" where
  "is_f64 x = canonical 53 (- 1074) 1024 x"

section \<open>Facts about rounding\<close>

lemma bits_bounds: "0 < n \<Longrightarrow> 2 ^ (bits n - 1) \<le> n \<and> n < 2 ^ bits n"
proof (induction n rule: bits.induct)
  case (1 n)
  show ?case
  proof (cases "n div 2 = 0")
    case True
    with 1 have "n = 1" by simp
    then show ?thesis by (simp add: bits.simps)
  next
    case False
    with 1 have IH: "2 ^ (bits (n div 2) - 1) \<le> n div 2" "n div 2 < 2 ^ bits (n div 2)" by auto
    have b: "bits n = Suc (bits (n div 2))" "0 < bits (n div 2)"
      using 1 False by (simp_all add: bits.simps)
    have "2 * 2 ^ (bits (n div 2) - 1) \<le> n" "n < 2 * 2 ^ bits (n div 2)" using IH by linarith+
    then show ?thesis using b by (simp flip: power_Suc)
  qed
qed

lemma round_half_even_exact [simp]: "0 < b \<Longrightarrow> round_half_even (a * b) b = a"
  by (simp add: round_half_even_def)

lemma round_half_even_one [simp]: "round_half_even a 1 = a" "round_half_even a (Suc 0) = a"
  by (simp_all add: round_half_even_def)

text \<open>
  The value of a fraction, and the comparison of the exponents with it.
\<close>

definition fraction :: "nat \<Rightarrow> nat \<Rightarrow> rat" where
  "fraction n d = of_nat n / of_nat d"

definition scaled :: "nat \<Rightarrow> int \<Rightarrow> rat" where
  "scaled m e = of_nat m * 2 powi e"

lemma powi_nonneg: "0 \<le> k \<Longrightarrow> (2 :: rat) powi k = of_nat (2 ^ nat k)"
  by (simp add: power_int_def)

lemma powi_neg: "k < 0 \<Longrightarrow> (2 :: rat) powi k = 1 / of_nat (2 ^ nat (- k))"
  by (simp add: power_int_def divide_simps)

lemma powi_less_iff: "(2 :: rat) powi a < 2 powi b \<longleftrightarrow> a < b"
  using power_int_strict_increasing [of a b "2 :: rat"] power_int_increasing [of b a "2 :: rat"]
  by (cases "a < b") (auto simp: not_less)

lemma powi_le_iff: "(2 :: rat) powi a \<le> 2 powi b \<longleftrightarrow> a \<le> b"
  using powi_less_iff [of b a] by (simp add: not_less [symmetric])

lemma at_least_power_iff:
  assumes "0 < d"
  shows "at_least_power n d k \<longleftrightarrow> 2 powi k \<le> fraction n d"
proof (cases "0 \<le> k")
  case True
  have "2 powi k \<le> fraction n d \<longleftrightarrow> of_nat (d * 2 ^ nat k) \<le> (of_nat n :: rat)"
    using True assms by (simp add: powi_nonneg fraction_def field_simps)
  then show ?thesis using True by (simp only: of_nat_le_iff at_least_power_def if_True)
next
  case False
  have "2 powi k \<le> fraction n d \<longleftrightarrow> of_nat d \<le> (of_nat (n * 2 ^ nat (- k)) :: rat)"
    using False assms by (simp add: powi_neg fraction_def field_simps)
  then show ?thesis using False by (simp only: of_nat_le_iff at_least_power_def if_False)
qed

lemma bits_powi:
  assumes "0 < n"
  shows "2 powi (int (bits n) - 1) \<le> (of_nat n :: rat)" and "(of_nat n :: rat) < 2 powi int (bits n)"
proof -
  have b: "0 < bits n" using assms by (simp add: bits.simps)
  have "of_nat (2 ^ (bits n - 1)) \<le> (of_nat n :: rat)" and "(of_nat n :: rat) < of_nat (2 ^ bits n)"
    using bits_bounds [OF assms] by (simp_all only: of_nat_le_iff of_nat_less_iff)
  moreover have "nat (int (bits n) - 1) = bits n - 1" using b by simp
  ultimately show "2 powi (int (bits n) - 1) \<le> (of_nat n :: rat)"
    and "(of_nat n :: rat) < 2 powi int (bits n)"
    using b by (simp_all add: powi_nonneg)
qed

lemma leading_exponent_bounds:
  assumes "0 < n" and "0 < d"
  shows "2 powi leading_exponent n d \<le> fraction n d"
    and "fraction n d < 2 powi (leading_exponent n d + 1)"
proof -
  let ?k = "int (bits n) - int (bits d)"
  have lower: "(2 :: rat) powi (?k - 1) \<le> fraction n d"
  proof -
    have "(2 :: rat) powi (?k - 1) = 2 powi (int (bits n) - 1) / 2 powi int (bits d)"
      using power_int_diff [of "2 :: rat" "int (bits n) - 1" "int (bits d)"] by (simp add: algebra_simps)
    also have "\<dots> \<le> of_nat n / of_nat d"
      using bits_powi [OF assms(1)] bits_powi [OF assms(2)] assms by (intro frac_le) auto
    finally show ?thesis by (simp add: fraction_def)
  qed
  have upper: "fraction n d < 2 powi (?k + 1)"
  proof -
    have "fraction n d < 2 powi int (bits n) / 2 powi (int (bits d) - 1)"
      unfolding fraction_def using bits_powi [OF assms(1)] bits_powi [OF assms(2)] assms
      by (intro frac_less) auto
    also have "\<dots> = 2 powi (?k + 1)"
      using power_int_diff [of "2 :: rat" "int (bits n)" "int (bits d) - 1"] by (simp add: algebra_simps)
    finally show ?thesis .
  qed
  show "2 powi leading_exponent n d \<le> fraction n d"
    using lower at_least_power_iff [OF assms(2)] by (auto simp: leading_exponent_def Let_def)
  show "fraction n d < 2 powi (leading_exponent n d + 1)"
    using upper at_least_power_iff [OF assms(2)] by (auto simp: leading_exponent_def Let_def not_le)
qed

lemma leading_exponent_eqI:
  assumes "0 < n" and "0 < d" and "2 powi k \<le> fraction n d" and "fraction n d < 2 powi (k + 1)"
  shows "leading_exponent n d = k"
proof -
  note b = leading_exponent_bounds [OF assms(1, 2)]
  have "k < leading_exponent n d + 1" "leading_exponent n d < k + 1"
    using b assms(3, 4) by (metis powi_less_iff order_le_less_trans)+
  then show ?thesis by linarith
qed

section \<open>Values that need no rounding\<close>

lemma scaled_round_exact:
  assumes "0 < d" and "fraction n d = scaled m q"
  shows "scaled_round n d q = m"
proof (cases "0 \<le> q")
  case True
  have "of_nat n = (of_nat (m * (d * 2 ^ nat q)) :: rat)"
    using assms True by (simp add: fraction_def scaled_def powi_nonneg field_simps)
  then have "n = m * (d * 2 ^ nat q)" by (simp only: of_nat_eq_iff)
  with True assms(1) show ?thesis by (simp add: scaled_round_def)
next
  case False
  have "of_nat (n * 2 ^ nat (- q)) = (of_nat (m * d) :: rat)"
    using assms False by (simp add: fraction_def scaled_def powi_neg field_simps)
  then have "n * 2 ^ nat (- q) = m * d" by (simp only: of_nat_eq_iff)
  with False assms(1) show ?thesis by (simp add: scaled_round_def)
qed

lemma exponent_of_canonical:
  assumes "0 < n" and "0 < d" and "fraction n d = scaled m e"
    and "canonical p emin emax (Finite s m e)" and "0 < p"
  shows "max (leading_exponent n d - (int p - 1)) emin = e"
proof -
  have m: "m < 2 ^ p" "emin \<le> e" "e = emin \<or> 2 ^ (p - 1) \<le> m" using assms(4) by auto
  have below: "fraction n d < 2 powi (e + int p)"
  proof -
    have "(of_nat m :: rat) < of_nat (2 ^ p)" using m(1) by (simp only: of_nat_less_iff)
    then show ?thesis by (simp add: assms(3) scaled_def power_int_add mult.commute)
  qed
  have "leading_exponent n d < e + int p"
    using order_le_less_trans [OF leading_exponent_bounds(1) [OF assms(1, 2)] below]
    by (simp add: powi_less_iff)
  moreover have "e \<noteq> emin \<Longrightarrow> leading_exponent n d = e + int p - 1"
  proof (rule leading_exponent_eqI [OF assms(1, 2)])
    assume "e \<noteq> emin"
    then have "(of_nat (2 ^ (p - 1)) :: rat) \<le> of_nat m" using m(3) by (simp only: of_nat_le_iff) simp
    moreover have "(2 :: rat) powi (e + int p - 1) = of_nat (2 ^ (p - 1)) * 2 powi e"
      using power_int_add [of "2 :: rat" e "int p - 1"] powi_nonneg [of "int p - 1"] assms(5)
      by (simp add: algebra_simps nat_diff_distrib)
    ultimately show "2 powi (e + int p - 1) \<le> fraction n d" by (simp add: assms(3) scaled_def)
    show "fraction n d < 2 powi (e + int p - 1 + 1)" using below by simp
  qed
  ultimately show ?thesis using m(2) by linarith
qed

lemma fraction_zero_iff: "0 < d \<Longrightarrow> fraction n d = 0 \<longleftrightarrow> n = 0"
  by (simp add: fraction_def)

lemma scaled_zero_iff: "scaled m e = 0 \<longleftrightarrow> m = 0"
  by (simp add: scaled_def)

theorem round_float_canonical:
  assumes "0 < d" and "fraction n d = scaled m e" and "canonical p emin emax (Finite s m e)" and "0 < p"
  shows "round_float p emin emax s n d = Finite s m e"
proof (cases "n = 0")
  case True
  then have "m = 0" using assms(1, 2) fraction_zero_iff scaled_zero_iff by metis
  with True assms(3) show ?thesis by (simp add: round_float_def)
next
  case False
  then have n: "0 < n" by simp
  note q = exponent_of_canonical [OF n assms(1-4)]
  have "m \<noteq> 2 ^ p" "\<not> emax - int p < e" using assms(3) by auto
  then show ?thesis
    using n by (simp add: round_float_def q Let_def scaled_round_exact [OF assms(1, 2)] pack_def)
qed

lemma canonical_form:
  assumes "m < 2 ^ p" and "emin \<le> e" and "e \<le> emax - int p" and "0 < m"
  obtains m' e' where "canonical p emin emax (Finite s m' e')" and "scaled m' e' = scaled m e"
proof -
  let ?b = "bits m"
  have b: "2 ^ (?b - 1) \<le> m" "m < 2 ^ ?b" "0 < ?b"
    using bits_bounds [OF assms(4)] assms(4) by (auto simp: bits.simps)
  have "(2::nat) ^ (?b - 1) < 2 ^ p" using b(1) assms(1) by linarith
  then have "?b \<le> p" using b(3) by simp
  define k where "k = min (p - ?b) (nat (e - emin))"
  have lt: "m * 2 ^ k < 2 ^ p"
  proof -
    have "m * 2 ^ k < 2 ^ ?b * 2 ^ k" using b(2) by simp
    also have "\<dots> \<le> 2 ^ p" using \<open>?b \<le> p\<close> by (simp add: k_def flip: power_add)
    finally show ?thesis .
  qed
  have ge: "2 ^ (p - 1) \<le> m * 2 ^ k" if "k = p - ?b"
  proof -
    have "(2::nat) ^ (p - 1) = 2 ^ (?b - 1) * 2 ^ k"
      using \<open>?b \<le> p\<close> b(3) that by (simp flip: power_add)
    with b(1) show ?thesis by simp
  qed
  have "k = p - ?b \<or> e - int k = emin" using assms(2) by (auto simp: k_def min_def)
  then have "canonical p emin emax (Finite s (m * 2 ^ k) (e - int k))"
    using lt ge assms(2, 3) by (auto simp: k_def)
  moreover have "scaled (m * 2 ^ k) (e - int k) = scaled m e"
    by (simp add: scaled_def power_int_diff)
  ultimately show thesis by (rule that)
qed

lemma denom_pos [simp]: "0 < denom e" "denom e \<noteq> 0"
  by (simp_all add: denom_def)

lemma fraction_numer_denom: "fraction (numer m e) (denom e) = scaled m e"
  by (simp add: fraction_def scaled_def numer_def denom_def powi_nonneg powi_neg)

lemma fraction_one [simp]: "fraction n 1 = of_nat n" "fraction n (Suc 0) = of_nat n"
  by (simp_all add: fraction_def)

lemma round_float_exact:
  assumes "0 < d" and "fraction n d = scaled m e" and "m < 2 ^ p" and "emin \<le> e"
    and "e \<le> emax - int p" and "0 < p"
  obtains m' e' where "round_float p emin emax s n d = Finite s m' e'"
    and "canonical p emin emax (Finite s m' e')" and "scaled m' e' = scaled m e"
proof (cases "m = 0")
  case True
  then have "n = 0" using assms(1, 2) fraction_zero_iff scaled_zero_iff by metis
  with True assms(4-6) show thesis
    by (intro that [of 0 emin]) (simp_all add: round_float_def scaled_def)
next
  case False
  then have m: "0 < m" by simp
  obtain m' e' where c: "canonical p emin emax (Finite s m' e')" "scaled m' e' = scaled m e"
    by (rule canonical_form [OF assms(3-5) m])
  have "round_float p emin emax s n d = Finite s m' e'"
    using c assms(1, 2, 6) by (intro round_float_canonical) auto
  then show thesis using c by (rule that)
qed

lemma f64_of_int_exact:
  assumes "\<bar>i\<bar> < 2 ^ 53"
  obtains m e where "f64_of_int i = Finite (i < 0) m e" and "scaled m e = of_nat (nat \<bar>i\<bar>)"
    and "canonical 53 (- 1074) 1024 (Finite (i < 0) m e)"
proof -
  have bound: "nat \<bar>i\<bar> < 2 ^ 53" using assms by (simp add: nat_less_iff)
  have val: "fraction (nat \<bar>i\<bar>) 1 = scaled (nat \<bar>i\<bar>) 0" by (simp add: scaled_def)
  obtain m e where "round_float 53 (- 1074) 1024 (i < 0) (nat \<bar>i\<bar>) 1 = Finite (i < 0) m e"
    and "canonical 53 (- 1074) 1024 (Finite (i < 0) m e)" and "scaled m e = scaled (nat \<bar>i\<bar>) 0"
    by (rule round_float_exact [OF _ val bound, of "- 1074" 1024 "i < 0"]) auto
  then show thesis by (intro that) (simp_all add: f64_of_int_def round_f64_def scaled_def)
qed

lemma f64_of_nat_exact:
  assumes "0 \<le> i" and "i < 2 ^ 53"
  obtains m e where "f64_of_int i = Finite False m e" and "scaled m e = of_nat (nat i)"
proof -
  have "\<bar>i\<bar> < 2 ^ 53" and "\<not> i < 0" using assms by auto
  then show thesis using assms(1) by (metis f64_of_int_exact abs_of_nonneg that)
qed

lemma scaled_nat_div:
  assumes "scaled m e = of_nat k"
  shows "numer m e div denom e = k"
proof -
  have "(of_nat (numer m e) :: rat) = of_nat (k * denom e)"
    using assms fraction_numer_denom [of m e] by (simp add: fraction_def field_simps)
  then have "numer m e = k * denom e" by (simp only: of_nat_eq_iff)
  then show ?thesis by simp
qed

theorem cast_of_int:
  assumes "\<bar>i\<bar> < 2 ^ 53"
  shows "cast_int lo hi (f64_of_int i) = clamp lo hi i"
proof -
  obtain m e where "f64_of_int i = Finite (i < 0) m e" and "scaled m e = of_nat (nat \<bar>i\<bar>)"
    by (rule f64_of_int_exact [OF assms])
  then have "f64_of_int i = Finite (i < 0) m e" and "numer m e div denom e = nat \<bar>i\<bar>"
    using scaled_nat_div by blast+
  then show ?thesis by simp
qed

lemma cast_unsigned_of_word:
  assumes "LENGTH('a::len) \<le> 32"
  shows "cast_unsigned (f64_of_int (uint (w :: 'a word))) = w"
proof -
  have bound: "0 \<le> uint w" "uint w < 2 ^ LENGTH('a)"
    by simp_all
  have "(2::int) ^ LENGTH('a) \<le> 2 ^ 32" using assms by (intro power_increasing) auto
  with bound(2) have "uint w < 2 ^ 32" by (rule less_le_trans)
  with bound have "\<bar>uint w\<bar> < 2 ^ 53" by simp
  then show ?thesis using bound by (simp add: cast_unsigned_def cast_of_int clamp_def)
qed

lemma cast_signed_of_word:
  assumes "LENGTH('a::len) \<le> 32"
  shows "cast_signed (f64_of_int (sint (w :: 'a word))) = w"
proof -
  have bound: "- (2 ^ (LENGTH('a) - 1)) \<le> sint w" "sint w < 2 ^ (LENGTH('a) - 1)"
    using sint_greater_eq [of w] sint_less [of w] by simp_all
  have "(2::int) ^ (LENGTH('a) - 1) \<le> 2 ^ 32" using assms by (intro power_increasing) auto
  with bound have "- (2 ^ 32) \<le> sint w" "sint w < 2 ^ 32" by linarith+
  then have "\<bar>sint w\<bar> < 2 ^ 53" by simp
  then show ?thesis using bound by (simp add: cast_signed_def cast_of_int clamp_def)
qed

theorem f32_through_f64:
  assumes "is_f32 x"
  shows "f32_of_f64 (f64_of_f32 x) = x"
proof (cases x)
  case (Finite s m e)
  then have c: "m < 2 ^ 24" "- 149 \<le> e" "e \<le> 104" using assms by (auto simp: is_f32_def)
  then have b: "m < 2 ^ 53" "- 1074 \<le> e" "e \<le> 1024 - int 53" by auto
  obtain m' e' where r: "round_f64 s (numer m e) (denom e) = Finite s m' e'" "scaled m' e' = scaled m e"
    unfolding round_f64_def by (rule round_float_exact [OF denom_pos(1) fraction_numer_denom b, of s]) auto
  have "round_f32 s (numer m' e') (denom e') = Finite s m e"
    unfolding round_f32_def
    using assms Finite r(2) by (intro round_float_canonical) (auto simp: is_f32_def fraction_numer_denom)
  with Finite r(1) show ?thesis by simp
qed simp_all

section \<open>Arithmetic on exact integers\<close>

lemma round_half_even_scale: "0 < k \<Longrightarrow> round_half_even (k * a) (k * b) = round_half_even a b"
  by (simp add: round_half_even_def Let_def mult.left_commute [of 2])

text \<open>
  Rounding depends on the value of the fraction only.
\<close>

lemma scaled_round_cong:
  assumes "0 < d" and "0 < d'" and "n * d' = n' * d"
  shows "scaled_round n d q = scaled_round n' d' q"
proof -
  have rhe: "round_half_even a b = round_half_even a' b'"
    if "a * b' = a' * b" "0 < b" "0 < b'" for a b a' b' :: nat
    using round_half_even_scale [of b' a b] round_half_even_scale [of b a' b'] that
    by (simp add: mult.commute)
  have "n * (d' * 2 ^ nat q) = n' * (d * 2 ^ nat q)"
    and "n * 2 ^ nat (- q) * d' = n' * 2 ^ nat (- q) * d"
    using assms(3) by (simp_all add: mult.assoc [symmetric])
  then show ?thesis using assms(1, 2) by (auto simp: scaled_round_def intro!: rhe)
qed

lemma round_float_cong:
  assumes "0 < d" and "0 < d'" and "fraction n d = fraction n' d'"
  shows "round_float p emin emax s n d = round_float p emin emax s n' d'"
proof -
  have "(of_nat (n * d') :: rat) = of_nat (n' * d)"
    using assms by (simp add: fraction_def field_simps)
  then have cross: "n * d' = n' * d" by (simp only: of_nat_eq_iff)
  then have zero: "n = 0 \<longleftrightarrow> n' = 0" using assms(1, 2) by auto
  have "leading_exponent n d = leading_exponent n' d'" if "n \<noteq> 0"
    using leading_exponent_bounds [of n' d'] assms zero that by (intro leading_exponent_eqI) auto
  then show ?thesis
    using zero scaled_round_cong [OF assms(1, 2) cross]
    by (cases "n = 0") (simp_all add: round_float_def)
qed

lemma numer_denom_of_int:
  assumes "scaled m e = of_nat k" and "0 < d"
  shows "fraction (numer m e * j) (d * denom e) = fraction (k * j) d"
proof -
  have "of_nat (numer m e) = (of_nat k * of_nat (denom e) :: rat)"
    using assms(1) fraction_numer_denom [of m e] by (simp add: fraction_def field_simps)
  then show ?thesis by (simp add: fraction_def)
qed

lemma signed_at_value:
  assumes "k \<le> e"
  shows "of_int (signed_at s m e k) * 2 powi k = (if s then - 1 else 1) * scaled m e"
proof -
  have "(2 :: rat) ^ nat (e - k) * 2 powi k = 2 powi e"
    using assms powi_nonneg [of "e - k"] power_int_add [of "2 :: rat" "e - k" k] by simp
  then show ?thesis by (simp add: signed_at_def scaled_def)
qed

theorem f64_sub_of_int:
  assumes "0 \<le> a" and "a < 2 ^ 53" and "0 \<le> b" and "b < 2 ^ 53"
  shows "f64_sub (f64_of_int a) (f64_of_int b) = f64_of_int (a - b)"
proof -
  obtain m e where a: "f64_of_int a = Finite False m e" "scaled m e = of_nat (nat a)"
    by (rule f64_of_nat_exact [OF assms(1, 2)])
  obtain n f where b: "f64_of_int b = Finite False n f" "scaled n f = of_nat (nat b)"
    by (rule f64_of_nat_exact [OF assms(3, 4)])
  let ?k = "min e f"
  let ?z = "signed_at False m e ?k - signed_at False n f ?k"
  have z: "of_int ?z * (2 :: rat) powi ?k = of_int (a - b)"
    using signed_at_value [of ?k e False m] signed_at_value [of ?k f False n] a(2) b(2) assms
    by (simp add: left_diff_distrib)
  have neg: "?z < 0 \<longleftrightarrow> a - b < 0" and zero: "?z = 0 \<longleftrightarrow> a - b = 0"
  proof -
    have "0 < (2 :: rat) powi ?k" by simp
    then have "of_int ?z < (0 :: rat) \<longleftrightarrow> of_int (a - b) < (0 :: rat)"
      by (auto simp only: z [symmetric] mult_less_0_iff)
    then show "?z < 0 \<longleftrightarrow> a - b < 0" by (simp only: of_int_less_0_iff)
    have "of_int ?z = (0 :: rat) \<longleftrightarrow> of_int (a - b) = (0 :: rat)"
      by (simp only: z [symmetric] mult_eq_0_iff) simp
    then show "?z = 0 \<longleftrightarrow> a - b = 0" by (simp only: of_int_eq_0_iff)
  qed
  have "\<bar>of_int ?z * (2 :: rat) powi ?k\<bar> = \<bar>of_int (a - b)\<bar>" by (simp only: z)
  then have "scaled (nat \<bar>?z\<bar>) ?k = of_nat (nat \<bar>a - b\<bar>)"
    by (simp add: scaled_def abs_mult)
  then have "fraction (numer (nat \<bar>?z\<bar>) ?k) (denom ?k) = fraction (nat \<bar>a - b\<bar>) 1"
    by (simp add: fraction_numer_denom)
  then have "round_f64 (a - b < 0) (numer (nat \<bar>?z\<bar>) ?k) (denom ?k) = f64_of_int (a - b)"
    unfolding round_f64_def f64_of_int_def by (intro round_float_cong) auto
  moreover have "f64_of_int 0 = Finite False 0 (- 1074)"
    by (simp add: f64_of_int_def round_f64_def round_float_def)
  ultimately show ?thesis
    using neg zero by (simp add: a(1) b(1) Let_def del: diff_gt_0_iff_gt diff_less_0_iff_less)
qed

theorem f64_div_of_int:
  assumes "0 \<le> a" and "a < 2 ^ 53" and "0 < b" and "b < 2 ^ 53"
  shows "f64_div (f64_of_int a) (f64_of_int b) = round_f64 False (nat a) (nat b)"
proof -
  obtain m e where a: "f64_of_int a = Finite False m e" "scaled m e = of_nat (nat a)"
    by (rule f64_of_nat_exact [OF assms(1, 2)])
  obtain n f where b: "f64_of_int b = Finite False n f" "scaled n f = of_nat (nat b)"
    by (rule f64_of_nat_exact [OF less_imp_le [OF assms(3)] assms(4)])
  have "scaled n f \<noteq> 0" using b(2) assms(3) by simp
  then have "n \<noteq> 0" by (simp only: scaled_zero_iff not_False_eq_True)
  then have pos: "0 < numer n f" by (simp add: numer_def)
  have "fraction (numer m e * denom f) (numer n f * denom e) = fraction (nat a * denom f) (numer n f)"
    by (rule numer_denom_of_int [OF a(2) pos])
  also have "\<dots> = of_nat (nat a) / (fraction (numer n f) (denom f))"
    by (simp add: fraction_def)
  also have "\<dots> = fraction (nat a) (nat b)"
    by (simp add: fraction_numer_denom b(2)) (simp add: fraction_def)
  finally have "round_f64 False (numer m e * denom f) (numer n f * denom e) = round_f64 False (nat a) (nat b)"
    unfolding round_f64_def using pos assms(3) by (intro round_float_cong) auto
  with \<open>n \<noteq> 0\<close> show ?thesis by (simp add: a(1) b(1))
qed

end
