(* ===== verification/Ocaml_Serde.thy ===== *)
theory Ocaml_Serde
  imports Floats
begin

text \<open>
  The serializer and deserializer between Rust values and the JavaScript values that
  js-of-ocaml expects (\<^verbatim>\<open>wasm/src/wasm_ocaml_serde\<close>): a structure is an array whose first
  element is 0, \<open>None\<close> is the number 0 and \<open>Some(x)\<close> the array \<open>[0, x]\<close>. Rust values
  are values of the data model of \<^verbatim>\<open>serde\<close>; what a visitor is handed is returned as such a
  value. The functions \<open>serialize\<close> and \<open>deserialize\<close> walk over a value or a type the way
  the derived implementations of \<^verbatim>\<open>serde\<close> do and call one method per node.
\<close>

section \<open>Values\<close>

datatype js_value =
    JsNumber f64
  | JsArray "js_value list"
  | JsUint8Array bytes
  | JsArrayBuffer bytes
  | JsUndefined

type_synonym serde_error = string
type_synonym 'a serde_result = "('a, serde_error) outcome"

datatype serde_value =
    SBool bool | SI8 "8 word" | SI16 "16 word" | SI32 "32 word" | SI64 "64 word" | SI128 "128 word"
  | SU8 "8 word" | SU16 "16 word" | SU32 "32 word" | SU64 "64 word" | SU128 "128 word"
  | SF32 f32 | SF64 f64 | SChar nat | SStr string | SBytes bytes
  | SNone | SSome serde_value | SUnit | SUnitStruct string | SUnitVariant string nat string
  | SNewtypeStruct string serde_value | SNewtypeVariant string nat string serde_value
  | SSeq "serde_value list" | STuple "serde_value list" | STupleStruct string "serde_value list"
  | STupleVariant string nat string "serde_value list" | SMap "(serde_value \<times> serde_value) list"
  | SStruct string "(string \<times> serde_value) list"
  | SStructVariant string nat string "(string \<times> serde_value) list"

datatype serde_type =
    TBool | TI8 | TI16 | TI32 | TI64 | TI128 | TU8 | TU16 | TU32 | TU64 | TU128
  | TF32 | TF64 | TChar | TStr | TString | TIdentifier | TBytes | TByteBuf
  | TOption serde_type | TUnit | TUnitStruct string | TNewtypeStruct string serde_type
  | TSeq serde_type | TTuple "serde_type list" | TTupleStruct string "serde_type list"
  | TMap serde_type serde_type | TStruct string "(string \<times> serde_type) list"
  | TEnum string "string list" | TAny | TIgnoredAny

text \<open>
  What the module calls: the serializer of \<^verbatim>\<open>serde_wasm_bindgen\<close> that it wraps, and the
  elements that the methods of a JavaScript array see on an object that was cast to an array without a
  check (\<open>None\<close> when they throw).
\<close>

record serde_glue =
  sw_i8 :: "8 word \<Rightarrow> js_value serde_result"
  sw_i16 :: "16 word \<Rightarrow> js_value serde_result"
  sw_i32 :: "32 word \<Rightarrow> js_value serde_result"
  sw_u8 :: "8 word \<Rightarrow> js_value serde_result"
  sw_u16 :: "16 word \<Rightarrow> js_value serde_result"
  sw_u32 :: "32 word \<Rightarrow> js_value serde_result"
  sw_f32 :: "f32 \<Rightarrow> js_value serde_result"
  sw_f64 :: "f64 \<Rightarrow> js_value serde_result"
  js_unchecked_array :: "js_value \<Rightarrow> js_value list option"

text \<open>
  \<open>Array.set\<close> extends the array when the index is beyond its end, \<open>Array.get\<close> gives
  undefined there; \<open>JsValue::from(0u32)\<close> is the number 0.
\<close>

definition js_array_set :: "js_value list \<Rightarrow> u32 \<Rightarrow> js_value \<Rightarrow> js_value list" where
  "js_array_set xs i v =
     (if unat i < length xs then xs[unat i := v]
      else xs @ replicate (unat i - length xs) JsUndefined @ [v])"

definition js_array_get :: "js_value list \<Rightarrow> u32 \<Rightarrow> js_value" where
  "js_array_get xs i = (if unat i < length xs then xs ! unat i else JsUndefined)"

definition js_zero :: js_value where
  "js_zero = JsNumber (f64_of_int 0)"

section \<open>The serializer (\<^verbatim>\<open>ser.rs\<close>)\<close>

record array_serializer =
  as_res :: "js_value list"
  as_idx :: u32

definition array_serializer_new :: array_serializer where
  "array_serializer_new = \<lparr>as_res = js_array_set [] 0 js_zero, as_idx = 1\<rparr>"

definition serialize_element ::
  "array_serializer \<Rightarrow> js_value serde_result \<Rightarrow> array_serializer serde_result" where
  "serialize_element st r =
     and_then r (\<lambda>v. Ok (st\<lparr>as_res := js_array_set (as_res st) (as_idx st) v, as_idx := as_idx st + 1\<rparr>))"

definition serialize_tuple_element ::
  "array_serializer \<Rightarrow> js_value serde_result \<Rightarrow> array_serializer serde_result" where
  "serialize_tuple_element st r = serialize_element st r"

definition serialize_struct_field ::
  "array_serializer \<Rightarrow> string \<Rightarrow> js_value serde_result \<Rightarrow> array_serializer serde_result" where
  "serialize_struct_field st key r = serialize_element st r"

definition array_serializer_end :: "array_serializer \<Rightarrow> js_value serde_result" where
  "array_serializer_end st = Ok (JsArray (as_res st))"

definition serialize_bool :: "serde_glue \<Rightarrow> bool \<Rightarrow> js_value serde_result" where
  "serialize_bool G v = (if v then sw_u32 G 1 else sw_u32 G 0)"

definition serialize_i8 :: "serde_glue \<Rightarrow> 8 word \<Rightarrow> js_value serde_result" where
  "serialize_i8 G v = sw_i8 G v"

definition serialize_i16 :: "serde_glue \<Rightarrow> 16 word \<Rightarrow> js_value serde_result" where
  "serialize_i16 G v = sw_i16 G v"

definition serialize_i32 :: "serde_glue \<Rightarrow> 32 word \<Rightarrow> js_value serde_result" where
  "serialize_i32 G v = sw_i32 G v"

definition serialize_u8 :: "serde_glue \<Rightarrow> 8 word \<Rightarrow> js_value serde_result" where
  "serialize_u8 G v = sw_u8 G v"

definition serialize_u16 :: "serde_glue \<Rightarrow> 16 word \<Rightarrow> js_value serde_result" where
  "serialize_u16 G v = sw_u16 G v"

definition serialize_u32 :: "serde_glue \<Rightarrow> 32 word \<Rightarrow> js_value serde_result" where
  "serialize_u32 G v = sw_u32 G v"

definition serialize_f32 :: "serde_glue \<Rightarrow> f32 \<Rightarrow> js_value serde_result" where
  "serialize_f32 G v = sw_f32 G v"

definition serialize_f64 :: "serde_glue \<Rightarrow> f64 \<Rightarrow> js_value serde_result" where
  "serialize_f64 G v = sw_f64 G v"

definition serialize_str :: "string \<Rightarrow> 'a serde_result" where
  "serialize_str a0 = Err ''Serializing strings is not implemented''"

definition serialize_i64 :: "64 word \<Rightarrow> 'a serde_result" where
  "serialize_i64 a0 = Err ''Serializing i64 is not implemented''"

definition serialize_u64 :: "64 word \<Rightarrow> 'a serde_result" where
  "serialize_u64 a0 = Err ''Serializing u64 is not implemented''"

definition serialize_i128 :: "128 word \<Rightarrow> 'a serde_result" where
  "serialize_i128 a0 = Err ''Serializing i128 is not implemented''"

definition serialize_u128 :: "128 word \<Rightarrow> 'a serde_result" where
  "serialize_u128 a0 = Err ''Serializing u128 is not implemented''"

definition serialize_char :: "serde_glue \<Rightarrow> nat \<Rightarrow> js_value serde_result" where
  "serialize_char G c = sw_u32 G (word_of_nat c)"

definition serialize_bytes :: "bytes \<Rightarrow> js_value serde_result" where
  "serialize_bytes bs = Ok (JsUint8Array bs)"

definition serialize_none :: "serde_glue \<Rightarrow> js_value serde_result" where
  "serialize_none G = sw_u32 G 0"

definition serialize_some :: "js_value serde_result \<Rightarrow> js_value serde_result" where
  "serialize_some r =
     (let res = js_array_set [] 0 js_zero in
      and_then r (\<lambda>v. Ok (JsArray (js_array_set res 1 v))))"

definition serialize_unit :: "serde_glue \<Rightarrow> js_value serde_result" where
  "serialize_unit G = sw_u32 G 0"

definition serialize_unit_struct :: "string \<Rightarrow> 'a serde_result" where
  "serialize_unit_struct a0 = Err ''Serializing unit structs is not implemented''"

definition serialize_unit_variant :: "string \<Rightarrow> nat \<Rightarrow> string \<Rightarrow> 'a serde_result" where
  "serialize_unit_variant a0 a1 a2 = Err ''Serializing unit variants is not implemented''"

definition serialize_newtype_struct :: "string \<Rightarrow> serde_value \<Rightarrow> 'a serde_result" where
  "serialize_newtype_struct a0 a1 = Err ''Serializing newtype structs is not implemented''"

definition serialize_newtype_variant :: "string \<Rightarrow> nat \<Rightarrow> string \<Rightarrow> serde_value \<Rightarrow> 'a serde_result" where
  "serialize_newtype_variant a0 a1 a2 a3 = Err ''Serializing newtype variants is not implemented''"

definition serialize_seq :: "nat option \<Rightarrow> array_serializer serde_result" where
  "serialize_seq len = Ok array_serializer_new"

definition serialize_tuple :: "nat \<Rightarrow> array_serializer serde_result" where
  "serialize_tuple len = Ok array_serializer_new"

definition serialize_struct :: "string \<Rightarrow> nat \<Rightarrow> array_serializer serde_result" where
  "serialize_struct name len = Ok array_serializer_new"

definition serialize_tuple_struct :: "string \<Rightarrow> nat \<Rightarrow> 'a serde_result" where
  "serialize_tuple_struct a0 a1 = Err ''Serializing tuple structs is not implemented''"

definition serialize_tuple_variant :: "string \<Rightarrow> nat \<Rightarrow> string \<Rightarrow> nat \<Rightarrow> 'a serde_result" where
  "serialize_tuple_variant a0 a1 a2 a3 = Err ''Serializing tuple variants is not implemented''"

definition serialize_map :: "nat option \<Rightarrow> 'a serde_result" where
  "serialize_map a0 = Err ''Serializing maps is not implemented''"

definition serialize_struct_variant :: "string \<Rightarrow> nat \<Rightarrow> string \<Rightarrow> nat \<Rightarrow> 'a serde_result" where
  "serialize_struct_variant a0 a1 a2 a3 = Err ''Serializing struct variants is not implemented''"

text \<open>
  \<open>ErrorSerializer\<close>, the type of the serializers that the methods above never return, and
  \<open>SerializeTupleStruct\<close> of the array serializer.
\<close>

definition tuple_variant_serialize_field :: "js_value serde_result \<Rightarrow> 'a serde_result" where
  "tuple_variant_serialize_field r = Err ''Serializing variants is not implemented''"

definition tuple_variant_end :: "js_value serde_result" where
  "tuple_variant_end = Err ''Serializing variants is not implemented''"

definition struct_variant_serialize_field :: "string \<Rightarrow> js_value serde_result \<Rightarrow> 'a serde_result" where
  "struct_variant_serialize_field key r = Err ''Serializing variants is not implemented''"

definition struct_variant_end :: "js_value serde_result" where
  "struct_variant_end = Err ''Serializing variants is not implemented''"

definition map_serialize_key :: "js_value serde_result \<Rightarrow> 'a serde_result" where
  "map_serialize_key r = Err ''Serializing maps is not implemented''"

definition map_serialize_value :: "js_value serde_result \<Rightarrow> 'a serde_result" where
  "map_serialize_value r = Err ''Serializing maps is not implemented''"

definition map_end :: "js_value serde_result" where
  "map_end = Err ''Serializing maps is not implemented''"

definition tuple_struct_serialize_field ::
  "array_serializer \<Rightarrow> js_value serde_result \<Rightarrow> array_serializer serde_result" where
  "tuple_struct_serialize_field st r = serialize_tuple_element st r"

definition serializer_is_human_readable :: bool where
  "serializer_is_human_readable = False"

text \<open>
  The walk over a value.
\<close>

fun serialize :: "serde_glue \<Rightarrow> serde_value \<Rightarrow> js_value serde_result"
  and serialize_elements ::
    "serde_glue \<Rightarrow> array_serializer \<Rightarrow> serde_value list \<Rightarrow> array_serializer serde_result"
  and serialize_tuple_elements ::
    "serde_glue \<Rightarrow> array_serializer \<Rightarrow> serde_value list \<Rightarrow> array_serializer serde_result"
  and serialize_fields ::
    "serde_glue \<Rightarrow> array_serializer \<Rightarrow> (string \<times> serde_value) list \<Rightarrow> array_serializer serde_result"
where
  "serialize G (SBool b) = serialize_bool G b"
| "serialize G (SI8 v) = serialize_i8 G v"
| "serialize G (SI16 v) = serialize_i16 G v"
| "serialize G (SI32 v) = serialize_i32 G v"
| "serialize G (SU8 v) = serialize_u8 G v"
| "serialize G (SU16 v) = serialize_u16 G v"
| "serialize G (SU32 v) = serialize_u32 G v"
| "serialize G (SF32 v) = serialize_f32 G v"
| "serialize G (SF64 v) = serialize_f64 G v"
| "serialize G (SI64 v) = serialize_i64 v"
| "serialize G (SI128 v) = serialize_i128 v"
| "serialize G (SU64 v) = serialize_u64 v"
| "serialize G (SU128 v) = serialize_u128 v"
| "serialize G (SChar c) = serialize_char G c"
| "serialize G (SStr s) = serialize_str s"
| "serialize G (SBytes bs) = serialize_bytes bs"
| "serialize G SNone = serialize_none G"
| "serialize G (SSome v) = serialize_some (serialize G v)"
| "serialize G SUnit = serialize_unit G"
| "serialize G (SUnitStruct n) = serialize_unit_struct n"
| "serialize G (SUnitVariant n i s) = serialize_unit_variant n i s"
| "serialize G (SNewtypeStruct n v) = serialize_newtype_struct n v"
| "serialize G (SNewtypeVariant n i s v) = serialize_newtype_variant n i s v"
| "serialize G (SSeq vs) =
     and_then (serialize_seq (Some (length vs))) (\<lambda>st.
     and_then (serialize_elements G st vs) array_serializer_end)"
| "serialize G (STuple vs) =
     and_then (serialize_tuple (length vs)) (\<lambda>st.
     and_then (serialize_tuple_elements G st vs) array_serializer_end)"
| "serialize G (STupleStruct n vs) = serialize_tuple_struct n (length vs)"
| "serialize G (STupleVariant n i s vs) = serialize_tuple_variant n i s (length vs)"
| "serialize G (SMap kvs) = serialize_map (Some (length kvs))"
| "serialize G (SStruct n fs) =
     and_then (serialize_struct n (length fs)) (\<lambda>st.
     and_then (serialize_fields G st fs) array_serializer_end)"
| "serialize G (SStructVariant n i s fs) = serialize_struct_variant n i s (length fs)"
| "serialize_elements G st [] = Ok st"
| "serialize_elements G st (v # vs) =
     and_then (serialize_element st (serialize G v)) (\<lambda>st'. serialize_elements G st' vs)"
| "serialize_tuple_elements G st [] = Ok st"
| "serialize_tuple_elements G st (v # vs) =
     and_then (serialize_tuple_element st (serialize G v)) (\<lambda>st'. serialize_tuple_elements G st' vs)"
| "serialize_fields G st [] = Ok st"
| "serialize_fields G st ((k, v) # fs) =
     and_then (serialize_struct_field st k (serialize G v)) (\<lambda>st'. serialize_fields G st' fs)"

section \<open>The deserializer (\<^verbatim>\<open>de.rs\<close>)\<close>

text \<open>
  \<open>self.0.unchecked_into::<Number>().as_f64().unwrap()\<close> panics on anything but a number.
\<close>

definition number_value :: "js_value \<Rightarrow> f64 serde_result" where
  "number_value v = (case v of JsNumber x \<Rightarrow> Ok x | _ \<Rightarrow> Panic ''called Option::unwrap() on a None value'')"

definition array_elements :: "serde_glue \<Rightarrow> js_value \<Rightarrow> js_value list serde_result" where
  "array_elements G v = expect (js_unchecked_array G v) ''TypeError''"

fun as_bytes :: "js_value \<Rightarrow> bytes option" where
  "as_bytes (JsUint8Array bs) = Some bs"
| "as_bytes (JsArrayBuffer bs) = Some bs"
| "as_bytes _ = None"

definition deserialize_any :: "js_value \<Rightarrow> 'a serde_result" where
  "deserialize_any a0 = Err ''Inferring the serialized type is not implemented''"

definition deserialize_unit :: "js_value \<Rightarrow> serde_value serde_result" where
  "deserialize_unit v = Ok SUnit"

definition deserialize_unit_struct :: "js_value \<Rightarrow> string \<Rightarrow> 'a serde_result" where
  "deserialize_unit_struct a0 a1 = Err ''Deserializing unit structs is not implemented''"

definition deserialize_bool :: "js_value \<Rightarrow> serde_value serde_result" where
  "deserialize_bool v = map_ok (\<lambda>x. SBool ((cast_unsigned x :: u32) \<noteq> 0)) (number_value v)"

definition deserialize_f32 :: "js_value \<Rightarrow> serde_value serde_result" where
  "deserialize_f32 v = map_ok (\<lambda>x. SF32 (f32_of_f64 x)) (number_value v)"

definition deserialize_f64 :: "js_value \<Rightarrow> serde_value serde_result" where
  "deserialize_f64 v = map_ok SF64 (number_value v)"

definition deserialize_identifier :: "js_value \<Rightarrow> 'a serde_result" where
  "deserialize_identifier a0 = Err ''Deserializing strings is not implemented''"

definition deserialize_str :: "js_value \<Rightarrow> 'a serde_result" where
  "deserialize_str a0 = Err ''Deserializing strings is not implemented''"

definition deserialize_string :: "js_value \<Rightarrow> 'a serde_result" where
  "deserialize_string a0 = Err ''Deserializing strings is not implemented''"

definition deserialize_i8 :: "js_value \<Rightarrow> serde_value serde_result" where
  "deserialize_i8 v = map_ok (\<lambda>x. SI8 (cast_signed x)) (number_value v)"

definition deserialize_i16 :: "js_value \<Rightarrow> serde_value serde_result" where
  "deserialize_i16 v = map_ok (\<lambda>x. SI16 (cast_signed x)) (number_value v)"

definition deserialize_i32 :: "js_value \<Rightarrow> serde_value serde_result" where
  "deserialize_i32 v = map_ok (\<lambda>x. SI32 (cast_signed x)) (number_value v)"

definition deserialize_u8 :: "js_value \<Rightarrow> serde_value serde_result" where
  "deserialize_u8 v = map_ok (\<lambda>x. SU8 (cast_unsigned x)) (number_value v)"

definition deserialize_u16 :: "js_value \<Rightarrow> serde_value serde_result" where
  "deserialize_u16 v = map_ok (\<lambda>x. SU16 (cast_unsigned x)) (number_value v)"

definition deserialize_u32 :: "js_value \<Rightarrow> serde_value serde_result" where
  "deserialize_u32 v = map_ok (\<lambda>x. SU32 (cast_unsigned x)) (number_value v)"

definition deserialize_i64 :: "js_value \<Rightarrow> 'a serde_result" where
  "deserialize_i64 a0 = Err ''Deserializing i64 is not implemented''"

definition deserialize_u64 :: "js_value \<Rightarrow> 'a serde_result" where
  "deserialize_u64 a0 = Err ''Deserializing u64 is not implemented''"

definition deserialize_i128 :: "js_value \<Rightarrow> 'a serde_result" where
  "deserialize_i128 a0 = Err ''Deserializing i128 is not implemented''"

definition deserialize_u128 :: "js_value \<Rightarrow> 'a serde_result" where
  "deserialize_u128 a0 = Err ''Deserializing u128 is not implemented''"

definition deserialize_char :: "js_value \<Rightarrow> serde_value serde_result" where
  "deserialize_char v = map_ok (\<lambda>x. SChar (unat (cast_unsigned x :: u8))) (number_value v)"

definition deserialize_option ::
  "(js_value \<Rightarrow> serde_value serde_result) \<Rightarrow> js_value \<Rightarrow> serde_value serde_result" where
  "deserialize_option visit v =
     (case v of JsArray arr \<Rightarrow> map_ok SSome (visit (js_array_get arr 1)) | _ \<Rightarrow> Ok SNone)"

definition deserialize_newtype_struct :: "js_value \<Rightarrow> string \<Rightarrow> 'a serde_result" where
  "deserialize_newtype_struct a0 a1 = Err ''Deserializing newtype structus is not implemented''"

definition deserialize_seq ::
  "serde_glue \<Rightarrow> (js_value list \<Rightarrow> 'a serde_result) \<Rightarrow> js_value \<Rightarrow> 'a serde_result" where
  "deserialize_seq G visit_seq v = and_then (array_elements G v) (\<lambda>arr. visit_seq (drop 1 arr))"

definition deserialize_tuple ::
  "serde_glue \<Rightarrow> nat \<Rightarrow> (js_value list \<Rightarrow> 'a serde_result) \<Rightarrow> js_value \<Rightarrow> 'a serde_result" where
  "deserialize_tuple G len visit_seq v = deserialize_seq G visit_seq v"

definition deserialize_tuple_struct :: "js_value \<Rightarrow> string \<Rightarrow> nat \<Rightarrow> 'a serde_result" where
  "deserialize_tuple_struct a0 a1 a2 = Err ''Deserializing tuple structs is not implemented''"

definition deserialize_map :: "js_value \<Rightarrow> 'a serde_result" where
  "deserialize_map a0 = Err ''Deserializing maps is not implemented''"

record object_access =
  oa_data :: "js_value list"
  oa_fields :: "string list"
  oa_idx :: u32
  oa_next_value :: "js_value option"

definition object_access_new :: "js_value list \<Rightarrow> string list \<Rightarrow> object_access" where
  "object_access_new data names =
     \<lparr>oa_data = data, oa_fields = names, oa_idx = 1, oa_next_value = None\<rparr>"

definition next_key_seed :: "object_access \<Rightarrow> string option \<times> object_access" where
  "next_key_seed oa =
     (case oa_fields oa of
        [] \<Rightarrow> (None, oa)
      | name # names \<Rightarrow>
          (Some name, oa\<lparr>oa_fields := names, oa_next_value := Some (js_array_get (oa_data oa) (oa_idx oa)),
             oa_idx := oa_idx oa + 1\<rparr>))"

definition next_value_seed ::
  "(js_value \<Rightarrow> 'a serde_result) \<Rightarrow> object_access \<Rightarrow> ('a \<times> object_access) serde_result" where
  "next_value_seed seed oa =
     and_then (expect (oa_next_value oa) ''unwrap_throw'') (\<lambda>js.
     map_ok (\<lambda>v. (v, oa\<lparr>oa_next_value := None\<rparr>)) (seed js))"

definition deserialize_struct ::
  "serde_glue \<Rightarrow> string \<Rightarrow> string list \<Rightarrow> (object_access \<Rightarrow> 'a serde_result) \<Rightarrow> js_value \<Rightarrow> 'a serde_result" where
  "deserialize_struct G name names visit_map v =
     and_then (array_elements G v) (\<lambda>arr. visit_map (object_access_new arr names))"

definition deserialize_enum :: "js_value \<Rightarrow> string \<Rightarrow> string list \<Rightarrow> 'a serde_result" where
  "deserialize_enum a0 a1 a2 = Err ''Deserializing enums is not implemented''"

definition deserialize_ignored_any :: "js_value \<Rightarrow> serde_value serde_result" where
  "deserialize_ignored_any v = Ok SUnit"

definition deserialize_byte_buf :: "js_value \<Rightarrow> serde_value serde_result" where
  "deserialize_byte_buf v =
     (case as_bytes v of
        Some bs \<Rightarrow> Ok (SBytes bs)
      | None \<Rightarrow> Err ''Type error while deserializing bytes'')"

definition deserialize_bytes :: "js_value \<Rightarrow> serde_value serde_result" where
  "deserialize_bytes v = deserialize_byte_buf v"

text \<open>
  \<open>SeqAccess\<close> reads a JavaScript iterator, whose items may be exceptions; \<open>VariantAccess\<close> refuses
  every variant.
\<close>

definition next_element_seed ::
  "(js_value \<Rightarrow> 'a serde_result) \<Rightarrow> js_value serde_result list \<Rightarrow> ('a option \<times> js_value serde_result list) serde_result" where
  "next_element_seed seed iter =
     (case iter of
        [] \<Rightarrow> Ok (None, [])
      | item # rest \<Rightarrow> and_then item (\<lambda>v. and_then (seed v) (\<lambda>x. Ok (Some x, rest))))"

definition unit_variant :: "js_value \<Rightarrow> unit serde_result" where
  "unit_variant v = Err ''Deserializing variants is not implemented''"

definition newtype_variant_seed :: "js_value \<Rightarrow> (js_value \<Rightarrow> 'a serde_result) \<Rightarrow> 'a serde_result" where
  "newtype_variant_seed v seed = Err ''Deserializing variants is not implemented''"

definition tuple_variant :: "js_value \<Rightarrow> nat \<Rightarrow> 'a serde_result" where
  "tuple_variant v len = Err ''Deserializing variants is not implemented''"

definition struct_variant :: "js_value \<Rightarrow> string list \<Rightarrow> 'a serde_result" where
  "struct_variant v names = Err ''Deserializing variants is not implemented''"

definition deserializer_is_human_readable :: bool where
  "deserializer_is_human_readable = False"

text \<open>
  The walk over a type. The visitor of a sequence reads all elements, the one of a tuple as many as the
  tuple has and fails when there are fewer, and the one of a structure asks for a key and its value
  until all fields are there.
\<close>

fun deserialize :: "serde_glue \<Rightarrow> serde_type \<Rightarrow> js_value \<Rightarrow> serde_value serde_result"
  and visit_tuple :: "serde_glue \<Rightarrow> serde_type list \<Rightarrow> js_value list \<Rightarrow> serde_value list serde_result"
  and visit_fields ::
    "serde_glue \<Rightarrow> (string \<times> serde_type) list \<Rightarrow> object_access \<Rightarrow> (string \<times> serde_value) list serde_result"
where
  "deserialize G TBool v = deserialize_bool v"
| "deserialize G TI8 v = deserialize_i8 v"
| "deserialize G TI16 v = deserialize_i16 v"
| "deserialize G TI32 v = deserialize_i32 v"
| "deserialize G TU8 v = deserialize_u8 v"
| "deserialize G TU16 v = deserialize_u16 v"
| "deserialize G TU32 v = deserialize_u32 v"
| "deserialize G TF32 v = deserialize_f32 v"
| "deserialize G TF64 v = deserialize_f64 v"
| "deserialize G TI64 v = deserialize_i64 v"
| "deserialize G TI128 v = deserialize_i128 v"
| "deserialize G TU64 v = deserialize_u64 v"
| "deserialize G TU128 v = deserialize_u128 v"
| "deserialize G TChar v = deserialize_char v"
| "deserialize G TStr v = deserialize_str v"
| "deserialize G TString v = deserialize_string v"
| "deserialize G TIdentifier v = deserialize_identifier v"
| "deserialize G TBytes v = deserialize_bytes v"
| "deserialize G TUnit v = deserialize_unit v"
| "deserialize G TAny v = deserialize_any v"
| "deserialize G TByteBuf v = deserialize_byte_buf v"
| "deserialize G TIgnoredAny v = deserialize_ignored_any v"
| "deserialize G (TOption t) v = deserialize_option (deserialize G t) v"
| "deserialize G (TUnitStruct n) v = deserialize_unit_struct v n"
| "deserialize G (TNewtypeStruct n t) v = deserialize_newtype_struct v n"
| "deserialize G (TSeq t) v = map_ok SSeq (deserialize_seq G (collect (deserialize G t)) v)"
| "deserialize G (TTuple ts) v = map_ok STuple (deserialize_tuple G (length ts) (visit_tuple G ts) v)"
| "deserialize G (TTupleStruct n ts) v = deserialize_tuple_struct v n (length ts)"
| "deserialize G (TMap k t) v = deserialize_map v"
| "deserialize G (TStruct n fs) v =
     map_ok (SStruct n) (deserialize_struct G n (map fst fs) (visit_fields G fs) v)"
| "deserialize G (TEnum n vs) v = deserialize_enum v n vs"
| "visit_tuple G [] js = Ok []"
| "visit_tuple G (t # ts) [] = Err ''invalid length''"
| "visit_tuple G (t # ts) (j # js) =
     and_then (deserialize G t j) (\<lambda>v. and_then (visit_tuple G ts js) (\<lambda>vs. Ok (v # vs)))"
| "visit_fields G [] oa = Ok []"
| "visit_fields G ((f, t) # fs) oa =
     (case next_key_seed oa of
        (None, oa') \<Rightarrow> Err ''missing field''
      | (Some k, oa') \<Rightarrow>
          and_then (next_value_seed (deserialize G t) oa') (\<lambda>(v, oa'').
          and_then (visit_fields G fs oa'') (\<lambda>vs. Ok ((k, v) # vs))))"

lemmas ser_method_defs = serialize_bool_def serialize_i8_def serialize_i16_def serialize_i32_def
  serialize_u8_def serialize_u16_def serialize_u32_def serialize_f32_def serialize_f64_def
  serialize_str_def serialize_i64_def serialize_u64_def serialize_i128_def serialize_u128_def
  serialize_char_def serialize_bytes_def serialize_none_def serialize_unit_def
  serialize_unit_struct_def serialize_unit_variant_def serialize_newtype_struct_def
  serialize_newtype_variant_def serialize_seq_def serialize_tuple_def serialize_struct_def
  serialize_tuple_struct_def serialize_tuple_variant_def serialize_map_def
  serialize_struct_variant_def

lemmas de_method_defs = deserialize_any_def deserialize_unit_def deserialize_unit_struct_def
  deserialize_bool_def deserialize_f32_def deserialize_f64_def deserialize_identifier_def
  deserialize_str_def deserialize_string_def deserialize_i8_def deserialize_i16_def
  deserialize_i32_def deserialize_u8_def deserialize_u16_def deserialize_u32_def deserialize_i64_def
  deserialize_u64_def deserialize_i128_def deserialize_u128_def deserialize_char_def
  deserialize_newtype_struct_def deserialize_seq_def deserialize_tuple_def
  deserialize_tuple_struct_def deserialize_map_def deserialize_struct_def deserialize_enum_def
  deserialize_ignored_any_def deserialize_byte_buf_def deserialize_bytes_def number_value_def

text \<open>
  A visitor that asks for elements until there are none reads what the sequence deserializer reads.
\<close>

fun drain :: "(js_value \<Rightarrow> 'a serde_result) \<Rightarrow> js_value serde_result list \<Rightarrow> 'a list serde_result" where
  "drain seed [] = and_then (next_element_seed seed []) (\<lambda>_. Ok [])"
| "drain seed (item # rest) =
     and_then (next_element_seed seed (item # rest)) (\<lambda>(x, rest').
     case x of None \<Rightarrow> Ok [] | Some x \<Rightarrow> and_then (drain seed rest) (\<lambda>xs. Ok (x # xs)))"

lemma drain_collect: "drain seed (map Ok vs) = collect seed vs"
proof (induction vs)
  case (Cons v vs)
  then show ?case by (cases "seed v") (simp_all add: next_element_seed_def)
qed (simp add: next_element_seed_def)

section \<open>What is expected of the wrapped serializer\<close>

text \<open>
  Numbers are handed to JavaScript as \<open>f64\<close> values, and the cast of a real array is that array.
\<close>

locale serde_glue_contract =
  fixes G :: serde_glue
  assumes sw_i8: "sw_i8 G a = Ok (JsNumber (f64_of_int (sint a)))"
    and sw_i16: "sw_i16 G b = Ok (JsNumber (f64_of_int (sint b)))"
    and sw_i32: "sw_i32 G c = Ok (JsNumber (f64_of_int (sint c)))"
    and sw_u8: "sw_u8 G a = Ok (JsNumber (f64_of_int (uint a)))"
    and sw_u16: "sw_u16 G b = Ok (JsNumber (f64_of_int (uint b)))"
    and sw_u32: "sw_u32 G c = Ok (JsNumber (f64_of_int (uint c)))"
    and sw_f32: "sw_f32 G x = Ok (JsNumber (f64_of_f32 x))"
    and sw_f64: "sw_f64 G x = Ok (JsNumber x)"
    and unchecked_array: "js_unchecked_array G (JsArray xs) = Some xs"

definition ref_serde_glue :: serde_glue where
  "ref_serde_glue =
     \<lparr>sw_i8 = (\<lambda>v. Ok (JsNumber (f64_of_int (sint v)))), sw_i16 = (\<lambda>v. Ok (JsNumber (f64_of_int (sint v)))),
      sw_i32 = (\<lambda>v. Ok (JsNumber (f64_of_int (sint v)))), sw_u8 = (\<lambda>v. Ok (JsNumber (f64_of_int (uint v)))),
      sw_u16 = (\<lambda>v. Ok (JsNumber (f64_of_int (uint v)))), sw_u32 = (\<lambda>v. Ok (JsNumber (f64_of_int (uint v)))),
      sw_f32 = (\<lambda>x. Ok (JsNumber (f64_of_f32 x))), sw_f64 = (\<lambda>x. Ok (JsNumber x)),
      js_unchecked_array = (\<lambda>v. case v of JsArray xs \<Rightarrow> Some xs | JsUndefined \<Rightarrow> None | _ \<Rightarrow> Some [])\<rparr>"

interpretation ref_glue: serde_glue_contract ref_serde_glue
  by unfold_locales (simp_all add: ref_serde_glue_def)

section \<open>Which values can be sent\<close>

text \<open>
  \<open>supported\<close>: the kinds of the data model the serializer implements. \<open>transmits\<close>: a
  value of the given type that comes back unchanged.
\<close>

fun supported :: "serde_value \<Rightarrow> bool" where
  "supported (SSome v) \<longleftrightarrow> supported v"
| "supported (SSeq vs) \<longleftrightarrow> list_all supported vs"
| "supported (STuple vs) \<longleftrightarrow> list_all supported vs"
| "supported (SStruct n fs) \<longleftrightarrow> list_all (\<lambda>(k, v). supported v) fs"
| "supported v \<longleftrightarrow>
     (case v of SI64 _ \<Rightarrow> False | SI128 _ \<Rightarrow> False | SU64 _ \<Rightarrow> False | SU128 _ \<Rightarrow> False | SStr _ \<Rightarrow> False
      | SUnitStruct _ \<Rightarrow> False | SUnitVariant _ _ _ \<Rightarrow> False | SNewtypeStruct _ _ \<Rightarrow> False
      | SNewtypeVariant _ _ _ _ \<Rightarrow> False | STupleStruct _ _ \<Rightarrow> False | STupleVariant _ _ _ _ \<Rightarrow> False
      | SMap _ \<Rightarrow> False | SStructVariant _ _ _ _ \<Rightarrow> False | _ \<Rightarrow> True)"

fun transmits :: "serde_type \<Rightarrow> serde_value \<Rightarrow> bool"
  and transmits_tuple :: "serde_type list \<Rightarrow> serde_value list \<Rightarrow> bool"
  and transmits_fields :: "(string \<times> serde_type) list \<Rightarrow> (string \<times> serde_value) list \<Rightarrow> bool"
where
  "transmits TBool v \<longleftrightarrow> (case v of SBool _ \<Rightarrow> True | _ \<Rightarrow> False)"
| "transmits TI8 v \<longleftrightarrow> (case v of SI8 _ \<Rightarrow> True | _ \<Rightarrow> False)"
| "transmits TI16 v \<longleftrightarrow> (case v of SI16 _ \<Rightarrow> True | _ \<Rightarrow> False)"
| "transmits TI32 v \<longleftrightarrow> (case v of SI32 _ \<Rightarrow> True | _ \<Rightarrow> False)"
| "transmits TU8 v \<longleftrightarrow> (case v of SU8 _ \<Rightarrow> True | _ \<Rightarrow> False)"
| "transmits TU16 v \<longleftrightarrow> (case v of SU16 _ \<Rightarrow> True | _ \<Rightarrow> False)"
| "transmits TU32 v \<longleftrightarrow> (case v of SU32 _ \<Rightarrow> True | _ \<Rightarrow> False)"
| "transmits TF32 v \<longleftrightarrow> (case v of SF32 x \<Rightarrow> is_f32 x | _ \<Rightarrow> False)"
| "transmits TF64 v \<longleftrightarrow> (case v of SF64 _ \<Rightarrow> True | _ \<Rightarrow> False)"
| "transmits TChar v \<longleftrightarrow> (case v of SChar c \<Rightarrow> c < 256 | _ \<Rightarrow> False)"
| "transmits TBytes v \<longleftrightarrow> (case v of SBytes _ \<Rightarrow> True | _ \<Rightarrow> False)"
| "transmits TByteBuf v \<longleftrightarrow> (case v of SBytes _ \<Rightarrow> True | _ \<Rightarrow> False)"
| "transmits TUnit v \<longleftrightarrow> (case v of SUnit \<Rightarrow> True | _ \<Rightarrow> False)"
| "transmits (TOption t) v \<longleftrightarrow> (case v of SNone \<Rightarrow> True | SSome w \<Rightarrow> transmits t w | _ \<Rightarrow> False)"
| "transmits (TSeq t) v \<longleftrightarrow> (case v of SSeq vs \<Rightarrow> list_all (transmits t) vs \<and> Suc (length vs) < 2 ^ 32 | _ \<Rightarrow> False)"
| "transmits (TTuple ts) v \<longleftrightarrow> (case v of STuple vs \<Rightarrow> transmits_tuple ts vs \<and> Suc (length vs) < 2 ^ 32 | _ \<Rightarrow> False)"
| "transmits (TStruct n fs) v \<longleftrightarrow> (case v of SStruct n' vs \<Rightarrow> n = n' \<and> transmits_fields fs vs \<and> Suc (length vs) < 2 ^ 32 | _ \<Rightarrow> False)"
| "transmits TI64 v \<longleftrightarrow> False"
| "transmits TI128 v \<longleftrightarrow> False"
| "transmits TU64 v \<longleftrightarrow> False"
| "transmits TU128 v \<longleftrightarrow> False"
| "transmits TStr v \<longleftrightarrow> False"
| "transmits TString v \<longleftrightarrow> False"
| "transmits TIdentifier v \<longleftrightarrow> False"
| "transmits (TUnitStruct n) v \<longleftrightarrow> False"
| "transmits (TNewtypeStruct n t) v \<longleftrightarrow> False"
| "transmits (TTupleStruct n ts) v \<longleftrightarrow> False"
| "transmits (TMap k t) v \<longleftrightarrow> False"
| "transmits (TEnum n ns) v \<longleftrightarrow> False"
| "transmits TAny v \<longleftrightarrow> False"
| "transmits TIgnoredAny v \<longleftrightarrow> False"
| "transmits_tuple [] [] \<longleftrightarrow> True"
| "transmits_tuple (t # ts) (v # vs) \<longleftrightarrow> transmits t v \<and> transmits_tuple ts vs"
| "transmits_tuple ts vs \<longleftrightarrow> False"
| "transmits_fields [] [] \<longleftrightarrow> True"
| "transmits_fields ((f, t) # fs) ((k, v) # vs) \<longleftrightarrow> f = k \<and> transmits t v \<and> transmits_fields fs vs"
| "transmits_fields fs vs \<longleftrightarrow> False"

section \<open>Filling an array\<close>

definition push_element :: "array_serializer \<Rightarrow> js_value \<Rightarrow> array_serializer" where
  "push_element st v = st\<lparr>as_res := js_array_set (as_res st) (as_idx st) v, as_idx := as_idx st + 1\<rparr>"

lemma serialize_elements_fold:
  "serialize_elements G st vs = map_ok (foldl push_element st) (collect (serialize G) vs)"
proof (induction vs arbitrary: st)
  case (Cons v vs)
  then show ?case
    by (cases "serialize G v"; cases "collect (serialize G) vs")
      (simp_all add: serialize_element_def push_element_def)
qed simp

lemma serialize_tuple_elements_eq: "serialize_tuple_elements G st vs = serialize_elements G st vs"
  by (induction vs arbitrary: st) (simp_all add: serialize_tuple_element_def)

lemma serialize_fields_eq: "serialize_fields G st fs = serialize_elements G st (map snd fs)"
  by (induction fs arbitrary: st) (auto simp: serialize_struct_field_def)

lemma unat_u32_of_nat: "n < 2 ^ 32 \<Longrightarrow> unat (word_of_nat n :: u32) = n"
  by (simp add: unat_of_nat)

lemma js_array_set_end: "length xs < 2 ^ 32 \<Longrightarrow> js_array_set xs (word_of_nat (length xs)) v = xs @ [v]"
  by (simp add: js_array_set_def unat_of_nat)

lemma fold_push:
  assumes "as_idx st = word_of_nat (length (as_res st))" and "length (as_res st) + length js \<le> 2 ^ 32"
  shows "as_res (foldl push_element st js) = as_res st @ js"
  using assms
proof (induction js arbitrary: st)
  case (Cons j js)
  have "as_res (push_element st j) = as_res st @ [j]"
    using Cons.prems by (simp add: push_element_def js_array_set_end)
  moreover have "as_idx (push_element st j) = word_of_nat (Suc (length (as_res st)))"
    using Cons.prems(1) by (simp add: push_element_def)
  ultimately show ?case using Cons.IH [of "push_element st j"] Cons.prems(2) by simp
qed simp

lemma array_serializer_new_fields [simp]:
  "as_res array_serializer_new = [js_zero]" "as_idx array_serializer_new = 1"
  by (simp_all add: array_serializer_new_def js_array_set_def)

definition filled_array :: "js_value list \<Rightarrow> js_value" where
  "filled_array js = JsArray (as_res (foldl push_element array_serializer_new js))"

lemma filled_array_small: "Suc (length js) < 2 ^ 32 \<Longrightarrow> filled_array js = JsArray (js_zero # js)"
  by (simp add: filled_array_def fold_push)

lemma serialize_seq_eq: "serialize G (SSeq vs) = map_ok filled_array (collect (serialize G) vs)"
  by (cases "collect (serialize G) vs")
    (simp_all add: serialize_seq_def serialize_elements_fold array_serializer_end_def filled_array_def)

lemma serialize_tuple_eq: "serialize G (STuple vs) = map_ok filled_array (collect (serialize G) vs)"
  using serialize_seq_eq [of G vs]
  by (simp add: serialize_seq_def serialize_tuple_def serialize_tuple_elements_eq)

lemma serialize_struct_eq:
  "serialize G (SStruct n fs) = map_ok filled_array (collect (serialize G) (map snd fs))"
  using serialize_seq_eq [of G "map snd fs"]
  by (simp add: serialize_seq_def serialize_struct_def serialize_fields_eq)

lemma serialize_some_eq: "serialize G (SSome v) = map_ok (\<lambda>j. JsArray [js_zero, j]) (serialize G v)"
  by (cases "serialize G v") (simp_all add: serialize_some_def js_array_set_def Let_def)

declare serialize.simps(18, 24, 25, 29) [simp del]

lemmas serialize_container_eqs = serialize_some_eq serialize_seq_eq serialize_tuple_eq serialize_struct_eq

section \<open>Sending and receiving\<close>

context serde_glue_contract
begin

lemmas glue_simps = sw_i8 sw_i16 sw_i32 sw_u8 sw_u16 sw_u32 sw_f32 sw_f64 unchecked_array

lemma serialize_ok_iff: "(\<exists>j. serialize G v = Ok j) \<longleftrightarrow> supported v"
proof (induction v)
  case (SSome v)
  then show ?case by (simp add: serialize_some_eq)
next
  case (SSeq vs)
  then show ?case by (simp add: serialize_seq_eq collect_ok_iff list_all_iff)
next
  case (STuple vs)
  then show ?case by (simp add: serialize_tuple_eq collect_ok_iff list_all_iff)
next
  case (SStruct n fs)
  then have "\<forall>p \<in> set fs. (\<exists>j. serialize G (snd p) = Ok j) \<longleftrightarrow> supported (snd p)" by fastforce
  then show ?case by (simp add: serialize_struct_eq collect_ok_iff list_all_iff case_prod_beta)
qed (simp_all add: ser_method_defs glue_simps)

lemma serialize_never_panics: "serialize G v \<noteq> Panic m"
proof (induction v)
  case (SSome v)
  then show ?case by (simp add: serialize_some_eq)
next
  case (SSeq vs)
  then show ?case by (simp add: serialize_seq_eq collect_no_panic)
next
  case (STuple vs)
  then show ?case by (simp add: serialize_tuple_eq collect_no_panic)
next
  case (SStruct n fs)
  then have "collect (serialize G) (map snd fs) \<noteq> Panic m" by (intro collect_no_panic) auto
  then show ?case by (simp add: serialize_struct_eq)
qed (simp_all add: ser_method_defs glue_simps)

definition sent_as :: "serde_type \<Rightarrow> serde_value \<Rightarrow> js_value \<Rightarrow> bool" where
  "sent_as t v j \<longleftrightarrow> serialize G v = Ok j \<and> deserialize G t j = Ok v"

lemma array_elements_filled:
  "Suc (length js) < 2 ^ 32 \<Longrightarrow> array_elements G (filled_array js) = Ok (js_zero # js)"
  by (simp add: array_elements_def filled_array_small unchecked_array)

lemma js_array_get_append:
  "length pre < 2 ^ 32 \<Longrightarrow> js_array_get (pre @ j # js) (word_of_nat (length pre)) = j"
  by (simp add: js_array_get_def unat_of_nat)

lemma visit_fields_step:
  assumes "length pre < 2 ^ 32" and "deserialize G t j = Ok v"
    and "visit_fields G fs \<lparr>oa_data = (pre @ [j]) @ js, oa_fields = map fst fs,
           oa_idx = word_of_nat (length (pre @ [j])), oa_next_value = None\<rparr> = Ok vs"
  shows "visit_fields G ((f, t) # fs) \<lparr>oa_data = pre @ j # js, oa_fields = f # map fst fs,
           oa_idx = word_of_nat (length pre), oa_next_value = None\<rparr> = Ok ((f, v) # vs)"
  using assms by (simp add: next_key_seed_def next_value_seed_def js_array_get_append add.commute)

lemma char_sent: "c < 256 \<Longrightarrow> sent_as TChar (SChar c) (JsNumber (f64_of_int (int c)))"
  by (simp add: sent_as_def ser_method_defs de_method_defs glue_simps cast_unsigned_def cast_of_int
      clamp_def unat_of_nat uint_nat)

lemma cast_bool: "(cast_unsigned (f64_of_int 1) :: u32) = 1" "(cast_unsigned (f64_of_int 0) :: u32) = 0"
  using cast_unsigned_of_word [of "1 :: u32"] cast_unsigned_of_word [of "0 :: u32"] by simp_all

lemma leaf_sent:
  "transmits t v \<Longrightarrow> t \<in> {TBool, TI8, TI16, TI32, TU8, TU16, TU32, TF32, TF64, TBytes, TByteBuf, TUnit} \<Longrightarrow>
   \<exists>j. sent_as t v j"
  by (cases v) (auto simp: sent_as_def ser_method_defs de_method_defs glue_simps cast_unsigned_of_word
      cast_signed_of_word f32_through_f64 cast_bool)

lemma option_sent: "sent_as t v j \<Longrightarrow> sent_as (TOption t) (SSome v) (JsArray [js_zero, j])"
  by (simp add: sent_as_def serialize_some_eq deserialize_option_def js_array_get_def)

lemma none_sent: "sent_as (TOption t) SNone (JsNumber (f64_of_int 0))"
  by (simp add: sent_as_def ser_method_defs glue_simps deserialize_option_def)

lemma seq_sent:
  assumes "list_all2 (sent_as t) vs js" and "Suc (length vs) < 2 ^ 32"
  shows "sent_as (TSeq t) (SSeq vs) (JsArray (js_zero # js))"
proof -
  have "collect (serialize G) vs = Ok js" and "collect (deserialize G t) js = Ok vs"
    using assms(1) by (auto simp: collect_Ok_iff sent_as_def list_all2_conv_all_nth)
  moreover have "length js = length vs" using assms(1) by (simp add: list_all2_lengthD)
  ultimately show ?thesis using assms(2)
    by (simp add: sent_as_def serialize_seq_eq filled_array_small deserialize_seq_def array_elements_def
        unchecked_array)
qed

definition tuple_sent :: "serde_type list \<Rightarrow> serde_value list \<Rightarrow> js_value list \<Rightarrow> bool" where
  "tuple_sent ts vs js \<longleftrightarrow> collect (serialize G) vs = Ok js \<and> visit_tuple G ts js = Ok vs"

definition fields_sent ::
  "(string \<times> serde_type) list \<Rightarrow> (string \<times> serde_value) list \<Rightarrow> js_value list \<Rightarrow> bool" where
  "fields_sent fs vs js \<longleftrightarrow> collect (serialize G) (map snd vs) = Ok js \<and>
     (\<forall>pre. length pre + length fs < 2 ^ 32 \<longrightarrow>
        visit_fields G fs \<lparr>oa_data = pre @ js, oa_fields = map fst fs,
          oa_idx = word_of_nat (length pre), oa_next_value = None\<rparr> = Ok vs)"

lemma tuple_sent_Cons: "sent_as t v j \<Longrightarrow> tuple_sent ts vs js \<Longrightarrow> tuple_sent (t # ts) (v # vs) (j # js)"
  by (simp add: sent_as_def tuple_sent_def)

lemma fields_sent_Cons:
  assumes "sent_as t v j" and "fields_sent fs vs js"
  shows "fields_sent ((f, t) # fs) ((f, v) # vs) (j # js)"
proof -
  have "visit_fields G ((f, t) # fs) \<lparr>oa_data = pre @ j # js, oa_fields = f # map fst fs,
          oa_idx = word_of_nat (length pre), oa_next_value = None\<rparr> = Ok ((f, v) # vs)"
    if "length pre + Suc (length fs) < 2 ^ 32" for pre
    using assms that unfolding sent_as_def fields_sent_def
    by (intro visit_fields_step) (auto dest: spec [of _ "pre @ [j]"])
  then show ?thesis using assms by (simp add: sent_as_def fields_sent_def)
qed

lemma tuple_sent_array:
  assumes "tuple_sent ts vs js" and "Suc (length vs) < 2 ^ 32"
  shows "sent_as (TTuple ts) (STuple vs) (JsArray (js_zero # js))"
proof -
  have "length js = length vs" using assms(1) by (auto simp: tuple_sent_def dest: collect_length)
  with assms show ?thesis
    by (simp add: sent_as_def tuple_sent_def serialize_tuple_eq filled_array_small deserialize_tuple_def
        deserialize_seq_def array_elements_def unchecked_array)
qed

lemma fields_sent_array:
  assumes "fields_sent fs vs js" and "Suc (length vs) < 2 ^ 32" and "length fs = length vs"
  shows "sent_as (TStruct n fs) (SStruct n vs) (JsArray (js_zero # js))"
proof -
  have len: "length js = length vs" using assms(1) by (auto simp: fields_sent_def dest: collect_length)
  have "visit_fields G fs \<lparr>oa_data = [js_zero] @ js, oa_fields = map fst fs,
          oa_idx = word_of_nat (length [js_zero]), oa_next_value = None\<rparr> = Ok vs"
    using assms unfolding fields_sent_def by (elim conjE allE [of _ "[js_zero]"]) simp
  with assms len show ?thesis
    by (simp add: sent_as_def fields_sent_def serialize_struct_eq filled_array_small
        deserialize_struct_def array_elements_def unchecked_array object_access_new_def)
qed

lemma transmits_fields_length: "transmits_fields fs vs \<Longrightarrow> length fs = length vs"
  by (induction fs vs rule: list_induct2') (auto split: prod.splits)

lemma transmits_sent:
  "transmits t v \<Longrightarrow> \<exists>j. sent_as t v j"
  "transmits_tuple ts vs \<Longrightarrow> \<exists>js. tuple_sent ts vs js"
  "transmits_fields fts fvs \<Longrightarrow> \<exists>js. fields_sent fts fvs js"
proof (induction t v and ts vs and fts fvs rule: transmits_transmits_tuple_transmits_fields.induct)
  case (10 v)
  then show ?case using char_sent by (cases v) auto
next
  case (14 t v)
  then show ?case using option_sent none_sent by (cases v) (simp_all, blast+)
next
  case (15 t v)
  then obtain vs where v: "v = SSeq vs" "list_all (transmits t) vs" "Suc (length vs) < 2 ^ 32"
    by (cases v) auto
  then have "\<forall>x \<in> set vs. \<exists>j. sent_as t x j" using 15 by (auto simp: list_all_iff)
  then obtain js where "list_all2 (sent_as t) vs js"
    using list_all2_choice by blast
  then show ?case using v seq_sent by blast
next
  case (16 ts v)
  then show ?case using tuple_sent_array by (cases v) (simp_all, blast)
next
  case (17 n fs v)
  then show ?case using fields_sent_array transmits_fields_length by (cases v) (simp_all, blast)
qed (auto intro: leaf_sent simp: tuple_sent_def [of "[]"] fields_sent_def [of "[]"]
    dest: tuple_sent_Cons fields_sent_Cons)

end

section \<open>Properties\<close>

text \<open>
  A character beyond U+00FF is sent as its code point but read through a byte, and the cast saturates:
  it comes back as U+00FF.
\<close>

lemma serde_char_saturates:
  assumes "serde_glue_contract G" and "256 \<le> c" and "c < 2 ^ 32"
  shows "and_then (serialize G (SChar c)) (deserialize G TChar) = Ok (SChar 255)"
proof -
  have "uint (word_of_nat c :: u32) = int c"
    using assms(3) by (simp add: uint_nat unat_u32_of_nat)
  moreover have "cast_int 0 255 (f64_of_int (int c)) = 255"
    using assms(2, 3) by (simp add: cast_of_int clamp_def)
  ultimately show ?thesis
    by (simp add: serialize_char_def deserialize_char_def number_value_def cast_unsigned_def
        serde_glue_contract.sw_u32 [OF assms(1)])
qed

text \<open>
  C33. A Rust value of a supported type (booleans, integers of up to 32 bits, floats, characters up to
  U+00FF, byte buffers, units, options, sequences, tuples and structures of these, with less than
  \<open>2 ^ 32 - 1\<close> elements) that is serialized for js-of-ocaml is read back unchanged. A character
  beyond U+00FF is not: it is read back as U+00FF.
\<close>

theorem serde_roundtrip:
  assumes "serde_glue_contract G" and "transmits t v"
  shows "(\<exists>j. serialize G v = Ok j \<and> deserialize G t j = Ok v) \<and>
    (256 \<le> c \<and> c < 2 ^ 32 \<longrightarrow>
      and_then (serialize G (SChar c)) (deserialize G TChar) = Ok (SChar 255))"
  using serde_glue_contract.transmits_sent(1) [OF assms] serde_char_saturates [OF assms(1), of c]
  by (auto simp: serde_glue_contract.sent_as_def [OF assms(1)] simp del: serialize.simps deserialize.simps)

theorem serde_roundtrip_witness:
  "(\<exists>j. serialize ref_serde_glue (SStruct ''Thing'' [(''a'', SSome (SU32 5)), (''b'', SSeq [SBool True, SBool False])]) = Ok j
     \<and> deserialize ref_serde_glue
         (TStruct ''Thing'' [(''a'', TOption TU32), (''b'', TSeq TBool)]) j
       = Ok (SStruct ''Thing'' [(''a'', SSome (SU32 5)), (''b'', SSeq [SBool True, SBool False])])) \<and>
   and_then (serialize ref_serde_glue (SChar 955)) (deserialize ref_serde_glue TChar) = Ok (SChar 255)"
  using serde_roundtrip [OF ref_glue.serde_glue_contract_axioms,
      of "TStruct ''Thing'' [(''a'', TOption TU32), (''b'', TSeq TBool)]"
        "SStruct ''Thing'' [(''a'', SSome (SU32 5)), (''b'', SSeq [SBool True, SBool False])]" 955]
  by (simp del: serialize.simps deserialize.simps)

lemma serialize_struct_array:
  assumes "Suc (length fs) < 2 ^ 32" and "serialize G (SStruct n fs) = Ok j"
  shows "\<exists>js. j = JsArray (js_zero # js) \<and> list_all2 (\<lambda>f j. serialize G (snd f) = Ok j) fs js"
proof -
  obtain js where js: "collect (serialize G) (map snd fs) = Ok js" "j = filled_array js"
    using assms(2) by (auto simp: serialize_struct_eq)
  then have "length js = length fs" by (auto dest: collect_length)
  with js assms(1) show ?thesis by (simp add: filled_array_small collect_Ok_iff list_all2_map1)
qed

text \<open>
  Serializing succeeds exactly for values made of the supported kinds, and reports an error, never
  a panic, for all others. A structure becomes an array of one element more than it has fields: a
  leading 0 and the fields in order.
\<close>

theorem serde_shape:
  assumes "serde_glue_contract G"
  shows "((\<exists>j. serialize G v = Ok j) \<longleftrightarrow> supported v) \<and>
    ((\<exists>e. serialize G v = Err e) \<longleftrightarrow> \<not> supported v) \<and>
    (Suc (length fs) < 2 ^ 32 \<longrightarrow> serialize G (SStruct n fs) = Ok j \<longrightarrow>
       (\<exists>js. j = JsArray (js_zero # js) \<and> list_all2 (\<lambda>f j. serialize G (snd f) = Ok j) fs js))"
  using serde_glue_contract.serialize_ok_iff [OF assms, of v]
    serde_glue_contract.serialize_never_panics [OF assms, of v] serialize_struct_array [of fs G n j]
  by (cases "serialize G v") auto

theorem serde_shape_witness:
  "(\<exists>j. serialize ref_serde_glue (SSome (SBool True)) = Ok j) \<and>
   (\<exists>e. serialize ref_serde_glue (SSeq [SU64 1]) = Err e) \<and>
   (\<exists>j js. serialize ref_serde_glue (SStruct ''Thing'' [(''a'', SUnit)]) = Ok j \<and>
      j = JsArray (js_zero # js) \<and>
      list_all2 (\<lambda>f j. serialize ref_serde_glue (snd f) = Ok j) [(''a'', SUnit)] js)"
proof -
  note shape = serde_shape [OF ref_glue.serde_glue_contract_axioms]
  have "\<exists>j. serialize ref_serde_glue (SStruct ''Thing'' [(''a'', SUnit)]) = Ok j"
    using shape [of "SStruct ''Thing'' [(''a'', SUnit)]"] by simp
  then obtain j where j: "serialize ref_serde_glue (SStruct ''Thing'' [(''a'', SUnit)]) = Ok j" by blast
  have "\<exists>js. j = JsArray (js_zero # js) \<and>
      list_all2 (\<lambda>f j. serialize ref_serde_glue (snd f) = Ok j) [(''a'', SUnit)] js"
    using shape [of SUnit "[(''a'', SUnit)]" "''Thing''" j] j by simp
  moreover have "\<exists>j. serialize ref_serde_glue (SSome (SBool True)) = Ok j"
    using shape [of "SSome (SBool True)"] by simp
  moreover have "\<exists>e. serialize ref_serde_glue (SSeq [SU64 1]) = Err e"
    using shape [of "SSeq [SU64 1]"] by simp
  ultimately show ?thesis using j by blast
qed

end
