(* ===== verification/Trace_Tool.thy ===== *)
theory Trace_Tool
  imports Floats
begin

text \<open>
  The trace tool (\<^verbatim>\<open>src/app/trace-tool/src/main.rs\<close>), which turns the binary trace a daemon
  writes into JSON lines for a trace viewer: the parser of the binary format, built from the
  combinators of the crate \<^verbatim>\<open>nom\<close>, the fold over the events with the tables of threads and of
  recurring tasks, and the lines it prints. A Rust string is the list of the bytes of its UTF-8
  encoding.
\<close>

section \<open>Events\<close>

type_synonym tid = u64

datatype event_kind =
    New tid string
  | Switch tid
  | CycleStart
  | CycleEnd
  | Pid u64
  | Event string
  | Start string
  | End
  | TraceEnd

record trace_event =
  ns_since_epoch :: f64
  event_data :: event_kind

section \<open>Text\<close>

text \<open>
  \<open>String::from_utf8\<close>: the well-formed byte sequences of the Unicode standard.
\<close>

definition in_range :: "nat \<Rightarrow> nat \<Rightarrow> u8 \<Rightarrow> bool" where
  "in_range lo hi b \<longleftrightarrow> lo \<le> unat b \<and> unat b \<le> hi"

definition continuation :: "u8 \<Rightarrow> bool" where
  "continuation b = in_range 0x80 0xBF b"

definition second_byte :: "u8 \<Rightarrow> u8 \<Rightarrow> bool" where
  "second_byte b c =
     (if unat b = 0xE0 then in_range 0xA0 0xBF c
      else if unat b = 0xED then in_range 0x80 0x9F c
      else if unat b = 0xF0 then in_range 0x90 0xBF c
      else if unat b = 0xF4 then in_range 0x80 0x8F c
      else continuation c)"

fun utf8_valid :: "bytes \<Rightarrow> bool" where
  "utf8_valid [] = True"
| "utf8_valid (b # bs) =
     (if unat b < 0x80 then utf8_valid bs
      else if in_range 0xC2 0xDF b then
        (case bs of c # r \<Rightarrow> continuation c \<and> utf8_valid r | _ \<Rightarrow> False)
      else if in_range 0xE0 0xEF b then
        (case bs of c # d # r \<Rightarrow> second_byte b c \<and> continuation d \<and> utf8_valid r | _ \<Rightarrow> False)
      else if in_range 0xF0 0xF4 b then
        (case bs of c # d # e # r \<Rightarrow>
           second_byte b c \<and> continuation d \<and> continuation e \<and> utf8_valid r | _ \<Rightarrow> False)
      else False)"

definition chars_of_bytes :: "bytes \<Rightarrow> string" where
  "chars_of_bytes bs = map (\<lambda>b. char_of (unat b)) bs"

definition bytes_of_chars :: "string \<Rightarrow> bytes" where
  "bytes_of_chars s = map (\<lambda>c. word_of_nat (of_char c)) s"

definition from_utf8 :: "bytes \<Rightarrow> string option" where
  "from_utf8 bs = (if utf8_valid bs then Some (chars_of_bytes bs) else None)"

text \<open>
  \<open>Display\<close> of an unsigned integer, and \<open>starts_with\<close>.
\<close>

fun decimal :: "nat \<Rightarrow> string" where
  "decimal n = (if n < 10 then [char_of (48 + n)] else decimal (n div 10) @ [char_of (48 + n mod 10)])"

declare decimal.simps [simp del]

definition starts_with :: "string \<Rightarrow> string \<Rightarrow> bool" where
  "starts_with s p \<longleftrightarrow> take (length p) s = p"

section \<open>The parser\<close>

text \<open>
  A parser of \<^verbatim>\<open>nom\<close> returns the remaining input and a value, or one of two errors. The
  combinators are fields of a parameter record; the macros \<open>do_parse!\<close> and \<open>switch!\<close> are
  sequencing and case distinction, an unmatched \<open>switch!\<close> being an error.
\<close>

datatype nom_error = Incomplete | ParseError

type_synonym 'a parser = "bytes \<Rightarrow> (bytes \<times> 'a, nom_error) outcome"

record nom =
  nom_le_u8 :: "u8 parser"
  nom_le_u64 :: "u64 parser"
  nom_length_data :: "u64 parser \<Rightarrow> bytes parser"
  nom_opt :: "trace_event parser \<Rightarrow> trace_event option parser"
  nom_complete :: "trace_event option parser \<Rightarrow> trace_event option parser"
  nom_many0 :: "trace_event option parser \<Rightarrow> trace_event option list parser"

definition event_at :: "u64 \<Rightarrow> event_kind \<Rightarrow> trace_event" where
  "event_at ns k = \<lparr>ns_since_epoch = f64_of_int (uint ns), event_data = k\<rparr>"

definition parse_text :: "nom \<Rightarrow> (string \<Rightarrow> event_kind) \<Rightarrow> u64 \<Rightarrow> trace_event parser" where
  "parse_text N k ns bs =
     and_then (nom_length_data N (nom_le_u64 N) bs) (\<lambda>(r, s).
     and_then (expect (from_utf8 s) ''called Result::unwrap() on an Err value'') (\<lambda>str.
     Ok (r, event_at ns (k str))))"

definition parse_trace_event :: "nom \<Rightarrow> trace_event parser" where
  "parse_trace_event N bs =
     and_then (nom_le_u8 N bs) (\<lambda>(r, tag).
     if unat tag = 0 then
       and_then (nom_le_u64 N r) (\<lambda>(r, ns). and_then (nom_le_u64 N r) (\<lambda>(r, tid).
       parse_text N (New tid) ns r))
     else if unat tag = 1 then
       and_then (nom_le_u64 N r) (\<lambda>(r, ns). and_then (nom_le_u64 N r) (\<lambda>(r, tid).
       Ok (r, event_at ns (Switch tid))))
     else if unat tag = 2 then and_then (nom_le_u64 N r) (\<lambda>(r, ns). Ok (r, event_at ns CycleStart))
     else if unat tag = 3 then and_then (nom_le_u64 N r) (\<lambda>(r, ns). Ok (r, event_at ns CycleEnd))
     else if unat tag = 4 then and_then (nom_le_u64 N r) (\<lambda>(r, pid).
       Ok (r, \<lparr>ns_since_epoch = f64_of_int 0, event_data = Pid pid\<rparr>))
     else if unat tag = 5 then and_then (nom_le_u64 N r) (\<lambda>(r, ns). parse_text N Event ns r)
     else if unat tag = 6 then and_then (nom_le_u64 N r) (\<lambda>(r, ns). parse_text N Start ns r)
     else if unat tag = 7 then and_then (nom_le_u64 N r) (\<lambda>(r, ns). Ok (r, event_at ns End))
     else if unat tag = 8 then and_then (nom_le_u64 N r) (\<lambda>(r, ns). Ok (r, event_at ns TraceEnd))
     else Err ParseError)"

definition parse_trace_events :: "nom \<Rightarrow> trace_event option list parser" where
  "parse_trace_events N = nom_many0 N (nom_complete N (nom_opt N (parse_trace_event N)))"

section \<open>The lines printed\<close>

fun escape :: "string \<Rightarrow> string" where
  "escape [] = []"
| "escape (c # s) = (if c = CHR 0x22 then CHR 0x5C # CHR 0x22 # escape s else c # escape s)"

datatype trace_line =
    CompleteLine string u64 f64 f64 tid
  | ThreadName u64 tid string
  | Instant string f64 u64 tid
  | Begin string f64 u64 tid
  | EndLine f64 u64 tid
  | Debug "trace_event option"

definition quote :: string where
  "quote = [CHR 0x22]"

definition json_key :: "string \<Rightarrow> string" where
  "json_key k = quote @ k @ quote @ '':''"

definition json_text :: "string \<Rightarrow> string" where
  "json_text s = quote @ s @ quote"

text \<open>
  \<open>println!\<close> of the raw string templates, for a \<open>Display\<close> of \<open>f64\<close> and a \<open>Debug\<close> of
  events.
\<close>

fun render :: "(f64 \<Rightarrow> string) \<Rightarrow> (trace_event option \<Rightarrow> string) \<Rightarrow> trace_line \<Rightarrow> string" where
  "render display debug (CompleteLine name pid ts dur tid) =
     ''{'' @ json_key ''name'' @ json_text name @ '','' @ json_key ''pid'' @ decimal (unat pid) @ '','' @
     json_key ''ph'' @ json_text ''X'' @ '','' @ json_key ''ts'' @ display ts @ '','' @
     json_key ''dur'' @ display dur @ '','' @ json_key ''tid'' @ decimal (unat tid) @ ''},''"
| "render display debug (ThreadName pid tid name) =
     ''{'' @ json_key ''name'' @ json_text ''thread_name'' @ '','' @ json_key ''ph'' @ json_text ''M'' @ '','' @
     json_key ''pid'' @ decimal (unat pid) @ '','' @ json_key ''tid'' @ decimal (unat tid) @ '','' @
     json_key ''args'' @ ''{'' @ json_key ''name'' @ json_text name @ ''}},''"
| "render display debug (Instant name ts pid tid) =
     ''{'' @ json_key ''name'' @ json_text name @ '','' @ json_key ''ph'' @ json_text ''i'' @ '','' @
     json_key ''ts'' @ display ts @ '','' @ json_key ''pid'' @ decimal (unat pid) @ '','' @
     json_key ''tid'' @ decimal (unat tid) @ '','' @ json_key ''s'' @ json_text ''t'' @ ''},''"
| "render display debug (Begin name ts pid tid) =
     ''{'' @ json_key ''name'' @ json_text name @ '','' @ json_key ''ph'' @ json_text ''B'' @ '','' @
     json_key ''ts'' @ display ts @ '','' @ json_key ''pid'' @ decimal (unat pid) @ '','' @
     json_key ''tid'' @ decimal (unat tid) @ ''},''"
| "render display debug (EndLine ts pid tid) =
     ''{'' @ json_key ''ph'' @ json_text ''E'' @ '','' @ json_key ''ts'' @ display ts @ '','' @
     json_key ''pid'' @ decimal (unat pid) @ '','' @ json_key ''tid'' @ decimal (unat tid) @ ''},''"
| "render display debug (Debug e) = debug e"

definition micros :: "f64 \<Rightarrow> f64" where
  "micros x = f64_div x (f64_of_int 1000)"

definition complete_event ::
  "(tid \<rightharpoonup> string) \<Rightarrow> u64 \<Rightarrow> f64 \<Rightarrow> f64 \<Rightarrow> tid option \<Rightarrow> (trace_line list, unit) outcome" where
  "complete_event tids pid cur_ts prev_ts prev_task =
     and_then (rust_assert (pid \<noteq> 0) ''assertion failed: pid != 0'') (\<lambda>_.
     Ok (case prev_task of
           Some tid \<Rightarrow>
             (case tids tid of
                Some tname \<Rightarrow>
                  [CompleteLine (escape tname) pid (micros prev_ts) (micros (f64_sub cur_ts prev_ts)) tid]
              | None \<Rightarrow>
                  [CompleteLine ''unnamed task'' pid (micros prev_ts) (micros (f64_sub cur_ts prev_ts)) tid])
         | None \<Rightarrow> []))"

section \<open>The fold over the events\<close>

record tracer =
  seen_tids :: "tid \<rightharpoonup> string"
  recurring_map :: "string \<rightharpoonup> tid"
  tidmap :: "tid \<rightharpoonup> tid"
  cur_pid :: u64
  cycle_start_ts :: f64
  prev_ts :: f64
  prev_task :: "tid option"

definition tracer_new :: "f64 \<Rightarrow> tracer" where
  "tracer_new ts =
     \<lparr>seen_tids = Map.empty, recurring_map = Map.empty, tidmap = Map.empty, cur_pid = 0,
      cycle_start_ts = f64_of_int 0, prev_ts = ts, prev_task = None\<rparr>"

definition map_or_self :: "tracer \<Rightarrow> tid option \<Rightarrow> tid option" where
  "map_or_self st t =
     (case Option.bind t (tidmap st) of Some r \<Rightarrow> Some r | None \<Rightarrow> t)"

definition event_tid :: "tracer \<Rightarrow> tid" where
  "event_tid st = (case prev_task st of Some t \<Rightarrow> t | None \<Rightarrow> 0)"

definition register_recurring :: "tid \<Rightarrow> string \<Rightarrow> tracer \<Rightarrow> tracer" where
  "register_recurring t s st =
     (if starts_with s ''R&'' then
        (case recurring_map st s of
           Some real_tid \<Rightarrow> st\<lparr>tidmap := (tidmap st)(t \<mapsto> real_tid)\<rparr>
         | None \<Rightarrow> st\<lparr>recurring_map := (recurring_map st)(s \<mapsto> t), tidmap := (tidmap st)(t \<mapsto> t)\<rparr>)
      else st)"

definition trace_step :: "tracer \<Rightarrow> trace_event \<Rightarrow> (tracer \<times> trace_line list, unit) outcome" where
  "trace_step st ev =
     (let cur_ts = ns_since_epoch ev in
      case event_data ev of
        New t s \<Rightarrow>
          (let st' = register_recurring t s st in
           Ok (st'\<lparr>seen_tids := (seen_tids st')(t \<mapsto> s)\<rparr>, [ThreadName (cur_pid st) t (escape s)]))
      | Switch t \<Rightarrow>
          and_then (complete_event (seen_tids st) (cur_pid st) cur_ts (prev_ts st)
                      (map_or_self st (prev_task st))) (\<lambda>out.
          Ok (st\<lparr>prev_ts := cur_ts, prev_task := map_or_self st (Some t)\<rparr>, out))
      | CycleStart \<Rightarrow> Ok (st\<lparr>cycle_start_ts := cur_ts, prev_ts := cur_ts\<rparr>, [])
      | CycleEnd \<Rightarrow>
          and_then (complete_event (seen_tids st) (cur_pid st) cur_ts (prev_ts st) (prev_task st)) (\<lambda>out.
          Ok (st\<lparr>prev_ts := cur_ts, prev_task := None\<rparr>, out))
      | TraceEnd \<Rightarrow>
          and_then (complete_event (seen_tids st) (cur_pid st) cur_ts (prev_ts st) (prev_task st)) (\<lambda>out.
          Ok (st\<lparr>seen_tids := Map.empty, recurring_map := Map.empty, tidmap := Map.empty,
                prev_ts := cur_ts, prev_task := None\<rparr>, out))
      | Pid pid \<Rightarrow> Ok (st\<lparr>cur_pid := pid\<rparr>, [ThreadName pid 0 ''unlabeled async''])
      | Event s \<Rightarrow> Ok (st, [Instant (escape s) (micros cur_ts) (cur_pid st) (event_tid st)])
      | Start s \<Rightarrow> Ok (st, [Begin (escape s) (micros cur_ts) (cur_pid st) (event_tid st)])
      | End \<Rightarrow> Ok (st, [EndLine (micros cur_ts) (cur_pid st) (event_tid st)]))"

fun trace_fold :: "tracer \<Rightarrow> trace_event list \<Rightarrow> (tracer \<times> trace_line list, unit) outcome" where
  "trace_fold st [] = Ok (st, [])"
| "trace_fold st (ev # evs) =
     and_then (trace_step st ev) (\<lambda>(st', out).
     and_then (trace_fold st' evs) (\<lambda>(st'', outs). Ok (st'', out @ outs)))"

text \<open>
  The first timestamp, the body of the loop over the files, and the loop.
\<close>

definition first_ts :: "trace_event option list \<Rightarrow> f64" where
  "first_ts events = (case events of Some e # _ \<Rightarrow> ns_since_epoch e | _ \<Rightarrow> f64_of_int 0)"

text \<open>
  Lines that were printed stay printed when the tool panics: a run is the lines and how it ended.
\<close>

fun trace_prints :: "tracer \<Rightarrow> trace_event list \<Rightarrow> trace_line list \<times> (unit, unit) outcome" where
  "trace_prints st [] = ([], Ok ())"
| "trace_prints st (ev # evs) =
     (case trace_step st ev of
        Ok (st', out) \<Rightarrow> (case trace_prints st' evs of (outs, r) \<Rightarrow> (out @ outs, r))
      | Err e \<Rightarrow> ([], Err e)
      | Panic m \<Rightarrow> ([], Panic m))"

definition trace_file :: "nom \<Rightarrow> bool \<Rightarrow> bytes \<Rightarrow> trace_line list \<times> (unit, unit) outcome" where
  "trace_file N dump_raw contents =
     (case parse_trace_events N contents of
        Ok (_, events) \<Rightarrow>
          if dump_raw then (map Debug events, Ok ())
          else trace_prints (tracer_new (first_ts events)) (List.map_filter id events)
      | Err e \<Rightarrow> ([], Panic ''parsing failed'')
      | Panic m \<Rightarrow> ([], Panic m))"

fun trace_files :: "nom \<Rightarrow> bool \<Rightarrow> bytes list \<Rightarrow> trace_line list \<times> (unit, unit) outcome" where
  "trace_files N dump_raw [] = ([], Ok ())"
| "trace_files N dump_raw (contents # files) =
     (case trace_file N dump_raw contents of
        (out, Ok _) \<Rightarrow> (case trace_files N dump_raw files of (outs, r) \<Rightarrow> (out @ outs, r))
      | (out, r) \<Rightarrow> (out, r))"

definition trace_main ::
  "nom \<Rightarrow> (f64 \<Rightarrow> string) \<Rightarrow> (trace_event option \<Rightarrow> string) \<Rightarrow> bool \<Rightarrow> bytes list \<Rightarrow> string list \<times> (unit, unit) outcome" where
  "trace_main N display debug dump_raw files =
     (case trace_files N dump_raw files of (out, r) \<Rightarrow> (''['' # map (render display debug) out, r))"

section \<open>What is expected of \<^verbatim>\<open>nom\<close>\<close>

text \<open>
  The documented behaviour of the combinators on byte slices: integers are little-endian and short input
  is \<open>Incomplete\<close>; \<open>opt!\<close> turns an error into \<open>None\<close>, \<open>complete!\<close> an incomplete
  parse into an error; \<open>many0!\<close> stops at an error and refuses a parser that consumes nothing.
\<close>

locale nom_contract =
  fixes N :: nom
  assumes le_u8_nil: "nom_le_u8 N [] = Err Incomplete"
    and le_u8_cons: "nom_le_u8 N (b # bs) = Ok (bs, b)"
    and le_u64: "nom_le_u64 N bs =
      (if length bs < 8 then Err Incomplete else Ok (drop 8 bs, word_of_nat (le_value (take 8 bs))))"
    and length_data: "nom_length_data N p bs =
      and_then (p bs) (\<lambda>(r, n). if length r < unat n then Err Incomplete else Ok (drop (unat n) r, take (unat n) r))"
    and opt: "nom_opt N q bs =
      (case q bs of Ok (r, x) \<Rightarrow> Ok (r, Some x) | Err ParseError \<Rightarrow> Ok (bs, None)
       | Err Incomplete \<Rightarrow> Err Incomplete | Panic m \<Rightarrow> Panic m)"
    and complete: "nom_complete N g bs = (case g bs of Err Incomplete \<Rightarrow> Err ParseError | r \<Rightarrow> r)"
    and many0_error: "g bs = Err ParseError \<Longrightarrow> nom_many0 N g bs = Ok (bs, [])"
    and many0_panic: "g bs = Panic m \<Longrightarrow> nom_many0 N g bs = Panic m"
    and many0_step: "g bs = Ok (r, x) \<Longrightarrow> length r < length bs \<Longrightarrow>
      nom_many0 N g bs = map_ok (\<lambda>(r', xs). (r', x # xs)) (nom_many0 N g r)"
    and many0_stuck: "g bs = Ok (bs, x) \<Longrightarrow> bs \<noteq> [] \<Longrightarrow> nom_many0 N g bs = Err ParseError"

text \<open>
  An executable instance.
\<close>

definition ref_le_u64 :: "u64 parser" where
  "ref_le_u64 bs =
     (if length bs < 8 then Err Incomplete else Ok (drop 8 bs, word_of_nat (le_value (take 8 bs))))"

function ref_many0 :: "trace_event option parser \<Rightarrow> trace_event option list parser" where
  "ref_many0 q bs =
     (case q bs of
        Ok (r, x) \<Rightarrow>
          if length r < length bs then map_ok (\<lambda>(r', xs). (r', x # xs)) (ref_many0 q r) else Err ParseError
      | Err ParseError \<Rightarrow> Ok (bs, [])
      | Err Incomplete \<Rightarrow> Err Incomplete
      | Panic m \<Rightarrow> Panic m)"
  by pat_completeness auto
termination
  by (relation "measure (\<lambda>(q, bs). length bs)") auto

declare ref_many0.simps [simp del]

definition ref_nom :: nom where
  "ref_nom =
     \<lparr>nom_le_u8 = (\<lambda>bs. case bs of [] \<Rightarrow> Err Incomplete | b # r \<Rightarrow> Ok (r, b)),
      nom_le_u64 = ref_le_u64,
      nom_length_data = (\<lambda>p bs. and_then (p bs) (\<lambda>(r, n).
        if length r < unat n then Err Incomplete else Ok (drop (unat n) r, take (unat n) r))),
      nom_opt = (\<lambda>q bs. case q bs of Ok (r, x) \<Rightarrow> Ok (r, Some x) | Err ParseError \<Rightarrow> Ok (bs, None)
        | Err Incomplete \<Rightarrow> Err Incomplete | Panic m \<Rightarrow> Panic m),
      nom_complete = (\<lambda>q bs. case q bs of Err Incomplete \<Rightarrow> Err ParseError | r \<Rightarrow> r),
      nom_many0 = ref_many0\<rparr>"

interpretation ref_nom: nom_contract ref_nom
  by unfold_locales (simp_all add: ref_nom_def ref_le_u64_def ref_many0.simps)

section \<open>The binary format\<close>

text \<open>
  The writer's side of the format, \<^verbatim>\<open>emit_event\<close> of
  \<^verbatim>\<open>src/lib/webkit_trace_event/binary_output/webkit_trace_event_binary_output.ml\<close>: a tag, the fields as
  little-endian words, texts with their length. It writes nothing for the start of a cycle. An event is put
  together in a buffer of 512 bytes (\<^verbatim>\<open>o1trace_webkit_event.ml\<close>); a text that does not fit raises an
  exception, which that file reports as plain text in the trace.
\<close>

definition le_word :: "u64 \<Rightarrow> bytes" where
  "le_word x = le_bytes 8 (unat x)"

definition le_text :: "string \<Rightarrow> bytes" where
  "le_text s = le_bytes 8 (length s) @ bytes_of_chars s"

fun emitted :: "u64 \<Rightarrow> event_kind \<Rightarrow> bytes" where
  "emitted ns (New t s) = 0 # le_word ns @ le_word t @ le_text s"
| "emitted ns (Switch t) = 1 # le_word ns @ le_word t"
| "emitted ns CycleStart = []"
| "emitted ns CycleEnd = 3 # le_word ns"
| "emitted ns (Pid p) = 4 # le_word p"
| "emitted ns (Event s) = 5 # le_word ns @ le_text s"
| "emitted ns (Start s) = 6 # le_word ns @ le_text s"
| "emitted ns End = 7 # le_word ns"
| "emitted ns TraceEnd = 8 # le_word ns"

fun read_event :: "u64 \<Rightarrow> event_kind \<Rightarrow> trace_event" where
  "read_event ns (Pid p) = \<lparr>ns_since_epoch = f64_of_int 0, event_data = Pid p\<rparr>"
| "read_event ns k = event_at ns k"

definition text_ok :: "string \<Rightarrow> bool" where
  "text_ok s \<longleftrightarrow> utf8_valid (bytes_of_chars s) \<and> length s < 2 ^ 64"

fun event_text_ok :: "event_kind \<Rightarrow> bool" where
  "event_text_ok (New t s) \<longleftrightarrow> text_ok s"
| "event_text_ok (Event s) \<longleftrightarrow> text_ok s"
| "event_text_ok (Start s) \<longleftrightarrow> text_ok s"
| "event_text_ok k \<longleftrightarrow> True"

text \<open>
  What the writer leaves in the trace for an event: its bytes when they fit into the buffer, and otherwise
  the report of the exception \<open>exn\<close>. The events it records are those that are not the start of a cycle.
\<close>

definition written :: "string \<Rightarrow> u64 \<Rightarrow> event_kind \<Rightarrow> bytes" where
  "written exn ns k =
     (if length (emitted ns k) \<le> 512 then emitted ns k
      else bytes_of_chars (''failed to write o1trace event: '' @ exn @ [CHR 0x0A]))"

definition recorded :: "(u64 \<times> event_kind) list \<Rightarrow> trace_event option list" where
  "recorded evs = map (\<lambda>(ns, k). Some (read_event ns k)) (filter (\<lambda>(ns, k). k \<noteq> CycleStart) evs)"

definition event_ok :: "event_kind \<Rightarrow> bool" where
  "event_ok k \<longleftrightarrow> event_text_ok k \<and> length (emitted 0 k) \<le> 512"

lemma length_emitted: "length (emitted ns k) = length (emitted ns' k)"
  by (cases k) (simp_all add: le_word_def)

lemma written_ok: "event_ok k \<Longrightarrow> written exn ns k = emitted ns k"
  using length_emitted [of ns k 0] by (simp add: written_def event_ok_def)

lemma chars_of_bytes_of_chars [simp]: "chars_of_bytes (bytes_of_chars s) = s"
proof -
  have "char_of (unat (word_of_nat (of_char c) :: u8)) = c" for c :: char
    by (simp add: unat_of_nat)
  then show ?thesis by (simp add: chars_of_bytes_def bytes_of_chars_def o_def map_idI)
qed

lemma length_bytes_of_chars [simp]: "length (bytes_of_chars s) = length s"
  by (simp add: bytes_of_chars_def)

lemma length_le_word [simp]: "length (le_word x) = 8"
  by (simp add: le_word_def)

context nom_contract
begin

lemma le_u64_word: "nom_le_u64 N (take j (le_word x @ r)) =
  (if j < 8 then Err Incomplete else Ok (take (j - 8) r, x))"
proof (cases "j < 8")
  case False
  have "unat x < 256 ^ 8" using unsigned_less [of x] by simp
  then have "word_of_nat (le_value (le_word x)) = x" by (simp add: le_word_def le_value_le_bytes)
  with False show ?thesis by (simp add: le_u64 drop_take)
qed (simp add: le_u64)

lemma parse_text_take:
  assumes "text_ok s"
  shows "parse_text N k ns (take j (le_text s @ r)) =
    (if j < length (le_text s) then Err Incomplete
     else Ok (take (j - length (le_text s)) r, event_at ns (k s)))"
proof -
  let ?n = "word_of_nat (length s) :: u64"
  have n: "unat ?n = length s" using assms by (simp add: text_ok_def unat_of_nat)
  have split: "le_text s @ r = le_word ?n @ bytes_of_chars s @ r" by (simp add: le_text_def le_word_def n)
  have "from_utf8 (bytes_of_chars s) = Some s" using assms by (simp add: text_ok_def from_utf8_def)
  moreover have "length (le_text s) = 8 + length s" by (simp add: le_text_def)
  ultimately show ?thesis
    unfolding split parse_text_def length_data le_u64_word
    by (auto simp: n take_append drop_take min_def)
qed

lemma parse_emitted_take:
  assumes "event_text_ok k" and "k \<noteq> CycleStart"
  shows "parse_trace_event N (take j (emitted ns k @ r)) =
    (if j < length (emitted ns k) then Err Incomplete
     else Ok (take (j - length (emitted ns k)) r, read_event ns k))"
proof (cases j)
  case 0
  then show ?thesis using assms(2) by (cases k) (simp_all add: parse_trace_event_def le_u8_nil)
next
  case (Suc i)
  then show ?thesis using assms
    by (cases k) (simp_all add: parse_trace_event_def le_u8_cons le_u64_word parse_text_take
        del: take_append, auto)
qed

lemma parse_emitted:
  "event_text_ok k \<Longrightarrow> k \<noteq> CycleStart \<Longrightarrow> parse_trace_event N (emitted ns k @ r) = Ok (r, read_event ns k)"
  using parse_emitted_take [of k "length (emitted ns k @ r)" ns r] by simp

lemma parse_truncated:
  assumes "event_text_ok k" and "j < length (emitted ns k)"
  shows "parse_trace_event N (take j (emitted ns k)) = Err Incomplete"
proof -
  have "k \<noteq> CycleStart" using assms(2) by auto
  with parse_emitted_take [OF assms(1), of j ns "[]"] assms(2) show ?thesis by simp
qed

abbreviation item :: "trace_event option parser" where
  "item \<equiv> nom_complete N (nom_opt N (parse_trace_event N))"

lemma item_emitted: "event_text_ok k \<Longrightarrow> k \<noteq> CycleStart \<Longrightarrow> item (emitted ns k @ r) = Ok (r, Some (read_event ns k))"
  by (simp add: complete opt parse_emitted)

lemma item_truncated:
  "event_text_ok k \<Longrightarrow> j < length (emitted ns k) \<Longrightarrow> item (take j (emitted ns k)) = Err ParseError"
  by (simp add: complete opt parse_truncated)

lemma item_end: "item [] = Err ParseError"
  by (simp add: complete opt parse_trace_event_def le_u8_nil)

lemma item_unknown: "8 < unat tag \<Longrightarrow> item (tag # r) = Ok (tag # r, None)"
  by (simp add: complete opt parse_trace_event_def le_u8_cons)

lemma emitted_nonempty: "k \<noteq> CycleStart \<Longrightarrow> 0 < length (emitted ns k)"
  by (cases k) simp_all

lemma parse_all:
  assumes "\<forall>(ns, k) \<in> set evs. event_ok k"
  shows "parse_trace_events N (concat (map (\<lambda>(ns, k). written exn ns k) evs) @ r) =
    map_ok (\<lambda>(r', xs). (r', recorded evs @ xs)) (parse_trace_events N r)"
  using assms
proof (induction evs)
  case Nil
  then show ?case by (cases "parse_trace_events N r") (auto simp: recorded_def)
next
  case (Cons ev evs)
  obtain ns k where ev: "ev = (ns, k)" by (cases ev)
  let ?tail = "concat (map (\<lambda>(ns, k). written exn ns k) evs) @ r"
  have ok: "event_ok k" using Cons.prems ev by simp
  have "parse_trace_events N (emitted ns k @ ?tail) =
    map_ok (\<lambda>(r', xs). (r', Some (read_event ns k) # xs)) (parse_trace_events N ?tail)" if "k \<noteq> CycleStart"
    unfolding parse_trace_events_def
    using ok emitted_nonempty [OF that, of ns] that by (intro many0_step item_emitted) (auto simp: event_ok_def)
  then show ?case using Cons ok
    by (cases "parse_trace_events N r"; cases "k = CycleStart") (auto simp: ev written_ok recorded_def)
qed

lemma parse_stops: "item r = Err ParseError \<Longrightarrow> parse_trace_events N r = Ok (r, [])"
  unfolding parse_trace_events_def by (rule many0_error)

lemma parse_refuses: "8 < unat tag \<Longrightarrow> parse_trace_events N (tag # r) = Err ParseError"
  unfolding parse_trace_events_def using item_unknown [of tag r] by (intro many0_stuck) simp_all

end

section \<open>Recurring tasks\<close>

text \<open>
  The tables while threads are announced with fresh identifiers: a thread whose name starts with
  \<open>R&\<close> is mapped to the first thread of that name, and nothing else is mapped.
\<close>

definition tables_ok :: "tracer \<Rightarrow> bool" where
  "tables_ok st \<longleftrightarrow>
     (\<forall>t. tidmap st t =
        (case seen_tids st t of
           Some s \<Rightarrow> if starts_with s ''R&'' then recurring_map st s else None
         | None \<Rightarrow> None)) \<and>
     (\<forall>t s. seen_tids st t = Some s \<longrightarrow> starts_with s ''R&'' \<longrightarrow> recurring_map st s \<noteq> None) \<and>
     (\<forall>s r. recurring_map st s = Some r \<longrightarrow> seen_tids st r = Some s \<and> starts_with s ''R&'')"

fun fresh_event :: "tracer \<Rightarrow> trace_event \<Rightarrow> bool" where
  "fresh_event st ev \<longleftrightarrow> (case event_data ev of New t s \<Rightarrow> seen_tids st t = None | _ \<Rightarrow> True)"

lemma tables_ok_new: "tables_ok (tracer_new ts)"
  by (simp add: tables_ok_def tracer_new_def)

lemma tables_ok_cong:
  "seen_tids st' = seen_tids st \<Longrightarrow> tidmap st' = tidmap st \<Longrightarrow> recurring_map st' = recurring_map st \<Longrightarrow>
   tables_ok st' = tables_ok st"
  by (simp only: tables_ok_def)

lemma tables_okD:
  assumes "tables_ok st"
  shows "tidmap st t = (case seen_tids st t of
           Some s \<Rightarrow> if starts_with s ''R&'' then recurring_map st s else None | None \<Rightarrow> None)"
    and "seen_tids st t = Some s \<Longrightarrow> starts_with s ''R&'' \<Longrightarrow> \<exists>r. recurring_map st s = Some r"
    and "recurring_map st s = Some r \<Longrightarrow> seen_tids st r = Some s \<and> starts_with s ''R&''"
  using assms by (simp_all add: tables_ok_def)

lemma tables_ok_register:
  assumes "tables_ok st" and "seen_tids st t = None"
  shows "tables_ok ((register_recurring t s st)\<lparr>seen_tids := (seen_tids (register_recurring t s st))(t \<mapsto> s)\<rparr>)"
proof -
  note ok = tables_okD [OF assms(1)]
  have other: "u \<noteq> t" if "recurring_map st s' = Some u" for s' u
    using ok(3) [OF that] assms(2) by auto
  have none: "s' \<noteq> s" if "recurring_map st s = None" "seen_tids st u = Some s'" "starts_with s' ''R&''" for u s'
    using ok(2) [OF that(2, 3)] that(1) by auto
  show ?thesis
  proof (cases "starts_with s ''R&'' \<and> recurring_map st s = None")
    case True
    then show ?thesis
      unfolding tables_ok_def register_recurring_def
      using ok(2, 3) other none by (auto simp: ok(1) split: option.splits)
  next
    case False
    then show ?thesis
      unfolding tables_ok_def register_recurring_def
      using ok(2, 3) other assms(2) by (auto simp: ok(1) split: option.splits)
  qed
qed

lemma trace_step_tables:
  assumes "tables_ok st" and "fresh_event st ev" and "trace_step st ev = Ok (st', out)"
  shows "tables_ok st'"
proof (cases "event_data ev")
  case (New t s)
  then show ?thesis using assms tables_ok_register [of st t s] by (simp add: trace_step_def Let_def)
next
  case TraceEnd
  then show ?thesis using assms(3) by (auto simp: trace_step_def tables_ok_def Let_def)
qed (use assms in \<open>auto simp: trace_step_def Let_def cong: tables_ok_cong\<close>)

fun fresh_run :: "tracer \<Rightarrow> trace_event list \<Rightarrow> bool" where
  "fresh_run st [] \<longleftrightarrow> True"
| "fresh_run st (ev # evs) \<longleftrightarrow>
     fresh_event st ev \<and> (case trace_step st ev of Ok (st', _) \<Rightarrow> fresh_run st' evs | _ \<Rightarrow> True)"

lemma trace_fold_tables:
  "trace_fold st evs = Ok (st', out) \<Longrightarrow> fresh_run st evs \<Longrightarrow> tables_ok st \<Longrightarrow> tables_ok st'"
proof (induction evs arbitrary: st out)
  case (Cons ev evs)
  then obtain st1 o1 o2 where "trace_step st ev = Ok (st1, o1)" and "trace_fold st1 evs = Ok (st', o2)"
    by auto
  with Cons show ?case using trace_step_tables by auto
qed simp

lemma tables_ok_map:
  assumes "tables_ok st" and "seen_tids st u = Some s"
  shows "map_or_self st (Some u) = (if starts_with s ''R&'' then recurring_map st s else Some u)"
  using tables_okD(1) [OF assms(1), of u] tables_okD(2) [OF assms] assms(2)
  by (auto simp: map_or_self_def split: option.splits)

lemma tables_ok_map_unseen:
  assumes "tables_ok st" and "seen_tids st u = None"
  shows "map_or_self st (Some u) = Some u"
  using tables_okD(1) [OF assms(1), of u] assms(2) by (simp add: map_or_self_def)

lemma map_or_self_idem:
  assumes "tables_ok st"
  shows "map_or_self st (map_or_self st t) = map_or_self st t"
proof (cases t)
  case (Some u)
  show ?thesis
  proof (cases "seen_tids st u")
    case None
    then show ?thesis using assms Some by (simp add: tables_ok_map_unseen)
  next
    case s: (Some s)
    show ?thesis
    proof (cases "starts_with s ''R&''")
      case True
      then obtain r where "recurring_map st s = Some r" using tables_okD(2) [OF assms s] by blast
      then show ?thesis
        using True Some s tables_okD(3) [OF assms, of s r] by (simp add: tables_ok_map [OF assms])
    qed (use Some s in \<open>simp add: tables_ok_map [OF assms]\<close>)
  qed
qed (simp add: map_or_self_def)

section \<open>The intervals on the time line\<close>

fun complete_times :: "trace_line list \<Rightarrow> (f64 \<times> f64) list" where
  "complete_times [] = []"
| "complete_times (CompleteLine name pid ts dur tid # out) = (ts, dur) # complete_times out"
| "complete_times (_ # out) = complete_times out"

definition interval_times :: "nat \<times> nat \<Rightarrow> f64 \<times> f64" where
  "interval_times = (\<lambda>(a, b). (round_f64 False a 1000, round_f64 False (b - a) 1000))"

definition end_points :: "(nat \<times> nat) list \<Rightarrow> nat list" where
  "end_points ivs = concat (map (\<lambda>(a, b). [a, b]) ivs)"

fun is_pid :: "event_kind \<Rightarrow> bool" where
  "is_pid (Pid p) \<longleftrightarrow> True"
| "is_pid k \<longleftrightarrow> False"

definition at_time :: "tracer \<Rightarrow> nat \<Rightarrow> bool" where
  "at_time st p \<longleftrightarrow> prev_ts st = f64_of_int (int p) \<and> p < 2 ^ 53"

lemma complete_times_append [simp]: "complete_times (xs @ ys) = complete_times xs @ complete_times ys"
  by (induction xs rule: complete_times.induct) auto

lemma end_points_append [simp]: "end_points (xs @ ys) = end_points xs @ end_points ys"
  by (simp add: end_points_def)

lemma end_points_single [simp]: "end_points [(a, b)] = [a, b]" "end_points [] = []"
  by (simp_all add: end_points_def)

lemma micros_of_nat: "n < 2 ^ 53 \<Longrightarrow> micros (f64_of_int (int n)) = round_f64 False n 1000"
  using f64_div_of_int [of "int n" 1000] by (simp add: micros_def)

lemma micros_difference:
  assumes "p \<le> n" and "n < 2 ^ 53"
  shows "micros (f64_sub (f64_of_int (int n)) (f64_of_int (int p))) = round_f64 False (n - p) 1000"
proof -
  have "f64_sub (f64_of_int (int n)) (f64_of_int (int p)) = f64_of_int (int (n - p))"
    using assms f64_sub_of_int [of "int n" "int p"] by (simp add: of_nat_diff)
  moreover have "n - p < 2 ^ 53" using assms by simp
  ultimately show ?thesis by (simp only: micros_of_nat)
qed

lemma complete_event_times:
  assumes "complete_event tids pid (f64_of_int (int n)) (f64_of_int (int p)) task = Ok out"
    and "p \<le> n" and "n < 2 ^ 53"
  shows "\<exists>ivs. complete_times out = map interval_times ivs \<and> sorted (p # end_points ivs @ [n])"
proof (cases task)
  case None
  then have "out = []" using assms(1) by (simp add: complete_event_def)
  then show ?thesis using assms(2) by (intro exI [of _ "[]"]) simp
next
  case (Some t)
  then obtain name where "out = [CompleteLine name pid (micros (f64_of_int (int p)))
      (micros (f64_sub (f64_of_int (int n)) (f64_of_int (int p)))) t]"
    using assms(1) by (auto simp: complete_event_def split: option.splits)
  moreover have "micros (f64_of_int (int p)) = round_f64 False p 1000"
    using assms(2, 3) by (intro micros_of_nat) simp
  ultimately have "complete_times out = map interval_times [(p, n)]"
    using micros_difference [OF assms(2, 3)] by (simp add: interval_times_def)
  then show ?thesis using assms(2) by (intro exI [of _ "[(p, n)]"]) simp
qed


lemma event_at_ts [simp]:
  "ns_since_epoch (event_at ns k) = f64_of_int (int (unat ns))" "event_data (event_at ns k) = k"
  by (simp_all add: event_at_def)

lemma read_event_simps [simp]:
  "\<not> is_pid k \<Longrightarrow> read_event ns k = event_at ns k" "event_data (read_event ns k) = k"
  by (cases k; simp)+

lemma trace_step_times:
  assumes "trace_step st (read_event ns k) = Ok (st', out)" and "at_time st p"
    and "\<not> is_pid k \<Longrightarrow> p \<le> unat ns \<and> unat ns < 2 ^ 53"
  shows "\<exists>q ivs. at_time st' q \<and> (q = p \<or> (\<not> is_pid k \<and> q = unat ns)) \<and>
    complete_times out = map interval_times ivs \<and> sorted (p # end_points ivs @ [q])"
proof -
  have ts: "prev_ts st = f64_of_int (int p)" using assms(2) by (simp add: at_time_def)
  have stay: ?thesis if "prev_ts st' = prev_ts st" "complete_times out = []"
    using that assms(2) by (intro exI [of _ p] exI [of _ "[]"]) (simp add: at_time_def)
  have move: ?thesis
    if "\<not> is_pid k" "prev_ts st' = f64_of_int (int (unat ns))"
      "\<exists>tids pid task. complete_event tids pid (f64_of_int (int (unat ns))) (f64_of_int (int p)) task = Ok out"
  proof -
    have n: "p \<le> unat ns" "unat ns < 2 ^ 53" using assms(3) [OF that(1)] by auto
    have "at_time st' (unat ns)" using that(2) n(2) by (simp add: at_time_def)
    then show ?thesis using complete_event_times [OF _ n] that(1, 3) by blast
  qed
  show ?thesis
  proof (cases k)
    case (Switch t)
    then show ?thesis using assms(1) by (intro move) (auto simp: trace_step_def Let_def ts)
  next
    case CycleStart
    then have "prev_ts st' = f64_of_int (int (unat ns))" "out = []"
      using assms(1) by (auto simp: trace_step_def Let_def)
    then show ?thesis using assms(3) CycleStart
      by (intro exI [of _ "unat ns"] exI [of _ "[]"]) (simp add: at_time_def)
  next
    case CycleEnd
    then show ?thesis using assms(1) by (intro move) (auto simp: trace_step_def Let_def ts)
  next
    case TraceEnd
    then show ?thesis using assms(1) by (intro move) (auto simp: trace_step_def Let_def ts)
  qed (rule stay; use assms(1) in \<open>auto simp: trace_step_def Let_def register_recurring_def split: option.splits if_splits\<close>)+
qed

definition timed_events :: "(u64 \<times> event_kind) list \<Rightarrow> nat list" where
  "timed_events evs = map (\<lambda>(ns, k). unat ns) (filter (\<lambda>(ns, k). \<not> is_pid k) evs)"

lemma trace_fold_times:
  assumes "trace_fold st (map (\<lambda>(ns, k). read_event ns k) evs) = Ok (st', out)" and "at_time st p"
    and "sorted (p # timed_events evs)" and "\<forall>n \<in> set (timed_events evs). n < 2 ^ 53"
  shows "\<exists>ivs. complete_times out = map interval_times ivs \<and> sorted (p # end_points ivs)"
  using assms
proof (induction evs arbitrary: st p out)
  case Nil
  then show ?case by (intro exI [of _ "[]"]) simp
next
  case (Cons ev evs)
  obtain ns k where ev: "ev = (ns, k)" by (cases ev)
  from Cons.prems(1) obtain st1 o1 o2 where
    step: "trace_step st (read_event ns k) = Ok (st1, o1)" and
    rest: "trace_fold st1 (map (\<lambda>(ns, k). read_event ns k) evs) = Ok (st', o2)" and out: "out = o1 @ o2"
    by (auto simp: ev)
  have tail: "sorted (timed_events evs)" "\<forall>n \<in> set (timed_events evs). n < 2 ^ 53"
    "\<forall>n \<in> set (timed_events evs). p \<le> n" and
    here: "\<not> is_pid k \<Longrightarrow> p \<le> unat ns \<and> unat ns < 2 ^ 53"
    "\<not> is_pid k \<Longrightarrow> \<forall>n \<in> set (timed_events evs). unat ns \<le> n"
    using Cons.prems(3, 4) by (auto simp: ev timed_events_def split: if_splits)
  obtain q ivs1 where q: "at_time st1 q" "q = p \<or> (\<not> is_pid k \<and> q = unat ns)"
    "complete_times o1 = map interval_times ivs1" "sorted (p # end_points ivs1 @ [q])"
    using trace_step_times [OF step Cons.prems(2) here(1)] by blast
  have "\<forall>n \<in> set (timed_events evs). q \<le> n" using q(2) tail(3) here(2) by auto
  then have "sorted (q # timed_events evs)" using tail(1) by simp
  then obtain ivs2 where "complete_times o2 = map interval_times ivs2" "sorted (q # end_points ivs2)"
    using Cons.IH [OF rest q(1) _ tail(2)] by blast
  then have "complete_times out = map interval_times (ivs1 @ ivs2)"
    "sorted (p # end_points (ivs1 @ ivs2))"
    using q(3, 4) by (fastforce simp: out sorted_append)+
  then show ?case by blast
qed

section \<open>Quoting\<close>

text \<open>
  Reading the body of a JSON string up to its closing quote.
\<close>

fun json_body :: "string \<Rightarrow> (string \<times> string) option" where
  "json_body [] = None"
| "json_body (c # s) =
     (if c = CHR 0x22 then Some ([], s)
      else if c = CHR 0x5C then
        (case s of [] \<Rightarrow> None | d # s' \<Rightarrow> map_option (\<lambda>(b, r). (d # b, r)) (json_body s'))
      else map_option (\<lambda>(b, r). (c # b, r)) (json_body s))"

lemma json_body_escape:
  "CHR 0x5C \<notin> set s \<Longrightarrow> json_body (escape s @ CHR 0x22 # r) = Some (s, r)"
  by (induction s) auto

text \<open>
  A backslash is not escaped: a name that ends in one swallows the closing quote.
\<close>

lemma escape_backslash:
  "CHR 0x5C \<notin> set s \<Longrightarrow> json_body (escape (s @ [CHR 0x5C]) @ [CHR 0x22]) = None"
  by (induction s) auto

section \<open>Properties\<close>

text \<open>
  C34. Reading what the daemon wrote. The events that the writer puts into a trace, every kind but the start of
  a cycle, are parsed back in order; a last event that was cut off anywhere is dropped without an error. An
  event whose text does not fit the writer's buffer leaves a report in the trace that makes the tool panic, as
  does any byte that is not the tag of an event.
\<close>

theorem trace_parse_emitted:
  assumes "nom_contract N" and "\<forall>(ns, k) \<in> set evs. event_ok k"
  shows "parse_trace_events N (concat (map (\<lambda>(ns, k). written exn ns k) evs)) = Ok ([], recorded evs) \<and>
    (event_ok k \<and> j < length (written exn ns k) \<longrightarrow>
      parse_trace_events N (concat (map (\<lambda>(ns, k). written exn ns k) evs) @ take j (written exn ns k)) =
        Ok (take j (written exn ns k), recorded evs)) \<and>
    (512 < length (emitted ns k) \<longrightarrow>
      trace_file N dump_raw (concat (map (\<lambda>(ns, k). written exn ns k) evs) @ written exn ns k @ r) =
        ([], Panic ''parsing failed'')) \<and>
    (8 < unat tag \<longrightarrow>
      trace_file N dump_raw (concat (map (\<lambda>(ns, k). written exn ns k) evs) @ tag # r) =
        ([], Panic ''parsing failed''))"
proof -
  note all = nom_contract.parse_all [OF assms, of exn] and stops = nom_contract.parse_stops [OF assms(1)]
    and refuses = nom_contract.parse_refuses [OF assms(1)]
  have whole: "parse_trace_events N (concat (map (\<lambda>(ns, k). written exn ns k) evs)) = Ok ([], recorded evs)"
    using all [of "[]"] stops [OF nom_contract.item_end [OF assms(1)]] by simp
  have cut: "parse_trace_events N (concat (map (\<lambda>(ns, k). written exn ns k) evs) @ take j (written exn ns k)) =
      Ok (take j (written exn ns k), recorded evs)" if "event_ok k" "j < length (written exn ns k)"
    using all [of "take j (emitted ns k)"] stops [OF nom_contract.item_truncated [OF assms(1), of k j ns]] that
    by (simp add: written_ok event_ok_def)
  have bad: "trace_file N dump_raw (concat (map (\<lambda>(ns, k). written exn ns k) evs) @ tag # r) = ([], Panic ''parsing failed'')"
    if "8 < unat tag" for tag r
    using all [of "tag # r"] refuses [OF that, of r] by (simp add: trace_file_def)
  have "\<exists>bs. written exn ns k = 102 # bs" if "512 < length (emitted ns k)"
    using that by (simp add: written_def bytes_of_chars_def)
  with whole cut bad [of 102] bad [of tag] show ?thesis by fastforce
qed

theorem trace_parse_emitted_witness:
  "parse_trace_events ref_nom (written [] 0 (Pid 7) @ written [] 3 CycleStart @ written [] 5 (New 1 ''main'')) =
     Ok ([], [Some (read_event 0 (Pid 7)), Some (read_event 5 (New 1 ''main''))]) \<and>
   parse_trace_events ref_nom (written [] 0 (Pid 7) @ take 4 (written [] 9 CycleEnd)) =
     Ok (take 4 (written [] 9 CycleEnd), [Some (read_event 0 (Pid 7))]) \<and>
   trace_file ref_nom False (written [] 0 (Event (replicate 500 CHR ''x''))) = ([], Panic ''parsing failed'') \<and>
   trace_file ref_nom False [9] = ([], Panic ''parsing failed'')"
proof -
  note parse = trace_parse_emitted [OF ref_nom.nom_contract_axioms]
  have "parse_trace_events ref_nom (written [] 0 (Pid 7) @ written [] 3 CycleStart @ written [] 5 (New 1 ''main'')) =
     Ok ([], [Some (read_event 0 (Pid 7)), Some (read_event 5 (New 1 ''main''))])"
    using parse [of "[(0, Pid 7), (3, CycleStart), (5, New 1 ''main'')]" "[]"]
    by (simp add: event_ok_def text_ok_def le_text_def bytes_of_chars_def recorded_def del: read_event.simps)
  moreover have "parse_trace_events ref_nom (written [] 0 (Pid 7) @ take 4 (written [] 9 CycleEnd)) =
     Ok (take 4 (written [] 9 CycleEnd), [Some (read_event 0 (Pid 7))])"
    using parse [of "[(0, Pid 7)]" "[]" CycleEnd 4 9]
    by (simp add: event_ok_def written_def recorded_def del: read_event.simps)
  moreover have "trace_file ref_nom False (written [] 0 (Event (replicate 500 CHR ''x''))) = ([], Panic ''parsing failed'')"
    using parse [of "[]" "[]" "Event (replicate 500 CHR ''x'')" 0 0 False "[]"] by (simp add: le_text_def)
  moreover have "trace_file ref_nom False [9] = ([], Panic ''parsing failed'')"
    using parse [of "[]" "[]" _ _ _ False "[]" 9] by simp
  ultimately show ?thesis by blast
qed

text \<open>
  The events that report on the running task, the process after an event, and the position of the first
  report while the process is unknown.
\<close>

fun reports :: "event_kind \<Rightarrow> bool" where
  "reports (Switch t) = True"
| "reports CycleEnd = True"
| "reports TraceEnd = True"
| "reports _ = False"

fun pid_after :: "u64 \<Rightarrow> event_kind \<Rightarrow> u64" where
  "pid_after pid (Pid p) = p"
| "pid_after pid _ = pid"

fun first_unattributed :: "u64 \<Rightarrow> trace_event list \<Rightarrow> nat option" where
  "first_unattributed pid [] = None"
| "first_unattributed pid (ev # evs) =
     (if pid = 0 \<and> reports (event_data ev) then Some 0
      else map_option Suc (first_unattributed (pid_after pid (event_data ev)) evs))"

lemma trace_step_panics:
  "cur_pid st = 0 \<Longrightarrow> reports (event_data ev) \<Longrightarrow> trace_step st ev = Panic ''assertion failed: pid != 0''"
  by (cases "event_data ev") (simp_all add: trace_step_def complete_event_def rust_assert_def Let_def)

lemma trace_step_goes_on:
  assumes "\<not> (cur_pid st = 0 \<and> reports (event_data ev))"
  obtains st' out where "trace_step st ev = Ok (st', out)" "cur_pid st' = pid_after (cur_pid st) (event_data ev)"
  using assms
  by (cases "event_data ev") (auto simp: trace_step_def complete_event_def register_recurring_def Let_def split: option.splits)

lemma trace_prints_split:
  "case first_unattributed (cur_pid st) evs of
     None \<Rightarrow> \<exists>st' out. trace_fold st evs = Ok (st', out) \<and> trace_prints st evs = (out, Ok ())
   | Some n \<Rightarrow> \<exists>st' out. trace_fold st (take n evs) = Ok (st', out) \<and>
       trace_prints st evs = (out, Panic ''assertion failed: pid != 0'')"
proof (induction evs arbitrary: st)
  case (Cons ev evs)
  show ?case
  proof (cases "cur_pid st = 0 \<and> reports (event_data ev)")
    case True
    then show ?thesis by (simp add: trace_step_panics)
  next
    case False
    then obtain st' out where step: "trace_step st ev = Ok (st', out)" "cur_pid st' = pid_after (cur_pid st) (event_data ev)"
      by (rule trace_step_goes_on)
    show ?thesis
      using Cons.IH [of st'] False step by (cases "first_unattributed (cur_pid st') evs") auto
  qed
qed simp

lemma trace_files_append:
  "trace_files N dump_raw xs = (out, Ok ()) \<Longrightarrow>
   trace_files N dump_raw (xs @ ys) = (out @ fst (trace_files N dump_raw ys), snd (trace_files N dump_raw ys))"
  by (induction xs arbitrary: out) (auto split: prod.splits outcome.splits)

text \<open>
  C35. When the tool panics, and what it has printed by then. The events of a file are processed to the end
  unless one that reports on the running task comes before a process identifier other than zero; then the
  tool stops there with the lines of exactly the events before it. A file that ends in a panic
  leaves the lines of all files before it and its own lines printed, and no later file is
  looked at.
\<close>

theorem trace_panics_exactly:
  "(case first_unattributed 0 evs of
      None \<Rightarrow> \<exists>st out. trace_fold (tracer_new ts) evs = Ok (st, out) \<and> trace_prints (tracer_new ts) evs = (out, Ok ())
    | Some n \<Rightarrow> \<exists>st out. trace_fold (tracer_new ts) (take n evs) = Ok (st, out) \<and>
        trace_prints (tracer_new ts) evs = (out, Panic ''assertion failed: pid != 0'')) \<and>
   (trace_main N display debug dump_raw before = (printed, Ok ()) \<and> trace_file N dump_raw contents = (lines, Panic m) \<longrightarrow>
      trace_main N display debug dump_raw (before @ contents # later) = (printed @ map (render display debug) lines, Panic m))"
proof (intro conjI impI)
  show "case first_unattributed 0 evs of
      None \<Rightarrow> \<exists>st out. trace_fold (tracer_new ts) evs = Ok (st, out) \<and> trace_prints (tracer_new ts) evs = (out, Ok ())
    | Some n \<Rightarrow> \<exists>st out. trace_fold (tracer_new ts) (take n evs) = Ok (st, out) \<and>
        trace_prints (tracer_new ts) evs = (out, Panic ''assertion failed: pid != 0'')"
    using trace_prints_split [of "tracer_new ts" evs] by (simp add: tracer_new_def)
  assume run: "trace_main N display debug dump_raw before = (printed, Ok ()) \<and> trace_file N dump_raw contents = (lines, Panic m)"
  then obtain out where out: "trace_files N dump_raw before = (out, Ok ())" "printed = ''['' # map (render display debug) out"
    by (auto simp: trace_main_def split: prod.splits)
  show "trace_main N display debug dump_raw (before @ contents # later) = (printed @ map (render display debug) lines, Panic m)"
    using trace_files_append [OF out(1), of "contents # later"] run out(2) by (simp add: trace_main_def)
qed

theorem trace_panics_exactly_witness:
  "trace_prints (tracer_new (f64_of_int 0)) [read_event 5 (New 1 ''a''), read_event 6 (Switch 1), read_event 7 CycleStart] =
     ([ThreadName 0 1 ''a''], Panic ''assertion failed: pid != 0'') \<and>
   trace_main ref_nom (\<lambda>_. ''t'') (\<lambda>_. ''e'') False ([] @ [9] # [[]]) = ([''[''], Panic ''parsing failed'')"
proof -
  let ?evs = "[read_event 5 (New 1 ''a''), read_event 6 (Switch 1), read_event 7 CycleStart]"
  have "trace_file ref_nom False [9] = ([], Panic ''parsing failed'')"
    using nom_contract.parse_refuses [OF ref_nom.nom_contract_axioms, of 9 "[]"] by (simp add: trace_file_def)
  moreover have "trace_main ref_nom (\<lambda>_. ''t'') (\<lambda>_. ''e'') False [] = ([''[''], Ok ())" by (simp add: trace_main_def)
  ultimately show ?thesis
    using trace_panics_exactly [where evs = ?evs and ts = "f64_of_int 0" and N = ref_nom and display = "\<lambda>_. ''t''"
        and debug = "\<lambda>_. ''e''" and dump_raw = False and before = "[]" and contents = "[9]" and later = "[[]]"]
    by (simp add: trace_step_def register_recurring_def starts_with_def tracer_new_def Let_def)
qed


definition recurring_example :: "trace_event list" where
  "recurring_example = [read_event 0 (Pid 7), read_event 5 (New 1 ''R&x''), read_event 6 (New 2 ''R&x'')]"


text \<open>
  C36. The bars of the viewer never overlap. For timestamps below \<open>2 ^ 53\<close> nanoseconds that do not
  decrease, the lines reported as complete are intervals on the time line, each starting no earlier than
  the previous one ended, with start and duration converted to microseconds by one correct rounding each.
\<close>

theorem complete_lines_do_not_overlap:
  assumes "trace_fold (tracer_new (first_ts (map (\<lambda>(ns, k). Some (read_event ns k)) evs)))
      (map (\<lambda>(ns, k). read_event ns k) evs) = Ok (st, out)"
    and "sorted (timed_events evs)" and "\<forall>n \<in> set (timed_events evs). n < 2 ^ 53"
  shows "\<exists>ivs. sorted (end_points ivs) \<and>
    complete_times out = map (\<lambda>(a, b). (round_f64 False a 1000, round_f64 False (b - a) 1000)) ivs"
proof -
  let ?st = "tracer_new (first_ts (map (\<lambda>(ns, k). Some (read_event ns k)) evs))"
  have "\<exists>p. at_time ?st p \<and> sorted (p # timed_events evs)"
  proof (cases "evs = [] \<or> is_pid (snd (hd evs))")
    case True
    then have "first_ts (map (\<lambda>(ns, k). Some (read_event ns k)) evs) = f64_of_int (int 0)"
      by (cases evs) (auto simp: first_ts_def elim!: is_pid.elims)
    then show ?thesis using assms(2) by (intro exI [of _ 0]) (simp add: at_time_def tracer_new_def)
  next
    case False
    then obtain ns k evs' where evs: "evs = (ns, k) # evs'" "\<not> is_pid k" by (cases evs) auto
    then have "first_ts (map (\<lambda>(ns, k). Some (read_event ns k)) evs) = f64_of_int (int (unat ns))"
      by (simp add: first_ts_def)
    then show ?thesis using assms(2, 3) evs
      by (intro exI [of _ "unat ns"]) (simp add: at_time_def tracer_new_def timed_events_def)
  qed
  then obtain p where p: "at_time ?st p" "sorted (p # timed_events evs)" by blast
  show ?thesis
    using trace_fold_times [OF assms(1) p assms(3)] by (auto simp: interval_times_def)
qed

theorem complete_lines_do_not_overlap_witness:
  "\<exists>st out ivs. trace_fold (tracer_new (f64_of_int 0))
       [read_event 0 (Pid 7), read_event 4000 (Switch 1), read_event 9000 (Switch 2)] = Ok (st, out) \<and>
     sorted (end_points ivs) \<and>
     complete_times out = map (\<lambda>(a, b). (round_f64 False a 1000, round_f64 False (b - a) 1000)) ivs"
proof -
  let ?evs = "[(0, Pid 7), (4000, Switch 1), (9000, Switch 2)] :: (u64 \<times> event_kind) list"
  have run: "\<exists>st out. trace_fold (tracer_new (first_ts (map (\<lambda>(ns, k). Some (read_event ns k)) ?evs)))
      (map (\<lambda>(ns, k). read_event ns k) ?evs) = Ok (st, out)"
    by (simp add: trace_step_def first_ts_def tracer_new_def complete_event_def Let_def)
  have "sorted (timed_events ?evs)" and "\<forall>n \<in> set (timed_events ?evs). n < 2 ^ 53"
    by (simp_all add: timed_events_def)
  with run complete_lines_do_not_overlap [of ?evs] show ?thesis
    by (auto simp: first_ts_def simp del: trace_fold.simps)
qed



end
