(* ===== verification/Spec2Isabelle.thy ===== *)
theory Spec2Isabelle
  imports
    Pasta_Fp Pasta_Fq Urs_Utils Gate_Vector Wasm_Abi Hashing
    Srs_Refinement Verifier_Index_Wasm Linearization
    Wasm_Session_Fq Oracles Plonk_Examples
    Locked_Vector Caml_Heap Custom_Blocks Binding_Decls Ocaml_Serde Trace_Tool
begin

text \<open>
  \<^bold>\<open>The program.\<close> The Rust code of the Mina repository is the layer between the proof system
  \<^verbatim>\<open>kimchi\<close> and the daemon: \<^verbatim>\<open>src/lib/crypto/kimchi_bindings/stubs\<close> exports it to OCaml,
  \<^verbatim>\<open>src/lib/crypto/kimchi_bindings/wasm\<close> to JavaScript, and \<^verbatim>\<open>src/app/trace-tool\<close> turns the
  traces of a daemon into the JSON of a browser. Paths below are relative to the two binding crates. The
  parts build on each other: 256-bit integers carry field elements, these carry points and vectors, from
  which reference strings, gates and indexes are built; a prover index and a witness give a proof, a
  verifier index and a proof give a verdict or the oracles. Values cross to OCaml as blocks
  with a reference count and to JavaScript as flat buffers, pointers or serialized objects.

  \<^bold>\<open>Conventions.\<close> A call that can fail has a value of type \<open>outcome\<close>: \<open>Ok\<close>, \<open>Err\<close> with
  the error the code returns, or \<open>Panic\<close> (\<open>unwrap\<close>, \<open>expect\<close>, \<open>assert\<close>, an index out of range).
  Machine integers are words; \<open>isize\<close> and \<open>usize\<close> of the OCaml side have 64 bits, of the JavaScript
  side 32. Definitions have the name of the function they model, with the suffix \<open>_wasm\<close> when both
  crates have one of that name; functions a macro generates lose the prefix the macro gives them. What is
  mutated is passed and returned: reference strings, files (a map from paths to bytes), the blocks behind
  OCaml pointers, the thread pool. Random values are arguments: scalars where the bindings draw them, and the
  bytes of the system's generator (\<open>entropy\<close>) for a call of the prover or the verifier.

  Crates that are not part of the repository are records of operations, arguments of the definitions that
  call them. What the proofs need of a crate is a locale (\<open>..._contract\<close>), which states documented
  behaviour of that crate; each locale is interpreted on concrete operations, and the witnesses evaluate
  the bindings on those.

  \<^bold>\<open>Theories.\<close>
  \<^item> \<^verbatim>\<open>Prelude\<close>, \<^verbatim>\<open>Crates\<close>, \<^verbatim>\<open>Kimchi_Data\<close>: the language and its standard library
    as far as the sources use them, the interfaces of the crates and their contracts, and the locale
    \<open>codec\<close>, the contract of every conversion that is undone by another.
    \<^verbatim>\<open>Reference_Crates\<close> and \<^verbatim>\<open>Reference_Curve\<close> interpret the contracts: the two Pasta
    fields with their true orders, and a group of that order.
  \<^item> \<^verbatim>\<open>Bigint256\<close>, \<^verbatim>\<open>Pasta_Fp\<close>, \<^verbatim>\<open>Pasta_Fq\<close>: \<^verbatim>\<open>arkworks/bigint_256.rs\<close>,
    \<^verbatim>\<open>pasta_fp.rs\<close>, \<^verbatim>\<open>pasta_fq.rs\<close> of both crates. Text, bytes and integers convert both
    ways, with the exact conditions of refusal; operations that write through a pointer
    act on a store and are right when pointers alias.
  \<^item> \<^verbatim>\<open>Group\<close>, \<^verbatim>\<open>Poly_Comm\<close>: \<^verbatim>\<open>arkworks/group_affine.rs\<close>,
    \<^verbatim>\<open>arkworks/group_projective.rs\<close>, \<^verbatim>\<open>projective.rs\<close>, \<^verbatim>\<open>poly_comm.rs\<close>. Points and
    commitments survive conversion; scalar multiplication is a module action.
  \<^item> \<^verbatim>\<open>Field_Vector\<close>, \<^verbatim>\<open>Gate_Vector\<close>, \<^verbatim>\<open>Flat_Vector\<close>: the vectors of both sides
    under one contract (\<open>growable_vector\<close>), rewiring of gates, and the loop that reads a flat buffer,
    which equals its specification by chunks. \<^verbatim>\<open>Locked_Vector\<close>: the vectors behind a lock of the
    macro \<open>impl_vector\<close>; until an append finds the vector full, their answers are those of the vectors without
    lock, and after that the lock is poisoned and every call is an error. \<^verbatim>\<open>Wasm_Abi\<close>: how
    an absent element or vector is passed to JavaScript; optional values return as they were, and an empty
    vector is never taken for an absent one.
  \<^item> \<^verbatim>\<open>Urs_Utils\<close>: \<^verbatim>\<open>urs_utils.rs\<close>, the batched accumulator check: the equation it decides,
    completeness, exactness for one commitment.
  \<^item> \<^verbatim>\<open>Srs\<close>, \<^verbatim>\<open>Srs_Refinement\<close>: \<^verbatim>\<open>srs.rs\<close>. The cache of Lagrange bases keeps its
    invariant, and a run of calls with the cache refines the specification without it: the simulation
    relation says that every cached basis is the one of the string's own generators. Opening a file is a
    parameter of the crate for JavaScript, whose target has no files; for OCaml it is that of Unix.
  \<^item> \<^verbatim>\<open>Binding_Session\<close>: the calls for OCaml on reference strings, prover indexes, proofs and
    verifier indexes composed over one store, in which an index shares the string of its handle and a call
    leaves behind what it cached even if it fails afterwards. Any such session gives, call by call, the
    answers of one in which every call works on a copy and nothing is mutated.
    \<^verbatim>\<open>Wasm_Session\<close> does the same for JavaScript, where two calls show what is cached and one
    installs a basis: there the specification also remembers the set of sizes asked for, and the answers
    agree exactly as long as JavaScript installs bases that belong to the string.
    \<^verbatim>\<open>Wasm_Session_Fq\<close> shows that the copies written by hand for the second curve agree with those
    for the first but for the texts of errors, so the same specification holds.
  \<^item> \<^verbatim>\<open>Verifier_Index\<close>, \<^verbatim>\<open>Verifier_Index_Wasm\<close>: \<^verbatim>\<open>plonk_verifier_index.rs\<close> and the
    two files per field. Round trips of well-formed indexes, panics on wrong sizes, what
    the JavaScript conversion recomputes instead of reading.
  \<^item> \<^verbatim>\<open>Plonk_Index\<close>: \<^verbatim>\<open>pasta_fp_plonk_index.rs\<close>, \<^verbatim>\<open>pasta_fq_plonk_index.rs\<close>,
    \<^verbatim>\<open>circuit.rs\<close>. Creating an index caches the basis of its domain and changes nothing else of the
    reference string; a written index is read back with the string of the reader and its derived fields, as far
    as the format, a parameter, stores the rest.
  \<^item> \<^verbatim>\<open>Plonk_Proof\<close>: \<^verbatim>\<open>plonk_proof.rs\<close>, \<^verbatim>\<open>pasta_fp_plonk_proof.rs\<close>,
    \<^verbatim>\<open>pasta_fq_plonk_proof.rs\<close>. All outcomes of creating a proof, how the challenges of earlier
    proofs are cut, round trips of proofs, what reaches the verifier: the proof that was created, and for a
    batch the converted pairs of both vectors up to the shorter one, or the first failure to convert. Of the
    verdict on more than one proof nothing is assumed.
  \<^item> \<^verbatim>\<open>Oracles\<close>, \<^verbatim>\<open>Hashing\<close>, \<^verbatim>\<open>Linearization\<close>: \<^verbatim>\<open>oracles.rs\<close>, the Poseidon
    files, \<^verbatim>\<open>linearization.rs\<close>. Both bindings hand the same commitment of the public input to kimchi;
    the printed linearization does not depend on the order of the terms.
  \<^item> \<^verbatim>\<open>Plonk_Examples\<close>: the example circuits of \<^verbatim>\<open>pasta_fp_plonk_proof.rs\<close>; every query of
    the lookup example is in its table.
  \<^item> \<^verbatim>\<open>Caml_Heap\<close>: \<^verbatim>\<open>caml/*.rs\<close>, the three kinds of wrappers around a counted reference. A step
    relation of calls, moves, finalizers and collections; in every reachable state a count is the number of
    live handles and none of them points to a freed object. \<^verbatim>\<open>Custom_Blocks\<close>: the values that live in
    a block themselves (\<open>from_value\<close>, finalizers and \<open>custom!\<close> of \<^verbatim>\<open>arkworks/*.rs\<close>, gate vectors,
    indexes, hash parameters). OCaml programs over field elements, with aliases, operations that write in
    place and collections between any two calls, never touch a dead block and answer like the same program
    over cells that are never reclaimed, even though addresses are reused.
  \<^item> \<^verbatim>\<open>Wasm_Runtime\<close>: \<^verbatim>\<open>rayon.rs\<close> and \<^verbatim>\<open>wasm/src/lib.rs\<close>. The published pool,
    the builders with their channels and the workers are a state on which the calls of JavaScript act in any
    order, rayon and spmc are parameters: jobs run exactly between a build that succeeded and the next exit. The
    waiting loop, and the calls into JavaScript as values.
  \<^item> \<^verbatim>\<open>Binding_Decls\<close>: \<^verbatim>\<open>stubs/src/main.rs\<close>, the declared OCaml interface as data and the
    program that writes it.
  \<^item> \<^verbatim>\<open>Ocaml_Serde\<close>, \<^verbatim>\<open>Floats\<close>: \<^verbatim>\<open>wasm_ocaml_serde/ser.rs\<close> and
    \<^verbatim>\<open>de.rs\<close>, with the floating-point numbers they and the trace tool use: a value of a supported
    type is read back.
  \<^item> \<^verbatim>\<open>Trace_Tool\<close>: \<^verbatim>\<open>trace-tool/src/main.rs\<close>: the bytes that the writer of the daemon
    (\<^verbatim>\<open>webkit_trace_event_binary_output.ml\<close>, \<^verbatim>\<open>o1trace_webkit_event.ml\<close>) puts into a trace are parsed back
    unless an event does not fit its buffer, the intervals printed do not overlap, recurring tasks share a
    row, and the tool panics exactly at the first event that belongs to no process, with everything before it
    printed.

  \<^bold>\<open>Loops and bounds.\<close> All definitions are total functions that compute. Loops are structural
  recursion or have a measure; the one loop that may spin for ever, \<open>wait_until_non_zero\<close>, takes the
  sequence of values read and a fuel, and its theorem says that every fuel beyond the first value that is
  not zero gives that value, and that no fuel is enough when there is none. The bound of a vector is \<open>isize::MAX\<close> on the OCaml side and the range of an index, \<open>2 ^ 32\<close>, on the JavaScript side.

  \<^bold>\<open>Not modelled.\<close> The algorithms of \<^verbatim>\<open>kimchi\<close>, \<^verbatim>\<open>ark_ff\<close>, \<^verbatim>\<open>ark_ec\<close>,
  \<^verbatim>\<open>num_bigint\<close>, \<^verbatim>\<open>serde\<close> and the other crates, which are parameters; the OCaml and
  JavaScript code of the repository; module lists (\<^verbatim>\<open>lib.rs\<close>, \<^verbatim>\<open>mod.rs\<close>); the
  wrappers that only give a type a second name (the \<open>Deref\<close>, \<open>From\<close>, \<open>IntoIterator\<close> and
  \<open>describe\<close> of \<open>CamlFp\<close>, \<open>WasmVector\<close> and the like), because a value and its wrapper are the same
  value here; reading the command line and opening the files of the
  trace tool, whose contents are arguments. Parallel iteration is its sequential result. The operations of
  the crates on reference strings are total functions: that \<open>add_lagrange_basis\<close> of the crate panics on a string
  without generators is not modelled, so the statements speak of the code only for strings that have generators.
\<close>

end
